(* ===== verification/Prelude.thy ===== *)
theory Prelude
  imports Main "HOL-Library.Word" "HOL-Library.Signed_Division"
begin

text \<open>
  The shared base of the development: outcomes of Go calls (a result or a run-time panic),
  computations that thread a state through such calls, a total-correctness triple for
  them, and Go's \<open>int64\<close> arithmetic. Nothing here is specific to the driver.
\<close>

section \<open>Rule collections\<close>

named_theorems go_simps \<open>evaluation of Go computations\<close>
named_theorems go_rules \<open>introduction rules for triples\<close>

section \<open>Outcomes and computations\<close>

text \<open>
  A Go call either returns or panics (nil dereference, index out of range). The Go error
  convention is part of the returned value: a function \<open>(T, error)\<close> returns a pair whose
  second component is an \<open>option\<close>. A pointer that may be nil is an \<open>option\<close>.
\<close>

datatype 'a outcome = Ret 'a | Panic

type_synonym ('s, 'a) go = "'s \<Rightarrow> 'a outcome \<times> 's"

definition ret :: "'a \<Rightarrow> ('s, 'a) go" where
  "ret a s = (Ret a, s)"

definition panic :: "('s, 'a) go" where
  "panic s = (Panic, s)"

text \<open>Sequencing: run \<open>m\<close>, stop at a panic, otherwise go on with its result.\<close>

definition call :: "('s, 'a) go \<Rightarrow> ('a \<Rightarrow> ('s, 'b) go) \<Rightarrow> ('s, 'b) go" where
  "call m k s = (case m s of (r, s') \<Rightarrow> (case r of Ret a \<Rightarrow> k a s' | Panic \<Rightarrow> (Panic, s')))"

text \<open>An outcome computed without touching the state.\<close>

definition lift_out :: "'a outcome \<Rightarrow> ('s, 'a) go" where
  "lift_out r s = (r, s)"

text \<open>Dereference of a pointer: nil panics.\<close>

definition deref :: "'a option \<Rightarrow> ('a \<Rightarrow> ('s, 'b) go) \<Rightarrow> ('s, 'b) go" where
  "deref p k = (case p of None \<Rightarrow> panic | Some a \<Rightarrow> k a)"

lemma ret_run [simp, go_simps]: "ret a s = (Ret a, s)"
  by (simp add: ret_def)

lemma panic_run [simp, go_simps]: "panic s = (Panic, s)"
  by (simp add: panic_def)

lemma lift_out_run [simp, go_simps]: "lift_out r s = (r, s)"
  by (simp add: lift_out_def)

lemma deref_Some [simp, go_simps]: "deref (Some a) k = k a"
  by (simp add: deref_def)

lemma deref_None [simp, go_simps]: "deref None k = panic"
  by (simp add: deref_def)

lemma call_Ret [go_simps]: "m s = (Ret a, s') \<Longrightarrow> call m k s = k a s'"
  by (simp add: call_def)

lemma call_Panic [go_simps]: "m s = (Panic, s') \<Longrightarrow> call m k s = (Panic, s')"
  by (simp add: call_def)

lemma call_ret [simp, go_simps]: "call (ret a) k = k a"
  by (rule ext) (simp add: call_def)

lemma call_panic [simp, go_simps]: "call panic k = panic"
  by (rule ext) (simp add: call_def)

lemma call_Ret_iff:
  "call m k s = (Ret b, s2) \<longleftrightarrow> (\<exists>a s1. m s = (Ret a, s1) \<and> k a s1 = (Ret b, s2))"
  by (auto simp: call_def split: prod.splits outcome.splits)

lemma call_lift_out [simp, go_simps]: "call (lift_out (Ret a)) k = k a"
  by (rule ext) (simp add: call_def)

lemma call_assoc: "call (call m k) h = call m (\<lambda>a. call (k a) h)"
  by (rule ext) (simp add: call_def split: prod.splits outcome.splits)

section \<open>Triples\<close>

text \<open>
  \<open>triple P m Q\<close>: from every state in \<open>P\<close> the computation returns (it does not panic) and
  its result and final state satisfy \<open>Q\<close>.
\<close>

definition triple :: "('s \<Rightarrow> bool) \<Rightarrow> ('s, 'a) go \<Rightarrow> ('a \<Rightarrow> 's \<Rightarrow> bool) \<Rightarrow> bool" where
  "triple P m Q \<longleftrightarrow> (\<forall>s. P s \<longrightarrow> (\<exists>a s'. m s = (Ret a, s') \<and> Q a s'))"

lemma tripleI:
  assumes "\<And>s. P s \<Longrightarrow> \<exists>a s'. m s = (Ret a, s') \<and> Q a s'"
  shows "triple P m Q"
  using assms by (simp add: triple_def)

lemma tripleD:
  assumes "triple P m Q" and "P s"
  obtains a s' where "m s = (Ret a, s')" and "Q a s'"
  using assms by (auto simp: triple_def)

lemma triple_conseq:
  assumes "triple P' m Q'" and "\<And>s. P s \<Longrightarrow> P' s" and "\<And>a s. Q' a s \<Longrightarrow> Q a s"
  shows "triple P m Q"
  using assms unfolding triple_def by blast

lemma triple_ret [go_rules]: "(\<And>s. P s \<Longrightarrow> Q a s) \<Longrightarrow> triple P (ret a) Q"
  by (simp add: triple_def)

lemma triple_call:
  assumes "triple P m R" and "\<And>a. triple (R a) (k a) Q"
  shows "triple P (call m k) Q"
proof (rule tripleI)
  fix s
  assume "P s"
  with assms(1) obtain a s1 where m: "m s = (Ret a, s1)" and "R a s1"
    by (rule tripleD)
  from assms(2) this(2) obtain b s2 where "k a s1 = (Ret b, s2)" and "Q b s2"
    by (rule tripleD)
  with m show "\<exists>b s2. call m k s = (Ret b, s2) \<and> Q b s2"
    by (simp add: call_def)
qed

lemma triple_lift_out:
  assumes "r = Ret a" and "triple P (k a) Q"
  shows "triple P (call (lift_out r) k) Q"
  using assms by (simp add: triple_def call_def)

lemma triple_If [go_rules]:
  "(b \<Longrightarrow> triple P m Q) \<Longrightarrow> (\<not> b \<Longrightarrow> triple P m' Q) \<Longrightarrow> triple P (if b then m else m') Q"
  by simp

text \<open>
  A call whose postcondition keeps the precondition and adds a state-independent fact: the
  fact is available as an assumption about the rest.
\<close>

lemma triple_call_fact:
  assumes "triple P m (\<lambda>a s. P s \<and> C a)" and "\<And>a. C a \<Longrightarrow> triple P (k a) Q"
  shows "triple P (call m k) Q"
proof (rule tripleI)
  fix s
  assume "P s"
  with assms(1) obtain a s1 where m: "m s = (Ret a, s1)" and "P s1 \<and> C a"
    by (rule tripleD)
  with assms(2) obtain b s2 where "k a s1 = (Ret b, s2)" and "Q b s2"
    by (meson tripleD)
  with m show "\<exists>b s2. call m k s = (Ret b, s2) \<and> Q b s2"
    by (simp add: call_def)
qed

lemma triple_call_fact_pair:
  assumes "triple P m (\<lambda>(a, b) s. P s \<and> C a b)" and "\<And>a b. C a b \<Longrightarrow> triple P (k a b) Q"
  shows "triple P (call m (\<lambda>(a, b). k a b)) Q"
  using assms by (auto intro!: triple_call_fact [where C = "\<lambda>(a, b). C a b"] simp: case_prod_beta')

lemma triple_option [go_rules]:
  "(x = None \<Longrightarrow> triple P m Q) \<Longrightarrow> (\<And>a. x = Some a \<Longrightarrow> triple P (m' a) Q) \<Longrightarrow>
     triple P (case x of None \<Rightarrow> m | Some a \<Rightarrow> m' a) Q"
  by (cases x) simp_all

lemma triple_result:
  assumes "triple P m Q" and "P s" and "m s = (r, s')"
  shows "r \<noteq> Panic" and "\<And>a. r = Ret a \<Longrightarrow> Q a s'"
  using assms by (auto simp: triple_def)

section \<open>Go's int64\<close>

type_synonym int64 = "64 word"
type_synonym int32 = "32 word"

text \<open>
  Addition, subtraction and multiplication of words wrap as Go's do. Division truncates
  towards zero; comparisons are signed (\<open>\<le>s\<close>, \<open><s\<close> of the library).
\<close>

definition int64_div :: "int64 \<Rightarrow> int64 \<Rightarrow> int64" where
  "int64_div a b = word_of_int (sint a sdiv sint b)"

lemma sint64_bounds: "- (2 ^ 63) \<le> sint (a :: int64)" "sint (a :: int64) < 2 ^ 63"
  using sint_ge [of a] sint_lt [of a] by simp_all

lemma sint64_of_int:
  assumes "- (2 ^ 63) \<le> i" and "i < 2 ^ 63"
  shows "sint (word_of_int i :: int64) = i"
  using assms by (simp add: sint_sbintrunc' signed_take_bit_int_eq_self)

lemma sint64_mult:
  assumes "- (2 ^ 63) \<le> sint a * sint b" and "sint a * sint b < 2 ^ 63"
  shows "sint (a * b :: int64) = sint a * sint b"
proof -
  have "a * b = (word_of_int (sint a * sint b) :: int64)"
    by simp
  then show ?thesis
    using sint64_of_int [OF assms] by presburger
qed

lemma sdiv_pos:
  assumes "0 \<le> (a :: int)" and "0 < b"
  shows "a sdiv b = a div b"
  using assms by (simp add: signed_divide_int_eq_divide_int sgn_if)

end
