(* ===== verification/GoStrings.thy ===== *)
theory GoStrings
  imports Prelude "HOL-Library.Sublist"
begin

text \<open>
  What the driver uses of Go's package strings, on byte strings (a Go string is a sequence
  of bytes, and a \<open>char\<close> is a byte): Split at a single-byte separator, SplitN with
  limit 2, Join, HasPrefix, TrimSuffix, ToLower; fmt.Sprintf with the verb %s; and path.Join with
  the cleaning it does.
\<close>

section \<open>Split and Join\<close>

fun Split :: "string \<Rightarrow> char \<Rightarrow> string list" where
  "Split [] c = [[]]"
| "Split (x # xs) c =
     (if x = c then [] # Split xs c
      else (case Split xs c of [] \<Rightarrow> [[x]] | y # ys \<Rightarrow> (x # y) # ys))"

fun Join :: "string list \<Rightarrow> string \<Rightarrow> string" where
  "Join [] sep = []"
| "Join [x] sep = x"
| "Join (x # y # xs) sep = x @ sep @ Join (y # xs) sep"

lemma Split_not_Nil [simp]: "Split s c \<noteq> []"
  by (induction s) (auto split: list.splits)

lemma Split_Cons_exhaust:
  obtains y ys where "Split s c = y # ys"
  using Split_not_Nil by (meson list.exhaust)

lemma Join_Cons: "xs \<noteq> [] \<Longrightarrow> Join (x # xs) sep = x @ sep @ Join xs sep"
  by (cases xs) simp_all

lemma Join_hd: "Join ((x # y) # ys) sep = x # Join (y # ys) sep"
  by (cases ys) simp_all

text \<open>Joining the pieces with the separator gives the string back.\<close>

lemma Join_Split: "Join (Split s c) [c] = s"
proof (induction s)
  case Nil
  show ?case by simp
next
  case (Cons x xs)
  obtain y ys where "Split xs c = y # ys" by (rule Split_Cons_exhaust)
  with Cons.IH show ?case
    by (auto simp: Join_Cons Join_hd)
qed

lemma Split_pieces: "p \<in> set (Split s c) \<Longrightarrow> c \<notin> set p"
proof (induction s arbitrary: p)
  case Nil
  then show ?case by simp
next
  case (Cons x xs)
  obtain y ys where ys: "Split xs c = y # ys" by (rule Split_Cons_exhaust)
  with Cons show ?case by (auto split: if_splits)
qed

lemma Split_no_sep: "c \<notin> set s \<Longrightarrow> Split s c = [s]"
  by (induction s) auto

lemma Split_append_sep: "c \<notin> set p \<Longrightarrow> Split (p @ c # s) c = p # Split s c"
  by (induction p) auto

lemma Split_Join:
  "xs \<noteq> [] \<Longrightarrow> (\<And>x. x \<in> set xs \<Longrightarrow> c \<notin> set x) \<Longrightarrow> Split (Join xs [c]) c = xs"
proof (induction xs)
  case Nil
  then show ?case by simp
next
  case (Cons x xs)
  then show ?case
    by (cases xs) (simp_all add: Split_no_sep Split_append_sep)
qed

lemma length_Split: "length (Split s c) = Suc (count_list s c)"
proof (induction s)
  case Nil
  show ?case by simp
next
  case (Cons x xs)
  obtain y ys where "Split xs c = y # ys" by (rule Split_Cons_exhaust)
  with Cons show ?case by auto
qed

section \<open>SplitN with limit 2, HasPrefix, TrimSuffix\<close>

text \<open>The last part of a path does not depend on what stands before the last separator.\<close>

lemma last_Split_append: "last (Split (p @ c # s) c) = last (Split s c)"
proof (induction p)
  case (Cons x p)
  obtain y ys where "Split (p @ c # s) c = y # ys" by (rule Split_Cons_exhaust)
  moreover have "ys \<noteq> []"
    using length_Split [of "p @ c # s" c] calculation by auto
  ultimately show ?case using Cons by simp
qed simp

text \<open>fmt.Sprintf for formats whose only verb is %s, and string arguments.\<close>

fun Sprintf :: "string \<Rightarrow> string list \<Rightarrow> string" where
  "Sprintf (c # d # cs) args =
     (if c = CHR ''%'' \<and> d = CHR ''s'' then
        (case args of
           [] \<Rightarrow> ''%!s(MISSING)'' @ Sprintf cs []
         | a # args \<Rightarrow> a @ Sprintf cs args)
      else c # Sprintf (d # cs) args)"
| "Sprintf cs args = cs"

text \<open>\<open>cut s sep\<close>: the parts before and after the first occurrence of \<open>sep\<close>.\<close>

fun cut :: "string \<Rightarrow> string \<Rightarrow> (string \<times> string) option" where
  "cut [] sep = (if sep = [] then Some ([], []) else None)"
| "cut (x # xs) sep =
     (if prefix sep (x # xs) then Some ([], drop (length sep) (x # xs))
      else map_option (\<lambda>(a, b). (x # a, b)) (cut xs sep))"

definition SplitN2 :: "string \<Rightarrow> string \<Rightarrow> string list" where
  "SplitN2 s sep = (case cut s sep of None \<Rightarrow> [s] | Some (a, b) \<Rightarrow> [a, b])"

definition HasPrefix :: "string \<Rightarrow> string \<Rightarrow> bool" where
  "HasPrefix s p \<longleftrightarrow> prefix p s"

definition TrimSuffix :: "string \<Rightarrow> string \<Rightarrow> string" where
  "TrimSuffix s x = (if suffix x s then take (length s - length x) s else s)"

lemma cut_Some: "cut s sep = Some (a, b) \<Longrightarrow> s = a @ sep @ b"
proof (induction s arbitrary: a b)
  case Nil
  then show ?case by (auto split: if_splits)
next
  case (Cons x xs)
  then show ?case
    by (auto split: if_splits elim!: prefixE)
qed

text \<open>The first occurrence is found when its first byte does not occur before it.\<close>

lemma cut_first:
  assumes "c \<notin> set a"
  shows "cut (a @ (c # sep) @ b) (c # sep) = Some (a, b)"
  using assms by (induction a) auto

lemma TrimSuffix_append [simp]: "TrimSuffix (s @ x) x = s"
  by (simp add: TrimSuffix_def suffix_def)

section \<open>ToLower\<close>

text \<open>
  Go lower-cases rune by rune. Two runes outside ASCII have an ASCII lower case: U+0130
  (bytes C4 B0), which becomes i, and U+212A (bytes E2 84 AA), which becomes k. Every other
  rune outside ASCII keeps bytes that are not ASCII; the model leaves them as they are, since
  the driver only compares the result with ASCII constants and ASCII prefixes.
\<close>

definition ascii_lower :: "char \<Rightarrow> char" where
  "ascii_lower c = (let n = of_char c :: nat in if 65 \<le> n \<and> n \<le> 90 then char_of (n + 32) else c)"

fun ToLower :: "string \<Rightarrow> string" where
  "ToLower [] = []"
| "ToLower (c # cs) =
     (if c = CHR 0xC4 \<and> take 1 cs = [CHR 0xB0] then CHR ''i'' # ToLower (drop 1 cs)
      else if c = CHR 0xE2 \<and> take 2 cs = [CHR 0x84, CHR 0xAA] then CHR ''k'' # ToLower (drop 2 cs)
      else ascii_lower c # ToLower cs)"

lemma ascii_lower_colon [simp]: "ascii_lower c = CHR '':'' \<longleftrightarrow> c = CHR '':''"
proof
  assume *: "ascii_lower c = CHR '':''"
  show "c = CHR '':''"
  proof (cases "65 \<le> (of_char c :: nat) \<and> (of_char c :: nat) \<le> 90")
    case True
    with * have "(char_of ((of_char c :: nat) + 32) :: char) = CHR '':''"
      by (simp add: ascii_lower_def Let_def)
    then have "(of_char (char_of ((of_char c :: nat) + 32) :: char) :: nat) = of_char (CHR '':'')"
      by simp
    with True show ?thesis by simp
  next
    case False
    with * show ?thesis by (auto simp: ascii_lower_def Let_def)
  qed
next
  assume "c = CHR '':''"
  then show "ascii_lower c = CHR '':''" by (simp add: ascii_lower_def)
qed

lemma colon_ascii_lower [simp]: "CHR '':'' = ascii_lower c \<longleftrightarrow> c = CHR '':''"
  by (metis ascii_lower_colon)

text \<open>A colon starts and ends a rune, so lower-casing is done piecewise around it.\<close>

lemma take1_colon: "c \<noteq> d \<Longrightarrow> take 1 (p @ c # r) = [d] \<longleftrightarrow> take 1 p = [d]"
  by (cases p) simp_all

lemma take2_colon: "c \<noteq> d \<Longrightarrow> c \<noteq> e \<Longrightarrow> take 2 (p @ c # r) = [d, e] \<longleftrightarrow> take 2 p = [d, e]"
  by (cases p; cases "tl p") (auto simp: numeral_2_eq_2)

lemma drop1_append: "take 1 p = [d] \<Longrightarrow> drop 1 (p @ r) = drop 1 p @ r"
  by (cases p) simp_all

lemma drop2_append: "take 2 p = [d, e] \<Longrightarrow> drop 2 (p @ r) = drop 2 p @ r"
  by (cases p; cases "tl p") (auto simp: numeral_2_eq_2)

lemma ToLower_colon:
  "ToLower (p @ CHR '':'' # r) = ToLower p @ CHR '':'' # ToLower r"
proof (induction p rule: ToLower.induct)
  case 1
  show ?case by (simp add: ascii_lower_def)
next
  case (2 c cs)
  have t: "take 1 (cs @ CHR '':'' # r) = [CHR 0xB0] \<longleftrightarrow> take 1 cs = [CHR 0xB0]"
    "take 2 (cs @ CHR '':'' # r) = [CHR 0x84, CHR 0xAA] \<longleftrightarrow> take 2 cs = [CHR 0x84, CHR 0xAA]"
    by (rule take1_colon take2_colon; simp)+
  consider (i) "c = CHR 0xC4" "take 1 cs = [CHR 0xB0]"
    | (k) "\<not> (c = CHR 0xC4 \<and> take 1 cs = [CHR 0xB0])" "c = CHR 0xE2" "take 2 cs = [CHR 0x84, CHR 0xAA]"
    | (other) "\<not> (c = CHR 0xC4 \<and> take 1 cs = [CHR 0xB0])"
        "\<not> (c = CHR 0xE2 \<and> take 2 cs = [CHR 0x84, CHR 0xAA])"
    by blast
  then show ?case
  proof cases
    case i
    with "2.IH"(1) show ?thesis
      unfolding append_Cons ToLower.simps(2) t by (simp only: drop1_append append_Cons simp_thms if_True)
  next
    case k
    with "2.IH"(2) show ?thesis
      unfolding append_Cons ToLower.simps(2) t
      by (simp only: drop2_append append_Cons simp_thms if_True if_False)
  next
    case other
    with "2.IH"(3) show ?thesis
      unfolding append_Cons ToLower.simps(2) t by (simp only: append_Cons simp_thms if_False)
  qed
qed

lemma colon_in_ToLower: "CHR '':'' \<in> set (ToLower s) \<Longrightarrow> CHR '':'' \<in> set s"
  by (induction s rule: ToLower.induct) (auto split: if_splits dest: in_set_dropD)

text \<open>Two splits at a first occurrence agree.\<close>

lemma first_split_unique:
  assumes "a @ c # b = a' @ c # b'" and "c \<notin> set a" and "c \<notin> set a'"
  shows "a = a' \<and> b = b'"
  using assms
proof (induction a arbitrary: a')
  case Nil
  then show ?case by (cases a') auto
next
  case (Cons x a)
  then show ?case by (cases a') auto
qed

lemma ToLower_colonD:
  assumes "ToLower s = x @ CHR '':'' # y" and "CHR '':'' \<notin> set x"
  obtains p r where "s = p @ CHR '':'' # r" and "CHR '':'' \<notin> set p" and "ToLower p = x" and "ToLower r = y"
proof -
  have "CHR '':'' \<in> set s"
    by (rule colon_in_ToLower) (simp add: assms(1))
  then have "\<exists>p r. s = p @ CHR '':'' # r \<and> CHR '':'' \<notin> set p"
    by (rule split_list_first)
  then obtain p r where s: "s = p @ CHR '':'' # r" and p: "CHR '':'' \<notin> set p"
    by (elim exE conjE)
  have "ToLower p @ CHR '':'' # ToLower r = x @ CHR '':'' # y"
    using assms(1) by (simp only: s ToLower_colon)
  moreover have "CHR '':'' \<notin> set (ToLower p)"
    using p by (blast dest: colon_in_ToLower)
  ultimately have "ToLower p = x \<and> ToLower r = y"
    using assms(2) by (intro first_split_unique)
  with s p that show ?thesis by blast
qed

text \<open>Concrete strings are lower-cased by \<open>code_simp\<close>, not by unfolding.\<close>

declare ToLower.simps [simp del]

section \<open>path.Join\<close>

text \<open>
  path.Clean resolves empty, \<open>.\<close> and \<open>..\<close> components: the components are pushed on a
  stack (here a reversed list), \<open>..\<close> pops one, is dropped at the root of a rooted path,
  and is kept at the start of a path that is not rooted.
\<close>

fun clean_components :: "bool \<Rightarrow> string list \<Rightarrow> string list \<Rightarrow> string list" where
  "clean_components rooted st [] = rev st"
| "clean_components rooted st (p # ps) =
     (if p = [] \<or> p = ''.'' then clean_components rooted st ps
      else if p = ''..'' then
        (if st \<noteq> [] \<and> hd st \<noteq> ''..'' then clean_components rooted (tl st) ps
         else if rooted then clean_components rooted st ps
         else clean_components rooted (p # st) ps)
      else clean_components rooted (p # st) ps)"

definition path_Clean :: "string \<Rightarrow> string" where
  "path_Clean p =
     (let rooted = HasPrefix p ''/'';
          cleaned = Join (clean_components rooted [] (Split p (CHR ''/''))) ''/''
      in if rooted then CHR ''/'' # cleaned
         else if cleaned = [] then ''.'' else cleaned)"

definition path_Join :: "string list \<Rightarrow> string" where
  "path_Join elems =
     (let es = filter (\<lambda>e. e \<noteq> []) elems
      in if es = [] then [] else path_Clean (Join es ''/''))"

text \<open>Components that are neither empty nor dots are pushed unchanged.\<close>

lemma clean_components_plain:
  "(\<And>p. p \<in> set ps \<Longrightarrow> p \<noteq> [] \<and> p \<noteq> ''.'' \<and> p \<noteq> ''..'')
     \<Longrightarrow> clean_components rooted st ps = rev st @ ps"
  by (induction ps arbitrary: st) auto

end
