(* ===== verification/Errors.thy ===== *)
theory Errors
  imports GoStrings
begin

text \<open>
  Go's \<open>error\<close> values as the driver distinguishes them: a gRPC status, a googleapi error
  with its list of reasons, the errors of package os and of the exec utilities, the poll
  timeout, and plain errors. A message is kept as the literal (format string) the code
  passes; the formatted arguments are not. Also IsGCEError of
  pkg/gce-cloud-provider/gce.go, and the code the gRPC server puts on the wire.
\<close>

datatype code =
    OK | Canceled | UnknownCode | InvalidArgument | DeadlineExceeded | NotFound
  | AlreadyExists | PermissionDenied | ResourceExhausted | FailedPrecondition | Aborted
  | OutOfRange | Unimplemented | Internal | Unavailable | DataLoss | Unauthenticated

text \<open>The number of a code on the wire; codes are ordered by it.\<close>

fun code_number :: "code \<Rightarrow> nat" where
  "code_number OK = 0"
| "code_number Canceled = 1"
| "code_number UnknownCode = 2"
| "code_number InvalidArgument = 3"
| "code_number DeadlineExceeded = 4"
| "code_number NotFound = 5"
| "code_number AlreadyExists = 6"
| "code_number PermissionDenied = 7"
| "code_number ResourceExhausted = 8"
| "code_number FailedPrecondition = 9"
| "code_number Aborted = 10"
| "code_number OutOfRange = 11"
| "code_number Unimplemented = 12"
| "code_number Internal = 13"
| "code_number Unavailable = 14"
| "code_number DataLoss = 15"
| "code_number Unauthenticated = 16"

lemma code_number_inject [simp]: "code_number a = code_number b \<longleftrightarrow> a = b"
  by (cases a; cases b) simp_all

instantiation code :: linorder
begin

definition less_eq_code :: "code \<Rightarrow> code \<Rightarrow> bool" where
  "less_eq_code a b \<longleftrightarrow> code_number a \<le> code_number b"

definition less_code :: "code \<Rightarrow> code \<Rightarrow> bool" where
  "less_code a b \<longleftrightarrow> code_number a < code_number b"

instance
  by standard (auto simp: less_eq_code_def less_code_def)

end

datatype error =
    StatusError code string            \<comment> \<open>status.Error(code, msg)\<close>
  | GoogleAPIError "string list"       \<comment> \<open>*googleapi.Error: the Reason of each of its Errors\<close>
  | PlainError string                  \<comment> \<open>fmt.Errorf, errors.New\<close>
  | NotExistError string               \<comment> \<open>an error for which os.IsNotExist holds\<close>
  | ErrExecutableNotFound              \<comment> \<open>exec.ErrExecutableNotFound\<close>
  | ExitError int                      \<comment> \<open>exec.ExitError with its ExitStatus\<close>
  | ErrWaitTimeout                     \<comment> \<open>wait.ErrWaitTimeout\<close>
  | ExistError string                  \<comment> \<open>an error for which os.IsExist holds\<close>
  | PermissionError string             \<comment> \<open>an error for which os.IsPermission holds\<close>
  | ContextCanceled                    \<comment> \<open>context.Canceled\<close>
  | ContextDeadlineExceeded            \<comment> \<open>context.DeadlineExceeded\<close>

section \<open>IsGCEError\<close>

text \<open>The loop over the errors of the API error, with its early return.\<close>

fun has_reason :: "string list \<Rightarrow> string \<Rightarrow> bool" where
  "has_reason [] reason = False"
| "has_reason (e # es) reason = (if e = reason then True else has_reason es reason)"

definition IsGCEError :: "error \<Rightarrow> string \<Rightarrow> bool" where
  "IsGCEError err reason =
     (case err of GoogleAPIError errs \<Rightarrow> has_reason errs reason | _ \<Rightarrow> False)"

lemma has_reason_iff: "has_reason es r \<longleftrightarrow> r \<in> set es"
  by (induction es) auto

lemma IsGCEError_iff: "IsGCEError e r \<longleftrightarrow> (\<exists>rs. e = GoogleAPIError rs \<and> r \<in> set rs)"
  by (cases e) (simp_all add: IsGCEError_def has_reason_iff)

lemma IsGCEError_simps [simp]:
  "IsGCEError (GoogleAPIError rs) r \<longleftrightarrow> r \<in> set rs"
  "\<not> IsGCEError (StatusError c m) r"
  "\<not> IsGCEError (PlainError m) r"
  "\<not> IsGCEError (NotExistError m) r"
  "\<not> IsGCEError ErrExecutableNotFound r"
  "\<not> IsGCEError (ExitError n) r"
  "\<not> IsGCEError ErrWaitTimeout r"
  "\<not> IsGCEError (ExistError m) r"
  "\<not> IsGCEError (PermissionError m) r"
  "\<not> IsGCEError ContextCanceled r"
  "\<not> IsGCEError ContextDeadlineExceeded r"
  by (simp_all add: IsGCEError_iff)

section \<open>os.IsNotExist\<close>

fun IsNotExist :: "error option \<Rightarrow> bool" where
  "IsNotExist (Some (NotExistError _)) = True"
| "IsNotExist _ = False"

section \<open>The code on the wire\<close>

text \<open>
  The gRPC server sends the code of a status error and converts any other error: the
  context errors and the errors of package os have a code, everything else is Unknown.
  Without an error it marshals the response; a nil response cannot be marshalled and
  becomes Internal.
\<close>

fun error_code :: "error \<Rightarrow> code" where
  "error_code (StatusError c _) = c"
| "error_code ContextCanceled = Canceled"
| "error_code ContextDeadlineExceeded = DeadlineExceeded"
| "error_code (ExistError _) = AlreadyExists"
| "error_code (NotExistError _) = NotFound"
| "error_code (PermissionError _) = PermissionDenied"
| "error_code _ = UnknownCode"

definition grpc_code :: "'a option \<times> error option \<Rightarrow> code" where
  "grpc_code reply =
     (case reply of
        (_, Some e) \<Rightarrow> error_code e
      | (None, None) \<Rightarrow> Internal
      | (Some _, None) \<Rightarrow> OK)"

lemma grpc_code_simps [simp]:
  "grpc_code (r, Some e) = error_code e"
  "grpc_code (None, None) = Internal"
  "grpc_code (Some x, None) = OK"
  by (cases r) (simp_all add: grpc_code_def)

text \<open>A well-formed reply: a response or an error with one of the given codes, not both.\<close>

definition reply_ok :: "code set \<Rightarrow> 'a option \<Rightarrow> error option \<Rightarrow> bool" where
  "reply_ok C resp err =
     (case err of None \<Rightarrow> resp \<noteq> None | Some e \<Rightarrow> resp = None \<and> error_code e \<in> C)"

lemma reply_ok_simps [simp]:
  "reply_ok C (Some r) None" "\<not> reply_ok C None None"
  "reply_ok C None (Some e) \<longleftrightarrow> error_code e \<in> C" "\<not> reply_ok C (Some r) (Some e)"
  by (simp_all add: reply_ok_def)

end
