(* ===== verification/Utils.thy ===== *)
theory Utils
  imports Errors
begin

text \<open>
  pkg/utils/utils.go: the conversions between bytes and gibibytes on int64, and the volume
  identifier \<open>zone/name\<close> with its parser.
\<close>

section \<open>Sizes\<close>

definition BytesToGb :: "int64 \<Rightarrow> int64" where
  "BytesToGb bytes = int64_div bytes (1024 * 1024 * 1024)"

definition GbToBytes :: "int64 \<Rightarrow> int64" where
  "GbToBytes Gb = Gb * 1024 * 1024 * 1024"

abbreviation GiB :: int where
  "GiB \<equiv> 1073741824"

lemma sint_BytesToGb: "sint (BytesToGb b) = sint b sdiv GiB"
proof -
  have b: "- (2 ^ 63) \<le> sint b" "sint b < 2 ^ 63"
    by (rule sint64_bounds)+
  have "\<bar>sint b sdiv GiB\<bar> \<le> \<bar>sint b\<bar> div GiB"
    by (simp add: signed_divide_int_def abs_mult sgn_if)
  also have "\<dots> \<le> 2 ^ 63 div GiB"
    using b by (intro zdiv_mono1) auto
  finally have "\<bar>sint b sdiv GiB\<bar> \<le> 8589934592" by simp
  then have "- (2 ^ 63) \<le> sint b sdiv GiB \<and> sint b sdiv GiB < 2 ^ 63" by auto
  then show ?thesis
    unfolding BytesToGb_def int64_div_def by (simp add: sint64_of_int)
qed

lemma sint_BytesToGb_nonneg: "0 \<le> sint b \<Longrightarrow> sint (BytesToGb b) = sint b div GiB"
  by (simp add: sint_BytesToGb sdiv_pos)

lemma GbToBytes_eq: "GbToBytes g = g * word_of_int GiB"
  by (simp add: GbToBytes_def mult.assoc)

lemma sint_GbToBytes:
  assumes "- 8589934592 \<le> sint g" and "sint g < 8589934592"
  shows "sint (GbToBytes g) = sint g * GiB"
proof -
  have "sint (word_of_int GiB :: int64) = GiB" by simp
  moreover have "- (2 ^ 63) \<le> sint g * GiB" "sint g * GiB < 2 ^ 63"
    using assms by simp_all
  ultimately show ?thesis
    unfolding GbToBytes_eq by (metis sint64_mult)
qed

section \<open>Volume identifiers\<close>

definition CombineVolumeId :: "string \<Rightarrow> string \<Rightarrow> string" where
  "CombineVolumeId zone name = zone @ ''/'' @ name"

text \<open>The two index expressions are reached only when there are exactly two parts.\<close>

definition SplitZoneNameId :: "string \<Rightarrow> string \<times> string \<times> error option" where
  "SplitZoneNameId vid =
     (let splitId = Split vid (CHR ''/'')
      in if length splitId \<noteq> 2
         then ('''', '''', Some (PlainError
                ''Failed to get id components. Expected {zone}/{name}. Got: %s''))
         else (splitId ! 0, splitId ! 1, None))"

lemma SplitZoneNameId_cases:
  obtains (ok) z n where "SplitZoneNameId vid = (z, n, None)" "Split vid (CHR ''/'') = [z, n]"
  | (bad) m where "SplitZoneNameId vid = ('''', '''', Some (PlainError m))"
      "length (Split vid (CHR ''/'')) \<noteq> 2"
proof (cases "length (Split vid (CHR ''/'')) = 2")
  case True
  then obtain z n where "Split vid (CHR ''/'') = [z, n]"
    by (auto simp: length_Suc_conv numeral_2_eq_2)
  then show ?thesis by (intro ok) (simp_all add: SplitZoneNameId_def Let_def)
next
  case False
  then show ?thesis by (intro bad) (simp_all add: SplitZoneNameId_def Let_def)
qed

lemma SplitZoneNameId_Some:
  assumes "SplitZoneNameId vid = (z, n, None)"
  shows "vid = CombineVolumeId z n" and "CHR ''/'' \<notin> set z" and "CHR ''/'' \<notin> set n"
proof -
  have s: "Split vid (CHR ''/'') = [z, n]"
    using assms by (cases rule: SplitZoneNameId_cases [of vid]) auto
  show "vid = CombineVolumeId z n"
    using Join_Split [of vid "CHR ''/''"] by (simp add: s CombineVolumeId_def)
  show "CHR ''/'' \<notin> set z" and "CHR ''/'' \<notin> set n"
    using Split_pieces [of _ vid "CHR ''/''"] by (simp_all add: s)
qed

lemma combine_volume_id_parts:
  assumes "SplitZoneNameId (CombineVolumeId z n) = (z', n', None)"
  shows "z = z' \<and> n = n'"
proof -
  from SplitZoneNameId_Some [OF assms] have parts: "CHR ''/'' \<notin> set z'" "CHR ''/'' \<notin> set n'"
    and eq: "z @ CHR ''/'' # n = z' @ CHR ''/'' # n'" by (simp_all add: CombineVolumeId_def)
  from append_Cons_eq_iff [of "CHR ''/''" z' n' z n] parts eq show ?thesis by auto
qed

lemma SplitZoneNameId_Combine:
  "CHR ''/'' \<notin> set z \<Longrightarrow> CHR ''/'' \<notin> set n \<Longrightarrow>
     SplitZoneNameId (CombineVolumeId z n) = (z, n, None)"
  by (simp add: SplitZoneNameId_def CombineVolumeId_def Split_append_sep Split_no_sep)

text \<open>A volume identifier built from a zone and a name is parsed back to exactly that
  zone and name precisely when neither contains a slash.\<close>

lemma volume_id_roundtrip:
  "SplitZoneNameId (CombineVolumeId z n) = (z, n, None) \<longleftrightarrow>
     CHR ''/'' \<notin> set z \<and> CHR ''/'' \<notin> set n"
  using SplitZoneNameId_Combine SplitZoneNameId_Some by blast

text \<open>The parser accepts exactly the strings with one slash; what it returns
  recombines to the input, and otherwise it returns empty parts and an error.\<close>

lemma split_zone_name_complete:
  "case SplitZoneNameId vid of
     (z, n, None) \<Rightarrow> count_list vid (CHR ''/'') = 1 \<and> CombineVolumeId z n = vid
   | (z, n, Some e) \<Rightarrow> count_list vid (CHR ''/'') \<noteq> 1 \<and> z = '''' \<and> n = '''' \<and>
       error_code e = UnknownCode"
proof (cases rule: SplitZoneNameId_cases [of vid])
  case (ok z n)
  from SplitZoneNameId_Some(1) [OF ok(1)] ok show ?thesis
    using length_Split [of vid "CHR ''/''"] by simp
next
  case (bad m)
  then show ?thesis using length_Split [of vid "CHR ''/''"] by simp
qed

text \<open>Converting gibibytes to bytes and back is the identity as long as the product
  fits in an int64 (below 2^33 GiB), and converting a non-negative byte count to gibibytes
  rounds down, losing less than one GiB.\<close>

lemma size_roundtrip:
  "(sint g \<in> {- 8589934592 ..< 8589934592} \<longrightarrow> BytesToGb (GbToBytes g) = g) \<and>
   (0 \<le> sint b \<longrightarrow> sint (GbToBytes (BytesToGb b)) \<le> sint b \<and>
      sint b < sint (GbToBytes (BytesToGb b)) + GiB)"
proof (intro conjI impI)
  assume g: "sint g \<in> {- 8589934592 ..< 8589934592}"
  have "(sint g * GiB) sdiv GiB = sint g"
    by (simp add: signed_divide_int_def abs_mult sgn_mult)
       (simp add: mult.commute mult_sgn_abs abs_mult_sgn)
  with g have "sint (BytesToGb (GbToBytes g)) = sint g"
    by (simp add: sint_BytesToGb sint_GbToBytes)
  then show "BytesToGb (GbToBytes g) = g" by (simp only: signed_word_eqI)
next
  assume b: "0 \<le> sint b"
  have q: "sint (BytesToGb b) = sint b div GiB"
    using b by (rule sint_BytesToGb_nonneg)
  have "sint b div GiB < 8589934592"
    using sint64_bounds(2) [of b] by (simp add: div_less_iff_less_mult)
  moreover have "0 \<le> sint b div GiB"
    using b by (simp add: pos_imp_zdiv_nonneg_iff)
  ultimately have e: "sint (GbToBytes (BytesToGb b)) = sint b div GiB * GiB"
    using q by (simp add: sint_GbToBytes)
  show "sint (GbToBytes (BytesToGb b)) \<le> sint b"
    unfolding e by (simp add: div_times_less_eq_dividend)
  show "sint b < sint (GbToBytes (BytesToGb b)) + GiB"
    unfolding e using div_mult_mod_eq [of "sint b" GiB] pos_mod_bound [of GiB "sint b"] by linarith
qed

end
