(* ===== verification/Csi.thy ===== *)
theory Csi
  imports Utils
begin

text \<open>
  The CSI messages the driver reads and builds (the generated package csi/v0): requests as
  records of the fields the handlers use, pointers and oneofs as options, enumerations as
  int32 (proto3 enumerations are open: any value may arrive). A map field is the list of its
  entries in the order in which one \<open>range\<close> loop visits them, which Go leaves open.
\<close>

section \<open>Capacity\<close>

record CapacityRange =
  cr_RequiredBytes :: int64
  cr_LimitBytes :: int64

definition GetRequiredBytes :: "CapacityRange option \<Rightarrow> int64" where
  "GetRequiredBytes m = (case m of Some c \<Rightarrow> cr_RequiredBytes c | None \<Rightarrow> 0)"

definition GetLimitBytes :: "CapacityRange option \<Rightarrow> int64" where
  "GetLimitBytes m = (case m of Some c \<Rightarrow> cr_LimitBytes c | None \<Rightarrow> 0)"

lemma GetBytes_simps [simp]:
  "GetRequiredBytes None = 0" "GetLimitBytes None = 0"
  "GetRequiredBytes (Some c) = cr_RequiredBytes c" "GetLimitBytes (Some c) = cr_LimitBytes c"
  by (simp_all add: GetRequiredBytes_def GetLimitBytes_def)

section \<open>Capabilities\<close>

record MountVolume =
  mv_FsType :: string
  mv_MountFlags :: "string list"

datatype VolumeAccessType = VC_Block "unit option" | VC_Mount "MountVolume option"

record VolumeCapability =
  vc_AccessType :: "VolumeAccessType option"
  vc_AccessMode :: "int32 option"

definition GetBlock :: "VolumeCapability \<Rightarrow> unit option" where
  "GetBlock m = (case vc_AccessType m of Some (VC_Block b) \<Rightarrow> b | _ \<Rightarrow> None)"

definition GetMount :: "VolumeCapability \<Rightarrow> MountVolume option" where
  "GetMount m = (case vc_AccessType m of Some (VC_Mount v) \<Rightarrow> v | _ \<Rightarrow> None)"

text \<open>The name of an access mode; a number without a name is written in decimal.\<close>

fun itoa_nat :: "nat \<Rightarrow> string" where
  "itoa_nat n =
     (if n < 10 then [char_of (48 + n)] else itoa_nat (n div 10) @ [char_of (48 + n mod 10)])"

declare itoa_nat.simps [simp del]

definition Itoa :: "int \<Rightarrow> string" where
  "Itoa i = (if i < 0 then CHR ''-'' # itoa_nat (nat (- i)) else itoa_nat (nat i))"

definition AccessMode_String :: "int32 \<Rightarrow> string" where
  "AccessMode_String x =
     (if x = 0 then ''UNKNOWN''
      else if x = 1 then ''SINGLE_NODE_WRITER''
      else if x = 2 then ''SINGLE_NODE_READER_ONLY''
      else if x = 3 then ''MULTI_NODE_READER_ONLY''
      else if x = 4 then ''MULTI_NODE_SINGLE_WRITER''
      else if x = 5 then ''MULTI_NODE_MULTI_WRITER''
      else Itoa (sint x))"

definition SINGLE_NODE_WRITER :: int32 where "SINGLE_NODE_WRITER = 1"
definition MULTI_NODE_READER_ONLY :: int32 where "MULTI_NODE_READER_ONLY = 3"

definition RPC_UNKNOWN :: int32 where "RPC_UNKNOWN = 0"
definition RPC_CREATE_DELETE_VOLUME :: int32 where "RPC_CREATE_DELETE_VOLUME = 1"
definition RPC_PUBLISH_UNPUBLISH_VOLUME :: int32 where "RPC_PUBLISH_UNPUBLISH_VOLUME = 2"
definition RPC_STAGE_UNSTAGE_VOLUME :: int32 where "RPC_STAGE_UNSTAGE_VOLUME = 1"

lemmas csi_enum_defs = SINGLE_NODE_WRITER_def MULTI_NODE_READER_ONLY_def RPC_UNKNOWN_def
  RPC_CREATE_DELETE_VOLUME_def RPC_PUBLISH_UNPUBLISH_VOLUME_def RPC_STAGE_UNSTAGE_VOLUME_def

text \<open>The one alternative of the capability oneofs is a pointer to a record with a type.\<close>

datatype ServiceCapability = ServiceCapability (sc_Rpc: "int32 option option")

definition GetRpc :: "ServiceCapability \<Rightarrow> int32 option" where
  "GetRpc m = (case sc_Rpc m of Some rpc \<Rightarrow> rpc | None \<Rightarrow> None)"

section \<open>Controller requests and responses\<close>

record CreateVolumeRequest =
  cv_Name :: string
  cv_CapacityRange :: "CapacityRange option"
  cv_VolumeCapabilities :: "VolumeCapability list"
  cv_Parameters :: "(string \<times> string) list"

record Volume =
  vol_CapacityBytes :: int64
  vol_Id :: string
  vol_Attributes :: "(string \<times> string) list option"

record CreateVolumeResponse =
  cvr_Volume :: Volume

record DeleteVolumeRequest =
  dv_VolumeId :: string

datatype DeleteVolumeResponse = DeleteVolumeResponse

record ControllerPublishVolumeRequest =
  cp_VolumeId :: string
  cp_NodeId :: string
  cp_VolumeCapability :: "VolumeCapability option"
  cp_Readonly :: bool

record ControllerPublishVolumeResponse =
  cpr_PublishInfo :: "(string \<times> string) list option"

record ControllerUnpublishVolumeRequest =
  cu_VolumeId :: string
  cu_NodeId :: string

datatype ControllerUnpublishVolumeResponse = ControllerUnpublishVolumeResponse

record ValidateVolumeCapabilitiesRequest =
  vv_VolumeId :: string
  vv_VolumeCapabilities :: "VolumeCapability list"

record ValidateVolumeCapabilitiesResponse =
  vvr_Supported :: bool
  vvr_Message :: string

section \<open>Node requests and responses\<close>

record NodePublishVolumeRequest =
  np_VolumeId :: string
  np_StagingTargetPath :: string
  np_TargetPath :: string
  np_VolumeCapability :: "VolumeCapability option"
  np_Readonly :: bool

datatype NodePublishVolumeResponse = NodePublishVolumeResponse

record NodeUnpublishVolumeRequest =
  nu_VolumeId :: string
  nu_TargetPath :: string

datatype NodeUnpublishVolumeResponse = NodeUnpublishVolumeResponse

record NodeStageVolumeRequest =
  ns_VolumeId :: string
  ns_StagingTargetPath :: string
  ns_VolumeCapability :: "VolumeCapability option"

datatype NodeStageVolumeResponse = NodeStageVolumeResponse

record NodeUnstageVolumeRequest =
  nus_VolumeId :: string
  nus_StagingTargetPath :: string

datatype NodeUnstageVolumeResponse = NodeUnstageVolumeResponse

end
