(* ===== verification/Driver.thy ===== *)
theory Driver
  imports Csi
begin

text \<open>
  pkg/gce-csi-driver/gce-driver.go, the capability constructors of utils.go and identity.go:
  the driver record, its set-up and what it declares to support. The cloud provider and the
  mounter are type parameters: the driver only stores them in the servers it creates.
\<close>

section \<open>State\<close>

text \<open>
  A server holds the driver itself and, for the controller and node servers, the provider
  and the mounter; the field is nil until SetupGCEDriver has run.
\<close>

record ('cp, 'm) GCEDriver =
  drv_name :: string
  drv_nodeID :: string
  drv_ids :: "unit option"
  drv_ns :: "'m option"
  drv_cs :: "'cp option"
  drv_vcap :: "int32 list"
  drv_cscap :: "ServiceCapability list"
  drv_nscap :: "ServiceCapability list"

definition GetGCEDriver :: "('cp, 'm) GCEDriver" where
  "GetGCEDriver = \<lparr>drv_name = '''', drv_nodeID = '''', drv_ids = None, drv_ns = None,
     drv_cs = None, drv_vcap = [], drv_cscap = [], drv_nscap = []\<rparr>"

section \<open>Capabilities\<close>

definition NewVolumeCapabilityAccessMode :: "int32 \<Rightarrow> int32" where
  "NewVolumeCapabilityAccessMode mode = mode"

definition NewControllerServiceCapability :: "int32 \<Rightarrow> ServiceCapability" where
  "NewControllerServiceCapability cap = ServiceCapability (Some (Some cap))"

definition NewNodeServiceCapability :: "int32 \<Rightarrow> ServiceCapability" where
  "NewNodeServiceCapability cap = ServiceCapability (Some (Some cap))"

text \<open>Each of the three builds a fresh slice by a loop of appends and replaces the field; the error
  they return is always nil and not looked at.\<close>

fun append_loop :: "('a \<Rightarrow> 'b) \<Rightarrow> 'b list \<Rightarrow> 'a list \<Rightarrow> 'b list" where
  "append_loop mk acc [] = acc"
| "append_loop mk acc (c # cs) = append_loop mk (acc @ [mk c]) cs"

lemma append_loop_map: "append_loop mk acc cs = acc @ map mk cs"
  by (induction cs arbitrary: acc) simp_all

definition AddVolumeCapabilityAccessModes ::
    "int32 list \<Rightarrow> ('cp, 'm) GCEDriver \<Rightarrow> ('cp, 'm) GCEDriver" where
  "AddVolumeCapabilityAccessModes vc drv =
     drv\<lparr>drv_vcap := append_loop NewVolumeCapabilityAccessMode [] vc\<rparr>"

definition AddControllerServiceCapabilities ::
    "int32 list \<Rightarrow> ('cp, 'm) GCEDriver \<Rightarrow> ('cp, 'm) GCEDriver" where
  "AddControllerServiceCapabilities cl drv =
     drv\<lparr>drv_cscap := append_loop NewControllerServiceCapability [] cl\<rparr>"

definition AddNodeServiceCapabilities ::
    "int32 list \<Rightarrow> ('cp, 'm) GCEDriver \<Rightarrow> ('cp, 'm) GCEDriver" where
  "AddNodeServiceCapabilities nl drv =
     drv\<lparr>drv_nscap := append_loop NewNodeServiceCapability [] nl\<rparr>"

text \<open>The request is allowed when its type is UNKNOWN or one of the declared types.\<close>

fun find_capability :: "ServiceCapability list \<Rightarrow> int32 \<Rightarrow> error option outcome" where
  "find_capability [] c =
     Ret (Some (StatusError InvalidArgument ''Invalid controller service request''))"
| "find_capability (cap # caps) c =
     (case GetRpc cap of
        None \<Rightarrow> Panic
      | Some t \<Rightarrow> if c = t then Ret None else find_capability caps c)"

definition ValidateControllerServiceRequest ::
    "('cp, 'm) GCEDriver \<Rightarrow> int32 \<Rightarrow> error option outcome" where
  "ValidateControllerServiceRequest drv c =
     (if c = RPC_UNKNOWN then Ret None else find_capability (drv_cscap drv) c)"

section \<open>Set-up\<close>

definition NewIdentityServer :: "('cp, 'm) GCEDriver \<Rightarrow> unit option" where
  "NewIdentityServer drv = Some ()"

definition NewNodeServer :: "('cp, 'm) GCEDriver \<Rightarrow> 'm \<Rightarrow> 'm option" where
  "NewNodeServer drv mounter = Some mounter"

definition NewControllerServer :: "('cp, 'm) GCEDriver \<Rightarrow> 'cp \<Rightarrow> 'cp option" where
  "NewControllerServer drv cloudProvider = Some cloudProvider"

definition SetupGCEDriver ::
    "'cp \<Rightarrow> 'm \<Rightarrow> string \<Rightarrow> string \<Rightarrow> ('cp, 'm) GCEDriver \<Rightarrow> error option \<times> ('cp, 'm) GCEDriver"
  where
  "SetupGCEDriver cloudProvider mounter name nodeID drv =
     (if name = '''' then (Some (PlainError ''Driver name missing''), drv)
      else if nodeID = '''' then (Some (PlainError ''NodeID missing''), drv)
      else
        let drv = drv\<lparr>drv_name := name, drv_nodeID := nodeID\<rparr>;
            drv = AddVolumeCapabilityAccessModes [SINGLE_NODE_WRITER, MULTI_NODE_READER_ONLY] drv;
            drv = AddControllerServiceCapabilities
                    [RPC_CREATE_DELETE_VOLUME, RPC_PUBLISH_UNPUBLISH_VOLUME] drv;
            drv = AddNodeServiceCapabilities [RPC_STAGE_UNSTAGE_VOLUME] drv;
            drv = drv\<lparr>drv_ids := NewIdentityServer drv\<rparr>;
            drv = drv\<lparr>drv_ns := NewNodeServer drv mounter\<rparr>;
            drv = drv\<lparr>drv_cs := NewControllerServer drv cloudProvider\<rparr>
        in (None, drv))"

section \<open>Identity service\<close>

definition GetPluginInfo :: "('cp, 'm) GCEDriver \<Rightarrow> string option \<times> error option" where
  "GetPluginInfo drv =
     (if drv_name drv = ''''
      then (None, Some (StatusError Unavailable ''Driver name not configured''))
      else (Some (drv_name drv), None))"

datatype PluginCapability = CONTROLLER_SERVICE

definition GetPluginCapabilities :: "PluginCapability list option \<times> error option" where
  "GetPluginCapabilities = (Some [CONTROLLER_SERVICE], None)"

definition Probe :: "unit option \<times> error option" where
  "Probe = (Some (), None)"

section \<open>Facts\<close>

lemma GetRpc_New [simp]: "GetRpc (NewControllerServiceCapability t) = Some t"
  by (simp add: GetRpc_def NewControllerServiceCapability_def)

lemma find_capability_New:
  "find_capability (map NewControllerServiceCapability ts) c =
     Ret (if c \<in> set ts then None
          else Some (StatusError InvalidArgument ''Invalid controller service request''))"
  by (induction ts) auto

lemma SetupGCEDriver_run:
  assumes "name \<noteq> ''''" and "nodeID \<noteq> ''''"
  shows "SetupGCEDriver cloudProvider mounter name nodeID drv =
    (None, drv\<lparr>drv_name := name, drv_nodeID := nodeID,
       drv_vcap := [SINGLE_NODE_WRITER, MULTI_NODE_READER_ONLY],
       drv_cscap := map NewControllerServiceCapability
         [RPC_CREATE_DELETE_VOLUME, RPC_PUBLISH_UNPUBLISH_VOLUME],
       drv_nscap := [NewNodeServiceCapability RPC_STAGE_UNSTAGE_VOLUME],
       drv_ids := Some (), drv_ns := Some mounter, drv_cs := Some cloudProvider\<rparr>)"
  using assms
  by (simp add: SetupGCEDriver_def Let_def AddVolumeCapabilityAccessModes_def
      AddControllerServiceCapabilities_def AddNodeServiceCapabilities_def append_loop_map
      NewVolumeCapabilityAccessMode_def NewIdentityServer_def NewNodeServer_def
      NewControllerServer_def)

text \<open>Set-up fails, and leaves the driver as it was, exactly when the name or the node id
  is empty. After a successful set-up the driver has all three servers, answers plugin
  information with its name, and accepts exactly the controller request types
  create/delete, publish/unpublish and the unknown type, without panicking.\<close>

lemma SetupGCEDriver_correct:
  "case SetupGCEDriver cloudProvider mounter name nodeID drv of
     (Some e, drv') \<Rightarrow> (name = '''' \<or> nodeID = '''') \<and> drv' = drv
   | (None, drv') \<Rightarrow> name \<noteq> '''' \<and> nodeID \<noteq> '''' \<and>
       drv_ids drv' = Some () \<and> drv_ns drv' = Some mounter \<and> drv_cs drv' = Some cloudProvider \<and>
       drv_nodeID drv' = nodeID \<and> GetPluginInfo drv' = (Some name, None) \<and>
       (\<forall>c. \<exists>err. ValidateControllerServiceRequest drv' c = Ret err \<and>
         (err = None \<longleftrightarrow> c \<in> {RPC_UNKNOWN, RPC_CREATE_DELETE_VOLUME, RPC_PUBLISH_UNPUBLISH_VOLUME}))"
proof (cases "name = '''' \<or> nodeID = ''''")
  case True
  then show ?thesis by (auto simp: SetupGCEDriver_def)
next
  case False
  then have *: "name \<noteq> ''''" "nodeID \<noteq> ''''" by auto
  have "\<exists>err. ValidateControllerServiceRequest
        (snd (SetupGCEDriver cloudProvider mounter name nodeID drv)) c = Ret err \<and>
      (err = None \<longleftrightarrow> c \<in> {RPC_UNKNOWN, RPC_CREATE_DELETE_VOLUME, RPC_PUBLISH_UNPUBLISH_VOLUME})" for c
    unfolding SetupGCEDriver_run [OF *] ValidateControllerServiceRequest_def
    by (simp only: snd_conv GCEDriver.simps find_capability_New) auto
  with * show ?thesis
    unfolding SetupGCEDriver_run [OF *] by (simp add: GetPluginInfo_def)
qed

end
