(* ===== verification/Compute.thy ===== *)
theory Compute
  imports Utils
begin

text \<open>
  The compute resources the driver handles and the GCECompute interface of
  pkg/gce-cloud-provider/gce-compute.go, as a record of operations over the state of a
  provider. The contract every provider keeps is the locale \<open>gce_compute\<close>, an extension of the
  locale \<open>gce_requests\<close> by the law of DetachDisk; the real and the fake provider interpret it in
  their theories, and the controller is verified inside the two.
\<close>

section \<open>Resources\<close>

text \<open>The fields of compute.Disk, AttachedDisk, Instance and Operation that the code uses.\<close>

record Disk =
  disk_Name :: string
  disk_SizeGb :: int64
  disk_Description :: string
  disk_Type :: string
  disk_Kind :: string

record AttachedDisk =
  ad_DeviceName :: string
  ad_Kind :: string
  ad_Mode :: string
  ad_Source :: string
  ad_Type :: string

record Instance =
  inst_Name :: string
  inst_Disks :: "AttachedDisk list"

text \<open>\<open>op_Error\<close> holds the error codes of a finished operation that failed (nil: none).\<close>

record Operation =
  op_Name :: string
  op_Status :: string
  op_Error :: "string list option"

section \<open>The interface\<close>

text \<open>
  The receiver is the state \<open>'s\<close>. Zone, name and type arguments come in the order of the
  interface; contexts are dropped.
\<close>

record 's GCECompute =
  GetProject :: "('s, string \<times> error option) go"
  GetZone :: "('s, string \<times> error option) go"
  GetDiskOrError :: "string \<Rightarrow> string \<Rightarrow> ('s, Disk option \<times> error option) go"
  GetAndValidateExistingDisk ::
    "string \<Rightarrow> string \<Rightarrow> string \<Rightarrow> int64 \<Rightarrow> int64 \<Rightarrow> ('s, bool \<times> error option) go"
  InsertDisk :: "string \<Rightarrow> Disk \<Rightarrow> ('s, Operation option \<times> error option) go"
  DeleteDisk :: "string \<Rightarrow> string \<Rightarrow> ('s, Operation option \<times> error option) go"
  AttachDisk :: "string \<Rightarrow> string \<Rightarrow> AttachedDisk \<Rightarrow> ('s, Operation option \<times> error option) go"
  DetachDisk :: "string \<Rightarrow> string \<Rightarrow> string \<Rightarrow> ('s, Operation option \<times> error option) go"
  GetDiskSourceURI :: "Disk \<Rightarrow> string \<Rightarrow> ('s, string) go"
  GetDiskTypeURI :: "string \<Rightarrow> string \<Rightarrow> ('s, string) go"
  GetInstanceOrError :: "string \<Rightarrow> string \<Rightarrow> ('s, Instance option \<times> error option) go"
  WaitForOp :: "Operation option \<Rightarrow> string \<Rightarrow> ('s, error option) go"

section \<open>The contract of a provider\<close>

text \<open>
  \<open>inv\<close> is the provider's invariant and \<open>opok\<close> says which operation handles its WaitForOp
  accepts. In the basic contract no operation but DetachDisk is called, and none panics. A lookup
  without an error returns a non-nil pointer, and a failed validation of an existing disk
  carries AlreadyExists. The full contract adds DetachDisk, which may rely on the disk being
  attached when the controller looked right before; that law does not survive other calls
  in between, the basic ones do.
\<close>

locale gce_requests =
  fixes cp :: "'s GCECompute"
    and inv :: "'s \<Rightarrow> bool"
    and opok :: "Operation option \<Rightarrow> bool"
  assumes get_zone: "triple inv (GetZone cp) (\<lambda>_. inv)"
    and get_disk: "triple inv (GetDiskOrError cp z n) (\<lambda>(d, err) s. inv s \<and> (d = None \<longrightarrow> err \<noteq> None))"
    and validate_disk: "triple inv (GetAndValidateExistingDisk cp z n t r l)
      (\<lambda>(ex, err) s. inv s \<and> (\<forall>e. err = Some e \<longrightarrow> error_code e = AlreadyExists))"
    and insert_disk: "triple inv (InsertDisk cp z d) (\<lambda>(op, err) s. inv s \<and> (err = None \<longrightarrow> opok op))"
    and delete_disk: "triple inv (DeleteDisk cp z n) (\<lambda>(op, err) s. inv s \<and> (err = None \<longrightarrow> opok op))"
    and attach_disk: "triple inv (AttachDisk cp z i a) (\<lambda>(op, err) s. inv s \<and> (err = None \<longrightarrow> opok op))"
    and get_instance: "triple inv (GetInstanceOrError cp z i)
      (\<lambda>(inst, err) s. inv s \<and> (inst = None \<longrightarrow> err \<noteq> None))"
    and source_uri: "triple inv (GetDiskSourceURI cp d z) (\<lambda>_. inv)"
    and type_uri: "triple inv (GetDiskTypeURI cp z t) (\<lambda>_. inv)"
    and wait_for_op: "opok op \<Longrightarrow> triple inv (WaitForOp cp op z) (\<lambda>_. inv)"
begin

lemmas provider_laws = get_zone get_disk validate_disk insert_disk delete_disk attach_disk
  get_instance source_uri type_uri wait_for_op

end

locale gce_compute = gce_requests cp inv opok for cp :: "'s GCECompute" and inv opok +
  assumes detach_disk: "inv s0 \<Longrightarrow> GetDiskOrError cp z v s0 = (Ret (Some d, None), s1) \<Longrightarrow>
      GetInstanceOrError cp z i s1 = (Ret (Some inst, None), s2) \<Longrightarrow>
      disk_Name d \<in> ad_DeviceName ` set (inst_Disks inst) \<Longrightarrow>
      triple (\<lambda>s. s = s2) (DetachDisk cp z i v) (\<lambda>(op, err) s. inv s \<and> (err = None \<longrightarrow> opok op))"

section \<open>Recording the calls\<close>

text \<open>
  To speak of the order of the calls a handler makes, a provider is wrapped into one that
  also records each call that reads or changes resources. The wrapped provider returns what
  the provider returns.
\<close>

datatype gce_call =
    CGetDisk string string
  | CValidate string string
  | CInsert string Disk
  | CDelete string string
  | CAttach string string AttachedDisk
  | CDetach string string string
  | CGetInstance string string
  | CWait

definition logged :: "gce_call \<Rightarrow> ('s, 'a) go \<Rightarrow> ('s \<times> gce_call list, 'a) go" where
  "logged c m t = (case m (fst t) of (r, s') \<Rightarrow> (r, s', snd t @ [c]))"

definition unlogged :: "('s, 'a) go \<Rightarrow> ('s \<times> gce_call list, 'a) go" where
  "unlogged m t = (case m (fst t) of (r, s') \<Rightarrow> (r, s', snd t))"

definition traced :: "'s GCECompute \<Rightarrow> ('s \<times> gce_call list) GCECompute" where
  "traced cp =
     \<lparr> GetProject = unlogged (GetProject cp),
       GetZone = unlogged (GetZone cp),
       GetDiskOrError = (\<lambda>z n. logged (CGetDisk z n) (GetDiskOrError cp z n)),
       GetAndValidateExistingDisk = (\<lambda>z n t r l.
         logged (CValidate z n) (GetAndValidateExistingDisk cp z n t r l)),
       InsertDisk = (\<lambda>z d. logged (CInsert z d) (InsertDisk cp z d)),
       DeleteDisk = (\<lambda>z n. logged (CDelete z n) (DeleteDisk cp z n)),
       AttachDisk = (\<lambda>z i a. logged (CAttach z i a) (AttachDisk cp z i a)),
       DetachDisk = (\<lambda>z i v. logged (CDetach z i v) (DetachDisk cp z i v)),
       GetDiskSourceURI = (\<lambda>d z. unlogged (GetDiskSourceURI cp d z)),
       GetDiskTypeURI = (\<lambda>z t. unlogged (GetDiskTypeURI cp z t)),
       GetInstanceOrError = (\<lambda>z i. logged (CGetInstance z i) (GetInstanceOrError cp z i)),
       WaitForOp = (\<lambda>op z. logged CWait (WaitForOp cp op z)) \<rparr>"

lemma traced_simps [simp]:
  "GetProject (traced cp) = unlogged (GetProject cp)"
  "GetZone (traced cp) = unlogged (GetZone cp)"
  "GetDiskOrError (traced cp) z n = logged (CGetDisk z n) (GetDiskOrError cp z n)"
  "GetAndValidateExistingDisk (traced cp) z n t r l =
     logged (CValidate z n) (GetAndValidateExistingDisk cp z n t r l)"
  "InsertDisk (traced cp) z d = logged (CInsert z d) (InsertDisk cp z d)"
  "DeleteDisk (traced cp) z n = logged (CDelete z n) (DeleteDisk cp z n)"
  "AttachDisk (traced cp) z i a = logged (CAttach z i a) (AttachDisk cp z i a)"
  "DetachDisk (traced cp) z i v = logged (CDetach z i v) (DetachDisk cp z i v)"
  "GetDiskSourceURI (traced cp) d z = unlogged (GetDiskSourceURI cp d z)"
  "GetDiskTypeURI (traced cp) z t = unlogged (GetDiskTypeURI cp z t)"
  "GetInstanceOrError (traced cp) z i = logged (CGetInstance z i) (GetInstanceOrError cp z i)"
  "WaitForOp (traced cp) op z = logged CWait (WaitForOp cp op z)"
  by (simp_all add: traced_def)

lemma call_logged: "call (logged c m) k (s, l) =
    (case m s of (Ret a, s') \<Rightarrow> k a (s', l @ [c]) | (Panic, s') \<Rightarrow> (Panic, s', l @ [c]))"
  by (simp add: call_def logged_def split: prod.splits outcome.splits)

lemma call_unlogged: "call (unlogged m) k (s, l) =
    (case m s of (Ret a, s') \<Rightarrow> k a (s', l) | (Panic, s') \<Rightarrow> (Panic, s', l))"
  by (simp add: call_def unlogged_def split: prod.splits outcome.splits)

end
