(* ===== verification/CloudProvider.thy ===== *)
theory CloudProvider
  imports Compute
begin

text \<open>
  The provider that talks to the GCE API: pkg/gce-cloud-provider/gce-compute.go, with the
  wait loop it uses (k8s.io/apimachinery/pkg/util/wait/wait.go). The API service is not
  code of the repository: it is the record \<open>ComputeService\<close> of calls over a world \<open>'s\<close>, an
  argument of every definition, and nothing is assumed of it except what the theorems name.
\<close>

section \<open>The service\<close>

text \<open>
  Each field is one request: what it returns (an error, or the decoded resource) and the
  world after it. \<open>svc_ticks\<close> stands for time: how many ticks of the poll timer are
  delivered before the poll's deadline when a poll starts in this world.
\<close>

record 's ComputeService =
  svc_BasePath :: string
  disks_get :: "string \<Rightarrow> string \<Rightarrow> string \<Rightarrow> 's \<Rightarrow> (error + Disk) \<times> 's"
  disks_insert :: "string \<Rightarrow> string \<Rightarrow> Disk \<Rightarrow> 's \<Rightarrow> (error + Operation) \<times> 's"
  disks_delete :: "string \<Rightarrow> string \<Rightarrow> string \<Rightarrow> 's \<Rightarrow> (error + Operation) \<times> 's"
  instances_get :: "string \<Rightarrow> string \<Rightarrow> string \<Rightarrow> 's \<Rightarrow> (error + Instance) \<times> 's"
  instances_attachDisk ::
    "string \<Rightarrow> string \<Rightarrow> string \<Rightarrow> AttachedDisk \<Rightarrow> 's \<Rightarrow> (error + Operation) \<times> 's"
  instances_detachDisk ::
    "string \<Rightarrow> string \<Rightarrow> string \<Rightarrow> string \<Rightarrow> 's \<Rightarrow> (error + Operation) \<times> 's"
  zoneOperations_get :: "string \<Rightarrow> string \<Rightarrow> string \<Rightarrow> 's \<Rightarrow> (error + Operation) \<times> 's"
  svc_ticks :: "'s \<Rightarrow> nat"

text \<open>The generated \<open>Do\<close> methods return exactly one of a resource and an error.\<close>

definition Do :: "('s \<Rightarrow> (error + 'a) \<times> 's) \<Rightarrow> ('s, 'a option \<times> error option) go" where
  "Do request s =
     (case request s of
        (Inl e, s') \<Rightarrow> (Ret (None, Some e), s')
      | (Inr a, s') \<Rightarrow> (Ret (Some a, None), s'))"

text \<open>The provider: \<open>gce_service\<close> is a pointer.\<close>

record 's CloudProvider =
  gce_service :: "'s ComputeService option"
  gce_project :: string
  gce_zone :: string

section \<open>Waiting\<close>

text \<open>
  WaitFor calls the condition once for every tick received and once more when the channel
  is closed; \<open>n\<close> is the number of ticks that are received before that.
\<close>

fun WaitFor :: "nat \<Rightarrow> ('s, bool \<times> error option) go \<Rightarrow> ('s, error option) go" where
  "WaitFor 0 fn =
     call fn (\<lambda>(ok, err).
       if err \<noteq> None then ret err
       else if ok then ret None
       else ret (Some ErrWaitTimeout))"
| "WaitFor (Suc n) fn =
     call fn (\<lambda>(ok, err).
       if err \<noteq> None then ret err
       else if ok then ret None
       else WaitFor n fn)"

text \<open>
  The poller sends a tick every \<open>interval\<close> until \<open>timeout\<close> has passed, so at most
  \<open>timeout div interval\<close> of them; a tick is dropped when the consumer is busy.
\<close>

definition poller :: "nat \<Rightarrow> nat \<Rightarrow> nat \<Rightarrow> nat" where
  "poller interval timeout ticks = min ticks (timeout div interval)"

definition Poll ::
    "nat \<Rightarrow> nat \<Rightarrow> nat \<Rightarrow> ('s, bool \<times> error option) go \<Rightarrow> ('s, error option) go" where
  "Poll ticks interval timeout condition = WaitFor (poller interval timeout ticks) condition"

definition opIsDone :: "Operation option \<Rightarrow> bool" where
  "opIsDone op = (case op of None \<Rightarrow> False | Some o' \<Rightarrow> op_Status o' = ''DONE'')"

text \<open>The polled condition dereferences the operation for its name.\<close>

definition WaitForOp_condition ::
    "'s CloudProvider \<Rightarrow> Operation option \<Rightarrow> string \<Rightarrow> ('s, bool \<times> error option) go" where
  "WaitForOp_condition cloud op z =
     deref (gce_service cloud) (\<lambda>svc. deref op (\<lambda>o'.
       call (Do (zoneOperations_get svc (gce_project cloud) z (op_Name o'))) (\<lambda>(pollOp, err).
         case err of
           Some e \<Rightarrow> ret (False, Some e)
         | None \<Rightarrow> ret (opIsDone pollOp, None))))"

definition CloudProvider_WaitForOp ::
    "'s CloudProvider \<Rightarrow> Operation option \<Rightarrow> string \<Rightarrow> ('s, error option) go" where
  "CloudProvider_WaitForOp cloud op z s =
     Poll (case gce_service cloud of None \<Rightarrow> 0 | Some svc \<Rightarrow> svc_ticks svc s) 3 300
       (WaitForOp_condition cloud op z) s"

section \<open>The operations\<close>

definition CloudProvider_GetProject :: "'s CloudProvider \<Rightarrow> ('s, string \<times> error option) go" where
  "CloudProvider_GetProject cloud = ret (gce_project cloud, None)"

definition CloudProvider_GetZone :: "'s CloudProvider \<Rightarrow> ('s, string \<times> error option) go" where
  "CloudProvider_GetZone cloud = ret (gce_zone cloud, None)"

definition CloudProvider_GetDiskOrError ::
    "'s CloudProvider \<Rightarrow> string \<Rightarrow> string \<Rightarrow> ('s, Disk option \<times> error option) go" where
  "CloudProvider_GetDiskOrError cloud volumeZone volumeName =
     deref (gce_service cloud) (\<lambda>svc.
       call (Do (disks_get svc (gce_project cloud) volumeZone volumeName)) (\<lambda>(disk, err).
         case err of
           Some e \<Rightarrow>
             if IsGCEError e ''notFound''
             then ret (None, Some (StatusError NotFound ''disk %v does not exist''))
             else ret (None, Some (StatusError Internal ''unknown disk GET error: %v''))
         | None \<Rightarrow> ret (disk, None)))"

text \<open>The last part of the type URL, and the two checks of the code.\<close>

definition respType_last :: "Disk \<Rightarrow> string" where
  "respType_last disk = last (Split (disk_Type disk) (CHR ''/''))"

definition CloudProvider_validateDisk ::
    "Disk \<Rightarrow> string \<Rightarrow> int64 \<Rightarrow> int64 \<Rightarrow> bool \<times> error option" where
  "CloudProvider_validateDisk resp diskType reqBytes limBytes =
     (let requestValid = (reqBytes \<le>s GbToBytes (disk_SizeGb resp) \<and> reqBytes \<noteq> 0);
          responseValid = (GbToBytes (disk_SizeGb resp) \<le>s limBytes \<and> limBytes \<noteq> 0);
          typeMatch = (respType_last resp \<noteq> diskType);
          typeDefault = (diskType = '''' \<and> respType_last resp = ''pd-standard'')
      in if \<not> requestValid \<or> \<not> responseValid
         then (True, Some (StatusError AlreadyExists
                ''Disk already exists with incompatible capacity. Need %v (Required) < %v (Existing) < %v (Limit)''))
         else if \<not> typeMatch \<and> \<not> typeDefault
         then (True, Some (StatusError AlreadyExists
                ''Disk already exists with incompatible type. Need %v. Got %v''))
         else (True, None))"

text \<open>A lookup error is only logged; what counts is whether a disk came back.\<close>

definition CloudProvider_GetAndValidateExistingDisk ::
    "'s CloudProvider \<Rightarrow> string \<Rightarrow> string \<Rightarrow> string \<Rightarrow> int64 \<Rightarrow> int64 \<Rightarrow>
     ('s, bool \<times> error option) go" where
  "CloudProvider_GetAndValidateExistingDisk cloud configuredZone name diskType reqBytes limBytes =
     deref (gce_service cloud) (\<lambda>svc.
       call (Do (disks_get svc (gce_project cloud) configuredZone name)) (\<lambda>(resp, err).
         case resp of
           Some disk \<Rightarrow> ret (CloudProvider_validateDisk disk diskType reqBytes limBytes)
         | None \<Rightarrow> ret (False, None)))"

definition CloudProvider_InsertDisk ::
    "'s CloudProvider \<Rightarrow> string \<Rightarrow> Disk \<Rightarrow> ('s, Operation option \<times> error option) go" where
  "CloudProvider_InsertDisk cloud z diskToCreate =
     deref (gce_service cloud) (\<lambda>svc. Do (disks_insert svc (gce_project cloud) z diskToCreate))"

definition CloudProvider_DeleteDisk ::
    "'s CloudProvider \<Rightarrow> string \<Rightarrow> string \<Rightarrow> ('s, Operation option \<times> error option) go" where
  "CloudProvider_DeleteDisk cloud z name =
     deref (gce_service cloud) (\<lambda>svc. Do (disks_delete svc (gce_project cloud) z name))"

definition CloudProvider_AttachDisk ::
    "'s CloudProvider \<Rightarrow> string \<Rightarrow> string \<Rightarrow> AttachedDisk \<Rightarrow>
     ('s, Operation option \<times> error option) go" where
  "CloudProvider_AttachDisk cloud z instanceName attachedDisk =
     deref (gce_service cloud) (\<lambda>svc.
       Do (instances_attachDisk svc (gce_project cloud) z instanceName attachedDisk))"

definition CloudProvider_DetachDisk ::
    "'s CloudProvider \<Rightarrow> string \<Rightarrow> string \<Rightarrow> string \<Rightarrow>
     ('s, Operation option \<times> error option) go" where
  "CloudProvider_DetachDisk cloud volumeZone instanceName volumeName =
     deref (gce_service cloud) (\<lambda>svc.
       Do (instances_detachDisk svc (gce_project cloud) volumeZone instanceName volumeName))"

definition gceComputeAPIEndpoint :: string where
  "gceComputeAPIEndpoint = ''https://www.googleapis.com/compute/v1/''"

definition diskSourceURITemplateSingleZone :: string where
  "diskSourceURITemplateSingleZone = ''%s/zones/%s/disks/%s''"

definition diskTypeURITemplateSingleZone :: string where
  "diskTypeURITemplateSingleZone = ''projects/%s/zones/%s/diskTypes/%s''"

definition CloudProvider_GetDiskSourceURI :: "'s CloudProvider \<Rightarrow> Disk \<Rightarrow> string \<Rightarrow> string" where
  "CloudProvider_GetDiskSourceURI cloud disk z =
     (let projectsApiEndpoint =
            (case gce_service cloud of
               None \<Rightarrow> gceComputeAPIEndpoint @ ''projects/''
             | Some svc \<Rightarrow> svc_BasePath svc)
      in projectsApiEndpoint @
         Sprintf diskSourceURITemplateSingleZone [gce_project cloud, z, disk_Name disk])"

definition CloudProvider_GetDiskTypeURI :: "'s CloudProvider \<Rightarrow> string \<Rightarrow> string \<Rightarrow> string" where
  "CloudProvider_GetDiskTypeURI cloud z diskType =
     Sprintf diskTypeURITemplateSingleZone [gce_project cloud, z, diskType]"

lemma disk_URIs:
  "CloudProvider_GetDiskSourceURI cloud disk z =
     (case gce_service cloud of
        None \<Rightarrow> ''https://www.googleapis.com/compute/v1/projects/'' | Some svc \<Rightarrow> svc_BasePath svc) @
     gce_project cloud @ ''/zones/'' @ z @ ''/disks/'' @ disk_Name disk"
  "CloudProvider_GetDiskTypeURI cloud z t =
     ''projects/'' @ gce_project cloud @ ''/zones/'' @ z @ ''/diskTypes/'' @ t"
  by (simp_all add: CloudProvider_GetDiskSourceURI_def CloudProvider_GetDiskTypeURI_def
        diskSourceURITemplateSingleZone_def diskTypeURITemplateSingleZone_def gceComputeAPIEndpoint_def
        split: option.split)

definition CloudProvider_GetInstanceOrError ::
    "'s CloudProvider \<Rightarrow> string \<Rightarrow> string \<Rightarrow> ('s, Instance option \<times> error option) go" where
  "CloudProvider_GetInstanceOrError cloud instanceZone instanceName =
     deref (gce_service cloud) (\<lambda>svc.
       call (Do (instances_get svc (gce_project cloud) instanceZone instanceName)) (\<lambda>(inst, err).
         case err of
           Some e \<Rightarrow>
             if IsGCEError e ''notFound''
             then ret (None, Some (StatusError NotFound ''instance %v does not exist''))
             else ret (None, Some (StatusError Internal ''unknown instance GET error: %v''))
         | None \<Rightarrow> ret (inst, None)))"

text \<open>The provider as an implementation of the interface.\<close>

definition cloudCompute :: "'s CloudProvider \<Rightarrow> 's GCECompute" where
  "cloudCompute cloud =
     \<lparr> GetProject = CloudProvider_GetProject cloud,
       GetZone = CloudProvider_GetZone cloud,
       GetDiskOrError = CloudProvider_GetDiskOrError cloud,
       GetAndValidateExistingDisk = CloudProvider_GetAndValidateExistingDisk cloud,
       InsertDisk = CloudProvider_InsertDisk cloud,
       DeleteDisk = CloudProvider_DeleteDisk cloud,
       AttachDisk = CloudProvider_AttachDisk cloud,
       DetachDisk = CloudProvider_DetachDisk cloud,
       GetDiskSourceURI = (\<lambda>d z. ret (CloudProvider_GetDiskSourceURI cloud d z)),
       GetDiskTypeURI = (\<lambda>z t. ret (CloudProvider_GetDiskTypeURI cloud z t)),
       GetInstanceOrError = CloudProvider_GetInstanceOrError cloud,
       WaitForOp = CloudProvider_WaitForOp cloud \<rparr>"

lemma cloudCompute_simps [simp]:
  "GetProject (cloudCompute cloud) = CloudProvider_GetProject cloud"
  "GetZone (cloudCompute cloud) = CloudProvider_GetZone cloud"
  "GetDiskOrError (cloudCompute cloud) = CloudProvider_GetDiskOrError cloud"
  "GetAndValidateExistingDisk (cloudCompute cloud) = CloudProvider_GetAndValidateExistingDisk cloud"
  "InsertDisk (cloudCompute cloud) = CloudProvider_InsertDisk cloud"
  "DeleteDisk (cloudCompute cloud) = CloudProvider_DeleteDisk cloud"
  "AttachDisk (cloudCompute cloud) = CloudProvider_AttachDisk cloud"
  "DetachDisk (cloudCompute cloud) = CloudProvider_DetachDisk cloud"
  "GetDiskSourceURI (cloudCompute cloud) d z = ret (CloudProvider_GetDiskSourceURI cloud d z)"
  "GetDiskTypeURI (cloudCompute cloud) z t = ret (CloudProvider_GetDiskTypeURI cloud z t)"
  "GetInstanceOrError (cloudCompute cloud) = CloudProvider_GetInstanceOrError cloud"
  "WaitForOp (cloudCompute cloud) = CloudProvider_WaitForOp cloud"
  by (simp_all add: cloudCompute_def)

section \<open>Facts about waiting\<close>

lemma triple_WaitFor:
  assumes "triple P fn (\<lambda>_. P)"
  shows "triple P (WaitFor n fn) (\<lambda>_. P)"
proof (induction n)
  case 0
  show ?case
    unfolding WaitFor.simps using assms by (rule triple_call) (auto simp: triple_def)
next
  case (Suc n)
  show ?case
    unfolding WaitFor.simps using assms
    by (rule triple_call) (use Suc in \<open>auto simp: triple_def\<close>)
qed

text \<open>A successful wait ends right after a check of the condition that said yes.\<close>

lemma WaitFor_success:
  "WaitFor n fn s = (Ret None, s') \<Longrightarrow> \<exists>s0. fn s0 = (Ret (True, None), s')"
proof (induction n arbitrary: s)
  case 0
  then show ?case by (auto simp: call_Ret_iff split: if_splits)
next
  case (Suc n)
  then show ?case by (auto simp: call_Ret_iff split: if_splits)
qed

text \<open>If the condition says yes at once, so does the wait.\<close>

lemma WaitFor_first: "fn s = (Ret (True, None), s') \<Longrightarrow> WaitFor n fn s = (Ret None, s')"
  by (cases n) (simp_all add: call_Ret)

text \<open>The condition, with the number of its evaluations counted.\<close>

definition counted :: "('s, 'a) go \<Rightarrow> ('s \<times> nat, 'a) go" where
  "counted m t = (case m (fst t) of (r, s') \<Rightarrow> (r, s', Suc (snd t)))"

lemma WaitFor_counted:
  "WaitFor n (counted fn) (s, k) = (r, s', k') \<Longrightarrow> k < k' \<and> k' \<le> k + Suc n"
proof (induction n arbitrary: s k)
  case 0
  then show ?case
    by (auto simp: call_def counted_def split: prod.splits outcome.splits if_splits)
next
  case (Suc n)
  obtain o1 s1 where fn: "fn s = (o1, s1)" by (cases "fn s")
  have step: "counted fn (s, k) = (o1, s1, Suc k)" by (simp add: counted_def fn)
  show ?case
  proof (cases "\<exists>v. o1 = Ret v \<and> snd v = None \<and> \<not> fst v")
    case True
    then have "WaitFor n (counted fn) (s1, Suc k) = (r, s', k')"
      using Suc.prems step by (auto simp: call_def)
    from Suc.IH [OF this] show ?thesis by simp
  next
    case False
    then have "k' = Suc k"
      using Suc.prems step
      by (auto simp: call_def split: outcome.splits prod.splits if_splits)
    then show ?thesis by simp
  qed
qed

text \<open>A wait for an operation polls at least once and at most 101 times (one per three
  seconds for five minutes, and once more at the end), however many ticks are offered.\<close>

lemma Poll_bounded:
  "case Poll ticks 3 300 (counted fn) (s, 0) of (r, s', polls) \<Rightarrow> 1 \<le> polls \<and> polls \<le> 101"
proof -
  obtain r s' k where *: "WaitFor (min ticks 100) (counted fn) (s, 0) = (r, s', k)"
    by (metis prod.exhaust)
  have "1 \<le> k \<and> k \<le> 101"
    using WaitFor_counted [OF *] by linarith
  then show ?thesis by (simp add: Poll_def poller_def *)
qed

section \<open>The operations evaluated\<close>

abbreviation gce_cloud :: "'s ComputeService \<Rightarrow> string \<Rightarrow> string \<Rightarrow> 's CloudProvider" where
  "gce_cloud svc p z \<equiv> \<lparr>gce_service = Some svc, gce_project = p, gce_zone = z\<rparr>"

lemma Do_run: "Do request s = (case request s of (Inl e, s') \<Rightarrow> (Ret (None, Some e), s')
    | (Inr a, s') \<Rightarrow> (Ret (Some a, None), s'))"
  by (simp add: Do_def)

lemma triple_Do: "triple (\<lambda>_. True) (Do m) (\<lambda>(a, err) s. (a = None) \<longleftrightarrow> (err \<noteq> None))"
  by (rule tripleI) (auto simp: Do_def split: prod.splits sum.splits)

lemmas CloudProvider_defs =
  CloudProvider_GetZone_def CloudProvider_GetDiskOrError_def
  CloudProvider_GetAndValidateExistingDisk_def CloudProvider_InsertDisk_def
  CloudProvider_DeleteDisk_def CloudProvider_AttachDisk_def CloudProvider_DetachDisk_def
  CloudProvider_GetInstanceOrError_def

lemma validateDisk_error_code:
  "\<exists>b err. CloudProvider_validateDisk d t r l = (b, err) \<and>
     (\<forall>e. err = Some e \<longrightarrow> error_code e = AlreadyExists)"
  by (auto simp: CloudProvider_validateDisk_def Let_def)

lemma WaitForOp_condition_run:
  "WaitForOp_condition (gce_cloud svc p z') (Some op) z s =
     (case zoneOperations_get svc p z (op_Name op) s of
        (Inl e, s') \<Rightarrow> (Ret (False, Some e), s')
      | (Inr po, s') \<Rightarrow> (Ret (op_Status po = ''DONE'', None), s'))"
  by (simp add: WaitForOp_condition_def call_def Do_def opIsDone_def split: prod.splits sum.splits)

lemma triple_CloudProvider_WaitForOp:
  "op \<noteq> None \<Longrightarrow> triple (\<lambda>_. True) (CloudProvider_WaitForOp (gce_cloud svc p z') op z) (\<lambda>_ _. True)"
proof -
  assume "op \<noteq> None"
  then obtain o' where o': "op = Some o'" by blast
  have "triple (\<lambda>_. True) (WaitForOp_condition (gce_cloud svc p z') op z) (\<lambda>_ _. True)"
    unfolding o' by (rule tripleI) (auto simp: WaitForOp_condition_run split: prod.splits sum.splits)
  from triple_WaitFor [OF this] show ?thesis
    by (auto simp: triple_def CloudProvider_WaitForOp_def Poll_def)
qed

section \<open>The provider keeps the contract\<close>

interpretation cloud: gce_compute "cloudCompute (gce_cloud svc p z)" "\<lambda>_. True" "\<lambda>op. op \<noteq> None"
  for svc :: "'s ComputeService" and p z
proof unfold_locales
  show "op \<noteq> None \<Longrightarrow>
      triple (\<lambda>_. True) (WaitForOp (cloudCompute (gce_cloud svc p z)) op z') (\<lambda>_ _. True)" for op z'
    by (simp add: triple_CloudProvider_WaitForOp)
qed (auto simp: CloudProvider_defs triple_def call_def Do_def
       split: prod.splits sum.splits option.splits intro: validateDisk_error_code)

section \<open>What the operations do\<close>

text \<open>Validation of an existing disk accepts exactly when both bounds are given (not
  zero), the size of the disk in bytes lies between them, and the last part of the disk's
  type URL differs from the requested type. A disk of the requested type is refused.\<close>

lemma validateDisk_None_iff:
  "snd (CloudProvider_validateDisk d t r l) = None \<longleftrightarrow>
     r \<noteq> 0 \<and> l \<noteq> 0 \<and>
     sint r \<le> sint (GbToBytes (disk_SizeGb d)) \<and> sint (GbToBytes (disk_SizeGb d)) \<le> sint l \<and>
     respType_last d \<noteq> t"
  by (auto simp: CloudProvider_validateDisk_def Let_def word_sle_eq)

text \<open>Looking for an existing disk: no disk and no error when the API reports any error
  at all (not only notFound), and the verdict of the validation when it returns a disk.\<close>

lemma GetAndValidateExistingDisk_cloud:
  "CloudProvider_GetAndValidateExistingDisk (gce_cloud svc p z') z n t r l s =
     (case disks_get svc p z n s of
        (Inl e, s') \<Rightarrow> (Ret (False, None), s')
      | (Inr d, s') \<Rightarrow> (Ret (CloudProvider_validateDisk d t r l), s'))"
  by (simp add: CloudProvider_defs call_def Do_def split: prod.splits sum.splits)

text \<open>A disk lookup returns the disk of the API, NotFound exactly for an API error with
  the reason notFound, and Internal for every other error.\<close>

lemma GetDiskOrError_cloud:
  "CloudProvider_GetDiskOrError (gce_cloud svc p z') z n s =
     (case disks_get svc p z n s of
        (Inr d, s') \<Rightarrow> (Ret (Some d, None), s')
      | (Inl e, s') \<Rightarrow>
          (Ret (None, Some (if IsGCEError e ''notFound''
             then StatusError NotFound ''disk %v does not exist''
             else StatusError Internal ''unknown disk GET error: %v'')), s'))"
  by (simp add: CloudProvider_defs call_def Do_def split: prod.splits sum.splits)

lemma GetInstanceOrError_cloud:
  "CloudProvider_GetInstanceOrError (gce_cloud svc p z') z n s =
     (case instances_get svc p z n s of
        (Inr d, s') \<Rightarrow> (Ret (Some d, None), s')
      | (Inl e, s') \<Rightarrow>
          (Ret (None, Some (if IsGCEError e ''notFound''
             then StatusError NotFound ''instance %v does not exist''
             else StatusError Internal ''unknown instance GET error: %v'')), s'))"
  by (simp add: CloudProvider_defs call_def Do_def split: prod.splits sum.splits)

text \<open>A wait that reports success ended right after a poll in which the API returned the
  operation with status DONE; nothing else makes it succeed.\<close>

lemma WaitForOp_success_is_done:
  assumes "CloudProvider_WaitForOp (gce_cloud svc p z') (Some op) z s = (Ret None, s')"
  shows "\<exists>s0 po. zoneOperations_get svc p z (op_Name op) s0 = (Inr po, s') \<and> op_Status po = ''DONE''"
proof -
  from assms obtain n where
    "WaitFor n (WaitForOp_condition (gce_cloud svc p z') (Some op) z) s = (Ret None, s')"
    by (auto simp: CloudProvider_WaitForOp_def Poll_def)
  from WaitFor_success [OF this] obtain s0 where
    c: "WaitForOp_condition (gce_cloud svc p z') (Some op) z s0 = (Ret (True, None), s')" by blast
  obtain reply s1 where "zoneOperations_get svc p z (op_Name op) s0 = (reply, s1)"
    by (rule prod.exhaust)
  with c show ?thesis
    by (cases reply) (auto simp: WaitForOp_condition_run)
qed

text \<open>A service for witnesses: every request finds one disk and every operation is done.\<close>

definition sample_disk :: Disk where
  "sample_disk = \<lparr>disk_Name = ''vol'', disk_SizeGb = 10, disk_Description = '''',
     disk_Type = ''projects/p/zones/z/diskTypes/pd-standard'', disk_Kind = ''compute#disk''\<rparr>"

definition sample_op :: "string list option \<Rightarrow> Operation" where
  "sample_op errs = \<lparr>op_Name = ''op'', op_Status = ''DONE'', op_Error = errs\<rparr>"

definition sample_service :: "unit ComputeService" where
  "sample_service =
     \<lparr> svc_BasePath = ''https://www.googleapis.com/compute/v1/projects/'',
       disks_get = (\<lambda>_ _ _ s. (Inr sample_disk, s)),
       disks_insert = (\<lambda>_ _ _ s. (Inr (sample_op None), s)),
       disks_delete = (\<lambda>_ _ _ s. (Inr (sample_op None), s)),
       instances_get = (\<lambda>_ _ _ s. (Inr \<lparr>inst_Name = ''node'', inst_Disks = []\<rparr>, s)),
       instances_attachDisk = (\<lambda>_ _ _ _ s. (Inr (sample_op None), s)),
       instances_detachDisk = (\<lambda>_ _ _ _ s. (Inr (sample_op None), s)),
       zoneOperations_get = (\<lambda>_ _ _ s. (Inr (sample_op (Some [''QUOTA_EXCEEDED''])), s)),
       svc_ticks = (\<lambda>_. 0) \<rparr>"

text \<open>C32. The error of a finished operation is not looked at: when the first poll returns the
  operation with status DONE, the wait succeeds whatever errors the operation carries.\<close>

theorem WaitForOp_ignores_operation_error:
  assumes "zoneOperations_get svc p z (op_Name op) s =
      (Inr \<lparr>op_Name = op_Name op, op_Status = ''DONE'', op_Error = Some codes\<rparr>, s')"
  shows "CloudProvider_WaitForOp (gce_cloud svc p z') (Some op) z s = (Ret None, s')"
  unfolding CloudProvider_WaitForOp_def Poll_def
  by (rule WaitFor_first) (simp add: WaitForOp_condition_run assms)

theorem WaitForOp_ignores_operation_error_witness:
  "CloudProvider_WaitForOp (gce_cloud sample_service ''p'' ''z'') (Some (sample_op None)) ''z'' ()
     = (Ret None, ())"
  by (rule WaitForOp_ignores_operation_error [where codes = "[''QUOTA_EXCEEDED'']"])
     (simp add: sample_service_def sample_op_def)

end
