(* ===== verification/FakeCloud.thy ===== *)
theory FakeCloud
  imports Compute "HOL-Library.Multiset"
begin

text \<open>
  The in-memory provider of pkg/gce-cloud-provider/fake-gce.go, the backend of the sanity
  tests. Its maps from names to pointers are maps from names to values: a stored disk
  pointer is never nil (InsertDisk dereferences it), and an instance is only reached through
  the one name it was inserted under, so updating it in place is updating the map.
\<close>

section \<open>State\<close>

record FakeCloudProvider =
  fake_project :: string
  fake_zone :: string
  fake_disks :: "string \<rightharpoonup> Disk"
  fake_instances :: "string \<rightharpoonup> Instance"

definition FakeCreateCloudProvider :: "string \<Rightarrow> string \<Rightarrow> FakeCloudProvider \<times> error option" where
  "FakeCreateCloudProvider project zone =
     (\<lparr>fake_project = project, fake_zone = zone,
       fake_disks = Map.empty, fake_instances = Map.empty\<rparr>, None)"

section \<open>Operations\<close>

definition Fake_GetProject :: "(FakeCloudProvider, string \<times> error option) go" where
  "Fake_GetProject cloud = (Ret (fake_project cloud, None), cloud)"

definition Fake_GetZone :: "(FakeCloudProvider, string \<times> error option) go" where
  "Fake_GetZone cloud = (Ret (fake_zone cloud, None), cloud)"

definition Fake_GetDiskOrError ::
    "string \<Rightarrow> string \<Rightarrow> (FakeCloudProvider, Disk option \<times> error option) go" where
  "Fake_GetDiskOrError volumeZone volumeName cloud =
     (case fake_disks cloud volumeName of
        None \<Rightarrow> (Ret (None, Some (PlainError ''Disk %v not found'')), cloud)
      | Some disk \<Rightarrow> (Ret (Some disk, None), cloud))"

definition Fake_validateDisk :: "Disk \<Rightarrow> string \<Rightarrow> int64 \<Rightarrow> int64 \<Rightarrow> bool \<times> error option" where
  "Fake_validateDisk disk diskType reqBytes limBytes =
     (let requestValid = (reqBytes \<le>s GbToBytes (disk_SizeGb disk) \<or> reqBytes = 0);
          responseValid = (GbToBytes (disk_SizeGb disk) \<le>s limBytes \<or> limBytes = 0);
          respType = Split (disk_Type disk) (CHR ''/'');
          typeMatch = (last respType \<noteq> diskType);
          typeDefault = (diskType = '''' \<and> last respType = ''pd-standard'')
      in if \<not> requestValid \<or> \<not> responseValid
         then (True, Some (StatusError AlreadyExists
                ''Disk already exists with incompatible capacity. Need %v (Required) < %v (Existing) < %v (Limit)''))
         else if \<not> typeMatch \<and> \<not> typeDefault
         then (True, Some (StatusError AlreadyExists
                ''Disk already exists with incompatible type. Need %v. Got %v''))
         else (True, None))"

definition Fake_GetAndValidateExistingDisk ::
    "string \<Rightarrow> string \<Rightarrow> string \<Rightarrow> int64 \<Rightarrow> int64 \<Rightarrow> (FakeCloudProvider, bool \<times> error option) go" where
  "Fake_GetAndValidateExistingDisk configuredZone name diskType reqBytes limBytes cloud =
     (case fake_disks cloud name of
        None \<Rightarrow> (Ret (False, None), cloud)
      | Some disk \<Rightarrow> (Ret (Fake_validateDisk disk diskType reqBytes limBytes), cloud))"

text \<open>The operation returned by InsertDisk and DeleteDisk is the zero Operation.\<close>

definition zero_Operation :: Operation where
  "zero_Operation = \<lparr>op_Name = '''', op_Status = '''', op_Error = None\<rparr>"

definition Fake_InsertDisk ::
    "string \<Rightarrow> Disk \<Rightarrow> (FakeCloudProvider, Operation option \<times> error option) go" where
  "Fake_InsertDisk zone diskToCreate cloud =
     (Ret (Some zero_Operation, None),
      cloud\<lparr>fake_disks := (fake_disks cloud)(disk_Name diskToCreate \<mapsto> diskToCreate)\<rparr>)"

definition Fake_DeleteDisk ::
    "string \<Rightarrow> string \<Rightarrow> (FakeCloudProvider, Operation option \<times> error option) go" where
  "Fake_DeleteDisk zone name cloud =
     (Ret (Some zero_Operation, None), cloud\<lparr>fake_disks := (fake_disks cloud)(name := None)\<rparr>)"

definition Fake_AttachDisk ::
    "string \<Rightarrow> string \<Rightarrow> AttachedDisk \<Rightarrow> (FakeCloudProvider, Operation option \<times> error option) go" where
  "Fake_AttachDisk zone instanceName attachedDisk cloud =
     (case fake_instances cloud instanceName of
        None \<Rightarrow> (Ret (None, Some (PlainError ''Failed to get instance %v'')), cloud)
      | Some inst \<Rightarrow>
          (Ret (None, None),
           cloud\<lparr>fake_instances := (fake_instances cloud)
             (instanceName \<mapsto> inst\<lparr>inst_Disks := inst_Disks inst @ [attachedDisk]\<rparr>)\<rparr>))"

text \<open>The index of the first attached disk of that device name; Go's -1 is None.\<close>

fun device_index :: "AttachedDisk list \<Rightarrow> string \<Rightarrow> nat option" where
  "device_index [] volumeName = None"
| "device_index (d # ds) volumeName =
     (if ad_DeviceName d = volumeName then Some 0
      else map_option Suc (device_index ds volumeName))"

text \<open>
  Removal: the last element overwrites the found one and the slice is shortened. With the
  index -1 the assignment panics, and the state is unchanged.
\<close>

definition Fake_DetachDisk ::
    "string \<Rightarrow> string \<Rightarrow> string \<Rightarrow> (FakeCloudProvider, Operation option \<times> error option) go" where
  "Fake_DetachDisk volumeZone instanceName volumeName cloud =
     (case fake_instances cloud instanceName of
        None \<Rightarrow> (Ret (None, Some (PlainError ''Failed to get instance %v'')), cloud)
      | Some inst \<Rightarrow>
          (case device_index (inst_Disks inst) volumeName of
             None \<Rightarrow> (Panic, cloud)
           | Some found \<Rightarrow>
               (let disks = (inst_Disks inst)[found := last (inst_Disks inst)];
                    disks' = take (length disks - 1) disks
                in (Ret (None, None),
                    cloud\<lparr>fake_instances := (fake_instances cloud)
                      (instanceName \<mapsto> inst\<lparr>inst_Disks := disks'\<rparr>)\<rparr>))))"

definition Fake_GetDiskSourceURI :: "Disk \<Rightarrow> string \<Rightarrow> (FakeCloudProvider, string) go" where
  "Fake_GetDiskSourceURI disk zone = ret ''''"

definition Fake_GetDiskTypeURI :: "string \<Rightarrow> string \<Rightarrow> (FakeCloudProvider, string) go" where
  "Fake_GetDiskTypeURI zone diskType = ret ''''"

definition Fake_InsertInstance :: "Instance \<Rightarrow> string \<Rightarrow> FakeCloudProvider \<Rightarrow> FakeCloudProvider" where
  "Fake_InsertInstance inst instanceName cloud =
     cloud\<lparr>fake_instances := (fake_instances cloud)(instanceName \<mapsto> inst)\<rparr>"

definition Fake_GetInstanceOrError ::
    "string \<Rightarrow> string \<Rightarrow> (FakeCloudProvider, Instance option \<times> error option) go" where
  "Fake_GetInstanceOrError instanceZone instanceName cloud =
     (case fake_instances cloud instanceName of
        None \<Rightarrow> (Ret (None, Some (PlainError ''Could not find instance %v'')), cloud)
      | Some inst \<Rightarrow> (Ret (Some inst, None), cloud))"

definition Fake_WaitForOp ::
    "Operation option \<Rightarrow> string \<Rightarrow> (FakeCloudProvider, error option) go" where
  "Fake_WaitForOp op zone = ret None"

definition fakeCompute :: "FakeCloudProvider GCECompute" where
  "fakeCompute =
     \<lparr> GetProject = Fake_GetProject,
       GetZone = Fake_GetZone,
       GetDiskOrError = Fake_GetDiskOrError,
       GetAndValidateExistingDisk = Fake_GetAndValidateExistingDisk,
       InsertDisk = Fake_InsertDisk,
       DeleteDisk = Fake_DeleteDisk,
       AttachDisk = Fake_AttachDisk,
       DetachDisk = Fake_DetachDisk,
       GetDiskSourceURI = Fake_GetDiskSourceURI,
       GetDiskTypeURI = Fake_GetDiskTypeURI,
       GetInstanceOrError = Fake_GetInstanceOrError,
       WaitForOp = Fake_WaitForOp \<rparr>"

lemma fakeCompute_simps [simp]:
  "GetProject fakeCompute = Fake_GetProject"
  "GetZone fakeCompute = Fake_GetZone"
  "GetDiskOrError fakeCompute = Fake_GetDiskOrError"
  "GetAndValidateExistingDisk fakeCompute = Fake_GetAndValidateExistingDisk"
  "InsertDisk fakeCompute = Fake_InsertDisk"
  "DeleteDisk fakeCompute = Fake_DeleteDisk"
  "AttachDisk fakeCompute = Fake_AttachDisk"
  "DetachDisk fakeCompute = Fake_DetachDisk"
  "GetDiskSourceURI fakeCompute = Fake_GetDiskSourceURI"
  "GetDiskTypeURI fakeCompute = Fake_GetDiskTypeURI"
  "GetInstanceOrError fakeCompute = Fake_GetInstanceOrError"
  "WaitForOp fakeCompute = Fake_WaitForOp"
  by (simp_all add: fakeCompute_def)

lemmas Fake_defs = Fake_GetZone_def Fake_GetDiskOrError_def
  Fake_GetAndValidateExistingDisk_def Fake_InsertDisk_def Fake_DeleteDisk_def
  Fake_AttachDisk_def Fake_DetachDisk_def Fake_GetDiskSourceURI_def Fake_GetDiskTypeURI_def
  Fake_GetInstanceOrError_def Fake_WaitForOp_def

section \<open>Detaching\<close>

lemma device_index_None: "device_index ds v = None \<longleftrightarrow> v \<notin> ad_DeviceName ` set ds"
  by (induction ds) auto

lemma device_index_Some:
  "device_index ds v = Some i \<Longrightarrow> i < length ds \<and> ad_DeviceName (ds ! i) = v"
  by (induction ds arbitrary: i) (auto split: if_splits)

text \<open>Overwriting position \<open>i\<close> with the last element and dropping the last element removes
  the element at \<open>i\<close>.\<close>

lemma mset_swap_remove:
  assumes "i < length xs"
  shows "mset (take (length xs - 1) (xs[i := last xs])) = mset xs - {#xs ! i#}"
proof -
  obtain ys x where xs: "xs = ys @ [x]"
    using assms by (cases xs rule: rev_cases) auto
  show ?thesis
  proof (cases "i < length ys")
    case True
    have "mset (ys[i := x]) = add_mset x (mset ys - {#ys ! i#})"
      using True by (simp add: mset_update)
    moreover have "ys ! i \<in># mset ys" using True by simp
    ultimately show ?thesis
      using True by (simp add: xs list_update_append nth_append)
  next
    case False
    with assms have "i = length ys" by (simp add: xs)
    then show ?thesis by (simp add: xs)
  qed
qed

text \<open>What the device list becomes; the list without the device when it is not attached.\<close>

definition remove_device :: "AttachedDisk list \<Rightarrow> string \<Rightarrow> AttachedDisk list" where
  "remove_device ds v =
     (case device_index ds v of None \<Rightarrow> ds | Some i \<Rightarrow> take (length ds - 1) (ds[i := last ds]))"

lemma mset_remove_device:
  assumes "v \<in> ad_DeviceName ` set ds"
  shows "\<exists>a \<in># mset ds. ad_DeviceName a = v \<and> mset (remove_device ds v) = mset ds - {#a#}"
proof -
  from assms obtain i where i: "device_index ds v = Some i"
    by (cases "device_index ds v") (auto simp: device_index_None)
  from device_index_Some [OF i] have "i < length ds" "ad_DeviceName (ds ! i) = v" by auto
  then show ?thesis
    using mset_swap_remove [of i ds]
    by (intro bexI [of _ "ds ! i"]) (simp_all add: remove_device_def i)
qed

lemma Fake_DetachDisk_attached:
  assumes "fake_instances c i = Some inst" and "v \<in> ad_DeviceName ` set (inst_Disks inst)"
  shows "Fake_DetachDisk z i v c = (Ret (None, None),
    c\<lparr>fake_instances := (fake_instances c)
        (i \<mapsto> inst\<lparr>inst_Disks := remove_device (inst_Disks inst) v\<rparr>)\<rparr>)"
proof -
  from assms(2) obtain n where "device_index (inst_Disks inst) v = Some n"
    by (cases "device_index (inst_Disks inst) v") (auto simp: device_index_None)
  with assms(1) show ?thesis
    by (simp add: Fake_DetachDisk_def remove_device_def Let_def)
qed

text \<open>Detaching on the fake provider: an unknown instance is an error, a disk that is not
  attached is a panic (slice index -1), and otherwise exactly one attachment of that device
  name is removed and every other one is kept, in an order that may change.\<close>

lemma Fake_DetachDisk_removes_one:
  "case fake_instances c i of
     None \<Rightarrow> (\<exists>e. Fake_DetachDisk z i v c = (Ret (None, Some e), c))
   | Some inst \<Rightarrow>
       if v \<in> ad_DeviceName ` set (inst_Disks inst)
       then \<exists>a ds. a \<in># mset (inst_Disks inst) \<and> ad_DeviceName a = v \<and>
              mset ds = mset (inst_Disks inst) - {#a#} \<and>
              Fake_DetachDisk z i v c = (Ret (None, None),
                c\<lparr>fake_instances := (fake_instances c)(i \<mapsto> inst\<lparr>inst_Disks := ds\<rparr>)\<rparr>)
       else Fake_DetachDisk z i v c = (Panic, c)"
proof (cases "fake_instances c i")
  case None
  then show ?thesis by (simp add: Fake_DetachDisk_def)
next
  case (Some inst)
  show ?thesis
  proof (cases "v \<in> ad_DeviceName ` set (inst_Disks inst)")
    case True
    from mset_remove_device [OF this] Fake_DetachDisk_attached [OF Some this] show ?thesis
      using True by (auto simp: Some)
  next
    case False
    then have "device_index (inst_Disks inst) v = None" by (simp add: device_index_None)
    with False show ?thesis by (simp add: Some Fake_DetachDisk_def)
  qed
qed

section \<open>The provider keeps the contract\<close>

text \<open>Invariant: a disk is stored under its own name.\<close>

definition fake_inv :: "FakeCloudProvider \<Rightarrow> bool" where
  "fake_inv c \<longleftrightarrow> (\<forall>k d. fake_disks c k = Some d \<longrightarrow> disk_Name d = k)"

lemma fake_inv_init: "fake_inv (fst (FakeCreateCloudProvider p z))"
  by (simp add: fake_inv_def FakeCreateCloudProvider_def)

lemma fake_invD: "fake_inv c \<Longrightarrow> fake_disks c k = Some d \<Longrightarrow> disk_Name d = k"
  by (simp add: fake_inv_def)

lemma fake_inv_instances [simp]: "fake_inv (c\<lparr>fake_instances := m\<rparr>) = fake_inv c"
  by (simp add: fake_inv_def)

lemma Fake_validateDisk_error_code:
  "\<exists>b err. Fake_validateDisk d t r l = (b, err) \<and>
     (\<forall>e. err = Some e \<longrightarrow> error_code e = AlreadyExists)"
  by (auto simp: Fake_validateDisk_def Let_def)

interpretation fake: gce_compute fakeCompute fake_inv "\<lambda>_. True"
proof unfold_locales
  fix s0 z v d s1 i inst s2
  assume inv: "fake_inv s0"
    and disk: "GetDiskOrError fakeCompute z v s0 = (Ret (Some d, None), s1)"
    and inst: "GetInstanceOrError fakeCompute z i s1 = (Ret (Some inst, None), s2)"
    and attached: "disk_Name d \<in> ad_DeviceName ` set (inst_Disks inst)"
  from disk have "fake_disks s0 v = Some d" and "s1 = s0"
    by (auto simp: Fake_GetDiskOrError_def split: option.splits)
  with inv have "disk_Name d = v" by (auto dest: fake_invD)
  moreover from inst have "fake_instances s1 i = Some inst" and "s2 = s1"
    by (auto simp: Fake_GetInstanceOrError_def split: option.splits)
  ultimately show "triple (\<lambda>s. s = s2) (DetachDisk fakeCompute z i v)
      (\<lambda>(op, err) s. fake_inv s \<and> (err = None \<longrightarrow> True))"
    using attached inv \<open>s1 = s0\<close> by (auto simp: triple_def Fake_DetachDisk_attached)
qed (auto simp: Fake_defs triple_def fake_inv_def split: option.splits
       intro: Fake_validateDisk_error_code)

end
