(* ===== verification/Controller.thy ===== *)
theory Controller
  imports Driver CloudProvider FakeCloud
begin

text \<open>
  pkg/gce-csi-driver/controller.go: the controller service. Each handler is one definition
  over a provider \<open>cp\<close> and returns the pair of the Go code, a response pointer and an error.
  The lemmas about every provider stand in the locale of the provider contract.
\<close>

section \<open>Constants and requested capacity\<close>

definition MaxVolumeSize :: int64 where "MaxVolumeSize = 64000000000000"
definition DefaultVolumeSize :: int64 where "DefaultVolumeSize = 5000000000"
definition MinimumDiskSizeInGb :: int64 where "MinimumDiskSizeInGb = 5"
definition DiskTypeSSD :: string where "DiskTypeSSD = ''pd-ssd''"
definition DiskTypeStandard :: string where "DiskTypeStandard = ''pd-standard''"

definition getRequestCapacity :: "CapacityRange option \<Rightarrow> int64" where
  "getRequestCapacity capRange =
     (case capRange of
        None \<Rightarrow> DefaultVolumeSize
      | Some _ \<Rightarrow>
          (let capBytes =
                 (if 0 <s GetRequiredBytes capRange then GetRequiredBytes capRange
                  else if 0 <s GetLimitBytes capRange then GetLimitBytes capRange
                  else 0)
           in if capBytes <s DefaultVolumeSize then DefaultVolumeSize else capBytes))"

section \<open>CreateVolume\<close>

text \<open>The loop over the parameters, carrying the disk type and the zone.\<close>

fun apply_parameters ::
    "(string \<times> string) list \<Rightarrow> string \<Rightarrow> string \<Rightarrow> error + (string \<times> string)" where
  "apply_parameters [] diskType configuredZone = Inr (diskType, configuredZone)"
| "apply_parameters ((k, v) # ps) diskType configuredZone =
     (if k = ''csiProvisionerSecretName'' \<or> k = ''csiProvisionerSecretNamespace''
      then apply_parameters ps diskType configuredZone
      else if ToLower k = ''type'' then apply_parameters ps v configuredZone
      else if ToLower k = ''zone'' then apply_parameters ps diskType v
      else Inl (StatusError InvalidArgument ''invalid option %q''))"

text \<open>The two identical blocks run when the API says the disk already exists.\<close>

definition recheck_existing ::
    "'s GCECompute \<Rightarrow> string \<Rightarrow> string \<Rightarrow> string \<Rightarrow> CapacityRange option \<Rightarrow> CreateVolumeResponse \<Rightarrow>
     ('s, CreateVolumeResponse option \<times> error option) go" where
  "recheck_existing cp configuredZone name diskType capacityRange createResp =
     call (GetAndValidateExistingDisk cp configuredZone name diskType
             (GetRequiredBytes capacityRange) (GetLimitBytes capacityRange)) (\<lambda>(_, err).
       case err of
         Some e \<Rightarrow> ret (None, Some e)
       | None \<Rightarrow> ret (Some createResp, None))"

definition disk_size :: "int64 \<Rightarrow> int64" where
  "disk_size capBytes =
     (let sizeGb = BytesToGb capBytes
      in if sizeGb <s MinimumDiskSizeInGb then MinimumDiskSizeInGb else sizeGb)"

definition create_response :: "int64 \<Rightarrow> string \<Rightarrow> string \<Rightarrow> CreateVolumeResponse" where
  "create_response capBytes configuredZone name =
     \<lparr>cvr_Volume = \<lparr>vol_CapacityBytes = capBytes,
        vol_Id = CombineVolumeId configuredZone name, vol_Attributes = None\<rparr>\<rparr>"

definition CreateVolume ::
    "'s GCECompute \<Rightarrow> CreateVolumeRequest \<Rightarrow> ('s, CreateVolumeResponse option \<times> error option) go"
  where
  "CreateVolume cp req =
     (let volumeCapabilities = cv_VolumeCapabilities req;
          name = cv_Name req;
          capacityRange = cv_CapacityRange req
      in if name = '''' then
           ret (None, Some (StatusError InvalidArgument ''CreateVolume Name must be provided''))
         else if volumeCapabilities = [] then
           ret (None, Some (StatusError InvalidArgument
             ''CreateVolume Volume capabilities must be provided''))
         else
           let capBytes = getRequestCapacity capacityRange in
           call (GetZone cp) (\<lambda>(configuredZone, err).
           if err \<noteq> None then
             ret (None, Some (StatusError Internal ''CreateVolume failed to get zone''))
           else case apply_parameters (cv_Parameters req) DiskTypeStandard configuredZone of
             Inl e \<Rightarrow> ret (None, Some e)
           | Inr (diskType, configuredZone) \<Rightarrow>
             let createResp = create_response capBytes configuredZone name in
             call (GetAndValidateExistingDisk cp configuredZone name diskType
                     (GetRequiredBytes capacityRange) (GetLimitBytes capacityRange))
               (\<lambda>(exists, err).
             case err of Some e \<Rightarrow> ret (None, Some e) | None \<Rightarrow>
             if exists then ret (Some createResp, None)
             else
               let sizeGb = disk_size capBytes in
               call (GetDiskTypeURI cp configuredZone diskType) (\<lambda>uri.
               let diskToCreate =
                     \<lparr>disk_Name = name, disk_SizeGb = sizeGb,
                      disk_Description = ''Disk created by GCE-PD CSI Driver'',
                      disk_Type = uri, disk_Kind = ''''\<rparr> in
               call (InsertDisk cp configuredZone diskToCreate) (\<lambda>(insertOp, err).
               case err of
                 Some e \<Rightarrow>
                   if IsGCEError e ''alreadyExists''
                   then recheck_existing cp configuredZone name diskType capacityRange createResp
                   else ret (None, Some (StatusError Internal ''unkown Insert disk error: %v''))
               | None \<Rightarrow>
               call (WaitForOp cp insertOp configuredZone) (\<lambda>err.
               case err of
                 Some e \<Rightarrow>
                   if IsGCEError e ''alreadyExists''
                   then recheck_existing cp configuredZone name diskType capacityRange createResp
                   else ret (None, Some (StatusError Internal
                          ''unkown Insert disk operation error: %v''))
               | None \<Rightarrow> ret (Some createResp, None)))))))"

section \<open>DeleteVolume\<close>

definition DeleteVolume ::
    "'s GCECompute \<Rightarrow> DeleteVolumeRequest \<Rightarrow> ('s, DeleteVolumeResponse option \<times> error option) go"
  where
  "DeleteVolume cp req =
     (let volumeID = dv_VolumeId req
      in if volumeID = '''' then
           ret (None, Some (StatusError InvalidArgument ''DeleteVolume Volume ID must be provided''))
         else case SplitZoneNameId volumeID of
           (_, _, Some _) \<Rightarrow> ret (Some DeleteVolumeResponse, None)
         | (zone, name, None) \<Rightarrow>
           call (DeleteDisk cp zone name) (\<lambda>(deleteOp, err).
           case err of
             Some e \<Rightarrow>
               if IsGCEError e ''resourceInUseByAnotherResource''
               then ret (None, Some (StatusError FailedPrecondition ''Volume in use: %v''))
               else if IsGCEError e ''notFound'' then ret (Some DeleteVolumeResponse, None)
               else ret (None, Some (StatusError Internal ''unknown Delete disk error: %v''))
           | None \<Rightarrow>
             call (WaitForOp cp deleteOp zone) (\<lambda>err.
             case err of
               Some e \<Rightarrow> ret (None, Some (StatusError Internal
                           ''unknown Delete disk operation error: %v''))
             | None \<Rightarrow> ret (Some DeleteVolumeResponse, None))))"

section \<open>ControllerPublishVolume and ControllerUnpublishVolume\<close>

text \<open>The loops over the attached disks; the volume pointer is dereferenced in the body.\<close>

fun diskIsAttached_loop :: "Disk option \<Rightarrow> AttachedDisk list \<Rightarrow> bool outcome" where
  "diskIsAttached_loop volume [] = Ret False"
| "diskIsAttached_loop volume (disk # disks) =
     (case volume of
        None \<Rightarrow> Panic
      | Some v \<Rightarrow>
          if ad_DeviceName disk = disk_Name v then Ret True
          else diskIsAttached_loop volume disks)"

definition diskIsAttached :: "Disk option \<Rightarrow> Instance option \<Rightarrow> bool outcome" where
  "diskIsAttached volume inst =
     (case inst of None \<Rightarrow> Panic | Some i \<Rightarrow> diskIsAttached_loop volume (inst_Disks i))"

fun diskIsAttachedAndCompatible_loop ::
    "Disk option \<Rightarrow> AttachedDisk list \<Rightarrow> string \<Rightarrow> (bool \<times> error option) outcome" where
  "diskIsAttachedAndCompatible_loop volume [] readWrite = Ret (False, None)"
| "diskIsAttachedAndCompatible_loop volume (disk # disks) readWrite =
     (case volume of
        None \<Rightarrow> Panic
      | Some v \<Rightarrow>
          if ad_DeviceName disk = disk_Name v then
            (if ad_Mode disk \<noteq> readWrite
             then Ret (True, Some (PlainError ''disk mode does not match. Got %v. Want %v''))
             else Ret (True, None))
          else diskIsAttachedAndCompatible_loop volume disks readWrite)"

definition diskIsAttachedAndCompatible ::
    "Disk option \<Rightarrow> Instance option \<Rightarrow> VolumeCapability \<Rightarrow> string \<Rightarrow> (bool \<times> error option) outcome"
  where
  "diskIsAttachedAndCompatible volume inst volumeCapability readWrite =
     (case inst of
        None \<Rightarrow> Panic
      | Some i \<Rightarrow> diskIsAttachedAndCompatible_loop volume (inst_Disks i) readWrite)"

text \<open>The end of the handler, when the disk is not attached yet.\<close>

definition attachVolume ::
    "'s GCECompute \<Rightarrow> string \<Rightarrow> string \<Rightarrow> Disk \<Rightarrow> string \<Rightarrow> ControllerPublishVolumeResponse \<Rightarrow>
     ('s, ControllerPublishVolumeResponse option \<times> error option) go" where
  "attachVolume cp volumeZone nodeID disk readWrite pubVolResp =
     call (GetDiskSourceURI cp disk volumeZone) (\<lambda>source.
     let attachedDiskV1 =
           \<lparr>ad_DeviceName = disk_Name disk, ad_Kind = disk_Kind disk, ad_Mode = readWrite,
            ad_Source = source, ad_Type = disk_Type disk\<rparr> in
     call (AttachDisk cp volumeZone nodeID attachedDiskV1) (\<lambda>(attachOp, err).
     if err \<noteq> None then
       ret (None, Some (StatusError Internal ''unknown Attach error: %v''))
     else
     call (WaitForOp cp attachOp volumeZone) (\<lambda>err.
     if err \<noteq> None then
       ret (None, Some (StatusError Internal ''unknown Attach operation error: %v''))
     else ret (Some pubVolResp, None))))"

definition ControllerPublishVolume ::
    "'s GCECompute \<Rightarrow> ControllerPublishVolumeRequest \<Rightarrow>
     ('s, ControllerPublishVolumeResponse option \<times> error option) go" where
  "ControllerPublishVolume cp req =
     (let volumeID = cp_VolumeId req;
          readOnly = cp_Readonly req;
          nodeID = cp_NodeId req
      in if volumeID = '''' then
           ret (None, Some (StatusError InvalidArgument
             ''ControllerPublishVolume Volume ID must be provided''))
         else if nodeID = '''' then
           ret (None, Some (StatusError InvalidArgument
             ''ControllerPublishVolume Node ID must be provided''))
         else case cp_VolumeCapability req of
           None \<Rightarrow> ret (None, Some (StatusError InvalidArgument
             ''ControllerPublishVolume Volume capability must be provided''))
         | Some volumeCapability \<Rightarrow>
         (case SplitZoneNameId volumeID of
           (_, _, Some e) \<Rightarrow> ret (None, Some e)
         | (volumeZone, volumeName, None) \<Rightarrow>
           let pubVolResp = \<lparr>cpr_PublishInfo = None\<rparr> in
           call (GetDiskOrError cp volumeZone volumeName) (\<lambda>(disk, err).
           case err of Some e \<Rightarrow> ret (None, Some e) | None \<Rightarrow>
           call (GetInstanceOrError cp volumeZone nodeID) (\<lambda>(inst, err).
           case err of Some e \<Rightarrow> ret (None, Some e) | None \<Rightarrow>
           let readWrite = (if readOnly then ''READ_ONLY'' else ''READ_WRITE'') in
           call (lift_out (diskIsAttachedAndCompatible disk inst volumeCapability readWrite))
             (\<lambda>(attached, err).
           if err \<noteq> None then
             ret (None, Some (StatusError AlreadyExists
               ''Disk %v already published to node %v but incompatbile: %v''))
           else if attached then ret (Some pubVolResp, None)
           else deref disk (\<lambda>d. attachVolume cp volumeZone nodeID d readWrite pubVolResp))))))"

definition ControllerUnpublishVolume ::
    "'s GCECompute \<Rightarrow> ControllerUnpublishVolumeRequest \<Rightarrow>
     ('s, ControllerUnpublishVolumeResponse option \<times> error option) go" where
  "ControllerUnpublishVolume cp req =
     (let volumeID = cu_VolumeId req;
          nodeID = cu_NodeId req
      in if volumeID = '''' then
           ret (None, Some (StatusError InvalidArgument
             ''ControllerUnpublishVolume Volume ID must be provided''))
         else if nodeID = '''' then
           ret (None, Some (StatusError InvalidArgument
             ''ControllerUnpublishVolume Node ID must be provided''))
         else case SplitZoneNameId volumeID of
           (_, _, Some e) \<Rightarrow> ret (None, Some e)
         | (volumeZone, volumeName, None) \<Rightarrow>
           call (GetDiskOrError cp volumeZone volumeName) (\<lambda>(disk, err).
           case err of Some e \<Rightarrow> ret (None, Some e) | None \<Rightarrow>
           call (GetInstanceOrError cp volumeZone nodeID) (\<lambda>(inst, err).
           case err of Some e \<Rightarrow> ret (None, Some e) | None \<Rightarrow>
           call (lift_out (diskIsAttached disk inst)) (\<lambda>attached.
           if \<not> attached then ret (Some ControllerUnpublishVolumeResponse, None)
           else
           call (DetachDisk cp volumeZone nodeID volumeName) (\<lambda>(detachOp, err).
           if err \<noteq> None then
             ret (None, Some (StatusError Internal ''unknown detach error: %v''))
           else
           call (WaitForOp cp detachOp volumeZone) (\<lambda>err.
           if err \<noteq> None then
             ret (None, Some (StatusError Internal ''unknown detach operation error: %v''))
           else ret (Some ControllerUnpublishVolumeResponse, None)))))))"

section \<open>ValidateVolumeCapabilities and the remaining calls\<close>

text \<open>
  The inner loop sets \<open>found\<close> and runs to its end; each of its comparisons dereferences the
  access mode of the capability, and so does the message of a mode that is not found.
\<close>

fun found_mode :: "int32 list \<Rightarrow> int32 option \<Rightarrow> bool \<Rightarrow> bool outcome" where
  "found_mode [] mode found = Ret found"
| "found_mode (c1 # vcap) mode found =
     (case mode of
        None \<Rightarrow> Panic
      | Some m \<Rightarrow> found_mode vcap mode (if c1 = m then True else found))"

fun validate_capabilities ::
    "int32 list \<Rightarrow> VolumeCapability list \<Rightarrow>
     (ValidateVolumeCapabilitiesResponse option \<times> error option) outcome" where
  "validate_capabilities vcap [] =
     Ret (Some \<lparr>vvr_Supported = True, vvr_Message = ''''\<rparr>, None)"
| "validate_capabilities vcap (c # cs) =
     (case found_mode vcap (vc_AccessMode c) False of
        Panic \<Rightarrow> Panic
      | Ret found \<Rightarrow>
          if \<not> found then
            (case vc_AccessMode c of
               None \<Rightarrow> Panic
             | Some m \<Rightarrow>
                 Ret (Some \<lparr>vvr_Supported = False,
                        vvr_Message = ''Driver does not support mode:'' @ AccessMode_String m\<rparr>,
                      Some (StatusError InvalidArgument
                        (''Driver does not support mode:'' @ AccessMode_String m))))
          else validate_capabilities vcap cs)"

definition ValidateVolumeCapabilities ::
    "('cp, 'm) GCEDriver \<Rightarrow> ValidateVolumeCapabilitiesRequest \<Rightarrow>
     (ValidateVolumeCapabilitiesResponse option \<times> error option) outcome" where
  "ValidateVolumeCapabilities drv req =
     (if vv_VolumeId req = '''' then
        Ret (None, Some (StatusError InvalidArgument
          ''ControllerUnpublishVolume Volume ID must be provided''))
      else if vv_VolumeCapabilities req = [] then
        Ret (None, Some (StatusError InvalidArgument
          ''ControllerUnpublishVolume Volume Capabilities must be provided''))
      else validate_capabilities (drv_vcap drv) (vv_VolumeCapabilities req))"

definition ListVolumes :: "unit option \<times> error option" where
  "ListVolumes = (None, Some (StatusError Unimplemented ''''))"

definition GetCapacity :: "unit option \<times> error option" where
  "GetCapacity = (None, Some (StatusError Unimplemented ''''))"

definition ControllerGetCapabilities ::
    "('cp, 'm) GCEDriver \<Rightarrow> ServiceCapability list option \<times> error option" where
  "ControllerGetCapabilities drv = (Some (drv_cscap drv), None)"

section \<open>Every provider: no panic, the invariant is kept, the codes returned\<close>

lemma apply_parameters_error:
  "apply_parameters ps t z = Inl e \<Longrightarrow> e = StatusError InvalidArgument ''invalid option %q''"
  by (induction ps t z rule: apply_parameters.induct) (auto split: if_splits)

lemma apply_parameters_code:
  "apply_parameters ps t z = Inl e \<Longrightarrow> error_code e = InvalidArgument"
  by (auto dest: apply_parameters_error)

lemma diskIsAttached_loop_eq:
  "diskIsAttached_loop (Some d) ds = Ret (disk_Name d \<in> ad_DeviceName ` set ds)"
  by (induction ds) auto

lemma diskIsAttached_eq [simp]:
  "diskIsAttached (Some d) (Some i) = Ret (disk_Name d \<in> ad_DeviceName ` set (inst_Disks i))"
  by (simp add: diskIsAttached_def diskIsAttached_loop_eq)

text \<open>The first attached disk of the volume's name decides.\<close>

definition attached_result :: "AttachedDisk option \<Rightarrow> string \<Rightarrow> bool \<times> error option" where
  "attached_result found rw =
     (case found of
        None \<Rightarrow> (False, None)
      | Some a \<Rightarrow> (True, if ad_Mode a \<noteq> rw
          then Some (PlainError ''disk mode does not match. Got %v. Want %v'') else None))"

lemma diskIsAttachedAndCompatible_loop_eq:
  "diskIsAttachedAndCompatible_loop (Some d) ds rw =
     Ret (attached_result (find (\<lambda>a. ad_DeviceName a = disk_Name d) ds) rw)"
  by (induction ds) (auto simp: attached_result_def)

lemma diskIsAttachedAndCompatible_eq [simp]:
  "diskIsAttachedAndCompatible (Some d) (Some i) c rw =
     Ret (attached_result (find (\<lambda>a. ad_DeviceName a = disk_Name d) (inst_Disks i)) rw)"
  by (simp add: diskIsAttachedAndCompatible_def diskIsAttachedAndCompatible_loop_eq)

text \<open>With a nil pointer the loops panic as soon as they dereference it.\<close>

lemma diskIsAttached_nil [simp]:
  "diskIsAttached d None = Panic"
  "diskIsAttached None (Some i) = (if inst_Disks i = [] then Ret False else Panic)"
  by (auto simp: diskIsAttached_def neq_Nil_conv)

lemma diskIsAttachedAndCompatible_nil [simp]:
  "diskIsAttachedAndCompatible d None c rw = Panic"
  "diskIsAttachedAndCompatible None (Some i) c rw =
     (if inst_Disks i = [] then Ret (False, None) else Panic)"
  by (auto simp: diskIsAttachedAndCompatible_def neq_Nil_conv)

lemma attached_result_simps [simp]:
  "fst (attached_result x rw) \<longleftrightarrow> x \<noteq> None"
  "snd (attached_result x rw) = None \<longleftrightarrow> (\<forall>a. x = Some a \<longrightarrow> ad_Mode a = rw)"
  by (auto simp: attached_result_def split: option.splits)

context gce_requests
begin

lemma call_GetZone [go_rules]:
  "(\<And>z err. triple inv (k z err) Q) \<Longrightarrow> triple inv (call (GetZone cp) (\<lambda>(z, err). k z err)) Q"
  by (rule triple_call_fact_pair [where C = "\<lambda>_ _. True"]) (auto intro: triple_conseq [OF get_zone])

lemma call_GetDisk [go_rules]:
  "(\<And>d err. (d = None \<Longrightarrow> err \<noteq> None) \<Longrightarrow> triple inv (k d err) Q) \<Longrightarrow>
     triple inv (call (GetDiskOrError cp z n) (\<lambda>(d, err). k d err)) Q"
  by (rule triple_call_fact_pair [OF get_disk]) auto

lemma call_GetInstance [go_rules]:
  "(\<And>d err. (d = None \<Longrightarrow> err \<noteq> None) \<Longrightarrow> triple inv (k d err) Q) \<Longrightarrow>
     triple inv (call (GetInstanceOrError cp z n) (\<lambda>(d, err). k d err)) Q"
  by (rule triple_call_fact_pair [OF get_instance]) auto

lemma call_validate [go_rules]:
  "(\<And>ex err. (\<And>e. err = Some e \<Longrightarrow> error_code e = AlreadyExists) \<Longrightarrow> triple inv (k ex err) Q) \<Longrightarrow>
     triple inv (call (GetAndValidateExistingDisk cp z n t r l) (\<lambda>(ex, err). k ex err)) Q"
  by (rule triple_call_fact_pair [OF validate_disk]) auto

lemma call_modify [go_rules]:
  "(\<And>op err. (err = None \<Longrightarrow> opok op) \<Longrightarrow> triple inv (k op err) Q) \<Longrightarrow>
     triple inv (call (InsertDisk cp z d) (\<lambda>(op, err). k op err)) Q"
  "(\<And>op err. (err = None \<Longrightarrow> opok op) \<Longrightarrow> triple inv (k op err) Q) \<Longrightarrow>
     triple inv (call (DeleteDisk cp z n) (\<lambda>(op, err). k op err)) Q"
  "(\<And>op err. (err = None \<Longrightarrow> opok op) \<Longrightarrow> triple inv (k op err) Q) \<Longrightarrow>
     triple inv (call (AttachDisk cp z i a) (\<lambda>(op, err). k op err)) Q"
  by (rule triple_call_fact_pair [OF insert_disk], blast)
     (rule triple_call_fact_pair [OF delete_disk], blast,
      rule triple_call_fact_pair [OF attach_disk], blast)

lemma call_uri [go_rules]:
  "(\<And>u. triple inv (k u) Q) \<Longrightarrow> triple inv (call (GetDiskTypeURI cp z t) k) Q"
  "(\<And>u. triple inv (k u) Q) \<Longrightarrow> triple inv (call (GetDiskSourceURI cp d z) k) Q"
  by (rule triple_call [OF type_uri], blast) (rule triple_call [OF source_uri], blast)

lemma call_WaitForOp [go_rules]:
  "opok op \<Longrightarrow> (\<And>err. triple inv (k err) Q) \<Longrightarrow> triple inv (call (WaitForOp cp op z) k) Q"
  by (rule triple_call [OF wait_for_op]) blast+

lemma recheck_existing_safe [go_rules]:
  "AlreadyExists \<in> C \<Longrightarrow>
   triple inv (recheck_existing cp z n t cr resp) (\<lambda>(resp, err) s. inv s \<and> reply_ok C resp err)"
  unfolding recheck_existing_def by (intro go_rules) auto

lemma CreateVolume_safe:
  "triple inv (CreateVolume cp req)
     (\<lambda>(resp, err) s. inv s \<and> reply_ok {InvalidArgument, AlreadyExists, Internal} resp err)"
  unfolding CreateVolume_def Let_def
  by (auto intro!: go_rules split: sum.split dest!: apply_parameters_code)

lemma DeleteVolume_safe:
  "triple inv (DeleteVolume cp req)
     (\<lambda>(resp, err) s. inv s \<and> reply_ok {InvalidArgument, FailedPrecondition, Internal} resp err)"
  unfolding DeleteVolume_def Let_def
  by (cases rule: SplitZoneNameId_cases [of "dv_VolumeId req"]) (auto intro!: go_rules)

lemma attachVolume_safe [go_rules]:
  "triple inv (attachVolume cp z n d rw resp) (\<lambda>(resp, err) s. inv s \<and> reply_ok UNIV resp err)"
  unfolding attachVolume_def Let_def by (auto intro!: go_rules)

lemma ControllerPublishVolume_safe:
  "triple inv (ControllerPublishVolume cp req) (\<lambda>(resp, err) s. inv s \<and> reply_ok UNIV resp err)"
  unfolding ControllerPublishVolume_def Let_def
  by (cases rule: SplitZoneNameId_cases [of "cp_VolumeId req"])
     (auto intro!: go_rules simp: case_prod_beta)

end

text \<open>Unpublishing needs the two lookups and the detach in one run.\<close>

context gce_compute
begin

lemma get_disk_run:
  "inv s \<Longrightarrow> \<exists>d err s1. GetDiskOrError cp z n s = (Ret (d, err), s1) \<and> inv s1 \<and>
     (d = None \<longrightarrow> err \<noteq> None)"
  using get_disk [of z n] by (fastforce simp: triple_def)

lemma get_instance_run:
  "inv s \<Longrightarrow> \<exists>d err s1. GetInstanceOrError cp z n s = (Ret (d, err), s1) \<and> inv s1 \<and>
     (d = None \<longrightarrow> err \<noteq> None)"
  using get_instance [of z n] by (fastforce simp: triple_def)

lemma detach_and_wait_safe:
  assumes "inv s0" and "GetDiskOrError cp z v s0 = (Ret (Some d, None), s1)"
    and "GetInstanceOrError cp z i s1 = (Ret (Some inst, None), s2)"
    and "disk_Name d \<in> ad_DeviceName ` set (inst_Disks inst)"
    and "\<And>op err. (err = None \<Longrightarrow> opok op) \<Longrightarrow> triple inv (k op err) Q"
  shows "triple (\<lambda>s. s = s2) (call (DetachDisk cp z i v) (\<lambda>(op, err). k op err)) Q"
proof (rule triple_call [OF detach_disk [OF assms(1-4)]])
  show "triple ((case a of (op, err) \<Rightarrow> \<lambda>s. inv s \<and> (err = None \<longrightarrow> opok op)))
      (case a of (op, err) \<Rightarrow> k op err) Q" for a
    using assms(5) [of "snd a" "fst a"] by (cases a) (auto simp: triple_def)
qed

lemma ControllerUnpublishVolume_safe:
  "triple inv (ControllerUnpublishVolume cp req) (\<lambda>(resp, err) s. inv s \<and> reply_ok UNIV resp err)"
proof (cases rule: SplitZoneNameId_cases [of "cu_VolumeId req"])
  case (bad m)
  then show ?thesis
    by (simp add: ControllerUnpublishVolume_def Let_def triple_def)
next
  case (ok z v)
  let ?Q = "\<lambda>(resp :: ControllerUnpublishVolumeResponse option, err) s. inv s \<and> reply_ok UNIV resp err"
  show ?thesis
  proof (rule tripleI)
    fix s
    assume inv: "inv s"
    obtain d err s1 where disk: "GetDiskOrError cp z v s = (Ret (d, err), s1)"
      and s1: "inv s1" "d = None \<longrightarrow> err \<noteq> None"
      using get_disk_run [OF inv] by blast
    obtain inst err' s2 where inst: "GetInstanceOrError cp z (cu_NodeId req) s1 = (Ret (inst, err'), s2)"
      and s2: "inv s2" "inst = None \<longrightarrow> err' \<noteq> None"
      using get_instance_run [OF s1(1)] by blast
    show "\<exists>a s'. ControllerUnpublishVolume cp req s = (Ret a, s') \<and> ?Q a s'"
    proof (cases "err = None \<and> err' = None")
      case False
      with ok disk inst inv s1 s2 show ?thesis
        by (cases err; cases err') (auto simp: ControllerUnpublishVolume_def Let_def call_Ret)
    next
      case True
      with s1 s2 obtain dv iv where d: "d = Some dv" and i: "inst = Some iv" by auto
      have lookups: "GetDiskOrError cp z v s = (Ret (Some dv, None), s1)"
        "GetInstanceOrError cp z (cu_NodeId req) s1 = (Ret (Some iv, None), s2)"
        using disk inst True d i by simp_all
      have "triple (\<lambda>s. s = s2)
        (call (DetachDisk cp z (cu_NodeId req) v) (\<lambda>(detachOp, err).
           if err \<noteq> None then
             ret (None, Some (StatusError Internal ''unknown detach error: %v''))
           else call (WaitForOp cp detachOp z) (\<lambda>err.
             if err \<noteq> None then
               ret (None, Some (StatusError Internal ''unknown detach operation error: %v''))
             else ret (Some ControllerUnpublishVolumeResponse, None)))) ?Q"
        if "disk_Name dv \<in> ad_DeviceName ` set (inst_Disks iv)"
        by (rule detach_and_wait_safe [OF inv lookups that]) (auto intro!: go_rules)
      with ok lookups inv s2 show ?thesis
        by (auto simp: ControllerUnpublishVolume_def Let_def call_Ret triple_def)
    qed
  qed
qed

end

end
