(* ===== verification/ControllerProps.thy ===== *)
theory ControllerProps
  imports Controller
begin

text \<open>
  What the controller service guarantees: totality and codes over both providers, capacity
  and size arithmetic, parameters, the calls each handler makes and in which order, the
  outcome of a create on an existing disk, and the validation of capabilities.
\<close>

section \<open>Totality and codes\<close>

lemma safe_run_any:
  assumes "triple (\<lambda>_. True) m (\<lambda>(resp, err) s. True \<and> reply_ok C resp err)"
  shows "\<exists>resp err s'. m s = (Ret (resp, err), s') \<and> reply_ok C resp err"
  using assms by (fastforce simp: triple_def)

lemma safe_run:
  assumes "triple P m (\<lambda>(resp, err) s. P s \<and> reply_ok C resp err)" and "P s"
  shows "\<exists>resp err s'. m s = (Ret (resp, err), s') \<and> P s' \<and> reply_ok C resp err"
  using assms by (fastforce simp: triple_def)

text \<open>Over the real provider, for every API service whatsoever (any mix of errors, any
  resources, any timing), creating, deleting, publishing and unpublishing a volume never panic,
  nil pointers included: they return either a response or an error. The error of a create is
  InvalidArgument, AlreadyExists or Internal, that of a delete InvalidArgument,
  FailedPrecondition or Internal.\<close>

lemma controller_total_cloud:
  "(\<exists>resp err s'. CreateVolume (cloudCompute (gce_cloud svc p z)) creq s = (Ret (resp, err), s') \<and>
      reply_ok {InvalidArgument, AlreadyExists, Internal} resp err) \<and>
   (\<exists>resp err s'. DeleteVolume (cloudCompute (gce_cloud svc p z)) dreq s = (Ret (resp, err), s') \<and>
      reply_ok {InvalidArgument, FailedPrecondition, Internal} resp err) \<and>
   (\<exists>resp err s'. ControllerPublishVolume (cloudCompute (gce_cloud svc p z)) preq s =
      (Ret (resp, err), s') \<and> reply_ok UNIV resp err) \<and>
   (\<exists>resp err s'. ControllerUnpublishVolume (cloudCompute (gce_cloud svc p z)) ureq s =
      (Ret (resp, err), s') \<and> reply_ok UNIV resp err)"
  by (intro conjI safe_run_any cloud.CreateVolume_safe cloud.DeleteVolume_safe
      cloud.ControllerPublishVolume_safe cloud.ControllerUnpublishVolume_safe)

section \<open>Capacity and size\<close>

lemma DefaultVolumeSize_sint [simp]: "sint DefaultVolumeSize = 5000000000"
  by (simp add: DefaultVolumeSize_def)

lemma MinimumDiskSizeInGb_sint [simp]: "sint MinimumDiskSizeInGb = 5"
  by (simp add: MinimumDiskSizeInGb_def)

lemma int64_less: "(a :: int64) <s b \<longleftrightarrow> sint a < sint b"
  by (simp add: word_sless_alt)

text \<open>The capacity of a request is the required size, else the limit, else nothing,
  raised to the default of 5 * 10^9 bytes; a request without a range gets the default.\<close>

lemma getRequestCapacity_spec:
  "sint (getRequestCapacity cr) =
     (case cr of
        None \<Rightarrow> 5000000000
      | Some c \<Rightarrow> max 5000000000
          (if 0 < sint (cr_RequiredBytes c) then sint (cr_RequiredBytes c)
           else if 0 < sint (cr_LimitBytes c) then sint (cr_LimitBytes c) else 0))"
  by (auto simp: getRequestCapacity_def Let_def int64_less split: option.split)

lemma getRequestCapacity_ge: "5000000000 \<le> sint (getRequestCapacity cr)"
  by (auto simp: getRequestCapacity_def Let_def int64_less not_less split: option.split)

lemma sint_disk_size:
  "0 \<le> sint c \<Longrightarrow> sint (disk_size c) = max 5 (sint c div GiB)"
  by (simp add: disk_size_def Let_def int64_less sint_BytesToGb_nonneg)

lemma sint_disk_size_bytes:
  assumes "0 \<le> sint c"
  shows "sint (GbToBytes (disk_size c)) = max 5 (sint c div GiB) * GiB"
proof -
  have "sint c div GiB < 8589934592"
    using sint64_bounds(2) [of c] by (simp add: div_less_iff_less_mult)
  then have "- 8589934592 \<le> sint (disk_size c)" "sint (disk_size c) < 8589934592"
    using assms by (simp_all add: sint_disk_size)
  then show ?thesis using assms by (simp add: sint_GbToBytes sint_disk_size)
qed

lemma round_down_less:
  "max 5 (x div GiB) * GiB < x \<longleftrightarrow> 5 * GiB < x \<and> \<not> GiB dvd x"
proof -
  have x: "x = x div GiB * GiB + x mod GiB" "0 \<le> x mod GiB" "x mod GiB < GiB"
    by simp_all
  show ?thesis
  proof (cases "5 \<le> x div GiB")
    case True
    then have "max 5 (x div GiB) * GiB < x \<longleftrightarrow> 0 < x mod GiB" using x by linarith
    moreover have "0 < x mod GiB \<longrightarrow> 5 * GiB < x" using True x by linarith
    ultimately show ?thesis using x(2) by (auto simp: dvd_eq_mod_eq_0)
  next
    case False
    then have "x < 5 * GiB" using x by linarith
    with False show ?thesis by simp
  qed
qed

text \<open>C30. The disk that is created has the requested capacity rounded down to whole GiB, but
  at least 5 GiB, and its size in bytes does not wrap around. It is smaller than the capacity the
  response reports exactly when that capacity is above 5 GiB and not a whole number of GiB.\<close>

theorem created_disk_size:
  "let c = getRequestCapacity cr in
     sint (disk_size c) = max 5 (sint c div GiB) \<and>
     sint (GbToBytes (disk_size c)) = sint (disk_size c) * GiB \<and>
     (sint (GbToBytes (disk_size c)) < sint c \<longleftrightarrow> 5 * GiB < sint c \<and> \<not> GiB dvd sint c)"
proof -
  define c where "c = getRequestCapacity cr"
  have c: "0 \<le> sint c" using getRequestCapacity_ge [of cr] by (simp add: c_def)
  from sint_disk_size [OF c] sint_disk_size_bytes [OF c] show ?thesis
    by (simp add: c_def [symmetric] Let_def round_down_less)
qed

section \<open>Parameters\<close>

definition secret_key :: "string \<Rightarrow> bool" where
  "secret_key k \<longleftrightarrow> k = ''csiProvisionerSecretName'' \<or> k = ''csiProvisionerSecretNamespace''"

definition known_key :: "string \<Rightarrow> bool" where
  "known_key k \<longleftrightarrow> secret_key k \<or> ToLower k = ''type'' \<or> ToLower k = ''zone''"

definition lower_map :: "(string \<times> string) list \<Rightarrow> string \<rightharpoonup> string" where
  "lower_map ps = map_of (map (\<lambda>(k, v). (ToLower k, v)) ps)"

definition lower_key :: "string \<times> string \<Rightarrow> string" where
  "lower_key kv = ToLower (fst kv)"

lemma lower_key_pair [simp]: "lower_key (k, v) = ToLower k"
  by (simp add: lower_key_def)

definition or_default :: "string option \<Rightarrow> string \<Rightarrow> string" where
  "or_default x d = (case x of None \<Rightarrow> d | Some v \<Rightarrow> v)"

lemma ToLower_examples [simp]:
  "ToLower ''type'' = ''type''" "ToLower ''Type'' = ''type''" "ToLower ''zone'' = ''zone''"
  "ToLower ''csiProvisionerSecretName'' = ''csiprovisionersecretname''"
  "ToLower ''csiProvisionerSecretNamespace'' = ''csiprovisionersecretnamespace''"
  by code_simp+

lemma secret_key_lower: "secret_key k \<Longrightarrow> ToLower k \<noteq> ''type'' \<and> ToLower k \<noteq> ''zone''"
  by (auto simp: secret_key_def)

lemma lower_map_Nil [simp]: "lower_map [] x = None"
  by (simp add: lower_map_def)

lemma lower_map_Cons:
  "lower_map ((k, v) # ps) x = (if x = ToLower k then Some v else lower_map ps x)"
  by (simp add: lower_map_def)

lemma lower_map_None: "x \<notin> lower_key ` set ps \<Longrightarrow> lower_map ps x = None"
  by (auto simp: lower_map_def map_of_eq_None_iff lower_key_def image_iff)

text \<open>With keys that differ after lower-casing, the loop is two lookups.\<close>

lemma apply_parameters_lookup:
  "distinct (map lower_key ps) \<Longrightarrow>
   apply_parameters ps t z =
     (if \<forall>(k, v) \<in> set ps. known_key k
      then Inr (or_default (lower_map ps ''type'') t, or_default (lower_map ps ''zone'') z)
      else Inl (StatusError InvalidArgument ''invalid option %q''))"
proof (induction ps t z rule: apply_parameters.induct)
  case (1 t z)
  show ?case by (simp add: or_default_def)
next
  case (2 k v ps t z)
  then have d: "distinct (map lower_key ps)"
    and n: "ToLower k \<notin> lower_key ` set ps" by auto
  note none = lower_map_None [OF n]
  consider (secret) "secret_key k" | (type) "\<not> secret_key k" "ToLower k = ''type''"
    | (zone) "\<not> secret_key k" "ToLower k = ''zone''"
    | (unknown) "\<not> known_key k"
    by (auto simp: known_key_def)
  then show ?case
  proof cases
    case secret
    with 2 d secret_key_lower [OF secret] show ?thesis
      by (auto simp: secret_key_def known_key_def lower_map_Cons)
  next
    case type
    with 2 d none show ?thesis
      by (simp add: secret_key_def known_key_def lower_map_Cons or_default_def)
  next
    case zone
    with 2 d none show ?thesis
      by (simp add: secret_key_def known_key_def lower_map_Cons or_default_def)
  next
    case unknown
    then show ?thesis by (auto simp: known_key_def secret_key_def)
  qed
qed

lemma lower_map_perm:
  assumes "distinct (map lower_key ps)" and "mset ps = mset qs"
  shows "lower_map ps = lower_map qs"
proof -
  let ?f = "\<lambda>(k, v). (ToLower k, v :: string)"
  have keys: "map fst (map ?f xs) = map lower_key xs" for xs
    by (simp add: lower_key_def [abs_def] comp_def case_prod_beta)
  have "mset (map lower_key ps) = mset (map lower_key qs)"
    using assms(2) by (simp only: mset_map)
  then have "distinct (map lower_key qs)"
    using assms(1) by (meson mset_eq_imp_distinct_iff)
  moreover have "set (map ?f ps) = set (map ?f qs)"
    using mset_eq_setD [OF assms(2)] by simp
  ultimately show ?thesis
    unfolding lower_map_def using assms(1) map_of_inject_set [of "map ?f ps" "map ?f qs"]
    by (simp only: keys)
qed



section \<open>The handlers over the fake provider, evaluated\<close>

definition new_disk :: "string \<Rightarrow> int64 \<Rightarrow> string \<Rightarrow> Disk" where
  "new_disk name sizeGb uri = \<lparr>disk_Name = name, disk_SizeGb = sizeGb,
     disk_Description = ''Disk created by GCE-PD CSI Driver'', disk_Type = uri, disk_Kind = ''''\<rparr>"

lemma Fake_validateDisk_fst [simp]: "fst (Fake_validateDisk d t r l) = True"
  by (auto simp: Fake_validateDisk_def Let_def)

lemma CreateVolume_fake:
  assumes "cv_Name req \<noteq> ''''" and "cv_VolumeCapabilities req \<noteq> []"
  shows "CreateVolume fakeCompute req c =
    (let cap = getRequestCapacity (cv_CapacityRange req); n = cv_Name req in
     case apply_parameters (cv_Parameters req) ''pd-standard'' (fake_zone c) of
       Inl e \<Rightarrow> (Ret (None, Some e), c)
     | Inr (t, z) \<Rightarrow>
       (case fake_disks c n of
          None \<Rightarrow> (Ret (Some (create_response cap z n), None),
            c\<lparr>fake_disks := (fake_disks c)(n \<mapsto> new_disk n (disk_size cap) '''')\<rparr>)
        | Some d \<Rightarrow>
          (Ret (case snd (Fake_validateDisk d t (GetRequiredBytes (cv_CapacityRange req))
                    (GetLimitBytes (cv_CapacityRange req))) of
             None \<Rightarrow> (Some (create_response cap z n), None)
           | Some e \<Rightarrow> (None, Some e)), c)))"
proof (cases "apply_parameters (cv_Parameters req) ''pd-standard'' (fake_zone c)")
  case (Inl e)
  with assms show ?thesis
    by (simp add: CreateVolume_def Let_def DiskTypeStandard_def Fake_GetZone_def call_def)
next
  case (Inr tz)
  obtain t z where tz: "tz = (t, z)" by (rule prod.exhaust)
  show ?thesis
  proof (cases "fake_disks c (cv_Name req)")
    case None
    with assms Inr tz show ?thesis
      by (simp add: CreateVolume_def Let_def DiskTypeStandard_def Fake_defs call_def new_disk_def)
  next
    case (Some d)
    with assms Inr tz show ?thesis
      by (cases "snd (Fake_validateDisk d t (GetRequiredBytes (cv_CapacityRange req))
            (GetLimitBytes (cv_CapacityRange req)))";
          simp add: CreateVolume_def Let_def
            DiskTypeStandard_def Fake_GetZone_def Fake_GetAndValidateExistingDisk_def call_def
            case_prod_beta)
  qed
qed

lemma DeleteVolume_fake:
  assumes "dv_VolumeId req \<noteq> ''''"
  shows "DeleteVolume fakeCompute req c =
    (case SplitZoneNameId (dv_VolumeId req) of
       (z, n, Some e) \<Rightarrow> (Ret (Some DeleteVolumeResponse, None), c)
     | (z, n, None) \<Rightarrow> (Ret (Some DeleteVolumeResponse, None),
         c\<lparr>fake_disks := (fake_disks c)(n := None)\<rparr>))"
  using assms
  by (cases rule: SplitZoneNameId_cases [of "dv_VolumeId req"])
     (simp_all add: DeleteVolume_def Let_def Fake_defs call_def)

abbreviation access_mode :: "bool \<Rightarrow> string" where
  "access_mode ro \<equiv> (if ro then ''READ_ONLY'' else ''READ_WRITE'')"

lemma ControllerPublishVolume_fake:
  assumes "cp_VolumeId req \<noteq> ''''" and "cp_NodeId req \<noteq> ''''" and "cp_VolumeCapability req \<noteq> None"
    and "SplitZoneNameId (cp_VolumeId req) = (z, v, None)"
  shows "ControllerPublishVolume fakeCompute req c =
    (case fake_disks c v of
       None \<Rightarrow> (Ret (None, Some (PlainError ''Disk %v not found'')), c)
     | Some d \<Rightarrow>
       (case fake_instances c (cp_NodeId req) of
          None \<Rightarrow> (Ret (None, Some (PlainError ''Could not find instance %v'')), c)
        | Some i \<Rightarrow>
          (case find (\<lambda>a. ad_DeviceName a = disk_Name d) (inst_Disks i) of
             Some a \<Rightarrow>
               (Ret (if ad_Mode a = access_mode (cp_Readonly req)
                     then (Some \<lparr>cpr_PublishInfo = None\<rparr>, None)
                     else (None, Some (StatusError AlreadyExists
                       ''Disk %v already published to node %v but incompatbile: %v''))), c)
           | None \<Rightarrow>
               (Ret (Some \<lparr>cpr_PublishInfo = None\<rparr>, None),
                c\<lparr>fake_instances := (fake_instances c)(cp_NodeId req \<mapsto>
                  i\<lparr>inst_Disks := inst_Disks i @
                    [\<lparr>ad_DeviceName = disk_Name d, ad_Kind = disk_Kind d,
                      ad_Mode = access_mode (cp_Readonly req), ad_Source = '''',
                      ad_Type = disk_Type d\<rparr>]\<rparr>)\<rparr>))))"
  using assms
  by (auto simp: ControllerPublishVolume_def attachVolume_def Let_def Fake_defs call_def
        attached_result_def split: option.split)

lemma ControllerUnpublishVolume_fake:
  assumes "cu_VolumeId req \<noteq> ''''" and "cu_NodeId req \<noteq> ''''"
    and "SplitZoneNameId (cu_VolumeId req) = (z, v, None)" and "fake_inv c"
  shows "ControllerUnpublishVolume fakeCompute req c =
    (case fake_disks c v of
       None \<Rightarrow> (Ret (None, Some (PlainError ''Disk %v not found'')), c)
     | Some d \<Rightarrow>
       (case fake_instances c (cu_NodeId req) of
          None \<Rightarrow> (Ret (None, Some (PlainError ''Could not find instance %v'')), c)
        | Some i \<Rightarrow>
          (Ret (Some ControllerUnpublishVolumeResponse, None),
           if v \<in> ad_DeviceName ` set (inst_Disks i)
           then c\<lparr>fake_instances := (fake_instances c)(cu_NodeId req \<mapsto>
                  i\<lparr>inst_Disks := remove_device (inst_Disks i) v\<rparr>)\<rparr>
           else c)))"
proof -
  have "disk_Name d = v" if "fake_disks c v = Some d" for d
    using that assms(4) by (rule fake_invD [rotated])
  then show ?thesis
    using assms(1-3)
    by (auto simp: ControllerUnpublishVolume_def Let_def Fake_GetDiskOrError_def
          Fake_GetInstanceOrError_def Fake_WaitForOp_def Fake_DetachDisk_attached call_def
          split: option.split)
qed

section \<open>The two checks for an attached disk\<close>

lemma find_device_iff: "find (\<lambda>a. ad_DeviceName a = n) ds \<noteq> None \<longleftrightarrow> n \<in> ad_DeviceName ` set ds"
  by (induction ds) auto

text \<open>The two functions that look for a disk among the attached ones agree, on nil pointers as
  well: diskIsAttached is the first result of diskIsAttachedAndCompatible, whatever capability
  and mode the latter is asked about, and one panics exactly when the other does.\<close>

lemma attached_checks_agree:
  "diskIsAttached disk inst =
     (case diskIsAttachedAndCompatible disk inst cap readWrite of
        Panic \<Rightarrow> Panic
      | Ret (attached, err) \<Rightarrow> Ret attached)"
proof (cases "disk = None \<or> inst = None")
  case True
  then show ?thesis by (cases disk; cases inst) auto
next
  case False
  then obtain d i where "disk = Some d" "inst = Some i" by auto
  then show ?thesis
    by (simp add: find_device_iff [symmetric] attached_result_def split: option.split)
qed

section \<open>The response of a create\<close>

text \<open>Over any provider: when CreateVolume succeeds, the request had a name, capabilities
  and only known parameters, and the response carries the requested capacity and the
  identifier built from the name and the zone that the parameters, or else the provider, give.\<close>

lemma create_succeeded:
  assumes "CreateVolume cp req s = (Ret (Some resp, None), s')"
  shows "cv_Name req \<noteq> '''' \<and> cv_VolumeCapabilities req \<noteq> [] \<and>
    (\<exists>z0 s0 diskType z. GetZone cp s = (Ret (z0, None), s0) \<and>
       apply_parameters (cv_Parameters req) ''pd-standard'' z0 = Inr (diskType, z) \<and>
       vol_Id (cvr_Volume resp) = CombineVolumeId z (cv_Name req) \<and>
       vol_CapacityBytes (cvr_Volume resp) = getRequestCapacity (cv_CapacityRange req))"
  using assms
  by (auto simp: CreateVolume_def Let_def call_Ret_iff recheck_existing_def create_response_def
        DiskTypeStandard_def split: if_splits sum.splits option.splits prod.splits)

section \<open>The calls each handler makes\<close>

text \<open>The calls a handler makes on a recording provider, in order.\<close>

definition calls_of :: "('s \<times> gce_call list, 'a) go \<Rightarrow> 's \<Rightarrow> gce_call list" where
  "calls_of m s = snd (snd (m (s, [])))"

lemma recheck_log [simp]:
  "snd (snd (recheck_existing (traced cp) z n t cr r (s, l))) = l @ [CValidate z n]"
  by (simp add: recheck_existing_def call_logged split: prod.split outcome.split option.split)

definition create_log :: "'s GCECompute \<Rightarrow> CreateVolumeRequest \<Rightarrow> gce_call list \<Rightarrow> bool" where
  "create_log cp req log \<longleftrightarrow>
     log = [] \<or>
     (\<exists>z. log = [CValidate z (cv_Name req)]) \<or>
     (\<exists>z d rest t s1 s2.
        log = [CValidate z (cv_Name req), CInsert z d] @ rest \<and>
        GetAndValidateExistingDisk cp z (cv_Name req) t (GetRequiredBytes (cv_CapacityRange req))
          (GetLimitBytes (cv_CapacityRange req)) s1 = (Ret (False, None), s2) \<and>
        disk_Name d = cv_Name req \<and>
        disk_SizeGb d = disk_size (getRequestCapacity (cv_CapacityRange req)) \<and>
        rest \<in> {[], [CValidate z (cv_Name req)], [CWait], [CWait, CValidate z (cv_Name req)]})"

lemma create_log_short [simp]:
  "create_log cp req []" "create_log cp req [CValidate z (cv_Name req)]"
  by (auto simp: create_log_def)

lemma create_log_insert:
  assumes "GetAndValidateExistingDisk cp z (cv_Name req) t (GetRequiredBytes (cv_CapacityRange req))
          (GetLimitBytes (cv_CapacityRange req)) s1 = (Ret (False, None), s2)"
  shows "create_log cp req (CValidate z (cv_Name req) #
     CInsert z (new_disk (cv_Name req) (disk_size (getRequestCapacity (cv_CapacityRange req))) uri) # rest)
    \<longleftrightarrow> rest \<in> {[], [CValidate z (cv_Name req)], [CWait], [CWait, CValidate z (cv_Name req)]}"
  using assms by (auto simp: create_log_def new_disk_def)

text \<open>C14. Whatever the provider answers, CreateVolume inserts at most one disk, and only after
  it asked in the same zone for an existing disk of that name and was told there is none;
  the inserted disk has the requested name and size. It waits at most once, looks again at
  the existing disk at most once, and makes no other call.\<close>

theorem CreateVolume_calls:
  "create_log cp req (calls_of (CreateVolume (traced cp) req) s)"
  unfolding calls_of_def
  by (simp add: CreateVolume_def Let_def call_logged call_unlogged create_log_insert
        new_disk_def [symmetric] split: prod.split outcome.split sum.split option.split)

text \<open>Whatever the provider answers, DeleteVolume makes no call for an identifier that is not
  of the form zone/name, and otherwise one delete of exactly that disk in that zone, at
  most followed by one wait.\<close>

lemma DeleteVolume_calls:
  "calls_of (DeleteVolume (traced cp) req) s \<in>
     (case SplitZoneNameId (dv_VolumeId req) of
        (z, n, None) \<Rightarrow> {[CDelete z n], [CDelete z n, CWait]}
      | (z, n, Some e) \<Rightarrow> {[]}) \<union> (if dv_VolumeId req = '''' then {[]} else {})"
  unfolding calls_of_def
  by (cases rule: SplitZoneNameId_cases [of "dv_VolumeId req"])
     (simp_all add: DeleteVolume_def Let_def call_logged
        split: prod.split outcome.split option.split)

definition publish_log :: "'s GCECompute \<Rightarrow> ControllerPublishVolumeRequest \<Rightarrow> gce_call list \<Rightarrow> bool"
  where
  "publish_log cp req log \<longleftrightarrow>
     (\<forall>z i a. CAttach z i a \<in> set log \<longrightarrow>
        (\<exists>v d inst s0 s1 s2. SplitZoneNameId (cp_VolumeId req) = (z, v, None) \<and> i = cp_NodeId req \<and>
           GetDiskOrError cp z v s0 = (Ret (Some d, None), s1) \<and>
           GetInstanceOrError cp z i s1 = (Ret (Some inst, None), s2) \<and>
           disk_Name d \<notin> ad_DeviceName ` set (inst_Disks inst) \<and>
           ad_DeviceName a = disk_Name d \<and> ad_Mode a = access_mode (cp_Readonly req) \<and>
           log \<in> {[CGetDisk z v, CGetInstance z i, CAttach z i a],
                  [CGetDisk z v, CGetInstance z i, CAttach z i a, CWait]})) \<and>
     (\<forall>c \<in> set log. case c of CGetDisk _ _ \<Rightarrow> True | CGetInstance _ _ \<Rightarrow> True
        | CAttach _ _ _ \<Rightarrow> True | CWait \<Rightarrow> True | _ \<Rightarrow> False)"

lemma publish_log_short [simp]:
  "publish_log cp req []" "publish_log cp req [CGetDisk z v]"
  "publish_log cp req [CGetDisk z v, CGetInstance z i]"
  by (simp_all add: publish_log_def)

lemma publish_log_attach:
  assumes "SplitZoneNameId (cp_VolumeId req) = (z, v, None)"
    and "GetDiskOrError cp z v s0 = (Ret (Some d, None), s1)"
    and "GetInstanceOrError cp z (cp_NodeId req) s1 = (Ret (Some inst, None), s2)"
    and "find (\<lambda>a. ad_DeviceName a = disk_Name d) (inst_Disks inst) = None"
    and "ad_DeviceName a = disk_Name d" and "ad_Mode a = access_mode (cp_Readonly req)"
    and "rest \<in> {[], [CWait]}"
  shows "publish_log cp req
    (CGetDisk z v # CGetInstance z (cp_NodeId req) # CAttach z (cp_NodeId req) a # rest)"
  using assms by (fastforce simp: publish_log_def find_None_iff)

lemma attachVolume_log:
  "\<exists>a. ad_DeviceName a = disk_Name d \<and> ad_Mode a = rw \<and>
     snd (snd (attachVolume (traced cp) z n d rw resp (s, l))) \<in>
       {l, l @ [CAttach z n a], l @ [CAttach z n a, CWait]}"
proof -
  have ex: "\<exists>a :: AttachedDisk. ad_DeviceName a = disk_Name d \<and> ad_Mode a = rw"
    by (rule exI [of _ "\<lparr>ad_DeviceName = disk_Name d, ad_Kind = '''', ad_Mode = rw,
          ad_Source = '''', ad_Type = ''''\<rparr>"]) simp
  show ?thesis
    by (auto simp: attachVolume_def Let_def call_logged call_unlogged ex
          split: prod.split outcome.split)
qed

lemma publish_tail_log:
  assumes split: "SplitZoneNameId (cp_VolumeId req) = (z, v, None)"
    and disk: "GetDiskOrError cp z v s = (Ret (disk, None), s1)"
    and inst: "GetInstanceOrError cp z (cp_NodeId req) s1 = (Ret (inst, None), s2)"
    and rw: "rw = access_mode (cp_Readonly req)"
  shows "publish_log cp req (snd (snd (call (lift_out (diskIsAttachedAndCompatible disk inst cap rw))
     (\<lambda>(attached, err). if err \<noteq> None then ret (None, Some e) else if attached then ret (Some r, None)
        else deref disk (\<lambda>d. attachVolume (traced cp) z (cp_NodeId req) d rw r))
     (s2, [CGetDisk z v, CGetInstance z (cp_NodeId req)]))))"
proof -
  have short: "publish_log cp req [CGetDisk z v, CGetInstance z (cp_NodeId req)]" by simp
  show ?thesis
  proof (cases inst)
    case None
    then show ?thesis using short by (simp add: call_def)
  next
    case i: (Some i)
    show ?thesis
    proof (cases disk)
      case None
      then show ?thesis using short i by (simp add: call_def)
    next
      case d: (Some d)
      show ?thesis
      proof (cases "find (\<lambda>a. ad_DeviceName a = disk_Name d) (inst_Disks i)")
        case None
        with attachVolume_log [of d rw cp z "cp_NodeId req" r s2
            "[CGetDisk z v, CGetInstance z (cp_NodeId req)]"]
          publish_log_attach [OF split disk [unfolded d] inst [unfolded i] None]
        show ?thesis using short by (auto simp: d i attached_result_def rw)
      next
        case (Some a)
        then show ?thesis using short by (simp add: d i attached_result_def)
      qed
    qed
  qed
qed

text \<open>C15. Whatever the provider answers, ControllerPublishVolume attaches a disk at most once,
  to the requested node, under the disk's name and in the requested mode, and only after
  reading the disk and the node and finding no attachment of that name on the node; it
  makes no other change.\<close>

theorem ControllerPublishVolume_calls:
  "publish_log cp req (calls_of (ControllerPublishVolume (traced cp) req) s)"
proof (cases rule: SplitZoneNameId_cases [of "cp_VolumeId req"])
  case (bad m)
  then show ?thesis
    by (simp add: calls_of_def ControllerPublishVolume_def Let_def split: option.split)
next
  case (ok z v)
  show ?thesis
    unfolding calls_of_def ControllerPublishVolume_def Let_def
    by (auto simp: ok(1) call_logged intro!: publish_tail_log [OF ok(1), simplified]
          split: prod.split outcome.split option.split)
qed

text \<open>The calls of an unpublish. \<open>attachment_seen\<close>: in some states the provider returned the disk
  and then the node, and the node has an attachment under the disk's name.\<close>

definition attachment_seen :: "'s GCECompute \<Rightarrow> string \<Rightarrow> string \<Rightarrow> string \<Rightarrow> bool" where
  "attachment_seen cp z i v \<longleftrightarrow>
     (\<exists>d inst s0 s1 s2.
        GetDiskOrError cp z v s0 = (Ret (Some d, None), s1) \<and>
        GetInstanceOrError cp z i s1 = (Ret (Some inst, None), s2) \<and>
        disk_Name d \<in> ad_DeviceName ` set (inst_Disks inst))"

lemma attachment_seenI:
  "GetInstanceOrError cp z i s1 = (Ret (Some inst, None), s2) \<Longrightarrow>
   GetDiskOrError cp z v s0 = (Ret (Some d, None), s1) \<Longrightarrow>
   disk_Name d = ad_DeviceName a \<Longrightarrow> a \<in> set (inst_Disks inst) \<Longrightarrow> attachment_seen cp z i v"
  unfolding attachment_seen_def by fastforce

definition unpublish_log :: "'s GCECompute \<Rightarrow> ControllerUnpublishVolumeRequest \<Rightarrow> gce_call list \<Rightarrow> bool"
  where
  "unpublish_log cp req log \<longleftrightarrow>
     log = [] \<or>
     (\<exists>z v. SplitZoneNameId (cu_VolumeId req) = (z, v, None) \<and>
        (let i = cu_NodeId req in
         log = [CGetDisk z v] \<or> log = [CGetDisk z v, CGetInstance z i] \<or>
         (attachment_seen cp z i v \<and>
            log \<in> {[CGetDisk z v, CGetInstance z i, CDetach z i v],
                   [CGetDisk z v, CGetInstance z i, CDetach z i v, CWait]})))"

lemma diskIsAttached_True_iff:
  "diskIsAttached disk inst = Ret True \<longleftrightarrow>
     (\<exists>d i. disk = Some d \<and> inst = Some i \<and> disk_Name d \<in> ad_DeviceName ` set (inst_Disks i))"
  by (cases disk; cases inst) auto

text \<open>Whatever the provider answers, ControllerUnpublishVolume detaches exactly the named
  disk from exactly the named node, at most once, and only when the node it read has an
  attachment under the name of the disk it read; it makes no other change.\<close>

lemma ControllerUnpublishVolume_calls:
  "unpublish_log cp req (calls_of (ControllerUnpublishVolume (traced cp) req) s)"
proof (cases rule: SplitZoneNameId_cases [of "cu_VolumeId req"])
  case (bad m)
  then show ?thesis
    by (simp add: calls_of_def unpublish_log_def ControllerUnpublishVolume_def Let_def)
next
  case (ok z v)
  show ?thesis
    unfolding calls_of_def ControllerUnpublishVolume_def Let_def
    by (auto simp: ok(1) call_logged call_def [of "lift_out _"] unpublish_log_def Let_def
          diskIsAttached_True_iff intro: attachment_seenI
          split: prod.split outcome.split option.split)
qed

section \<open>Creating a volume whose disk exists\<close>

text \<open>C25. Over the real provider: when the API returns a disk of the requested name, the create
  makes no further request. It succeeds exactly when both bounds of the capacity range are
  given, the disk's size lies between them and the disk's type is not the requested one, and
  is refused with AlreadyExists in every other case.\<close>

theorem CreateVolume_existing_cloud:
  assumes "cv_Name req \<noteq> ''''" and "cv_VolumeCapabilities req \<noteq> []"
    and "apply_parameters (cv_Parameters req) ''pd-standard'' zone = Inr (diskType, z)"
    and "disks_get svc p z (cv_Name req) s = (Inr d, s')"
  shows "\<exists>e. error_code e = AlreadyExists \<and>
    CreateVolume (cloudCompute (gce_cloud svc p zone)) req s =
    (Ret (if (case cv_CapacityRange req of None \<Rightarrow> False
              | Some c \<Rightarrow> cr_RequiredBytes c \<noteq> 0 \<and> cr_LimitBytes c \<noteq> 0 \<and>
                  sint (cr_RequiredBytes c) \<le> sint (GbToBytes (disk_SizeGb d)) \<and>
                  sint (GbToBytes (disk_SizeGb d)) \<le> sint (cr_LimitBytes c)) \<and>
             respType_last d \<noteq> diskType
          then (Some (create_response (getRequestCapacity (cv_CapacityRange req)) z (cv_Name req)), None)
          else (None, Some e)), s')"
proof -
  let ?v = "CloudProvider_validateDisk d diskType (GetRequiredBytes (cv_CapacityRange req))
      (GetLimitBytes (cv_CapacityRange req))"
  have ex: "fst ?v" by (simp add: CloudProvider_validateDisk_def Let_def)
  have run: "CreateVolume (cloudCompute (gce_cloud svc p zone)) req s =
    (Ret (case snd ?v of
        None \<Rightarrow> (Some (create_response (getRequestCapacity (cv_CapacityRange req)) z (cv_Name req)), None)
      | Some e \<Rightarrow> (None, Some e)), s')"
    using assms ex
    by (cases ?v) (auto simp: CreateVolume_def Let_def CloudProvider_defs DiskTypeStandard_def
          call_def Do_def split: option.splits)
  obtain e where e: "error_code e = AlreadyExists" "snd ?v = None \<or> snd ?v = Some e"
    using validateDisk_error_code [of d diskType "GetRequiredBytes (cv_CapacityRange req)"
        "GetLimitBytes (cv_CapacityRange req)"]
    by (metis error_code.simps(1) not_None_eq snd_conv)
  have "snd ?v = None \<longleftrightarrow> (case cv_CapacityRange req of None \<Rightarrow> False
              | Some c \<Rightarrow> cr_RequiredBytes c \<noteq> 0 \<and> cr_LimitBytes c \<noteq> 0 \<and>
                  sint (cr_RequiredBytes c) \<le> sint (GbToBytes (disk_SizeGb d)) \<and>
                  sint (GbToBytes (disk_SizeGb d)) \<le> sint (cr_LimitBytes c)) \<and>
             respType_last d \<noteq> diskType"
    unfolding validateDisk_None_iff by (auto split: option.splits)
  with e run show ?thesis by (intro exI [of _ e]) auto
qed

theorem CreateVolume_existing_cloud_witness:
  "\<exists>e. error_code e = AlreadyExists \<and>
     CreateVolume (cloudCompute (gce_cloud sample_service ''p'' ''us-a''))
       \<lparr>cv_Name = ''vol'', cv_CapacityRange = None,
        cv_VolumeCapabilities = [\<lparr>vc_AccessType = None, vc_AccessMode = Some 1\<rparr>],
        cv_Parameters = []\<rparr> () = (Ret (None, Some e), ())"
  using CreateVolume_existing_cloud [where svc = sample_service and p = "''p''" and zone = "''us-a''"
      and diskType = "''pd-standard''" and z = "''us-a''" and d = sample_disk and s = "()" and s' = "()"
      and req = "\<lparr>cv_Name = ''vol'', cv_CapacityRange = None,
        cv_VolumeCapabilities = [\<lparr>vc_AccessType = None, vc_AccessMode = Some 1\<rparr>],
        cv_Parameters = []\<rparr>"]
  by (simp add: sample_service_def)

section \<open>Identifiers that do not parse\<close>

text \<open>C37. An identifier without exactly one slash (for example project/zone/name), over any
  provider: a delete reports success and touches nothing; a publish or unpublish fails with
  an error that carries no gRPC code, and touches nothing.\<close>

theorem malformed_volume_id:
  assumes "count_list vid (CHR ''/'') \<noteq> 1" and "vid \<noteq> ''''" and "node \<noteq> ''''"
  shows "DeleteVolume cp \<lparr>dv_VolumeId = vid\<rparr> s = (Ret (Some DeleteVolumeResponse, None), s) \<and>
    (\<exists>e. error_code e = UnknownCode \<and>
       ControllerPublishVolume cp \<lparr>cp_VolumeId = vid, cp_NodeId = node,
         cp_VolumeCapability = Some cap, cp_Readonly = ro\<rparr> s = (Ret (None, Some e), s) \<and>
       ControllerUnpublishVolume cp \<lparr>cu_VolumeId = vid, cu_NodeId = node\<rparr> s = (Ret (None, Some e), s))"
proof -
  have "length (Split vid (CHR ''/'')) \<noteq> 2"
    using assms(1) by (simp add: length_Split)
  then obtain m where "SplitZoneNameId vid = ('''', '''', Some (PlainError m))"
    by (auto simp: SplitZoneNameId_def Let_def)
  with assms(2,3) show ?thesis
    by (simp add: DeleteVolume_def ControllerPublishVolume_def ControllerUnpublishVolume_def Let_def)
qed

theorem malformed_volume_id_witness:
  "DeleteVolume fakeCompute \<lparr>dv_VolumeId = ''p/us-a/vol''\<rparr> (fst (FakeCreateCloudProvider ''p'' ''us-a'')) =
     (Ret (Some DeleteVolumeResponse, None), fst (FakeCreateCloudProvider ''p'' ''us-a''))"
  using malformed_volume_id [of "''p/us-a/vol''" "''node''" fakeCompute
      "fst (FakeCreateCloudProvider ''p'' ''us-a'')"] by simp

section \<open>Publishing a volume that is attached\<close>

text \<open>Over any provider: when the node read for a publish has an attachment under the disk's
  name, nothing is attached. The publish succeeds when the first such attachment has the
  requested mode, and fails with AlreadyExists when it does not.\<close>

lemma ControllerPublishVolume_attached:
  assumes "SplitZoneNameId (cp_VolumeId req) = (z, v, None)"
    and "cp_VolumeId req \<noteq> ''''" and "cp_NodeId req \<noteq> ''''" and "cp_VolumeCapability req \<noteq> None"
    and "GetDiskOrError cp z v s = (Ret (Some d, None), s1)"
    and "GetInstanceOrError cp z (cp_NodeId req) s1 = (Ret (Some i, None), s2)"
    and "inst_Disks i = before @ a # after" and "ad_DeviceName a = disk_Name d"
    and "disk_Name d \<notin> ad_DeviceName ` set before"
  shows "ControllerPublishVolume cp req s =
    (Ret (if ad_Mode a = access_mode (cp_Readonly req) then (Some \<lparr>cpr_PublishInfo = None\<rparr>, None)
          else (None, Some (StatusError AlreadyExists
            ''Disk %v already published to node %v but incompatbile: %v''))), s2)"
proof -
  have "find (\<lambda>a. ad_DeviceName a = disk_Name d) (before @ a # after) = Some a"
    using assms(8,9) by (induction before) auto
  with assms(1-7) show ?thesis
    by (auto simp: ControllerPublishVolume_def Let_def call_def attached_result_def)
qed

section \<open>Validation of capabilities\<close>

lemma found_mode_Some: "found_mode vcap (Some m) b = Ret (b \<or> m \<in> set vcap)"
  by (induction vcap arbitrary: b) auto

lemma found_mode_None: "found_mode vcap None False = (if vcap = [] then Ret False else Panic)"
  by (cases vcap) auto

text \<open>C38. The first requested capability whose access mode the driver does not offer decides:
  without one the answer is that all are supported; when it names its mode the answer is
  InvalidArgument, together with a response that says unsupported; when it has no access
  mode the handler panics.\<close>

theorem ValidateVolumeCapabilities_spec:
  "ValidateVolumeCapabilities drv req =
     (if vv_VolumeId req = '''' \<or> vv_VolumeCapabilities req = []
      then Ret (None, Some (StatusError InvalidArgument
        (if vv_VolumeId req = '''' then ''ControllerUnpublishVolume Volume ID must be provided''
         else ''ControllerUnpublishVolume Volume Capabilities must be provided'')))
      else case find (\<lambda>c. vc_AccessMode c \<notin> Some ` set (drv_vcap drv)) (vv_VolumeCapabilities req) of
        None \<Rightarrow> Ret (Some \<lparr>vvr_Supported = True, vvr_Message = ''''\<rparr>, None)
      | Some c \<Rightarrow> (case vc_AccessMode c of
          None \<Rightarrow> Panic
        | Some m \<Rightarrow> (let msg = ''Driver does not support mode:'' @ AccessMode_String m in
            Ret (Some \<lparr>vvr_Supported = False, vvr_Message = msg\<rparr>,
                 Some (StatusError InvalidArgument msg)))))"
proof -
  have "validate_capabilities vcap cs =
      (case find (\<lambda>c. vc_AccessMode c \<notin> Some ` set vcap) cs of
        None \<Rightarrow> Ret (Some \<lparr>vvr_Supported = True, vvr_Message = ''''\<rparr>, None)
      | Some c \<Rightarrow> (case vc_AccessMode c of
          None \<Rightarrow> Panic
        | Some m \<Rightarrow> (let msg = ''Driver does not support mode:'' @ AccessMode_String m in
            Ret (Some \<lparr>vvr_Supported = False, vvr_Message = msg\<rparr>,
                 Some (StatusError InvalidArgument msg)))))" for vcap cs
  proof (induction cs)
    case (Cons c cs)
    then show ?case
      by (cases "vc_AccessMode c")
         (auto simp: found_mode_Some found_mode_None Let_def split: option.split)
  qed simp
  then show ?thesis by (simp add: ValidateVolumeCapabilities_def)
qed

end
