(* ===== verification/Lifecycle.thy ===== *)
theory Lifecycle
  imports ControllerProps
begin

text \<open>
  The life of volumes under a sequence of controller calls, served from the in-memory
  provider (the backend of the sanity tests): an abstract specification over volumes and
  attachments, the step relation of the served calls, and a simulation between the two.
\<close>

section \<open>The calls that change state\<close>

datatype rpc =
    Create CreateVolumeRequest
  | Delete DeleteVolumeRequest
  | Publish ControllerPublishVolumeRequest
  | Unpublish ControllerUnpublishVolumeRequest

text \<open>One call served: what counts for the client is the code on the wire.\<close>

fun serve_rpc :: "'s GCECompute \<Rightarrow> rpc \<Rightarrow> ('s, code) go" where
  "serve_rpc cp (Create req) = call (CreateVolume cp req) (\<lambda>r. ret (grpc_code r))"
| "serve_rpc cp (Delete req) = call (DeleteVolume cp req) (\<lambda>r. ret (grpc_code r))"
| "serve_rpc cp (Publish req) = call (ControllerPublishVolume cp req) (\<lambda>r. ret (grpc_code r))"
| "serve_rpc cp (Unpublish req) = call (ControllerUnpublishVolume cp req) (\<lambda>r. ret (grpc_code r))"

section \<open>The abstract specification\<close>

text \<open>Volumes with their size in GiB, and for each node its published volumes with the
  read-only flag.\<close>

record world =
  w_zone :: string
  volumes :: "string \<rightharpoonup> int64"
  attachments :: "string \<rightharpoonup> (string \<rightharpoonup> bool)"

definition volume_of :: "string \<Rightarrow> string option" where
  "volume_of vid = (case SplitZoneNameId vid of (_, n, None) \<Rightarrow> Some n | _ \<Rightarrow> None)"

definition fits :: "CapacityRange option \<Rightarrow> int64 \<Rightarrow> bool" where
  "fits cr sizeGb \<longleftrightarrow>
     (GetRequiredBytes cr \<noteq> 0 \<longrightarrow> sint (GetRequiredBytes cr) \<le> sint (GbToBytes sizeGb)) \<and>
     (GetLimitBytes cr \<noteq> 0 \<longrightarrow> sint (GbToBytes sizeGb) \<le> sint (GetLimitBytes cr))"

fun spec :: "rpc \<Rightarrow> world \<Rightarrow> code \<times> world" where
  "spec (Create req) w =
     (let n = cv_Name req; cr = cv_CapacityRange req in
      if n = '''' \<or> cv_VolumeCapabilities req = [] then (InvalidArgument, w)
      else case apply_parameters (cv_Parameters req) ''pd-standard'' (w_zone w) of
        Inl _ \<Rightarrow> (InvalidArgument, w)
      | Inr (t, z) \<Rightarrow>
        (case volumes w n of
           None \<Rightarrow> (OK, w\<lparr>volumes := (volumes w)(n \<mapsto> disk_size (getRequestCapacity cr))\<rparr>)
         | Some sizeGb \<Rightarrow> (if fits cr sizeGb \<and> t \<noteq> '''' then OK else AlreadyExists, w)))"
| "spec (Delete req) w =
     (if dv_VolumeId req = '''' then (InvalidArgument, w)
      else case volume_of (dv_VolumeId req) of
        None \<Rightarrow> (OK, w)
      | Some n \<Rightarrow> (OK, w\<lparr>volumes := (volumes w)(n := None)\<rparr>))"
| "spec (Publish req) w =
     (let node = cp_NodeId req in
      if cp_VolumeId req = '''' \<or> node = '''' \<or> cp_VolumeCapability req = None
      then (InvalidArgument, w)
      else case volume_of (cp_VolumeId req) of
        None \<Rightarrow> (UnknownCode, w)
      | Some n \<Rightarrow>
        (case (volumes w n, attachments w node) of
           (Some _, Some at) \<Rightarrow>
             (case at n of
                None \<Rightarrow> (OK, w\<lparr>attachments :=
                            (attachments w)(node \<mapsto> at(n \<mapsto> cp_Readonly req))\<rparr>)
              | Some ro \<Rightarrow> (if ro = cp_Readonly req then OK else AlreadyExists, w))
         | _ \<Rightarrow> (UnknownCode, w)))"
| "spec (Unpublish req) w =
     (let node = cu_NodeId req in
      if cu_VolumeId req = '''' \<or> node = '''' then (InvalidArgument, w)
      else case volume_of (cu_VolumeId req) of
        None \<Rightarrow> (UnknownCode, w)
      | Some n \<Rightarrow>
        (case (volumes w n, attachments w node) of
           (Some _, Some at) \<Rightarrow>
             (OK, w\<lparr>attachments := (attachments w)(node \<mapsto> at(n := None))\<rparr>)
         | _ \<Rightarrow> (UnknownCode, w)))"

section \<open>Abstraction and invariant\<close>

definition attach_map :: "AttachedDisk list \<Rightarrow> string \<rightharpoonup> bool" where
  "attach_map ds = map_of (map (\<lambda>a. (ad_DeviceName a, ad_Mode a = ''READ_ONLY'')) ds)"

definition abs_state :: "FakeCloudProvider \<Rightarrow> world" where
  "abs_state c =
     \<lparr>w_zone = fake_zone c,
      volumes = (\<lambda>n. map_option disk_SizeGb (fake_disks c n)),
      attachments = (\<lambda>i. map_option (\<lambda>inst. attach_map (inst_Disks inst)) (fake_instances c i))\<rparr>"

text \<open>A disk is stored under its name and has no type URL; the devices of a node have
  different names and one of the two modes.\<close>

definition devices_ok :: "AttachedDisk list \<Rightarrow> bool" where
  "devices_ok ds \<longleftrightarrow> distinct (map ad_DeviceName ds) \<and>
     (\<forall>a \<in> set ds. ad_Mode a = ''READ_ONLY'' \<or> ad_Mode a = ''READ_WRITE'')"

definition state_inv :: "FakeCloudProvider \<Rightarrow> bool" where
  "state_inv c \<longleftrightarrow> fake_inv c \<and>
     (\<forall>n d. fake_disks c n = Some d \<longrightarrow> disk_Type d = '''') \<and>
     (\<forall>i inst. fake_instances c i = Some inst \<longrightarrow> devices_ok (inst_Disks inst))"

lemma attach_map_None: "attach_map ds n = None \<longleftrightarrow> n \<notin> ad_DeviceName ` set ds"
  by (induction ds) (auto simp: attach_map_def)

lemma attach_map_find:
  "attach_map ds n =
     map_option (\<lambda>a. ad_Mode a = ''READ_ONLY'') (find (\<lambda>a. ad_DeviceName a = n) ds)"
  by (induction ds) (simp_all add: attach_map_def)

lemma find_mset:
  assumes "distinct (map ad_DeviceName ds)" and "distinct (map ad_DeviceName es)"
    and "mset ds = mset es"
  shows "attach_map ds = attach_map es"
proof -
  have keys: "map fst (map (\<lambda>a. (ad_DeviceName a, ad_Mode a = ''READ_ONLY'')) xs) =
      map ad_DeviceName xs" for xs :: "AttachedDisk list"
    by simp
  have "set (map (\<lambda>a. (ad_DeviceName a, ad_Mode a = ''READ_ONLY'')) ds) =
      set (map (\<lambda>a. (ad_DeviceName a, ad_Mode a = ''READ_ONLY'')) es)"
    using mset_eq_setD [OF assms(3)] by simp
  then show ?thesis
    unfolding attach_map_def using assms(1,2) by (intro map_of_inject_set [THEN iffD2])
      (simp_all only: keys)
qed

text \<open>Adding a device at the end, and removing one.\<close>

lemma attach_map_append:
  "ad_DeviceName a \<notin> ad_DeviceName ` set ds \<Longrightarrow>
   attach_map (ds @ [a]) = (attach_map ds)(ad_DeviceName a \<mapsto> ad_Mode a = ''READ_ONLY'')"
  by (rule ext, induction ds) (auto simp: attach_map_def)

lemma devices_ok_append:
  "devices_ok ds \<Longrightarrow> ad_DeviceName a \<notin> ad_DeviceName ` set ds \<Longrightarrow>
   ad_Mode a = access_mode ro \<Longrightarrow> devices_ok (ds @ [a])"
  by (auto simp: devices_ok_def)

lemma remove_device_filter:
  assumes "distinct (map ad_DeviceName ds)"
  shows "mset (remove_device ds n) = mset (filter (\<lambda>a. ad_DeviceName a \<noteq> n) ds)"
proof (cases "n \<in> ad_DeviceName ` set ds")
  case False
  then have "remove_device ds n = ds"
    by (simp add: remove_device_def device_index_None [symmetric])
  moreover have "filter (\<lambda>a. ad_DeviceName a \<noteq> n) ds = ds"
    using False by (auto simp: filter_id_conv)
  ultimately show ?thesis by simp
next
  case True
  then obtain a where a: "a \<in># mset ds" "ad_DeviceName a = n"
    "mset (remove_device ds n) = mset ds - {#a#}"
    using mset_remove_device [of n ds] by blast
  then obtain xs ys where ds: "ds = xs @ a # ys" by (auto dest: split_list)
  have "\<forall>b \<in> set (xs @ ys). ad_DeviceName b \<noteq> n"
    using assms a(2) by (auto simp: ds) (metis image_eqI)+
  then have "filter (\<lambda>a. ad_DeviceName a \<noteq> n) ds = xs @ ys"
    using a(2) by (simp add: ds)
  with a(3) show ?thesis by (simp add: ds)
qed

lemma distinct_mset_map:
  "mset xs = mset ys \<Longrightarrow> distinct (map f xs) \<longleftrightarrow> distinct (map f ys)"
  by (metis mset_eq_imp_distinct_iff mset_map)

lemma devices_ok_remove:
  assumes "devices_ok ds"
  shows "devices_ok (remove_device ds n)"
proof -
  have d: "distinct (map ad_DeviceName ds)" using assms by (simp add: devices_ok_def)
  have "distinct (map ad_DeviceName (filter (\<lambda>a. ad_DeviceName a \<noteq> n) ds))"
    using d by (simp add: distinct_map_filter)
  moreover have "set (remove_device ds n) \<subseteq> set ds"
    using mset_eq_setD [OF remove_device_filter [OF d]] by auto
  ultimately show ?thesis
    using assms distinct_mset_map [OF remove_device_filter [OF d]] by (auto simp: devices_ok_def)
qed

lemma attach_map_filter:
  "attach_map (filter (\<lambda>a. ad_DeviceName a \<noteq> n) ds) = (attach_map ds)(n := None)"
  by (rule ext, induction ds) (auto simp: attach_map_def)

lemma attach_map_remove:
  assumes "devices_ok ds"
  shows "attach_map (remove_device ds n) = (attach_map ds)(n := None)"
proof -
  have d: "distinct (map ad_DeviceName ds)" using assms by (simp add: devices_ok_def)
  have "attach_map (remove_device ds n) = attach_map (filter (\<lambda>a. ad_DeviceName a \<noteq> n) ds)"
    using devices_ok_remove [OF assms, of n] d
    by (intro find_mset remove_device_filter) (simp_all add: devices_ok_def distinct_map_filter)
  then show ?thesis by (simp add: attach_map_filter)
qed

lemma abs_state_simps [simp]:
  "w_zone (abs_state c) = fake_zone c"
  "volumes (abs_state c) n = map_option disk_SizeGb (fake_disks c n)"
  "attachments (abs_state c) i =
     map_option (\<lambda>inst. attach_map (inst_Disks inst)) (fake_instances c i)"
  by (simp_all add: abs_state_def)

lemma abs_state_disks:
  "abs_state (c\<lparr>fake_disks := (fake_disks c)(n := d)\<rparr>) =
     (abs_state c)\<lparr>volumes := (volumes (abs_state c))(n := map_option disk_SizeGb d)\<rparr>"
  by (auto simp: abs_state_def fun_eq_iff)

lemma abs_state_instances:
  "abs_state (c\<lparr>fake_instances := (fake_instances c)(i \<mapsto> inst)\<rparr>) =
     (abs_state c)\<lparr>attachments := (attachments (abs_state c))(i \<mapsto> attach_map (inst_Disks inst))\<rparr>"
  by (auto simp: abs_state_def fun_eq_iff)

section \<open>One call refines the specification\<close>

text \<open>A handler over the fake provider agrees with the specification from a state.\<close>

definition refines :: "rpc \<Rightarrow> FakeCloudProvider \<Rightarrow> bool" where
  "refines r c \<longleftrightarrow>
     (\<exists>k c'. serve_rpc fakeCompute r c = (Ret k, c') \<and>
        spec r (abs_state c) = (k, abs_state c') \<and> state_inv c')"

lemma state_invD:
  assumes "state_inv c"
  shows "fake_inv c"
    and "\<And>n d. fake_disks c n = Some d \<Longrightarrow> disk_Name d = n \<and> disk_Type d = ''''"
    and "\<And>i inst. fake_instances c i = Some inst \<Longrightarrow> devices_ok (inst_Disks inst)"
  using assms by (auto simp: state_inv_def dest: fake_invD)

lemma state_inv_disks:
  "state_inv c \<Longrightarrow> disk_Name d = n \<Longrightarrow> disk_Type d = '''' \<Longrightarrow>
   state_inv (c\<lparr>fake_disks := (fake_disks c)(n \<mapsto> d)\<rparr>)"
  "state_inv c \<Longrightarrow> state_inv (c\<lparr>fake_disks := (fake_disks c)(n := None)\<rparr>)"
  by (auto simp: state_inv_def fake_inv_def)

lemma state_inv_instances:
  "state_inv c \<Longrightarrow> devices_ok (inst_Disks inst) \<Longrightarrow>
   state_inv (c\<lparr>fake_instances := (fake_instances c)(i \<mapsto> inst)\<rparr>)"
  by (auto simp: state_inv_def fake_inv_def)

lemma Fake_validateDisk_new:
  "disk_Type d = '''' \<Longrightarrow>
   case snd (Fake_validateDisk d t (GetRequiredBytes cr) (GetLimitBytes cr)) of
     None \<Rightarrow> fits cr (disk_SizeGb d) \<and> t \<noteq> ''''
   | Some e \<Rightarrow> error_code e = AlreadyExists \<and> \<not> (fits cr (disk_SizeGb d) \<and> t \<noteq> '''')"
  by (auto simp: Fake_validateDisk_def fits_def Let_def word_sle_eq)

lemma refines_Create: "state_inv c \<Longrightarrow> refines (Create req) c"
proof (cases "cv_Name req = '''' \<or> cv_VolumeCapabilities req = []")
  case True
  assume "state_inv c"
  with True show ?thesis
    by (auto simp: refines_def CreateVolume_def Let_def)
next
  case False
  assume inv: "state_inv c"
  note run = CreateVolume_fake [of req c]
  show ?thesis
  proof (cases "apply_parameters (cv_Parameters req) ''pd-standard'' (fake_zone c)")
    case (Inl e)
    with False inv run show ?thesis
      by (auto simp: refines_def call_def Let_def apply_parameters_code)
  next
    case (Inr tz)
    obtain t z where tz: "tz = (t, z)" by (rule prod.exhaust)
    show ?thesis
    proof (cases "fake_disks c (cv_Name req)")
      case None
      with False inv run Inr tz show ?thesis
        by (auto simp: refines_def call_def Let_def abs_state_disks new_disk_def
              intro!: state_inv_disks)
    next
      case (Some d)
      with False inv run Inr tz show ?thesis
        using Fake_validateDisk_new [where d = d and t = t and cr = "cv_CapacityRange req"] state_invD(2) [OF inv Some]
        by (auto simp: refines_def call_def Let_def split: option.splits)
    qed
  qed
qed

lemma refines_Delete: "state_inv c \<Longrightarrow> refines (Delete req) c"
proof (cases "dv_VolumeId req = ''''")
  case True
  assume "state_inv c"
  with True show ?thesis by (simp add: refines_def DeleteVolume_def Let_def)
next
  case False
  assume "state_inv c"
  with False DeleteVolume_fake [of req c] show ?thesis
    by (cases rule: SplitZoneNameId_cases [of "dv_VolumeId req"])
       (auto simp: refines_def volume_of_def call_def abs_state_disks intro!: state_inv_disks)
qed


lemma access_mode_eq [simp]: "access_mode ro = ''READ_ONLY'' \<longleftrightarrow> ro"
  by simp

lemma refines_Publish: "state_inv c \<Longrightarrow> refines (Publish req) c"
proof (cases "cp_VolumeId req = '''' \<or> cp_NodeId req = '''' \<or> cp_VolumeCapability req = None")
  case True
  assume "state_inv c"
  with True show ?thesis
    by (auto simp: refines_def ControllerPublishVolume_def Let_def split: option.splits)
next
  case False
  assume inv: "state_inv c"
  show ?thesis
  proof (cases rule: SplitZoneNameId_cases [of "cp_VolumeId req"])
    case (bad m)
    with inv False show ?thesis
      by (auto simp: refines_def volume_of_def ControllerPublishVolume_def Let_def)
  next
    case (ok z v)
    note run = ControllerPublishVolume_fake [of req z v c]
    have vol: "volume_of (cp_VolumeId req) = Some v" by (simp add: volume_of_def ok(1))
    show ?thesis
    proof (cases "fake_disks c v = None \<or> fake_instances c (cp_NodeId req) = None")
      case True
      with inv False run ok vol show ?thesis
        by (auto simp: refines_def call_def Let_def split: option.splits)
    next
      case found: False
      then obtain d i where d: "fake_disks c v = Some d" and i: "fake_instances c (cp_NodeId req) = Some i"
        by auto
      from state_invD [OF inv] d i have name: "disk_Name d = v" and devs: "devices_ok (inst_Disks i)"
        by auto
      show ?thesis
      proof (cases "find (\<lambda>a. ad_DeviceName a = v) (inst_Disks i)")
        case None
        then have new: "v \<notin> ad_DeviceName ` set (inst_Disks i)" by (auto simp: find_None_iff)
        with None inv False run ok vol d i name devs show ?thesis
          by (simp add: refines_def call_def Let_def abs_state_instances attach_map_append
                attach_map_find state_inv_instances devices_ok_append)
      next
        case (Some a)
        then have "a \<in> set (inst_Disks i)" by (auto simp: find_Some_iff)
        with devs have "ad_Mode a = ''READ_ONLY'' \<or> ad_Mode a = ''READ_WRITE''"
          by (simp add: devices_ok_def)
        with Some inv False run ok vol d i name devs show ?thesis
          by (auto simp: refines_def call_def Let_def attach_map_find)
      qed
    qed
  qed
qed

lemma refines_Unpublish: "state_inv c \<Longrightarrow> refines (Unpublish req) c"
proof (cases "cu_VolumeId req = '''' \<or> cu_NodeId req = ''''")
  case True
  assume "state_inv c"
  with True show ?thesis
    by (auto simp: refines_def ControllerUnpublishVolume_def Let_def)
next
  case False
  assume inv: "state_inv c"
  show ?thesis
  proof (cases rule: SplitZoneNameId_cases [of "cu_VolumeId req"])
    case (bad m)
    with inv False show ?thesis
      by (auto simp: refines_def volume_of_def ControllerUnpublishVolume_def Let_def)
  next
    case (ok z v)
    note run = ControllerUnpublishVolume_fake [of req z v c]
    have vol: "volume_of (cu_VolumeId req) = Some v" by (simp add: volume_of_def ok(1))
    show ?thesis
    proof (cases "fake_disks c v = None \<or> fake_instances c (cu_NodeId req) = None")
      case True
      with inv False run ok vol state_invD(1) [OF inv] show ?thesis
        by (auto simp: refines_def call_def Let_def split: option.splits)
    next
      case found: False
      then obtain d i where d: "fake_disks c v = Some d" and i: "fake_instances c (cu_NodeId req) = Some i"
        by auto
      from state_invD [OF inv] i have devs: "devices_ok (inst_Disks i)" by auto
      show ?thesis
      proof (cases "v \<in> ad_DeviceName ` set (inst_Disks i)")
        case True
        with inv False run ok vol d i devs state_invD(1) [OF inv] show ?thesis
          by (simp add: refines_def call_def Let_def abs_state_instances attach_map_remove
                state_inv_instances devices_ok_remove)
      next
        case not: False
        then have none: "attach_map (inst_Disks i) v = None" by (simp add: attach_map_None)
        then have "(attach_map (inst_Disks i))(v := None) = attach_map (inst_Disks i)" by auto
        then have "abs_state c = abs_state c\<lparr>attachments := (attachments (abs_state c))
            (cu_NodeId req \<mapsto> (attach_map (inst_Disks i))(v := None))\<rparr>"
          using i by (auto simp: abs_state_def fun_eq_iff)
        with not inv False run ok vol d i state_invD(1) [OF inv] show ?thesis
          by (simp add: refines_def call_def Let_def)
      qed
    qed
  qed
qed

lemma all_refine: "state_inv c \<Longrightarrow> refines r c"
  by (cases r) (simp_all add: refines_Create refines_Delete refines_Publish refines_Unpublish)


section \<open>Runs\<close>

text \<open>An event is a node joining (InsertInstance of a fresh instance, as the tests do) or a
  call answered with a code.\<close>

datatype event = Join_node string | Answered rpc code

inductive fake_step :: "FakeCloudProvider \<Rightarrow> event \<Rightarrow> FakeCloudProvider \<Rightarrow> bool" where
  join: "fake_instances c i = None \<Longrightarrow>
    fake_step c (Join_node i) (Fake_InsertInstance \<lparr>inst_Name = i, inst_Disks = []\<rparr> i c)"
| served: "serve_rpc fakeCompute r c = (Ret k, c') \<Longrightarrow> fake_step c (Answered r k) c'"

inductive_cases fake_stepE [elim]: "fake_step c e c'"
inductive_simps fake_step_served: "fake_step c (Answered r k) c'"

inductive world_step :: "world \<Rightarrow> event \<Rightarrow> world \<Rightarrow> bool" where
  world_join: "attachments w i = None \<Longrightarrow>
    world_step w (Join_node i) (w\<lparr>attachments := (attachments w)(i \<mapsto> Map.empty)\<rparr>)"
| world_served: "spec r w = (k, w') \<Longrightarrow> world_step w (Answered r k) w'"

inductive_cases world_stepE [elim]: "world_step w e w'"

inductive runs :: "('s \<Rightarrow> event \<Rightarrow> 's \<Rightarrow> bool) \<Rightarrow> 's \<Rightarrow> event list \<Rightarrow> 's \<Rightarrow> bool" for step where
  runs_Nil: "runs step s [] s"
| runs_snoc: "runs step s es s1 \<Longrightarrow> step s1 e s2 \<Longrightarrow> runs step s (es @ [e]) s2"

definition start :: "string \<Rightarrow> string \<Rightarrow> FakeCloudProvider" where
  "start p z = fst (FakeCreateCloudProvider p z)"

definition start_world :: "string \<Rightarrow> world" where
  "start_world z = \<lparr>w_zone = z, volumes = Map.empty, attachments = Map.empty\<rparr>"

definition reachable :: "FakeCloudProvider \<Rightarrow> bool" where
  "reachable c \<longleftrightarrow> (\<exists>p z es. runs fake_step (start p z) es c)"

lemma state_inv_start: "state_inv (start p z)"
  by (simp add: state_inv_def start_def FakeCreateCloudProvider_def fake_inv_def)

lemma abs_start [simp]: "abs_state (start p z) = start_world z"
  by (simp add: start_def start_world_def abs_state_def FakeCreateCloudProvider_def fun_eq_iff)

lemma fake_step_refines:
  assumes "state_inv c" and "fake_step c e c'"
  shows "state_inv c' \<and> world_step (abs_state c) e (abs_state c')"
  using assms(2)
proof cases
  case (join i)
  have "abs_state (Fake_InsertInstance \<lparr>inst_Name = i, inst_Disks = []\<rparr> i c) =
      (abs_state c)\<lparr>attachments := (attachments (abs_state c))(i \<mapsto> Map.empty)\<rparr>"
    by (auto simp: Fake_InsertInstance_def abs_state_instances attach_map_def fun_eq_iff)
  with join assms(1) world_join [of "abs_state c" i] show ?thesis
    by (auto simp: Fake_InsertInstance_def devices_ok_def intro!: state_inv_instances)
next
  case (served r k)
  from all_refine [OF assms(1), of r] served(2) have "spec r (abs_state c) = (k, abs_state c')"
    and "state_inv c'"
    by (auto simp: refines_def)
  with served(1) show ?thesis by (auto intro: world_served)
qed

lemma world_step_realised:
  assumes "state_inv c" and "world_step (abs_state c) e w"
  shows "\<exists>c'. fake_step c e c' \<and> abs_state c' = w"
  using assms(2)
proof cases
  case (world_join i)
  then have "fake_step c (Join_node i) (Fake_InsertInstance \<lparr>inst_Name = i, inst_Disks = []\<rparr> i c)"
    by (intro join) simp
  moreover from this have "world_step (abs_state c) (Join_node i)
      (abs_state (Fake_InsertInstance \<lparr>inst_Name = i, inst_Disks = []\<rparr> i c))"
    using fake_step_refines [OF assms(1)] by blast
  ultimately show ?thesis using world_join by (auto elim!: world_stepE)
next
  case (world_served r k)
  from all_refine [OF assms(1), of r] world_served(2) show ?thesis
    using world_served(1) by (auto simp: refines_def intro!: served)
qed

lemma runs_refine:
  assumes "runs fake_step (start p z) es c"
  shows "state_inv c \<and> runs world_step (start_world z) es (abs_state c)"
  using assms
proof (induction "start p z" es c rule: runs.induct)
  case runs_Nil
  show ?case using runs.runs_Nil [of world_step] by (simp add: state_inv_start)
next
  case (runs_snoc es s1 e s2)
  with fake_step_refines [of s1 e s2] show ?case by (auto intro: runs.runs_snoc)
qed

lemma runs_realised:
  assumes "runs world_step (start_world z) es w"
  shows "\<exists>c. runs fake_step (start p z) es c \<and> abs_state c = w"
  using assms
proof (induction "start_world z" es w rule: runs.induct)
  case runs_Nil
  show ?case using runs.runs_Nil [of fake_step "start p z"] abs_start by blast
next
  case (runs_snoc es w1 e w2)
  then obtain c where c: "runs fake_step (start p z) es c" "abs_state c = w1" by blast
  with runs_refine [OF c(1)] world_step_realised [of c e w2] runs_snoc(3) show ?case
    by (auto intro: runs.runs_snoc)
qed

lemma reachable_inv: "reachable c \<Longrightarrow> state_inv c"
  by (auto simp: reachable_def dest: runs_refine)

text \<open>C13. The driver over the in-memory provider and the abstract specification have the same
  runs: a sequence of nodes joining and of calls with their answers, from an empty cloud, is
  possible for the handlers exactly when the specification allows it, and it ends in states
  that correspond.\<close>

theorem runs_equivalent:
  "(\<exists>c. runs fake_step (start p z) es c \<and> abs_state c = w) \<longleftrightarrow>
     runs world_step (start_world z) es w"
  using runs_refine runs_realised by blast

section \<open>Retries and safety\<close>

fun is_create :: "rpc \<Rightarrow> bool" where
  "is_create (Create _) = True"
| "is_create _ = False"

lemma spec_retry: "\<not> is_create r \<Longrightarrow> spec r w = (OK, w') \<Longrightarrow> spec r w' = (OK, w')"
  by (cases r) (auto simp: Let_def split: if_splits option.splits)

text \<open>In every reachable state, a delete, publish or unpublish that was answered OK may be
  sent again: the repetition is answered OK and changes nothing, as seen by a client.\<close>

lemma retry_idempotent:
  assumes "reachable c" and "\<not> is_create r" and "serve_rpc fakeCompute r c = (Ret OK, c')"
  shows "\<exists>c''. serve_rpc fakeCompute r c' = (Ret OK, c'') \<and> abs_state c'' = abs_state c'"
proof -
  have inv: "state_inv c" using assms(1) by (rule reachable_inv)
  from fake_step_refines [OF this served [OF assms(3)]]
  have c': "state_inv c'" "spec r (abs_state c) = (OK, abs_state c')" by auto
  from all_refine [OF c'(1), of r] spec_retry [OF assms(2) c'(2)] show ?thesis
    by (auto simp: refines_def)
qed

text \<open>The cloud of the witnesses: one node and one volume of 10 GiB.\<close>

definition one_node :: FakeCloudProvider where
  "one_node = Fake_InsertInstance \<lparr>inst_Name = ''node'', inst_Disks = []\<rparr> ''node''
     (start ''p'' ''us-a'')"

definition create_req :: "CapacityRange option \<Rightarrow> CreateVolumeRequest" where
  "create_req cr = \<lparr>cv_Name = ''vol'', cv_CapacityRange = cr,
     cv_VolumeCapabilities = [\<lparr>vc_AccessType = None, vc_AccessMode = Some 1\<rparr>],
     cv_Parameters = []\<rparr>"

definition one_volume :: FakeCloudProvider where
  "one_volume = one_node\<lparr>fake_disks := [''vol'' \<mapsto> new_disk ''vol'' 5 '''']\<rparr>"

lemma serve_create:
  "serve_rpc fakeCompute (Create (create_req None)) one_node = (Ret OK, one_volume)"
  by (simp add: CreateVolume_fake create_req_def call_def Let_def one_node_def one_volume_def
        start_def FakeCreateCloudProvider_def Fake_InsertInstance_def getRequestCapacity_def
        disk_size_def BytesToGb_def int64_div_def DefaultVolumeSize_def MinimumDiskSizeInGb_def
        sdiv_pos word_sless_alt)

lemma reachable_one_node: "reachable one_node"
proof -
  have "fake_step (start ''p'' ''us-a'') (Join_node ''node'') one_node"
    unfolding one_node_def by (rule join) (simp add: start_def FakeCreateCloudProvider_def)
  then have "runs fake_step (start ''p'' ''us-a'') ([] @ [Join_node ''node'']) one_node"
    by (rule runs_snoc [OF runs_Nil])
  then show ?thesis unfolding reachable_def by blast
qed

lemma reachable_served:
  assumes "reachable c" and "serve_rpc fakeCompute r c = (Ret k, c')"
  shows "reachable c'"
proof -
  from assms(1) obtain p z es where "runs fake_step (start p z) es c" by (auto simp: reachable_def)
  from runs_snoc [OF this served [OF assms(2)]] show ?thesis by (auto simp: reachable_def)
qed

lemmas reachable_one_volume = reachable_served [OF reachable_one_node serve_create]

definition publish_req :: "bool \<Rightarrow> ControllerPublishVolumeRequest" where
  "publish_req ro = \<lparr>cp_VolumeId = ''us-a/vol'', cp_NodeId = ''node'',
     cp_VolumeCapability = Some \<lparr>vc_AccessType = None, vc_AccessMode = Some 1\<rparr>,
     cp_Readonly = ro\<rparr>"

lemma volume_of_sample: "SplitZoneNameId ''us-a/vol'' = (''us-a'', ''vol'', None)"
  by (simp add: SplitZoneNameId_def)

lemma serve_publish: "\<exists>c'. serve_rpc fakeCompute (Publish (publish_req ro)) one_volume = (Ret OK, c')"
  using ControllerPublishVolume_fake [of "publish_req ro" "''us-a''" "''vol''" one_volume]
  by (simp add: publish_req_def volume_of_sample call_def one_volume_def one_node_def start_def
        FakeCreateCloudProvider_def Fake_InsertInstance_def new_disk_def)

text \<open>C26. A create that made a new volume may be sent again with the same answer exactly when
  the rounded-down size still covers the required bytes and the limit is not below it (at
  least 5 GiB are created), and the requested type is not empty. Otherwise the retry is
  refused with AlreadyExists.\<close>

theorem create_retry:
  assumes "reachable c" and "fake_disks c (cv_Name req) = None"
    and "serve_rpc fakeCompute (Create req) c = (Ret OK, c')"
  shows "\<exists>c'' t z. apply_parameters (cv_Parameters req) ''pd-standard'' (fake_zone c) = Inr (t, z) \<and>
    abs_state c'' = abs_state c' \<and>
    serve_rpc fakeCompute (Create req) c' =
      (Ret (let size = max 5 (sint (getRequestCapacity (cv_CapacityRange req)) div GiB) * GiB;
                r = GetRequiredBytes (cv_CapacityRange req);
                l = GetLimitBytes (cv_CapacityRange req)
            in if (r \<noteq> 0 \<longrightarrow> sint r \<le> size) \<and> (l \<noteq> 0 \<longrightarrow> size \<le> sint l) \<and> t \<noteq> ''''
               then OK else AlreadyExists), c'')"
proof -
  have inv: "state_inv c" using assms(1) by (rule reachable_inv)
  from fake_step_refines [OF this served [OF assms(3)]]
  have c': "state_inv c'" "spec (Create req) (abs_state c) = (OK, abs_state c')" by auto
  from c'(2) assms(2) obtain t z where tz:
    "apply_parameters (cv_Parameters req) ''pd-standard'' (fake_zone c) = Inr (t, z)"
    "cv_Name req \<noteq> ''''" "cv_VolumeCapabilities req \<noteq> []"
    and w': "abs_state c' = (abs_state c)\<lparr>volumes := (volumes (abs_state c))
      (cv_Name req \<mapsto> disk_size (getRequestCapacity (cv_CapacityRange req)))\<rparr>"
    by (auto simp: Let_def split: if_splits sum.splits)
  have "0 \<le> sint (getRequestCapacity (cv_CapacityRange req))"
    using getRequestCapacity_ge [of "cv_CapacityRange req"] by simp
  note size = sint_disk_size_bytes [OF this]
  have "fake_zone c' = fake_zone c"
    using arg_cong [OF w', of w_zone] by simp
  moreover have "map_option disk_SizeGb (fake_disks c' (cv_Name req)) =
      Some (disk_size (getRequestCapacity (cv_CapacityRange req)))"
    using arg_cong [OF w', of "\<lambda>w. volumes w (cv_Name req)"] by simp
  ultimately show ?thesis
    using all_refine [OF c'(1), of "Create req"] tz size
    by (auto simp: refines_def Let_def fits_def)
qed

theorem create_retry_witness:
  "\<exists>c''. serve_rpc fakeCompute (Create (create_req None)) one_volume = (Ret OK, c'')"
proof -
  have cap: "sint (getRequestCapacity None) = 5000000000"
    by (simp add: getRequestCapacity_def)
  have "fake_disks one_node (cv_Name (create_req None)) = None"
    by (simp add: one_node_def start_def FakeCreateCloudProvider_def Fake_InsertInstance_def)
  from create_retry [OF reachable_one_node this serve_create] show ?thesis
    by (auto simp: create_req_def cap)
qed

text \<open>In every reachable state a node has at most one attachment of each device name, every
  attachment has one of the two modes, and every disk is stored under its own name.\<close>

lemma reachable_safe:
  assumes "reachable c"
  shows "(fake_instances c i = Some inst \<longrightarrow>
       distinct (map ad_DeviceName (inst_Disks inst)) \<and>
       (\<forall>a \<in> set (inst_Disks inst). ad_Mode a \<in> {''READ_ONLY'', ''READ_WRITE''})) \<and>
    (fake_disks c n = Some d \<longrightarrow> disk_Name d = n)"
  using reachable_inv [OF assms] by (auto simp: state_inv_def devices_ok_def dest: fake_invD)

text \<open>The in-memory provider deletes a volume that is still published (the GCE API would
  refuse). From then on the volume cannot be unpublished: the call is answered with Unknown
  and the attachment stays.\<close>

lemma delete_while_published:
  assumes "reachable c" and "SplitZoneNameId vid = (z, v, None)" and "node \<noteq> ''''"
    and "attachments (abs_state c) node = Some at" and "at v = Some ro"
  shows "\<exists>c' c''. serve_rpc fakeCompute (Delete \<lparr>dv_VolumeId = vid\<rparr>) c = (Ret OK, c') \<and>
    serve_rpc fakeCompute (Unpublish \<lparr>cu_VolumeId = vid, cu_NodeId = node\<rparr>) c' =
      (Ret UnknownCode, c'') \<and>
    attachments (abs_state c'') node = Some at"
proof -
  have vid: "vid \<noteq> ''''" using assms(2) by (auto simp: SplitZoneNameId_def)
  have vol: "volume_of vid = Some v" by (simp add: volume_of_def assms(2))
  from all_refine [OF reachable_inv [OF assms(1)], of "Delete \<lparr>dv_VolumeId = vid\<rparr>"] obtain c' where
    c': "serve_rpc fakeCompute (Delete \<lparr>dv_VolumeId = vid\<rparr>) c = (Ret OK, c')" "state_inv c'"
    and w': "abs_state c' = (abs_state c)\<lparr>volumes := (volumes (abs_state c))(v := None)\<rparr>"
    by (auto simp: refines_def vol vid)
  have gone: "fake_disks c' v = None"
    using arg_cong [OF w', of "\<lambda>w. volumes w v"] by simp
  have still: "attachments (abs_state c') node = Some at"
    using arg_cong [OF w', of "\<lambda>w. attachments w node"] assms(4) by (simp del: abs_state_simps)
  from all_refine [OF c'(2), of "Unpublish \<lparr>cu_VolumeId = vid, cu_NodeId = node\<rparr>"] gone
  obtain c'' where "serve_rpc fakeCompute (Unpublish \<lparr>cu_VolumeId = vid, cu_NodeId = node\<rparr>) c' =
      (Ret UnknownCode, c'')" "abs_state c' = abs_state c''"
    by (auto simp: refines_def vol vid assms(3) Let_def)
  with c'(1) still show ?thesis by auto
qed


lemma published_state:
  "\<exists>c. reachable c \<and> volumes (abs_state c) ''vol'' = Some 5 \<and>
     attachments (abs_state c) ''node'' = Some [''vol'' \<mapsto> True]"
proof -
  from serve_publish obtain c where
    c: "serve_rpc fakeCompute (Publish (publish_req True)) one_volume = (Ret OK, c)" by blast
  have node: "fake_instances one_volume ''node'' = Some \<lparr>inst_Name = ''node'', inst_Disks = []\<rparr>"
    and vol: "fake_disks one_volume ''vol'' = Some (new_disk ''vol'' 5 '''')"
    by (simp_all add: one_volume_def one_node_def start_def FakeCreateCloudProvider_def
        Fake_InsertInstance_def)
  have id: "volume_of ''us-a/vol'' = Some ''vol''" by (simp add: volume_of_def volume_of_sample)
  from all_refine [OF reachable_inv [OF reachable_one_volume], of "Publish (publish_req True)"] c
  have "spec (Publish (publish_req True)) (abs_state one_volume) = (OK, abs_state c)"
    by (auto simp: refines_def)
  then have w: "abs_state c = (abs_state one_volume)\<lparr>attachments :=
      (attachments (abs_state one_volume))(''node'' \<mapsto> [''vol'' \<mapsto> True])\<rparr>"
    by (simp add: publish_req_def id node vol attach_map_def)
  have "attachments (abs_state c) ''node'' = Some [''vol'' \<mapsto> True]"
    using arg_cong [OF w, of "\<lambda>w. attachments w ''node''"] by (simp del: abs_state_simps)
  moreover have "volumes (abs_state c) ''vol'' = Some 5"
    using arg_cong [OF w, of "\<lambda>w. volumes w ''vol''"] by (simp add: vol new_disk_def)
  ultimately show ?thesis using reachable_served [OF reachable_one_volume c] by blast
qed

end
