(* ===== verification/GceApi.thy ===== *)
theory GceApi
  imports Lifecycle "HOL-Library.AList"
begin

text \<open>
  The Compute Engine API as its documentation describes it, seen by the provider of
  pkg/gce-cloud-provider/gce-compute.go. The service itself is not code of the repository: it
  stays the record \<open>ComputeService\<close> over an arbitrary world, and \<open>documented\<close> names the laws
  the driver relies on, over an abstract view of that world. With \<open>faults\<close> a request may also
  fail for a reason of its own, and a finished operation may have failed.
\<close>

section \<open>The view\<close>

text \<open>Volumes by zone and name with size in GiB and disk type, and the devices of each
  instance of a zone.\<close>

datatype attachment = Attachment (at_device: string) (at_mode: string) (at_source: string)

record gce_world =
  g_volumes :: "string \<times> string \<rightharpoonup> int64 \<times> string"
  g_nodes :: "((string \<times> string) \<times> attachment list) list"

abbreviation devices :: "gce_world \<Rightarrow> string \<Rightarrow> string \<Rightarrow> attachment list option" where
  "devices w z i \<equiv> map_of (g_nodes w) (z, i)"

definition attachment_of :: "AttachedDisk \<Rightarrow> attachment" where
  "attachment_of a = Attachment (ad_DeviceName a) (ad_Mode a) (ad_Source a)"

text \<open>What an accepted request does when its operation finishes without an error.\<close>

datatype effect =
    ECreate string string int64 string
  | EDelete string string
  | EAttach string string attachment
  | EDetach string string string

fun apply_effect :: "effect \<Rightarrow> gce_world \<Rightarrow> gce_world" where
  "apply_effect (ECreate z n sz t) w = w\<lparr>g_volumes := (g_volumes w)((z, n) \<mapsto> (sz, t))\<rparr>"
| "apply_effect (EDelete z n) w = w\<lparr>g_volumes := (g_volumes w)((z, n) := None)\<rparr>"
| "apply_effect (EAttach z i a) w =
     (case devices w z i of None \<Rightarrow> w
      | Some ds \<Rightarrow> w\<lparr>g_nodes := AList.update (z, i) (ds @ [a]) (g_nodes w)\<rparr>)"
| "apply_effect (EDetach z i dev) w =
     (case devices w z i of None \<Rightarrow> w
      | Some ds \<Rightarrow> w\<lparr>g_nodes :=
          AList.update (z, i) (filter (\<lambda>a. at_device a \<noteq> dev) ds) (g_nodes w)\<rparr>)"

text \<open>The view: the world and the accepted operations that have not finished.\<close>

type_synonym gce_view = "gce_world \<times> (string \<rightharpoonup> effect)"

text \<open>The source URL of a disk, an attachment of it anywhere, and the documented exclusion: one
  instance in read-write mode, or any number in read-only mode.\<close>

definition disk_source :: "string \<Rightarrow> string \<Rightarrow> string \<Rightarrow> string \<Rightarrow> string" where
  "disk_source base p z n = base @ p @ ''/zones/'' @ z @ ''/disks/'' @ n"

definition in_use :: "gce_world \<Rightarrow> string \<Rightarrow> bool" where
  "in_use w src \<longleftrightarrow> (\<exists>(k, ds) \<in> set (g_nodes w). \<exists>a \<in> set ds. at_source a = src)"

definition conflict :: "gce_world \<Rightarrow> string \<Rightarrow> string \<Rightarrow> bool" where
  "conflict w src mode \<longleftrightarrow> (\<exists>(k, ds) \<in> set (g_nodes w). \<exists>a \<in> set ds.
     at_source a = src \<and> (mode = ''READ_WRITE'' \<or> at_mode a = ''READ_WRITE''))"

section \<open>The documented answers\<close>

definition api_reasons :: "string list" where
  "api_reasons = [''notFound'', ''alreadyExists'', ''resourceInUseByAnotherResource'']"

text \<open>An error with exactly that one of the three reasons (with none of them for the empty
  string).\<close>

definition error_is :: "string \<Rightarrow> error \<Rightarrow> bool" where
  "error_is reason e \<longleftrightarrow> (\<forall>r \<in> set api_reasons. IsGCEError e r \<longleftrightarrow> r = reason)"

definition refused :: "string \<Rightarrow> 'v \<Rightarrow> error + 'a \<Rightarrow> 'v \<Rightarrow> bool" where
  "refused reason v r v' \<longleftrightarrow> v' = v \<and> (\<exists>e. r = Inl e \<and> error_is reason e)"

definition accepted :: "effect \<Rightarrow> gce_view \<Rightarrow> error + Operation \<Rightarrow> gce_view \<Rightarrow> bool" where
  "accepted eff v r v' \<longleftrightarrow> (\<exists>op. r = Inr op \<and> v' = (fst v, (snd v)(op_Name op \<mapsto> eff)))"

definition get_disk_law :: "string \<Rightarrow> string \<Rightarrow> gce_view \<Rightarrow> error + Disk \<Rightarrow> gce_view \<Rightarrow> bool" where
  "get_disk_law z n v r v' \<longleftrightarrow>
     (case g_volumes (fst v) (z, n) of
        None \<Rightarrow> refused ''notFound'' v r v'
      | Some (sz, t) \<Rightarrow> v' = v \<and>
          (\<exists>d. r = Inr d \<and> disk_Name d = n \<and> disk_SizeGb d = sz \<and> respType_last d = t))"

definition get_instance_law ::
    "string \<Rightarrow> string \<Rightarrow> gce_view \<Rightarrow> error + Instance \<Rightarrow> gce_view \<Rightarrow> bool" where
  "get_instance_law z i v r v' \<longleftrightarrow>
     (case devices (fst v) z i of
        None \<Rightarrow> refused ''notFound'' v r v'
      | Some ds \<Rightarrow> v' = v \<and> (\<exists>inst. r = Inr inst \<and> map attachment_of (inst_Disks inst) = ds))"

definition insert_law ::
    "string \<Rightarrow> Disk \<Rightarrow> gce_view \<Rightarrow> error + Operation \<Rightarrow> gce_view \<Rightarrow> bool" where
  "insert_law z d v r v' \<longleftrightarrow>
     (if g_volumes (fst v) (z, disk_Name d) \<noteq> None then refused ''alreadyExists'' v r v'
      else accepted (ECreate z (disk_Name d) (disk_SizeGb d) (respType_last d)) v r v')"

definition delete_law ::
    "(string \<Rightarrow> string \<Rightarrow> string) \<Rightarrow> string \<Rightarrow> string \<Rightarrow> gce_view \<Rightarrow> error + Operation \<Rightarrow> gce_view \<Rightarrow> bool"
  where
  "delete_law src z n v r v' \<longleftrightarrow>
     (if g_volumes (fst v) (z, n) = None then refused ''notFound'' v r v'
      else if in_use (fst v) (src z n) then refused ''resourceInUseByAnotherResource'' v r v'
      else accepted (EDelete z n) v r v')"

text \<open>An attach names the disk by its source URL; nothing is said of other sources.\<close>

definition attach_law ::
    "(string \<Rightarrow> string \<Rightarrow> string) \<Rightarrow> string \<Rightarrow> string \<Rightarrow> AttachedDisk \<Rightarrow>
     gce_view \<Rightarrow> error + Operation \<Rightarrow> gce_view \<Rightarrow> bool" where
  "attach_law src z i a v r v' \<longleftrightarrow> (\<forall>n. ad_Source a = src z n \<longrightarrow>
     (case devices (fst v) z i of
        None \<Rightarrow> refused ''notFound'' v r v'
      | Some ds \<Rightarrow>
          if g_volumes (fst v) (z, n) = None then refused ''notFound'' v r v'
          else if conflict (fst v) (src z n) (ad_Mode a)
          then refused ''resourceInUseByAnotherResource'' v r v'
          else if ad_DeviceName a \<in> at_device ` set ds then refused '''' v r v'
          else accepted (EAttach z i (attachment_of a)) v r v'))"

definition detach_law ::
    "string \<Rightarrow> string \<Rightarrow> string \<Rightarrow> gce_view \<Rightarrow> error + Operation \<Rightarrow> gce_view \<Rightarrow> bool" where
  "detach_law z i dev v r v' \<longleftrightarrow>
     (case devices (fst v) z i of
        None \<Rightarrow> refused ''notFound'' v r v'
      | Some ds \<Rightarrow>
          if dev \<in> at_device ` set ds then accepted (EDetach z i dev) v r v'
          else refused '''' v r v')"

text \<open>A poll of a pending operation: when it reports DONE the operation has finished, with its
  effect unless it carries an error.\<close>

definition poll_law ::
    "bool \<Rightarrow> string \<Rightarrow> gce_view \<Rightarrow> error + Operation \<Rightarrow> gce_view \<Rightarrow> bool" where
  "poll_law faults name v r v' \<longleftrightarrow>
     (case snd v name of
        None \<Rightarrow> v' = v
      | Some eff \<Rightarrow>
          (case r of
             Inl _ \<Rightarrow> False
           | Inr po \<Rightarrow>
               if op_Status po = ''DONE''
               then v' = (if op_Error po = None then apply_effect eff (fst v) else fst v,
                          (snd v)(name := None)) \<and> (op_Error po = None \<or> faults)
               else v' = v))"

section \<open>The contract of the service\<close>

definition answers ::
    "bool \<Rightarrow> ('s \<Rightarrow> 'v) \<Rightarrow> ('s \<Rightarrow> (error + 'a) \<times> 's) \<Rightarrow> ('v \<Rightarrow> error + 'a \<Rightarrow> 'v \<Rightarrow> bool) \<Rightarrow> bool"
  where
  "answers faults view request law \<longleftrightarrow>
     (\<forall>s. case request s of (r, s') \<Rightarrow>
        law (view s) r (view s') \<or> faults \<and> refused '''' (view s) r (view s'))"

text \<open>Of the polls from a state, one of the first \<open>Suc k\<close> reports DONE.\<close>

fun done_in :: "('s \<Rightarrow> (error + Operation) \<times> 's) \<Rightarrow> nat \<Rightarrow> 's \<Rightarrow> bool" where
  "done_in poll 0 s = (case poll s of (Inr po, _) \<Rightarrow> op_Status po = ''DONE'' | _ \<Rightarrow> False)"
| "done_in poll (Suc k) s =
     (case poll s of (Inr po, s') \<Rightarrow> op_Status po = ''DONE'' \<or> done_in poll k s' | _ \<Rightarrow> False)"

definition documented :: "bool \<Rightarrow> 's ComputeService \<Rightarrow> string \<Rightarrow> ('s \<Rightarrow> gce_view) \<Rightarrow> bool" where
  "documented faults svc p view \<longleftrightarrow>
     (\<forall>z n. answers faults view (disks_get svc p z n) (get_disk_law z n)) \<and>
     (\<forall>z i. answers faults view (instances_get svc p z i) (get_instance_law z i)) \<and>
     (\<forall>z d. answers faults view (disks_insert svc p z d) (insert_law z d)) \<and>
     (\<forall>z n. answers faults view (disks_delete svc p z n)
        (delete_law (disk_source (svc_BasePath svc) p) z n)) \<and>
     (\<forall>z i a. answers faults view (instances_attachDisk svc p z i a)
        (attach_law (disk_source (svc_BasePath svc) p) z i a)) \<and>
     (\<forall>z i dev. answers faults view (instances_detachDisk svc p z i dev) (detach_law z i dev)) \<and>
     (\<forall>z nm. answers faults view (zoneOperations_get svc p z nm) (poll_law faults nm)) \<and>
     (\<not> faults \<longrightarrow> (\<forall>s z nm. snd (view s) nm \<noteq> None \<longrightarrow>
        done_in (zoneOperations_get svc p z nm) (min (svc_ticks svc s) 100) s))"

lemma documentedD:
  assumes "documented faults svc p view"
  shows "answers faults view (disks_get svc p z n) (get_disk_law z n)"
    and "answers faults view (instances_get svc p z i) (get_instance_law z i)"
    and "answers faults view (disks_insert svc p z d) (insert_law z d)"
    and "answers faults view (disks_delete svc p z n)
           (delete_law (disk_source (svc_BasePath svc) p) z n)"
    and "answers faults view (instances_attachDisk svc p z i a)
           (attach_law (disk_source (svc_BasePath svc) p) z i a)"
    and "answers faults view (instances_detachDisk svc p z i dev) (detach_law z i dev)"
    and "answers faults view (zoneOperations_get svc p z nm) (poll_law faults nm)"
    and "\<not> faults \<Longrightarrow> snd (view s) nm \<noteq> None \<Longrightarrow>
           done_in (zoneOperations_get svc p z nm) (min (svc_ticks svc s) 100) s"
  using assms unfolding documented_def by blast+

lemma answersD:
  assumes "answers faults view request law" and "request s = (r, s')"
  shows "law (view s) r (view s') \<or> faults \<and> refused '''' (view s) r (view s')"
  using assms by (auto simp: answers_def dest!: spec [of _ s])

lemma error_is_simps:
  "error_is reason e \<longleftrightarrow>
     (IsGCEError e ''notFound'' \<longleftrightarrow> reason = ''notFound'') \<and>
     (IsGCEError e ''alreadyExists'' \<longleftrightarrow> reason = ''alreadyExists'') \<and>
     (IsGCEError e ''resourceInUseByAnotherResource'' \<longleftrightarrow>
        reason = ''resourceInUseByAnotherResource'')"
  by (auto simp: error_is_def api_reasons_def)

section \<open>A service that keeps the contract\<close>

text \<open>For the witnesses: a service with the documented behaviour that keeps one operation at a
  time, which finishes at its second poll. Disk types are kept as sent and seen by their last
  part.\<close>

record toy =
  toy_world :: gce_world
  toy_op :: "(effect \<times> bool) option"

definition type_last :: "string \<Rightarrow> string" where
  "type_last t = last (Split t (CHR ''/''))"

fun norm_effect :: "effect \<Rightarrow> effect" where
  "norm_effect (ECreate z n sz t) = ECreate z n sz (type_last t)"
| "norm_effect eff = eff"

definition norm_world :: "gce_world \<Rightarrow> gce_world" where
  "norm_world w = w\<lparr>g_volumes := (\<lambda>k. map_option (apsnd type_last) (g_volumes w k))\<rparr>"

definition toy_view :: "toy \<Rightarrow> gce_view" where
  "toy_view s =
     (norm_world (toy_world s),
      (\<lambda>nm. if nm = ''op'' then map_option (\<lambda>(eff, b). norm_effect eff) (toy_op s) else None))"

definition toy_accept :: "effect \<Rightarrow> toy \<Rightarrow> (error + Operation) \<times> toy" where
  "toy_accept eff s =
     (Inr \<lparr>op_Name = ''op'', op_Status = ''PENDING'', op_Error = None\<rparr>,
      s\<lparr>toy_op := Some (eff, False)\<rparr>)"

definition toy_refuse :: "string \<Rightarrow> toy \<Rightarrow> (error + 'a) \<times> toy" where
  "toy_refuse reason s = (Inl (GoogleAPIError [reason]), s)"

definition toy_disk :: "string \<Rightarrow> int64 \<times> string \<Rightarrow> Disk" where
  "toy_disk n v = \<lparr>disk_Name = n, disk_SizeGb = fst v, disk_Description = '''',
     disk_Type = snd v, disk_Kind = ''compute#disk''\<rparr>"

definition toy_attached :: "attachment \<Rightarrow> AttachedDisk" where
  "toy_attached a = \<lparr>ad_DeviceName = at_device a, ad_Kind = '''', ad_Mode = at_mode a,
     ad_Source = at_source a, ad_Type = ''PERSISTENT''\<rparr>"

definition toy_poll :: "toy \<Rightarrow> (error + Operation) \<times> toy" where
  "toy_poll s =
     (case toy_op s of
        None \<Rightarrow> toy_refuse ''notFound'' s
      | Some (eff, polled) \<Rightarrow>
          if polled
          then (Inr \<lparr>op_Name = ''op'', op_Status = ''DONE'', op_Error = None\<rparr>,
                s\<lparr>toy_world := apply_effect eff (toy_world s), toy_op := None\<rparr>)
          else (Inr \<lparr>op_Name = ''op'', op_Status = ''RUNNING'', op_Error = None\<rparr>,
                s\<lparr>toy_op := Some (eff, True)\<rparr>))"

abbreviation toy_base :: string where
  "toy_base \<equiv> ''https://compute/projects/''"

definition toy_service :: "toy ComputeService" where
  "toy_service =
     \<lparr> svc_BasePath = toy_base,
       disks_get = (\<lambda>p z n s. case g_volumes (toy_world s) (z, n) of
          None \<Rightarrow> toy_refuse ''notFound'' s | Some v \<Rightarrow> (Inr (toy_disk n v), s)),
       disks_insert = (\<lambda>p z d s.
          if g_volumes (toy_world s) (z, disk_Name d) \<noteq> None then toy_refuse ''alreadyExists'' s
          else toy_accept (ECreate z (disk_Name d) (disk_SizeGb d) (disk_Type d)) s),
       disks_delete = (\<lambda>p z n s.
          if g_volumes (toy_world s) (z, n) = None then toy_refuse ''notFound'' s
          else if in_use (toy_world s) (disk_source toy_base p z n)
          then toy_refuse ''resourceInUseByAnotherResource'' s
          else toy_accept (EDelete z n) s),
       instances_get = (\<lambda>p z i s. case devices (toy_world s) z i of
          None \<Rightarrow> toy_refuse ''notFound'' s
        | Some ds \<Rightarrow> (Inr \<lparr>inst_Name = i, inst_Disks = map toy_attached ds\<rparr>, s)),
       instances_attachDisk = (\<lambda>p z i a s. case devices (toy_world s) z i of
          None \<Rightarrow> toy_refuse ''notFound'' s
        | Some ds \<Rightarrow>
            if g_volumes (toy_world s)
                 (z, drop (length (disk_source toy_base p z '''')) (ad_Source a)) = None
            then toy_refuse ''notFound'' s
            else if conflict (toy_world s) (ad_Source a) (ad_Mode a)
            then toy_refuse ''resourceInUseByAnotherResource'' s
            else if ad_DeviceName a \<in> at_device ` set ds then toy_refuse ''invalid'' s
            else toy_accept (EAttach z i (attachment_of a)) s),
       instances_detachDisk = (\<lambda>p z i dev s. case devices (toy_world s) z i of
          None \<Rightarrow> toy_refuse ''notFound'' s
        | Some ds \<Rightarrow>
            if dev \<in> at_device ` set ds then toy_accept (EDetach z i dev) s
            else toy_refuse ''invalid'' s),
       zoneOperations_get = (\<lambda>p z nm s. if nm = ''op'' then toy_poll s else toy_refuse ''notFound'' s),
       svc_ticks = (\<lambda>_. 5) \<rparr>"

lemma type_last_idem [simp]: "type_last (type_last t) = type_last t"
proof -
  have "CHR ''/'' \<notin> set (type_last t)"
    unfolding type_last_def by (rule Split_pieces [of _ t]) simp
  then show ?thesis by (simp add: type_last_def [of "type_last t"] Split_no_sep)
qed

lemma respType_last_eq: "respType_last d = type_last (disk_Type d)"
  by (simp add: respType_last_def type_last_def)

lemma norm_world_simps [simp]:
  "g_volumes (norm_world w) k = map_option (apsnd type_last) (g_volumes w k)"
  "g_nodes (norm_world w) = g_nodes w"
  "in_use (norm_world w) src = in_use w src"
  "conflict (norm_world w) src mode = conflict w src mode"
  by (simp_all add: norm_world_def in_use_def conflict_def)

lemma norm_apply_effect: "norm_world (apply_effect eff w) = apply_effect (norm_effect eff) (norm_world w)"
  by (cases eff) (auto simp: norm_world_def fun_eq_iff split: option.splits)

lemma refused_toy [simp]:
  "refused reason v (Inl (GoogleAPIError [r])) v' \<longleftrightarrow> v' = v \<and> error_is reason (GoogleAPIError [r])"
  by (auto simp: refused_def)

lemma accepted_toy [simp]:
  "accepted eff (toy_view s) (fst (toy_accept eff' s)) (toy_view (snd (toy_accept eff' s))) \<longleftrightarrow>
     eff = norm_effect eff'"
  by (auto simp: accepted_def toy_accept_def toy_view_def fun_eq_iff)

lemma answersI:
  assumes "\<And>s. law (view s) (fst (request s)) (view (snd (request s)))"
  shows "answers faults view request law"
  using assms by (auto simp: answers_def case_prod_beta)

lemma attachment_of_toy [simp]: "attachment_of (toy_attached a) = a"
  by (simp add: attachment_of_def toy_attached_def)

lemma fst_toy_view [simp]: "fst (toy_view s) = norm_world (toy_world s)"
  by (simp add: toy_view_def)

lemma toy_source: "drop (length (disk_source b p z '''')) (disk_source b p z n) = n"
proof -
  have "disk_source b p z n = disk_source b p z '''' @ n" by (simp add: disk_source_def)
  then show ?thesis by simp
qed

lemma toy_documented: "documented faults toy_service p toy_view"
  unfolding documented_def
proof (intro conjI allI impI)
  show "answers faults toy_view (disks_get toy_service p z n) (get_disk_law z n)" for z n
    by (rule answersI) (auto simp: toy_service_def get_disk_law_def toy_refuse_def error_is_simps
      toy_disk_def respType_last_eq split: option.splits)
  show "answers faults toy_view (instances_get toy_service p z i) (get_instance_law z i)" for z i
    by (rule answersI) (auto simp: toy_service_def get_instance_law_def toy_refuse_def error_is_simps
      comp_def split: option.splits)
  show "answers faults toy_view (disks_insert toy_service p z d) (insert_law z d)" for z d
    by (rule answersI) (auto simp: toy_service_def insert_law_def toy_refuse_def error_is_simps
      respType_last_eq)
  show "answers faults toy_view (disks_delete toy_service p z n)
      (delete_law (disk_source (svc_BasePath toy_service) p) z n)" for z n
    by (rule answersI) (auto simp: toy_service_def delete_law_def toy_refuse_def error_is_simps)
  show "answers faults toy_view (instances_attachDisk toy_service p z i a)
      (attach_law (disk_source (svc_BasePath toy_service) p) z i a)" for z i a
    by (rule answersI) (auto simp: toy_service_def attach_law_def toy_refuse_def error_is_simps
      toy_source split: option.splits)
  show "answers faults toy_view (instances_detachDisk toy_service p z i dev) (detach_law z i dev)"
    for z i dev
    by (rule answersI) (auto simp: toy_service_def detach_law_def toy_refuse_def error_is_simps
      split: option.splits)
  show "answers faults toy_view (zoneOperations_get toy_service p z nm) (poll_law faults nm)" for z nm
    by (rule answersI) (auto simp: toy_service_def poll_law_def toy_poll_def toy_view_def
      toy_refuse_def norm_apply_effect fun_eq_iff split: option.splits)
  show "done_in (zoneOperations_get toy_service p z nm) (min (svc_ticks toy_service s) 100) s"
    if "snd (toy_view s) nm \<noteq> None" for s z nm
    using that by (auto simp: toy_service_def toy_view_def toy_poll_def numeral_eq_Suc split: if_splits)
qed

end
