(* ===== verification/GceRefine.thy ===== *)
theory GceRefine
  imports GceApi
begin

text \<open>
  The controller over the real provider and an API that behaves as documented: what each call
  answers and what it does to the volumes and attachments, as an abstract specification, and
  the refinement of that specification by pkg/gce-csi-driver/controller.go with
  pkg/gce-cloud-provider/gce-compute.go.
\<close>

section \<open>The specification\<close>

text \<open>The answer of a call and the one effect it asks the API for. An existing disk is accepted
  only when both bounds are given and its type is not the requested one, as the code has it.\<close>

definition existing_ok :: "CapacityRange option \<Rightarrow> string \<Rightarrow> int64 \<times> string \<Rightarrow> bool" where
  "existing_ok cr t v \<longleftrightarrow>
     GetRequiredBytes cr \<noteq> 0 \<and> GetLimitBytes cr \<noteq> 0 \<and>
     sint (GetRequiredBytes cr) \<le> sint (GbToBytes (fst v)) \<and>
     sint (GbToBytes (fst v)) \<le> sint (GetLimitBytes cr) \<and> snd v \<noteq> t"

definition locate :: "string \<Rightarrow> (string \<times> string) option" where
  "locate vid = (case SplitZoneNameId vid of (z, n, None) \<Rightarrow> Some (z, n) | _ \<Rightarrow> None)"

definition publish_spec ::
    "(string \<Rightarrow> string \<Rightarrow> string) \<Rightarrow> string \<Rightarrow> string \<Rightarrow> string \<Rightarrow> string \<Rightarrow> gce_world \<Rightarrow> code \<times> effect option"
  where
  "publish_spec src z n node mode w =
     (case (g_volumes w (z, n), devices w z node) of
        (Some _, Some ds) \<Rightarrow>
          (case find (\<lambda>a. at_device a = n) ds of
             Some a \<Rightarrow> (if at_mode a = mode then OK else AlreadyExists, None)
           | None \<Rightarrow>
               if conflict w (src z n) mode then (Internal, None)
               else (OK, Some (EAttach z node (Attachment n mode (src z n)))))
      | _ \<Rightarrow> (NotFound, None))"

definition unpublish_spec :: "string \<Rightarrow> string \<Rightarrow> string \<Rightarrow> gce_world \<Rightarrow> code \<times> effect option" where
  "unpublish_spec z n node w =
     (case (g_volumes w (z, n), devices w z node) of
        (Some _, Some ds) \<Rightarrow>
          (OK, if n \<in> at_device ` set ds then Some (EDetach z node n) else None)
      | _ \<Rightarrow> (NotFound, None))"

fun gce_spec ::
    "(string \<Rightarrow> string \<Rightarrow> string) \<Rightarrow> string \<Rightarrow> rpc \<Rightarrow> gce_world \<Rightarrow> code \<times> effect option" where
  "gce_spec src z0 (Create req) w =
     (let n = cv_Name req; cr = cv_CapacityRange req in
      if n = '''' \<or> cv_VolumeCapabilities req = [] then (InvalidArgument, None)
      else case apply_parameters (cv_Parameters req) ''pd-standard'' z0 of
        Inl _ \<Rightarrow> (InvalidArgument, None)
      | Inr (t, z) \<Rightarrow>
        (case g_volumes w (z, n) of
           None \<Rightarrow> (OK, Some (ECreate z n (disk_size (getRequestCapacity cr)) (type_last t)))
         | Some v \<Rightarrow> (if existing_ok cr t v then OK else AlreadyExists, None)))"
| "gce_spec src z0 (Delete req) w =
     (if dv_VolumeId req = '''' then (InvalidArgument, None)
      else case locate (dv_VolumeId req) of
        None \<Rightarrow> (OK, None)
      | Some (z, n) \<Rightarrow>
          if g_volumes w (z, n) = None then (OK, None)
          else if in_use w (src z n) then (FailedPrecondition, None)
          else (OK, Some (EDelete z n)))"
| "gce_spec src z0 (Publish req) w =
     (if cp_VolumeId req = '''' \<or> cp_NodeId req = '''' \<or> cp_VolumeCapability req = None
      then (InvalidArgument, None)
      else case locate (cp_VolumeId req) of
        None \<Rightarrow> (UnknownCode, None)
      | Some (z, n) \<Rightarrow> publish_spec src z n (cp_NodeId req) (access_mode (cp_Readonly req)) w)"
| "gce_spec src z0 (Unpublish req) w =
     (if cu_VolumeId req = '''' \<or> cu_NodeId req = '''' then (InvalidArgument, None)
      else case locate (cu_VolumeId req) of
        None \<Rightarrow> (UnknownCode, None)
      | Some (z, n) \<Rightarrow> unpublish_spec z n (cu_NodeId req) w)"

definition after :: "effect option \<Rightarrow> gce_world \<Rightarrow> gce_world" where
  "after eff w = (case eff of None \<Rightarrow> w | Some e \<Rightarrow> apply_effect e w)"

text \<open>What a call may do. Without faults: exactly the specification. With faults a call may
  also leave the world as it was (answering OK then only where the specification does, or for
  a create), or end with Internal while its operation is still pending.\<close>


definition allowed ::
    "bool \<Rightarrow> rpc \<Rightarrow> code \<times> effect option \<Rightarrow> gce_world \<Rightarrow> code \<Rightarrow> gce_view \<Rightarrow> bool" where
  "allowed faults r sp w c v' \<longleftrightarrow>
     c = fst sp \<and> v' = (after (snd sp) w, Map.empty) \<or>
     faults \<and> v' = (w, Map.empty) \<and> (c = OK \<longrightarrow> fst sp = OK \<or> is_create r) \<or>
     faults \<and> c = Internal \<and> (\<exists>eff nm. snd sp = Some eff \<and> v' = (w, [nm \<mapsto> eff]))"

section \<open>The requests of the provider\<close>

lemma request_cases:
  assumes "answers faults view request law"
  obtains r s' where "request s = (r, s')" and "law (view s) r (view s')"
  | e s' where "request s = (Inl e, s')" and faults and "view s' = view s" and "error_is '''' e"
proof -
  obtain r s' where run: "request s = (r, s')" by (rule prod.exhaust)
  from answersD [OF assms run] show thesis
    using that run by (auto simp: refused_def)
qed

text \<open>Waiting for an accepted operation: success leaves its effect (or, with faults, none);
  a failed wait leaves it pending.\<close>

definition waited :: "bool \<Rightarrow> string \<Rightarrow> effect \<Rightarrow> gce_view \<Rightarrow> error option \<Rightarrow> gce_view \<Rightarrow> bool" where
  "waited faults nm eff v err v' \<longleftrightarrow>
     (case err of
        None \<Rightarrow> v' = (apply_effect eff (fst v), (snd v)(nm := None)) \<or>
                faults \<and> v' = (fst v, (snd v)(nm := None))
      | Some e \<Rightarrow> faults \<and> v' = v \<and> error_is '''' e)"

lemma poll_cases:
  assumes api: "documented faults svc p view" and pending: "snd (view s) nm = Some eff"
  obtains po s' where "zoneOperations_get svc p z nm s = (Inr po, s')" and "op_Status po = ''DONE''"
      and "waited faults nm eff (view s) None (view s')"
  | po s' where "zoneOperations_get svc p z nm s = (Inr po, s')" and "op_Status po \<noteq> ''DONE''"
      and "view s' = view s"
  | e s' where "zoneOperations_get svc p z nm s = (Inl e, s')" and faults and "view s' = view s"
      and "error_is '''' e"
  using documentedD(7) [OF api]
proof (cases rule: request_cases [where s = s and request = "zoneOperations_get svc p z nm"])
  case (1 r s')
  with that pending show thesis
    by (auto simp: poll_law_def waited_def split: sum.splits if_splits)
qed (use that in blast)

lemma WaitFor_waited:
  assumes api: "documented faults svc p view" and "snd (view s) (op_Name op) = Some eff"
    and "faults \<or> done_in (zoneOperations_get svc p z (op_Name op)) n s"
  shows "\<exists>err s'. WaitFor n (WaitForOp_condition (gce_cloud svc p z') (Some op) z) s = (Ret err, s') \<and>
    waited faults (op_Name op) eff (view s) err (view s')"
  using assms(2,3)
proof (induction n arbitrary: s)
  case 0
  show ?case
    by (cases rule: poll_cases [OF api 0(1), of z])
       (use 0 in \<open>auto simp: call_def WaitForOp_condition_run waited_def error_is_simps\<close>)
next
  case (Suc n)
  show ?case
  proof (cases rule: poll_cases [OF api Suc.prems(1), of z])
    case (2 po s')
    with Suc.prems Suc.IH [of s'] show ?thesis
      by (auto simp: call_def WaitForOp_condition_run)
  qed (use Suc.prems in \<open>auto simp: call_def WaitForOp_condition_run waited_def\<close>)
qed

lemma WaitForOp_waited:
  assumes api: "documented faults svc p view" and pending: "snd (view s) (op_Name op) = Some eff"
  shows "\<exists>err s'. CloudProvider_WaitForOp (gce_cloud svc p z') (Some op) z s = (Ret err, s') \<and>
    waited faults (op_Name op) eff (view s) err (view s')"
proof -
  have "faults \<or> done_in (zoneOperations_get svc p z (op_Name op)) (min (svc_ticks svc s) 100) s"
    using documentedD(8) [OF api] pending by blast
  from WaitFor_waited [OF api pending this] show ?thesis
    by (simp add: CloudProvider_WaitForOp_def Poll_def poller_def)
qed

section \<open>Every call conforms\<close>

definition conforms ::
    "bool \<Rightarrow> 's ComputeService \<Rightarrow> string \<Rightarrow> string \<Rightarrow> ('s \<Rightarrow> gce_view) \<Rightarrow> rpc \<Rightarrow> 's \<Rightarrow> bool" where
  "conforms faults svc p z0 view r s \<longleftrightarrow>
     (\<exists>c s'. serve_rpc (cloudCompute (gce_cloud svc p z0)) r s = (Ret c, s') \<and>
        allowed faults r (gce_spec (disk_source (svc_BasePath svc) p) z0 r (fst (view s)))
          (fst (view s)) c (view s'))"

lemma allowed_none [simp]: "allowed faults r (c, None) w c (w, Map.empty)"
  by (simp add: allowed_def after_def)

lemma allowed_fault:
  "faults \<Longrightarrow> c \<noteq> OK \<Longrightarrow> allowed faults r sp w c (w, Map.empty)"
  by (simp add: allowed_def)

text \<open>An accepted request followed by the wait, from a state without pending operations.\<close>

lemma accepted_wait:
  assumes api: "documented faults svc p view" and acc: "accepted eff (w, Map.empty) r (view s)"
  obtains (finished) op s' where "r = Inr op"
    and "CloudProvider_WaitForOp (gce_cloud svc p z') (Some op) z s = (Ret None, s')"
    and "allowed faults c (OK, Some eff) w OK (view s')"
  | (failed) op s' e where "r = Inr op"
    and "CloudProvider_WaitForOp (gce_cloud svc p z') (Some op) z s = (Ret (Some e), s')"
    and "error_is '''' e" and "allowed faults c (OK, Some eff) w Internal (view s')"
proof -
  from acc obtain op where op: "r = Inr op" "view s = (w, [op_Name op \<mapsto> eff])"
    by (auto simp: accepted_def)
  from WaitForOp_waited [OF api, of s op eff z' z] op obtain err s' where
    wait: "CloudProvider_WaitForOp (gce_cloud svc p z') (Some op) z s = (Ret err, s')"
      and res: "waited faults (op_Name op) eff (view s) err (view s')"
    by auto
  show thesis
  proof (cases err)
    case None
    with op wait res show thesis by (intro finished) (auto simp: waited_def allowed_def after_def)
  next
    case (Some e)
    with op wait res show thesis by (intro failed) (auto simp: waited_def allowed_def)
  qed
qed

lemma locate_cases:
  obtains (ok) z n where "SplitZoneNameId vid = (z, n, None)" "locate vid = Some (z, n)"
  | (bad) m where "SplitZoneNameId vid = ('''', '''', Some (PlainError m))" "locate vid = None"
  by (cases rule: SplitZoneNameId_cases [of vid]) (auto simp: locate_def)

lemma conforms_Delete:
  assumes api: "documented faults svc p view" and quiet: "view s = (w, Map.empty)"
  shows "conforms faults svc p z0 view (Delete req) s"
proof (cases "dv_VolumeId req = ''''")
  case True
  with quiet show ?thesis by (simp add: conforms_def DeleteVolume_def Let_def)
next
  case False
  show ?thesis
  proof (cases rule: locate_cases [of "dv_VolumeId req"])
    case (bad m)
    with False quiet show ?thesis by (simp add: conforms_def DeleteVolume_def Let_def)
  next
    case (ok z n)
    let ?src = "disk_source (svc_BasePath svc) p"
    from documentedD(4) [OF api, of z n] show ?thesis
    proof (cases rule: request_cases [where s = s])
      case (1 r s1)
      show ?thesis
      proof (cases "g_volumes w (z, n) = None \<or> in_use w (?src z n)")
        case True
        with 1 ok False quiet show ?thesis
          by (auto simp: conforms_def DeleteVolume_def Let_def delete_law_def refused_def
            CloudProvider_DeleteDisk_def call_def Do_def error_is_simps split: if_splits)
      next
        case acc: False
        with 1 quiet have "accepted (EDelete z n) (w, Map.empty) r (view s1)"
          by (simp add: delete_law_def)
        from accepted_wait [OF api this, of z0 z "Delete req"] show ?thesis
          by cases (insert 1(1) ok False acc quiet, auto simp: conforms_def DeleteVolume_def Let_def
               CloudProvider_DeleteDisk_def call_def Do_def)
      qed
    next
      case (2 e s1)
      with ok False quiet show ?thesis
        by (auto simp: conforms_def DeleteVolume_def Let_def
            CloudProvider_DeleteDisk_def call_def Do_def error_is_simps intro!: allowed_fault)
    qed
  qed
qed

text \<open>The two lookups, with what their answers say about the view.\<close>

lemma lookup_disk:
  assumes "documented faults svc p view"
  obtains (found) d s' where "CloudProvider_GetDiskOrError (gce_cloud svc p z') z n s = (Ret (Some d, None), s')"
      and "view s' = view s" and "g_volumes (fst (view s)) (z, n) = Some (disk_SizeGb d, respType_last d)"
      and "disk_Name d = n"
  | (missing) m s' where
      "CloudProvider_GetDiskOrError (gce_cloud svc p z') z n s = (Ret (None, Some (StatusError NotFound m)), s')"
      and "view s' = view s" and "g_volumes (fst (view s)) (z, n) = None"
  | (fault) m s' where
      "CloudProvider_GetDiskOrError (gce_cloud svc p z') z n s = (Ret (None, Some (StatusError Internal m)), s')"
      and "view s' = view s" and faults
  using documentedD(1) [OF assms, of z n]
proof (cases rule: request_cases [where s = s])
  case (1 r s')
  with found missing show thesis
    by (auto simp: get_disk_law_def GetDiskOrError_cloud refused_def error_is_simps split: option.splits)
next
  case (2 e s')
  with fault show thesis by (auto simp: GetDiskOrError_cloud error_is_simps)
qed

lemma lookup_instance:
  assumes "documented faults svc p view"
  obtains (found) i s' where
      "CloudProvider_GetInstanceOrError (gce_cloud svc p z') z n s = (Ret (Some i, None), s')"
      and "view s' = view s" and "devices (fst (view s)) z n = Some (map attachment_of (inst_Disks i))"
  | (missing) m s' where
      "CloudProvider_GetInstanceOrError (gce_cloud svc p z') z n s = (Ret (None, Some (StatusError NotFound m)), s')"
      and "view s' = view s" and "devices (fst (view s)) z n = None"
  | (fault) m s' where
      "CloudProvider_GetInstanceOrError (gce_cloud svc p z') z n s = (Ret (None, Some (StatusError Internal m)), s')"
      and "view s' = view s" and faults
  using documentedD(2) [OF assms, of z n]
proof (cases rule: request_cases [where s = s])
  case (1 r s')
  with found missing show thesis
    by (auto simp: get_instance_law_def GetInstanceOrError_cloud refused_def error_is_simps
          split: option.splits)
next
  case (2 e s')
  with fault show thesis by (auto simp: GetInstanceOrError_cloud error_is_simps)
qed

lemma attachment_of_simps [simp]:
  "at_device (attachment_of a) = ad_DeviceName a" "at_mode (attachment_of a) = ad_Mode a"
  "at_source (attachment_of a) = ad_Source a"
  by (simp_all add: attachment_of_def)

lemma find_attachment:
  "find (\<lambda>a. at_device a = n) (map attachment_of ds) =
     map_option attachment_of (find (\<lambda>a. ad_DeviceName a = n) ds)"
  by (induction ds) simp_all

lemma source_uri_eq:
  "CloudProvider_GetDiskSourceURI (gce_cloud svc p z0) d z = disk_source (svc_BasePath svc) p z (disk_Name d)"
  by (simp add: disk_URIs disk_source_def)

lemma attach_lawD:
  assumes "attach_law src z i a v r v'" and "ad_Source a = src z n" and "devices (fst v) z i = Some ds"
    and "g_volumes (fst v) (z, n) \<noteq> None"
  shows "if conflict (fst v) (src z n) (ad_Mode a)
    then refused ''resourceInUseByAnotherResource'' v r v'
    else if ad_DeviceName a \<in> at_device ` set ds then refused '''' v r v'
    else accepted (EAttach z i (attachment_of a)) v r v'"
  using assms by (auto simp: attach_law_def)

text \<open>The end of a publish: what the attach asks for and how it may end.\<close>

lemma attachVolume_conforms:
  assumes api: "documented faults svc p view" and quiet: "view s = (w, Map.empty)"
    and vol: "g_volumes w (z, disk_Name d) \<noteq> None" and dev: "devices w z node = Some ds"
    and new: "find (\<lambda>a. at_device a = disk_Name d) ds = None"
  shows "\<exists>reply s'. attachVolume (cloudCompute (gce_cloud svc p z0)) z node d mode resp s = (Ret reply, s') \<and>
    allowed faults r (publish_spec (disk_source (svc_BasePath svc) p) z (disk_Name d) node mode w) w
      (grpc_code reply) (view s')"
proof -
  let ?src = "disk_source (svc_BasePath svc) p z (disk_Name d)"
  define a where "a = \<lparr>ad_DeviceName = disk_Name d, ad_Kind = disk_Kind d, ad_Mode = mode,
    ad_Source = ?src, ad_Type = disk_Type d\<rparr>"
  have a_eq: "attachment_of a = Attachment (disk_Name d) mode ?src"
    by (simp add: a_def attachment_of_def)
  have a_sel: "ad_DeviceName a = disk_Name d" "ad_Mode a = mode" "ad_Source a = ?src"
    by (simp_all add: a_def)
  have fresh: "disk_Name d \<notin> at_device ` set ds"
    using new by (auto simp: find_None_iff)
  note defs = attachVolume_def Let_def CloudProvider_AttachDisk_def call_def Do_def source_uri_eq
    publish_spec_def a_def [symmetric]
  from documentedD(5) [OF api, of z node a] show ?thesis
  proof (cases rule: request_cases [where s = s])
    case (1 reply s1)
    from attach_lawD [OF 1(2), of "disk_Name d" ds] quiet vol dev have law:
      "if conflict w ?src mode
       then refused ''resourceInUseByAnotherResource'' (w, Map.empty) reply (view s1)
       else accepted (EAttach z node (Attachment (disk_Name d) mode ?src)) (w, Map.empty) reply (view s1)"
      using fresh by (auto simp: a_eq a_sel split: if_splits)
    show ?thesis
    proof (cases "conflict w ?src mode")
      case True
      with law 1(1) quiet vol dev new show ?thesis
        by (auto simp: defs refused_def)
    next
      case False
      with law have
        "accepted (EAttach z node (Attachment (disk_Name d) mode ?src)) (w, Map.empty) reply (view s1)"
        by simp
      from accepted_wait [OF api this, of z0 z r] show ?thesis
        by cases (insert 1(1) False vol dev new, auto simp: defs)
    qed
  next
    case (2 e s1)
    with quiet show ?thesis by (auto simp: defs intro!: allowed_fault)
  qed
qed

lemma conforms_Publish:
  assumes api: "documented faults svc p view" and quiet: "view s = (w, Map.empty)"
  shows "conforms faults svc p z0 view (Publish req) s"
proof (cases "cp_VolumeId req = '''' \<or> cp_NodeId req = '''' \<or> cp_VolumeCapability req = None")
  case True
  with quiet show ?thesis
    by (auto simp: conforms_def ControllerPublishVolume_def Let_def split: option.splits)
next
  case False
  note defs = conforms_def ControllerPublishVolume_def Let_def call_def
  show ?thesis
  proof (cases rule: locate_cases [of "cp_VolumeId req"])
    case (bad m)
    with False quiet show ?thesis by (auto simp: defs)
  next
    case (ok z n)
    from lookup_disk [OF api, of z0 z n s] show ?thesis
    proof cases
      case disk: (1 d s1)
      from lookup_instance [OF api, of z0 z "cp_NodeId req" s1] show ?thesis
      proof cases
        case inst: (1 i s2)
        show ?thesis
        proof (cases "find (\<lambda>a. ad_DeviceName a = n) (inst_Disks i)")
          case None
          with attachVolume_conforms [OF api, of s2 w z d "cp_NodeId req" _ z0 "access_mode (cp_Readonly req)"
            "\<lparr>cpr_PublishInfo = None\<rparr>" "Publish req"] disk inst quiet ok False
          show ?thesis
            by (auto simp: defs find_attachment attached_result_def)
        next
          case (Some a)
          with disk inst quiet ok False show ?thesis
            by (auto simp: defs publish_spec_def find_attachment attached_result_def)
        qed
      qed (use disk quiet ok False in \<open>auto simp: defs publish_spec_def intro!: allowed_fault\<close>)
    qed (use quiet ok False in \<open>auto simp: defs publish_spec_def intro!: allowed_fault\<close>)
  qed
qed

lemma conforms_Unpublish:
  assumes api: "documented faults svc p view" and quiet: "view s = (w, Map.empty)"
  shows "conforms faults svc p z0 view (Unpublish req) s"
proof (cases "cu_VolumeId req = '''' \<or> cu_NodeId req = ''''")
  case True
  with quiet show ?thesis
    by (auto simp: conforms_def ControllerUnpublishVolume_def Let_def)
next
  case False
  note defs = conforms_def ControllerUnpublishVolume_def Let_def call_def unpublish_spec_def
  show ?thesis
  proof (cases rule: locate_cases [of "cu_VolumeId req"])
    case (bad m)
    with False quiet show ?thesis by (auto simp: defs)
  next
    case (ok z n)
    from lookup_disk [OF api, of z0 z n s] show ?thesis
    proof cases
      case disk: (1 d s1)
      from lookup_instance [OF api, of z0 z "cu_NodeId req" s1] show ?thesis
      proof cases
        case inst: (1 i s2)
        show ?thesis
        proof (cases "n \<in> ad_DeviceName ` set (inst_Disks i)")
          case False
          with disk inst quiet ok \<open>\<not> (cu_VolumeId req = '''' \<or> cu_NodeId req = '''')\<close> show ?thesis
            by (auto simp: defs image_image)
        next
          case True
          from documentedD(6) [OF api, of z "cu_NodeId req" n] show ?thesis
          proof (cases rule: request_cases [where s = s2])
            case acc: (1 reply s3)
            with acc True disk inst quiet have
              "accepted (EDetach z (cu_NodeId req) n) (w, Map.empty) reply (view s3)"
              by (auto simp: detach_law_def image_image)
            from accepted_wait [OF api this, of z0 z "Unpublish req"] show ?thesis
              by cases (insert acc(1) True disk inst quiet ok False,
                auto simp: defs CloudProvider_DetachDisk_def Do_def image_image)
          next
            case rej: (2 e s3)
            with True rej disk inst quiet ok False show ?thesis
              by (auto simp: defs CloudProvider_DetachDisk_def Do_def intro!: allowed_fault)
          qed
        qed
      qed (use disk quiet ok False in \<open>auto simp: defs intro!: allowed_fault\<close>)
    qed (use quiet ok False in \<open>auto simp: defs intro!: allowed_fault\<close>)
  qed
qed

lemma validateDisk_existing:
  "CloudProvider_validateDisk d t (GetRequiredBytes cr) (GetLimitBytes cr) = (ex, err) \<Longrightarrow>
   ex \<and> (err = None \<longleftrightarrow> existing_ok cr t (disk_SizeGb d, respType_last d)) \<and>
   (\<forall>e. err = Some e \<longrightarrow> error_code e = AlreadyExists)"
  by (auto simp: CloudProvider_validateDisk_def Let_def existing_ok_def word_sle_eq split: if_splits)

lemma lookup_existing:
  assumes "documented faults svc p view"
  obtains (present) v err s' where
      "CloudProvider_GetAndValidateExistingDisk (gce_cloud svc p z') z n t
         (GetRequiredBytes cr) (GetLimitBytes cr) s = (Ret (True, err), s')"
      and "view s' = view s" and "g_volumes (fst (view s)) (z, n) = Some v"
      and "err = None \<longleftrightarrow> existing_ok cr t v" and "\<And>e. err = Some e \<Longrightarrow> error_code e = AlreadyExists"
  | (absent) s' where
      "CloudProvider_GetAndValidateExistingDisk (gce_cloud svc p z') z n t
         (GetRequiredBytes cr) (GetLimitBytes cr) s = (Ret (False, None), s')"
      and "view s' = view s" and "faults \<or> g_volumes (fst (view s)) (z, n) = None"
  using documentedD(1) [OF assms, of z n]
proof (cases rule: request_cases [where s = s])
  case (1 r s')
  show thesis
  proof (cases "g_volumes (fst (view s)) (z, n)")
    case None
    with 1 show thesis
      by (intro absent [of s']) (auto simp: get_disk_law_def GetAndValidateExistingDisk_cloud refused_def)
  next
    case (Some v)
    with 1 obtain d where d: "r = Inr d" "view s' = view s" "v = (disk_SizeGb d, respType_last d)"
      by (cases v) (auto simp: get_disk_law_def)
    obtain ex err where verdict:
      "CloudProvider_validateDisk d t (GetRequiredBytes cr) (GetLimitBytes cr) = (ex, err)"
      by (rule prod.exhaust)
    with validateDisk_existing [OF verdict] Some d 1(1) present show thesis
      by (auto simp: GetAndValidateExistingDisk_cloud)
  qed
next
  case (2 e s')
  with absent show thesis by (auto simp: GetAndValidateExistingDisk_cloud)
qed

lemma recheck_view:
  assumes api: "documented faults svc p view"
  shows "\<exists>reply s'. recheck_existing (cloudCompute (gce_cloud svc p z0)) z n t cr resp s = (Ret reply, s') \<and>
    view s' = view s"
  by (cases rule: lookup_existing [OF api, of z0 z n t cr s])
     (auto simp: recheck_existing_def call_def split: option.split)

lemma type_uri_last:
  "type_last (CloudProvider_GetDiskTypeURI cloud z t) = type_last t"
  using last_Split_append [of "''projects/'' @ gce_project cloud @ ''/zones/'' @ z @ ''/diskTypes''"
    "CHR ''/''" t]
  by (simp add: type_last_def disk_URIs)

text \<open>A create from its insert on: the existing disk has been asked for, and none was reported.\<close>

lemma conforms_insert:
  assumes api: "documented faults svc p view" and quiet: "view s = (w, Map.empty)"
    and args: "\<not> (cv_Name req = '''' \<or> cv_VolumeCapabilities req = [])"
      "apply_parameters (cv_Parameters req) ''pd-standard'' z0 = Inr (t, z)"
    and found: "CloudProvider_GetAndValidateExistingDisk (gce_cloud svc p z0) z (cv_Name req) t
        (GetRequiredBytes (cv_CapacityRange req)) (GetLimitBytes (cv_CapacityRange req)) s = (Ret (False, None), s1)"
      "view s1 = view s" "faults \<or> g_volumes (fst (view s)) (z, cv_Name req) = None"
  shows "conforms faults svc p z0 view (Create req) s"
proof -
  let ?n = "cv_Name req" and ?cr = "cv_CapacityRange req"
  define d where "d = \<lparr>disk_Name = ?n, disk_SizeGb = disk_size (getRequestCapacity ?cr),
    disk_Description = ''Disk created by GCE-PD CSI Driver'',
    disk_Type = CloudProvider_GetDiskTypeURI (gce_cloud svc p z0) z t, disk_Kind = ''''\<rparr>"
  have d_sel: "disk_Name d = ?n" "disk_SizeGb d = disk_size (getRequestCapacity ?cr)"
    "respType_last d = type_last t"
    by (simp_all add: d_def respType_last_eq type_uri_last)
  note defs = conforms_def CreateVolume_def Let_def DiskTypeStandard_def CloudProvider_GetZone_def
    call_def CloudProvider_InsertDisk_def Do_def d_def [symmetric]
  from documentedD(3) [OF api, of z d] show ?thesis
  proof (cases rule: request_cases [where s = s1])
    case (1 r s2)
    show ?thesis
    proof (cases "g_volumes w (z, ?n)")
      case None
      with 1 found quiet have
        "accepted (ECreate z ?n (disk_size (getRequestCapacity ?cr)) (type_last t)) (w, Map.empty) r (view s2)"
        by (simp add: insert_law_def d_sel)
      from accepted_wait [OF api this, of z0 z "Create req"] show ?thesis
        by cases (insert 1(1) None found args quiet, auto simp: defs error_is_simps)
    next
      case (Some v)
      with 1 found quiet obtain e where e: "r = Inl e" "IsGCEError e ''alreadyExists''" "view s2 = view s" faults
        by (auto simp: insert_law_def d_sel refused_def error_is_simps)
      obtain reply s3 where "recheck_existing (cloudCompute (gce_cloud svc p z0)) z ?n t ?cr
          (create_response (getRequestCapacity ?cr) z ?n) s2 = (Ret reply, s3)" "view s3 = view s2"
        using recheck_view [OF api] by blast
      with e Some 1(1) found args quiet show ?thesis by (auto simp: defs allowed_def)
    qed
  next
    case (2 e s2)
    with found args quiet show ?thesis by (auto simp: defs error_is_simps intro!: allowed_fault)
  qed
qed

lemma conforms_Create:
  assumes api: "documented faults svc p view" and quiet: "view s = (w, Map.empty)"
  shows "conforms faults svc p z0 view (Create req) s"
proof (cases "cv_Name req = '''' \<or> cv_VolumeCapabilities req = []")
  case True
  with quiet show ?thesis by (auto simp: conforms_def CreateVolume_def Let_def)
next
  case False
  note defs = conforms_def CreateVolume_def Let_def DiskTypeStandard_def CloudProvider_GetZone_def
    call_def CloudProvider_InsertDisk_def Do_def
  show ?thesis
  proof (cases "apply_parameters (cv_Parameters req) ''pd-standard'' z0")
    case (Inl e)
    with False quiet show ?thesis by (auto simp: defs dest: apply_parameters_code)
  next
    case (Inr tz)
    obtain t z where tz: "tz = (t, z)" by (rule prod.exhaust)
    show ?thesis
    proof (cases rule: lookup_existing [OF api, of z0 z "cv_Name req" t "cv_CapacityRange req" s])
      case (1 v err s1)
      with False quiet Inr tz show ?thesis by (cases err) (auto simp: defs)
    next
      case (2 s1)
      with conforms_insert [OF api quiet False] Inr tz show ?thesis by blast
    qed
  qed
qed

lemma driver_conforms_all:
  assumes "documented faults svc p view" and "view s = (w, Map.empty)"
  shows "\<exists>c s'. serve_rpc (cloudCompute (gce_cloud svc p z0)) r s = (Ret c, s') \<and>
    allowed faults r (gce_spec (disk_source (svc_BasePath svc) p) z0 r w) w c (view s')"
proof -
  have "conforms faults svc p z0 view r s"
    using assms by (cases r) (auto intro: conforms_Create conforms_Delete conforms_Publish conforms_Unpublish)
  with assms(2) show ?thesis by (simp add: conforms_def)
qed

text \<open>C1. The driver over the real provider and an API that behaves as documented, any API
  world and any call: the call is answered, and without faults of the API its answer and the
  volumes and attachments afterwards are those of the specification. With faults it may also
  change nothing, or answer Internal with its one operation still pending; in particular no
  call ever changes anything but what the specification says.\<close>

theorem driver_conforms:
  assumes "documented faults svc p view" and "view s = (w, Map.empty)"
  shows "\<exists>c s'. serve_rpc (cloudCompute (gce_cloud svc p z0)) r s = (Ret c, s') \<and>
    allowed faults r (gce_spec (disk_source (svc_BasePath svc) p) z0 r w) w c (view s')"
  by (rule driver_conforms_all [OF assms])

section \<open>Sequences of calls\<close>

fun serve_all :: "'s GCECompute \<Rightarrow> rpc list \<Rightarrow> ('s, code list) go" where
  "serve_all cp [] = ret []"
| "serve_all cp (r # rs) =
     call (serve_rpc cp r) (\<lambda>c. call (serve_all cp rs) (\<lambda>cs. ret (c # cs)))"

fun spec_all ::
    "(string \<Rightarrow> string \<Rightarrow> string) \<Rightarrow> string \<Rightarrow> rpc list \<Rightarrow> gce_world \<Rightarrow> code list \<times> gce_world" where
  "spec_all src z0 [] w = ([], w)"
| "spec_all src z0 (r # rs) w =
     (let (c, eff) = gce_spec src z0 r w; (cs, w') = spec_all src z0 rs (after eff w)
      in (c # cs, w'))"

lemma serve_one:
  assumes "documented False svc p view" and "view s = (w, Map.empty)"
  shows "\<exists>s'. serve_rpc (cloudCompute (gce_cloud svc p z0)) r s =
      (Ret (fst (gce_spec (disk_source (svc_BasePath svc) p) z0 r w)), s') \<and>
    view s' = (after (snd (gce_spec (disk_source (svc_BasePath svc) p) z0 r w)) w, Map.empty)"
  using driver_conforms_all [OF assms, of z0 r] by (auto simp: allowed_def)

text \<open>Over an API that behaves as documented and does not fail for reasons of its own, every
  sequence of create, delete, publish and unpublish calls gets exactly the answers of the
  specification, and leaves exactly the volumes and attachments of the specification.\<close>

lemma driver_runs:
  assumes "documented False svc p view" and "view s = (w, Map.empty)"
  shows "case spec_all (disk_source (svc_BasePath svc) p) z0 rs w of (cs, w') \<Rightarrow>
    \<exists>s'. serve_all (cloudCompute (gce_cloud svc p z0)) rs s = (Ret cs, s') \<and> view s' = (w', Map.empty)"
  using assms(2)
proof (induction rs arbitrary: s w)
  case Nil
  then show ?case by simp
next
  case (Cons r rs)
  from serve_one [OF assms(1) Cons.prems, of z0 r] obtain s1 where
    one: "serve_rpc (cloudCompute (gce_cloud svc p z0)) r s =
      (Ret (fst (gce_spec (disk_source (svc_BasePath svc) p) z0 r w)), s1)"
    and s1: "view s1 = (after (snd (gce_spec (disk_source (svc_BasePath svc) p) z0 r w)) w, Map.empty)"
    by blast
  from Cons.IH [OF s1] one show ?case
    by (auto simp: Let_def case_prod_beta call_def split: prod.split)
qed

section \<open>What stays true of the volumes\<close>

text \<open>All attachments of a source; no volume is attached that does not exist, and a volume
  attached for writing is attached once.\<close>

definition all_attached :: "gce_world \<Rightarrow> attachment list" where
  "all_attached w = concat (map snd (g_nodes w))"

definition attached_exist :: "(string \<Rightarrow> string \<Rightarrow> string) \<Rightarrow> gce_world \<Rightarrow> bool" where
  "attached_exist src w \<longleftrightarrow> (\<forall>z n. CHR ''/'' \<notin> set z \<and> CHR ''/'' \<notin> set n \<and>
     src z n \<in> at_source ` set (all_attached w) \<longrightarrow> g_volumes w (z, n) \<noteq> None)"

definition single_writer :: "gce_world \<Rightarrow> bool" where
  "single_writer w \<longleftrightarrow> (\<forall>a \<in># mset (all_attached w). at_mode a = ''READ_WRITE'' \<longrightarrow>
     (\<forall>b \<in># mset (all_attached w) - {#a#}. at_source b \<noteq> at_source a))"

definition safe_world :: "(string \<Rightarrow> string \<Rightarrow> string) \<Rightarrow> gce_world \<Rightarrow> bool" where
  "safe_world src w \<longleftrightarrow> attached_exist src w \<and> single_writer w"

lemma in_use_iff: "in_use w src \<longleftrightarrow> src \<in> at_source ` set (all_attached w)"
  by (force simp: in_use_def all_attached_def)

lemma conflict_iff: "conflict w src mode \<longleftrightarrow>
    (\<exists>a \<in> set (all_attached w). at_source a = src \<and> (mode = ''READ_WRITE'' \<or> at_mode a = ''READ_WRITE''))"
  by (force simp: conflict_def all_attached_def)

lemma mset_update_concat:
  "map_of al k = Some ds \<Longrightarrow>
   mset (concat (map snd (AList.update k es al))) + mset ds = mset (concat (map snd al)) + mset es"
  by (induction al) (auto split: if_splits)

lemma mset_attach:
  "devices w z i = Some ds \<Longrightarrow>
   mset (all_attached (apply_effect (EAttach z i a) w)) = add_mset a (mset (all_attached w))"
  using mset_update_concat [of "g_nodes w" "(z, i)" ds "ds @ [a]"] by (simp add: all_attached_def)

lemma mset_detach:
  "mset (all_attached (apply_effect (EDetach z i dev) w)) \<subseteq># mset (all_attached w)"
proof (cases "devices w z i")
  case (Some ds)
  let ?f = "\<lambda>a. at_device a \<noteq> dev"
  have "mset (all_attached (apply_effect (EDetach z i dev) w)) + mset ds
      = mset (all_attached w) + mset (filter ?f ds)"
    using mset_update_concat [of "g_nodes w" "(z, i)" ds "filter ?f ds"] Some
    by (simp add: all_attached_def)
  moreover have "mset (filter ?f ds) \<subseteq># mset ds" by (simp add: multiset_filter_subset)
  ultimately show ?thesis
    by (metis add.commute mset_subset_eq_mono_add_left_cancel subset_mset.add_left_mono)
qed simp

lemma disk_source_inject:
  assumes "CHR ''/'' \<notin> set z" and "CHR ''/'' \<notin> set z'" and "disk_source b p z n = disk_source b p z' n'"
  shows "z = z' \<and> n = n'"
proof -
  have "z @ CHR ''/'' # ''disks/'' @ n = z' @ CHR ''/'' # ''disks/'' @ n'"
    using assms(3) by (simp add: disk_source_def)
  from arg_cong [OF this, of "\<lambda>s. Split s (CHR ''/'')"] assms(1,2) have "z = z'"
    by (simp add: Split_append_sep)
  with assms(3) show ?thesis by (simp add: disk_source_def)
qed

lemma single_writer_mono:
  assumes "single_writer w" and sub: "mset (all_attached w') \<subseteq># mset (all_attached w)"
  shows "single_writer w'"
proof -
  have "mset (all_attached w') - {#a#} \<subseteq># mset (all_attached w) - {#a#}" for a
    using sub by (simp add: subseteq_mset_def diff_le_mono)
  with assms show ?thesis unfolding single_writer_def by (meson mset_subset_eqD)
qed

lemma single_writer_add:
  assumes "single_writer w" and "mset (all_attached w') = add_mset a (mset (all_attached w))"
    and "\<not> conflict w (at_source a) (at_mode a)"
  shows "single_writer w'"
  unfolding single_writer_def assms(2)
proof (intro ballI impI)
  fix x y
  assume x: "x \<in># add_mset a (mset (all_attached w))" "at_mode x = ''READ_WRITE''"
    and y: "y \<in># add_mset a (mset (all_attached w)) - {#x#}"
  show "at_source y \<noteq> at_source x"
  proof (cases "x = a")
    case True
    with x y assms(3) show ?thesis by (auto simp: conflict_iff)
  next
    case False
    with x have old: "x \<in># mset (all_attached w)" by simp
    with y False consider "y = a" | "y \<in># mset (all_attached w) - {#x#}" by auto
    then show ?thesis
    proof cases
      case 1
      with old x assms(3) show ?thesis by (auto simp: conflict_iff)
    next
      case 2
      with assms(1) old x(2) show ?thesis by (simp add: single_writer_def)
    qed
  qed
qed

lemma all_attached_volumes [simp]: "all_attached (w\<lparr>g_volumes := m\<rparr>) = all_attached w"
  by (simp add: all_attached_def)

lemma volumes_effect:
  "all_attached (apply_effect (ECreate z n sz t) w) = all_attached w"
  "all_attached (apply_effect (EDelete z n) w) = all_attached w"
  "g_volumes (apply_effect (EAttach z i a) w) = g_volumes w"
  "g_volumes (apply_effect (EDetach z i dev) w) = g_volumes w"
  by (auto simp: all_attached_def split: option.splits)

text \<open>The requests of the specification keep both facts.\<close>

fun safe_effect :: "(string \<Rightarrow> string \<Rightarrow> string) \<Rightarrow> gce_world \<Rightarrow> effect \<Rightarrow> bool" where
  "safe_effect src w (ECreate z n sz t) = True"
| "safe_effect src w (EDelete z n) = (\<not> in_use w (src z n))"
| "safe_effect src w (EAttach z i a) =
     (devices w z i \<noteq> None \<and> \<not> conflict w (at_source a) (at_mode a) \<and>
      CHR ''/'' \<notin> set z \<and> at_source a = src z (at_device a) \<and> g_volumes w (z, at_device a) \<noteq> None)"
| "safe_effect src w (EDetach z i dev) = True"

lemma locate_Some:
  "locate vid = Some (z, n) \<Longrightarrow> CHR ''/'' \<notin> set z \<and> CHR ''/'' \<notin> set n"
  using SplitZoneNameId_Some [of vid z n]
  by (cases rule: locate_cases [of vid]) auto

lemma spec_safe_effect: "gce_spec src z0 r w = (c, Some eff) \<Longrightarrow> safe_effect src w eff"
  by (cases r) (auto simp: Let_def publish_spec_def unpublish_spec_def dest!: locate_Some
      split: if_splits sum.splits option.splits)

lemma attached_exist_attach:
  assumes safe: "attached_exist (disk_source b p) w" and ds: "devices w z i = Some ds"
    and a: "CHR ''/'' \<notin> set z" "at_source a = disk_source b p z n" "g_volumes w (z, n) \<noteq> None"
      "n = at_device a"
  shows "attached_exist (disk_source b p) (apply_effect (EAttach z i a) w)"
  unfolding attached_exist_def
proof (intro allI impI)
  fix z' n'
  assume *: "CHR ''/'' \<notin> set z' \<and> CHR ''/'' \<notin> set n' \<and>
    disk_source b p z' n' \<in> at_source ` set (all_attached (apply_effect (EAttach z i a) w))"
  have "set (all_attached (apply_effect (EAttach z i a) w)) = insert a (set (all_attached w))"
    using arg_cong [OF mset_attach [OF ds, of a], of set_mset] by (simp del: apply_effect.simps)
  with * a(2) consider "disk_source b p z' n' \<in> at_source ` set (all_attached w)"
    | "disk_source b p z' n' = disk_source b p z n" by auto
  then have "g_volumes w (z', n') \<noteq> None"
  proof cases
    case 1
    with * safe show ?thesis by (simp add: attached_exist_def)
  next
    case 2
    with disk_source_inject [OF _ _ 2] * a(1,3) show ?thesis by blast
  qed
  then show "g_volumes (apply_effect (EAttach z i a) w) (z', n') \<noteq> None"
    by (simp only: volumes_effect not_False_eq_True)
qed

lemma safe_effect_keeps:
  assumes safe: "safe_world (disk_source b p) w" and eff: "safe_effect (disk_source b p) w eff"
  shows "safe_world (disk_source b p) (apply_effect eff w)"
proof (cases eff)
  case (ECreate z n sz t)
  with safe show ?thesis by (simp add: safe_world_def attached_exist_def single_writer_def volumes_effect)
next
  case (EDelete z n)
  with safe eff show ?thesis
    by (auto simp: safe_world_def attached_exist_def single_writer_def volumes_effect in_use_iff)
next
  case (EAttach z i a)
  with eff obtain ds where ds: "devices w z i = Some ds" and a: "CHR ''/'' \<notin> set z"
    "at_source a = disk_source b p z (at_device a)" "g_volumes w (z, at_device a) \<noteq> None"
    "\<not> conflict w (at_source a) (at_mode a)" by auto
  from safe have "single_writer (apply_effect (EAttach z i a) w)"
    by (intro single_writer_add [OF _ mset_attach [OF ds] a(4)]) (simp add: safe_world_def)
  with attached_exist_attach [OF _ ds a(1-3) refl] safe show ?thesis
    unfolding EAttach by (simp only: safe_world_def)
next
  case (EDetach z i dev)
  note sub = mset_detach [of z i dev w]
  have "set (all_attached (apply_effect eff w)) \<subseteq> set (all_attached w)"
    using set_mset_mono [OF sub] by (simp add: EDetach del: apply_effect.simps)
  then have "attached_exist (disk_source b p) (apply_effect eff w)"
    using safe unfolding safe_world_def attached_exist_def
    by (auto simp: EDetach volumes_effect simp del: apply_effect.simps)
  with single_writer_mono [OF _ sub] safe show ?thesis
    by (simp add: safe_world_def EDetach del: apply_effect.simps)
qed

text \<open>Runs of calls, each from a state without pending operations; an operation that a call
  left pending may finish in between, with or without its effect.\<close>

inductive api_run ::
    "'s ComputeService \<Rightarrow> string \<Rightarrow> string \<Rightarrow> ('s \<Rightarrow> gce_view) \<Rightarrow> 's \<Rightarrow> 's \<Rightarrow> bool"
  for svc p z0 view s0 where
  api_start: "api_run svc p z0 view s0 s0"
| api_call: "api_run svc p z0 view s0 s \<Longrightarrow> snd (view s) = Map.empty \<Longrightarrow>
    serve_rpc (cloudCompute (gce_cloud svc p z0)) r s = (Ret c, s') \<Longrightarrow>
    api_run svc p z0 view s0 s'"
| api_settle: "api_run svc p z0 view s0 s \<Longrightarrow> snd (view s) = [nm \<mapsto> eff] \<Longrightarrow>
    view s' = (w', Map.empty) \<Longrightarrow> w' = fst (view s) \<or> w' = apply_effect eff (fst (view s)) \<Longrightarrow>
    api_run svc p z0 view s0 s'"

definition safe_view :: "(string \<Rightarrow> string \<Rightarrow> string) \<Rightarrow> gce_view \<Rightarrow> bool" where
  "safe_view src v \<longleftrightarrow> safe_world src (fst v) \<and> (\<forall>eff \<in> ran (snd v). safe_effect src (fst v) eff)"

lemma allowed_safe:
  assumes "allowed faults r (gce_spec (disk_source b p) z0 r w) w c v'" and "safe_world (disk_source b p) w"
  shows "safe_view (disk_source b p) v'"
proof -
  obtain k eff where sp: "gce_spec (disk_source b p) z0 r w = (k, eff)" by (rule prod.exhaust)
  have "safe_effect (disk_source b p) w e" if "eff = Some e" for e
    using spec_safe_effect sp that by blast
  with assms sp show ?thesis
    by (auto simp: allowed_def safe_view_def after_def safe_effect_keeps split: option.splits)
qed


section \<open>A sample run\<close>

text \<open>Two nodes of a zone, and a volume that is created, published to one node, refused to the
  other, protected from deletion, unpublished and deleted.\<close>

definition two_nodes :: toy where
  "two_nodes = \<lparr>toy_world = \<lparr>g_volumes = Map.empty,
     g_nodes = [((''us-a'', ''node''), []), ((''us-a'', ''other''), [])]\<rparr>, toy_op = None\<rparr>"

definition sample_calls :: "rpc list" where
  "sample_calls =
     [Create (create_req None),
      Publish (publish_req False),
      Publish ((publish_req False)\<lparr>cp_NodeId := ''other''\<rparr>),
      Delete \<lparr>dv_VolumeId = ''us-a/vol''\<rparr>,
      Unpublish \<lparr>cu_VolumeId = ''us-a/vol'', cu_NodeId = ''node''\<rparr>,
      Delete \<lparr>dv_VolumeId = ''us-a/vol''\<rparr>]"

lemma two_nodes_view: "toy_view two_nodes = (toy_world two_nodes, Map.empty)"
  by (simp add: toy_view_def two_nodes_def norm_world_def fun_eq_iff)

theorem driver_conforms_witness:
  "\<exists>c s'. serve_rpc (cloudCompute (gce_cloud toy_service ''p'' ''us-a'')) (Create (create_req None)) two_nodes
      = (Ret c, s') \<and>
    allowed True (Create (create_req None))
      (OK, Some (ECreate ''us-a'' ''vol'' 5 ''pd-standard'')) (toy_world two_nodes) c (toy_view s')"
proof -
  have "gce_spec (disk_source (svc_BasePath toy_service) ''p'') ''us-a'' (Create (create_req None))
      (toy_world two_nodes) = (OK, Some (ECreate ''us-a'' ''vol'' 5 ''pd-standard''))"
    by code_simp
  with driver_conforms [OF toy_documented two_nodes_view, of "''p''" "''us-a''" "Create (create_req None)" True]
  show ?thesis by simp
qed

lemma serve_all_run:
  assumes "documented False svc p view"
  shows "view s = (w, Map.empty) \<Longrightarrow> serve_all (cloudCompute (gce_cloud svc p z0)) rs s = (Ret cs, s') \<Longrightarrow>
    api_run svc p z0 view s0 s \<Longrightarrow> api_run svc p z0 view s0 s'"
proof (induction rs arbitrary: s w cs)
  case (Cons r rs)
  from serve_one [OF assms Cons.prems(1), of z0 r] obtain c s1 w1 where
    one: "serve_rpc (cloudCompute (gce_cloud svc p z0)) r s = (Ret c, s1)" "view s1 = (w1, Map.empty)"
    by blast
  from Cons.prems(2) one(1) obtain cs1 where
    rest: "serve_all (cloudCompute (gce_cloud svc p z0)) rs s1 = (Ret cs1, s')"
    by (auto simp: call_def split: prod.splits outcome.splits)
  have "api_run svc p z0 view s0 s1"
    using api_call [OF Cons.prems(3) _ one(1)] Cons.prems(1) by simp
  from Cons.IH [OF one(2) rest this] show ?case .
qed simp


end
