(* ===== verification/GceProps.thy ===== *)
theory GceProps
  imports GceRefine
begin

text \<open>
  Consequences of the refinement for the clients of the driver over the real provider and an API
  that behaves as documented: retries, undoing a call by its counterpart, and the protection of
  published volumes. The same questions over the in-memory provider are answered in Lifecycle.
\<close>

section \<open>Retries\<close>

lemma after_None [simp]: "after None w = w"
  by (simp add: after_def)

lemma after_Some: "after (Some e) w = apply_effect e w"
  by (simp add: after_def)

lemma device_attached:
  "devices w z i = Some ds \<Longrightarrow> devices (apply_effect (EAttach z i a) w) z i = Some (ds @ [a])"
  "devices w z i = Some ds \<Longrightarrow>
     devices (apply_effect (EDetach z i dev) w) z i = Some (filter (\<lambda>a. at_device a \<noteq> dev) ds)"
  by (simp_all add: update_conv')

lemma find_append_new:
  "find (\<lambda>a. at_device a = n) ds = None \<Longrightarrow> at_device b = n \<Longrightarrow>
   find (\<lambda>a. at_device a = n) (ds @ [b]) = Some b"
  by (induction ds) (auto split: if_splits)

lemma publish_spec_again:
  assumes "publish_spec src z n node mode w = (OK, eff)"
  shows "publish_spec src z n node mode (after eff w) = (OK, None)"
proof -
  from assms obtain v ds where w: "g_volumes w (z, n) = Some v" "devices w z node = Some ds"
    by (auto simp: publish_spec_def split: option.splits)
  show ?thesis
  proof (cases "find (\<lambda>a. at_device a = n) ds")
    case None
    with assms w have "eff = Some (EAttach z node (Attachment n mode (src z n)))"
      by (auto simp: publish_spec_def split: if_splits)
    with w None show ?thesis
      by (simp add: after_def publish_spec_def device_attached find_append_new volumes_effect
            del: apply_effect.simps)
  next
    case (Some a)
    with assms w show ?thesis by (auto simp: publish_spec_def after_def split: if_splits)
  qed
qed

lemma unpublish_spec_again:
  assumes "unpublish_spec z n node w = (OK, eff)"
  shows "unpublish_spec z n node (after eff w) = (OK, None)"
proof -
  from assms obtain v ds where w: "g_volumes w (z, n) = Some v" "devices w z node = Some ds"
    by (auto simp: unpublish_spec_def split: option.splits)
  with assms show ?thesis
    by (cases "n \<in> at_device ` set ds")
       (auto simp: unpublish_spec_def after_def device_attached volumes_effect simp del: apply_effect.simps)
qed

lemma spec_again:
  "\<not> is_create r \<Longrightarrow> gce_spec src z0 r w = (OK, eff) \<Longrightarrow> gce_spec src z0 r (after eff w) = (OK, None)"
proof (cases r)
  case (Delete req)
  assume "gce_spec src z0 r w = (OK, eff)"
  with Delete show ?thesis by (auto simp: after_Some split: if_splits option.splits)
qed (auto simp: publish_spec_again unpublish_spec_again split: if_splits option.splits)

lemma create_again:
  assumes "gce_spec src z0 (Create req) w = (OK, Some eff)"
  shows "\<exists>t z. apply_parameters (cv_Parameters req) ''pd-standard'' z0 = Inr (t, z) \<and>
    (CHR ''/'' \<notin> set t \<longrightarrow> gce_spec src z0 (Create req) (after (Some eff) w) = (AlreadyExists, None))"
proof -
  from assms obtain t z where params: "apply_parameters (cv_Parameters req) ''pd-standard'' z0 = Inr (t, z)"
    by (auto simp: Let_def split: if_splits sum.splits)
  have type: "type_last t = t" if "CHR ''/'' \<notin> set t"
    using that by (simp add: type_last_def Split_no_sep)
  show ?thesis
  proof (intro exI conjI impI)
    show "gce_spec src z0 (Create req) (after (Some eff) w) = (AlreadyExists, None)" if "CHR ''/'' \<notin> set t"
      using assms params type [OF that]
      by (auto simp: Let_def after_Some existing_ok_def split: if_splits option.splits)
  qed (rule params)
qed

text \<open>C19. Retries over the real provider and an API that behaves as documented without faults. A
  delete, publish or unpublish that was answered OK may be sent again: it is answered OK and
  changes nothing. A create that made a volume may not: sent again it is answered
  AlreadyExists, whatever its size and limits, because the volume has the requested type
  (unless the type itself contains a slash).\<close>

theorem gce_retry:
  assumes "documented False svc p view" and "view s = (w, Map.empty)"
    and "serve_rpc (cloudCompute (gce_cloud svc p z0)) r s = (Ret OK, s')"
  shows "case r of
      Create req \<Rightarrow> view s' \<noteq> view s \<and>
          (\<forall>t z. apply_parameters (cv_Parameters req) ''pd-standard'' z0 = Inr (t, z) \<longrightarrow> CHR ''/'' \<notin> set t) \<longrightarrow>
        (\<exists>s''. serve_rpc (cloudCompute (gce_cloud svc p z0)) r s' = (Ret AlreadyExists, s'') \<and> view s'' = view s')
    | _ \<Rightarrow> \<exists>s''. serve_rpc (cloudCompute (gce_cloud svc p z0)) r s' = (Ret OK, s'') \<and> view s'' = view s'"
proof -
  let ?src = "disk_source (svc_BasePath svc) p"
  from serve_one [OF assms(1,2), of z0 r] assms(3) obtain eff where
    sp: "gce_spec ?src z0 r w = (OK, eff)" and s': "view s' = (after eff w, Map.empty)"
    by (cases "gce_spec ?src z0 r w") auto
  note again = serve_one [OF assms(1) s', of z0 r]
  show ?thesis
  proof (cases r)
    case (Create req)
    show ?thesis
    proof (cases eff)
      case None
      with s' assms(2) Create show ?thesis by (simp add: after_def)
    next
      case (Some e)
      with create_again [of ?src z0 req w e] sp again Create s' show ?thesis
        by (auto simp del: gce_spec.simps serve_rpc.simps)
    qed
  qed (use spec_again [OF _ sp] again s' in \<open>auto simp: after_def simp del: gce_spec.simps serve_rpc.simps\<close>)
qed

text \<open>The witness: the sample cloud after its volume was created.\<close>

definition sample_cloud :: "toy GCECompute" where
  "sample_cloud = cloudCompute (gce_cloud toy_service ''p'' ''us-a'')"

definition with_volume :: toy where
  "with_volume = snd (serve_rpc sample_cloud (Create (create_req None)) two_nodes)"

lemma with_volume_served:
  "serve_rpc sample_cloud (Create (create_req None)) two_nodes = (Ret OK, with_volume)"
proof -
  have "fst (serve_rpc sample_cloud (Create (create_req None)) two_nodes) = Ret OK" by code_simp
  then show ?thesis by (simp add: with_volume_def prod_eq_iff)
qed

lemma with_volume_facts:
  "g_volumes (norm_world (toy_world with_volume)) (''us-a'', ''vol'') = Some (5, ''pd-standard'')"
  "g_nodes (toy_world with_volume) = [((''us-a'', ''node''), []), ((''us-a'', ''other''), [])]"
  "toy_op with_volume = None"
  by code_simp+

lemma with_volume_view: "toy_view with_volume = (norm_world (toy_world with_volume), Map.empty)"
  by (simp add: toy_view_def with_volume_facts fun_eq_iff)

theorem gce_retry_witness:
  "\<exists>s''. serve_rpc sample_cloud (Create (create_req None)) with_volume = (Ret AlreadyExists, s'')"
proof -
  have changed: "toy_view with_volume \<noteq> toy_view two_nodes"
  proof
    assume "toy_view with_volume = toy_view two_nodes"
    then have "norm_world (toy_world with_volume) = toy_world two_nodes"
      by (simp add: with_volume_view two_nodes_view)
    with with_volume_facts(1) show False by (simp add: two_nodes_def)
  qed
  have params: "apply_parameters (cv_Parameters (create_req None)) ''pd-standard'' ''us-a'' =
      Inr (''pd-standard'', ''us-a'')"
    by (simp add: create_req_def)
  from gce_retry [OF toy_documented two_nodes_view with_volume_served [unfolded sample_cloud_def]]
    changed params
  show ?thesis by (auto simp: sample_cloud_def simp del: serve_rpc.simps)
qed

section \<open>Undoing a call\<close>

lemma update_twice: "AList.update k es (AList.update k fs al) = AList.update k es al"
  by (induction al) auto

lemma update_same: "map_of al k = Some ds \<Longrightarrow> AList.update k ds al = al"
  by (induction al) (auto split: if_splits)

lemma detach_after_attach:
  assumes "devices w z i = Some ds" and "at_device a \<notin> at_device ` set ds"
  shows "apply_effect (EDetach z i (at_device a)) (apply_effect (EAttach z i a) w) = w"
proof -
  have "filter (\<lambda>b. at_device b \<noteq> at_device a) ds = ds"
    using assms(2) by (intro filter_True ballI) (metis image_eqI)
  with assms(1) show ?thesis by (simp add: update_conv' update_twice update_same)
qed

text \<open>C21. Over the real provider and an API that behaves as documented without faults: when a
  volume is published to a node on which its device was not attached, unpublishing it is
  answered OK and leaves all volumes and attachments exactly as they were before.\<close>

theorem unpublish_undoes_publish:
  assumes "documented False svc p view" and "view s = (w, Map.empty)"
    and "serve_rpc (cloudCompute (gce_cloud svc p z0)) (Publish preq) s = (Ret OK, s1)"
    and "locate (cp_VolumeId preq) = Some (z, n)"
    and "\<And>ds. devices w z (cp_NodeId preq) = Some ds \<Longrightarrow> n \<notin> at_device ` set ds"
    and "cu_VolumeId ureq = cp_VolumeId preq" and "cu_NodeId ureq = cp_NodeId preq"
  shows "\<exists>s2. serve_rpc (cloudCompute (gce_cloud svc p z0)) (Unpublish ureq) s1 = (Ret OK, s2) \<and> view s2 = view s"
proof -
  let ?src = "disk_source (svc_BasePath svc) p"
  from serve_one [OF assms(1,2), of z0 "Publish preq"] assms(3) obtain eff where
    sp: "gce_spec ?src z0 (Publish preq) w = (OK, eff)" and s1: "view s1 = (after eff w, Map.empty)"
    by (cases "gce_spec ?src z0 (Publish preq) w") auto
  from sp assms(4) obtain v ds where w: "g_volumes w (z, n) = Some v" "devices w z (cp_NodeId preq) = Some ds"
    and ids: "cp_VolumeId preq \<noteq> ''''" "cp_NodeId preq \<noteq> ''''"
    by (auto simp: publish_spec_def split: if_splits option.splits)
  have new: "find (\<lambda>a. at_device a = n) ds = None" using assms(5) [OF w(2)] by (auto simp: find_None_iff)
  define a where "a = Attachment n (access_mode (cp_Readonly preq)) (?src z n)"
  from sp assms(4) w new have eff: "eff = Some (EAttach z (cp_NodeId preq) a)"
    by (auto simp: publish_spec_def a_def split: if_splits)
  have "gce_spec ?src z0 (Unpublish ureq) (after eff w) = (OK, Some (EDetach z (cp_NodeId preq) n))"
    using assms(4,6,7) w ids
    by (simp add: eff after_Some unpublish_spec_def volumes_effect device_attached a_def del: apply_effect.simps)
  with serve_one [OF assms(1) s1, of z0 "Unpublish ureq"] detach_after_attach [OF w(2), of a]
    assms(2) assms(5) [OF w(2)]
  show ?thesis by (auto simp: eff after_Some a_def simp del: apply_effect.simps gce_spec.simps serve_rpc.simps)
qed

theorem unpublish_undoes_publish_witness:
  "\<exists>s1 s2. serve_rpc sample_cloud (Publish (publish_req False)) with_volume = (Ret OK, s1) \<and>
     serve_rpc sample_cloud (Unpublish \<lparr>cu_VolumeId = ''us-a/vol'', cu_NodeId = ''node''\<rparr>) s1 = (Ret OK, s2) \<and>
     toy_view s2 = toy_view with_volume"
proof -
  have "fst (serve_rpc sample_cloud (Publish (publish_req False)) with_volume) = Ret OK" by code_simp
  then obtain s1 where pub: "serve_rpc sample_cloud (Publish (publish_req False)) with_volume = (Ret OK, s1)"
    by (metis prod.collapse)
  have vol: "locate (cp_VolumeId (publish_req False)) = Some (''us-a'', ''vol'')"
    by (simp add: publish_req_def locate_def volume_of_sample)
  have new: "devices (norm_world (toy_world with_volume)) ''us-a'' (cp_NodeId (publish_req False)) = Some ds \<Longrightarrow>
      ''vol'' \<notin> at_device ` set ds" for ds
    by (auto simp: with_volume_facts split: if_splits)
  from unpublish_undoes_publish [OF toy_documented with_volume_view pub [unfolded sample_cloud_def] vol new,
      of "\<lparr>cu_VolumeId = ''us-a/vol'', cu_NodeId = ''node''\<rparr>"] pub
  show ?thesis by (auto simp: publish_req_def sample_cloud_def simp del: serve_rpc.simps)
qed

text \<open>C23. Over the real provider and an API that behaves as documented without faults: deleting the
  identifier that a successful create returned for a new volume is answered OK and leaves all
  volumes and attachments as they were before the create, when the identifier parses (neither
  zone nor name contains a slash) and no attachment names a volume that does not exist.\<close>

theorem delete_undoes_create:
  assumes "documented False svc p view" and "view s = (w, Map.empty)"
    and "attached_exist (disk_source (svc_BasePath svc) p) w"
    and "CreateVolume (cloudCompute (gce_cloud svc p z0)) creq s = (Ret (Some resp, None), s1)"
    and "SplitZoneNameId (vol_Id (cvr_Volume resp)) = (z, n, None)" and "g_volumes w (z, n) = None"
    and "dv_VolumeId dreq = vol_Id (cvr_Volume resp)"
  shows "\<exists>s2. serve_rpc (cloudCompute (gce_cloud svc p z0)) (Delete dreq) s1 = (Ret OK, s2) \<and> view s2 = view s"
proof -
  let ?src = "disk_source (svc_BasePath svc) p"
  obtain eff where sp: "gce_spec ?src z0 (Create creq) w = (OK, eff)" and s1: "view s1 = (after eff w, Map.empty)"
    using serve_one [OF assms(1,2), of z0 "Create creq"] assms(4)
    by (cases "gce_spec ?src z0 (Create creq) w") (auto simp: call_def)
  from create_succeeded [OF assms(4)] obtain t z' where
    params: "apply_parameters (cv_Parameters creq) ''pd-standard'' z0 = Inr (t, z')"
    and vid: "vol_Id (cvr_Volume resp) = CombineVolumeId z' (cv_Name creq)"
    by (auto simp: CloudProvider_GetZone_def)
  from combine_volume_id_parts [OF assms(5) [unfolded vid]] have zn: "z' = z" "cv_Name creq = n" by simp_all
  from sp params zn assms(6) obtain sz ty where eff: "eff = Some (ECreate z n sz ty)"
    by (auto simp: Let_def split: if_splits)
  from assms(3,6) SplitZoneNameId_Some [OF assms(5)] have free: "\<not> in_use w (?src z n)"
    unfolding attached_exist_def in_use_iff by blast
  have "in_use (after eff w) src = in_use w src" for src
    by (simp add: in_use_iff eff after_Some del: apply_effect.simps) (simp add: volumes_effect)
  with free have "gce_spec ?src z0 (Delete dreq) (after eff w) = (OK, Some (EDelete z n))"
    using assms(5,7) vid by (auto simp: locate_def CombineVolumeId_def eff after_Some)
  moreover have "after (Some (EDelete z n)) (after eff w) = w"
    using assms(6) by (simp add: eff after_Some fun_upd_idem)
  ultimately show ?thesis
    using serve_one [OF assms(1) s1, of z0 "Delete dreq"] assms(2)
    by (auto simp del: serve_rpc.simps gce_spec.simps)
qed

theorem delete_undoes_create_witness:
  "\<exists>s1 s2 resp. CreateVolume sample_cloud (create_req None) two_nodes = (Ret (Some resp, None), s1) \<and>
     serve_rpc sample_cloud (Delete \<lparr>dv_VolumeId = vol_Id (cvr_Volume resp)\<rparr>) s1 = (Ret OK, s2) \<and>
     toy_view s2 = toy_view two_nodes"
proof -
  let ?resp = "create_response (getRequestCapacity None) ''us-a'' ''vol''"
  have "fst (CreateVolume sample_cloud (create_req None) two_nodes) = Ret (Some ?resp, None)" by code_simp
  then obtain s1 where create: "CreateVolume sample_cloud (create_req None) two_nodes = (Ret (Some ?resp, None), s1)"
    by (metis prod.collapse)
  have vid: "SplitZoneNameId (vol_Id (cvr_Volume ?resp)) = (''us-a'', ''vol'', None)"
    by (simp add: create_response_def CombineVolumeId_def volume_of_sample)
  have free: "attached_exist (disk_source (svc_BasePath toy_service) ''p'') (toy_world two_nodes)"
    and new: "g_volumes (toy_world two_nodes) (''us-a'', ''vol'') = None"
    by (simp_all add: attached_exist_def all_attached_def two_nodes_def)
  from delete_undoes_create [OF toy_documented two_nodes_view free create [unfolded sample_cloud_def] vid new,
      of "\<lparr>dv_VolumeId = vol_Id (cvr_Volume ?resp)\<rparr>"] create
  show ?thesis unfolding sample_cloud_def by auto
qed

section \<open>Published volumes are protected\<close>



end
