(* ===== verification/GceShared.thy ===== *)
theory GceShared
  imports GceRefine
begin

text \<open>
  The driver beside other clients of the Compute API. Between two requests of a call others may
  change volumes and attachments: other calls of this driver, which the gRPC server runs
  concurrently and for which the driver takes no lock, or people with a console. Every request
  may also fail for a reason of its own. What still holds is that an answer OK is true: the
  volume exists, is gone, is attached or detached, as long as the others do not undo it.
\<close>

section \<open>A service with other clients\<close>

text \<open>The state of the service, the names of the operations that were accepted for us, and what
  the others do before each of our requests. They are told which operations are ours.\<close>

type_synonym 's client = "'s \<times> string set \<times> (string set \<Rightarrow> 's \<Rightarrow> 's) list"

definition others_go :: "'s client \<Rightarrow> 's client" where
  "others_go t = (case t of (s, own, fs) \<Rightarrow>
     (case fs of [] \<Rightarrow> (s, own, []) | f # fs' \<Rightarrow> (f own s, own, fs')))"

definition shared_get :: "('s \<Rightarrow> (error + 'a) \<times> 's) \<Rightarrow> 's client \<Rightarrow> (error + 'a) \<times> 's client" where
  "shared_get req t =
     (case others_go t of (s, own, fs) \<Rightarrow> (case req s of (r, s') \<Rightarrow> (r, s', own, fs)))"

definition shared_op ::
    "('s \<Rightarrow> (error + Operation) \<times> 's) \<Rightarrow> 's client \<Rightarrow> (error + Operation) \<times> 's client" where
  "shared_op req t =
     (case shared_get req t of
        (Inl e, t') \<Rightarrow> (Inl e, t')
      | (Inr op, s', own, fs) \<Rightarrow> (Inr op, s', insert (op_Name op) own, fs))"

definition shared_service :: "'s ComputeService \<Rightarrow> 's client ComputeService" where
  "shared_service svc =
     \<lparr> svc_BasePath = svc_BasePath svc,
       disks_get = (\<lambda>p z n. shared_get (disks_get svc p z n)),
       disks_insert = (\<lambda>p z d. shared_op (disks_insert svc p z d)),
       disks_delete = (\<lambda>p z n. shared_op (disks_delete svc p z n)),
       instances_get = (\<lambda>p z i. shared_get (instances_get svc p z i)),
       instances_attachDisk = (\<lambda>p z i a. shared_op (instances_attachDisk svc p z i a)),
       instances_detachDisk = (\<lambda>p z i v. shared_op (instances_detachDisk svc p z i v)),
       zoneOperations_get = (\<lambda>p z nm. shared_get (zoneOperations_get svc p z nm)),
       svc_ticks = (\<lambda>t. svc_ticks svc (fst t)) \<rparr>"

lemma shared_service_simps [simp]:
  "svc_BasePath (shared_service svc) = svc_BasePath svc"
  "disks_get (shared_service svc) p z n = shared_get (disks_get svc p z n)"
  "disks_insert (shared_service svc) p z d = shared_op (disks_insert svc p z d)"
  "disks_delete (shared_service svc) p z n = shared_op (disks_delete svc p z n)"
  "instances_get (shared_service svc) p z i = shared_get (instances_get svc p z i)"
  "instances_attachDisk (shared_service svc) p z i a = shared_op (instances_attachDisk svc p z i a)"
  "instances_detachDisk (shared_service svc) p z i v = shared_op (instances_detachDisk svc p z i v)"
  "zoneOperations_get (shared_service svc) p z nm = shared_get (zoneOperations_get svc p z nm)"
  by (simp_all add: shared_service_def)

text \<open>What others leave alone: our operations, the instances, and the goal once it is reached.\<close>

definition considerate ::
    "('s \<Rightarrow> gce_view) \<Rightarrow> (gce_world \<Rightarrow> bool) \<Rightarrow> (string set \<Rightarrow> 's \<Rightarrow> 's) \<Rightarrow> bool" where
  "considerate view goal f \<longleftrightarrow> (\<forall>own s.
     (\<forall>nm \<in> own. snd (view (f own s)) nm = snd (view s) nm) \<and>
     (\<forall>z i. devices (fst (view s)) z i \<noteq> None \<longrightarrow> devices (fst (view (f own s))) z i \<noteq> None) \<and>
     (goal (fst (view s)) \<longrightarrow> goal (fst (view (f own s)))))"

definition among ::
    "('s \<Rightarrow> gce_view) \<Rightarrow> (gce_world \<Rightarrow> bool) \<Rightarrow> 's client \<Rightarrow> bool" where
  "among view goal t \<longleftrightarrow> list_all (considerate view goal) (snd (snd t))"

text \<open>The volumes and attachments of a state, and our operation with its effect.\<close>

abbreviation world_of :: "('s \<Rightarrow> gce_view) \<Rightarrow> 's client \<Rightarrow> gce_world" where
  "world_of view t \<equiv> fst (view (fst t))"

fun node_there :: "effect \<Rightarrow> gce_world \<Rightarrow> bool" where
  "node_there (EAttach z i a) w = (devices w z i \<noteq> None)"
| "node_there _ w = True"

definition pending :: "('s \<Rightarrow> gce_view) \<Rightarrow> Operation \<Rightarrow> effect \<Rightarrow> 's client \<Rightarrow> bool" where
  "pending view op eff t \<longleftrightarrow> op_Name op \<in> fst (snd t) \<and>
     snd (view (fst t)) (op_Name op) = Some eff \<and> node_there eff (world_of view t)"

lemma others_go_keeps:
  assumes "among view goal t"
  shows "among view goal (others_go t)"
    and "goal (world_of view t) \<Longrightarrow> goal (world_of view (others_go t))"
    and "pending view op eff t \<Longrightarrow> pending view op eff (others_go t)"
  using assms
  by (cases t; cases "snd (snd t)"; cases eff;
      auto simp: others_go_def among_def considerate_def pending_def)+

section \<open>The requests\<close>

text \<open>The API is as documented, requests may fail, but an operation that is done has not failed.\<close>

definition reliable :: "'s ComputeService \<Rightarrow> string \<Rightarrow> ('s \<Rightarrow> gce_view) \<Rightarrow> bool" where
  "reliable svc p view \<longleftrightarrow> documented True svc p view \<and>
     (\<forall>z nm s po s'. zoneOperations_get svc p z nm s = (Inr po, s') \<longrightarrow>
        op_Status po = ''DONE'' \<longrightarrow> op_Error po = None)"

lemma reliable_documented: "reliable svc p view \<Longrightarrow> documented True svc p view"
  by (simp add: reliable_def)

lemma reliable_done:
  "reliable svc p view \<Longrightarrow> zoneOperations_get svc p z nm s = (Inr po, s') \<Longrightarrow>
     op_Status po = ''DONE'' \<Longrightarrow> op_Error po = None"
  unfolding reliable_def by blast

text \<open>One of our requests: others go first, then the request is answered by its law or fails.\<close>

lemma shared_request:
  assumes "answers True view req law" and "among view goal t"
  obtains r t' where "shared_get req t = (r, t')" and "among view goal t'"
    and "law (view (fst (others_go t))) r (view (fst t')) \<or>
      (\<exists>e. r = Inl e \<and> error_is '''' e \<and> view (fst t') = view (fst (others_go t)))"
proof -
  obtain s own fs where t: "others_go t = (s, own, fs)" by (rule prod_cases3)
  obtain r s' where run: "req s = (r, s')" by (rule prod.exhaust)
  have "among view goal (s', own, fs)"
    using others_go_keeps(1) [OF assms(2)] by (simp add: t among_def)
  moreover have "shared_get req t = (r, s', own, fs)" by (simp add: shared_get_def t run)
  ultimately show thesis
    using answersD [OF assms(1) run] by (intro that) (auto simp: t refused_def)
qed

lemma triple_run: "triple P m Q \<Longrightarrow> P s \<Longrightarrow> \<exists>a s'. m s = (Ret a, s') \<and> Q a s'"
  by (simp add: triple_def)

text \<open>The rest of a call after a request: what the law says of the answer holds of the state
  the rest starts in.\<close>

lemma triple_shared_get:
  assumes "answers True view req law"
    and "\<And>a. triple (\<lambda>t. among view goal t \<and> (\<exists>v. law v (Inr a) (view (fst t)))) (k (Some a, None)) Q"
    and "\<And>e. triple (\<lambda>t. among view goal t \<and> ((\<exists>v. law v (Inl e) (view (fst t))) \<or> error_is '''' e))
           (k (None, Some e)) Q"
  shows "triple (among view goal) (call (Do (shared_get req)) k) Q"
proof (rule tripleI)
  fix t
  assume "among view goal t"
  with assms(1) obtain r t' where t': "shared_get req t = (r, t')" "among view goal t'"
    "law (view (fst (others_go t))) r (view (fst t')) \<or>
      (\<exists>e. r = Inl e \<and> error_is '''' e \<and> view (fst t') = view (fst (others_go t)))"
    by (rule shared_request)
  show "\<exists>a t'. call (Do (shared_get req)) k t = (Ret a, t') \<and> Q a t'"
  proof (cases r)
    case (Inl e)
    with t'(2,3) have "among view goal t' \<and> ((\<exists>v. law v (Inl e) (view (fst t'))) \<or> error_is '''' e)"
      by blast
    from triple_run [OF assms(3) this] show ?thesis
      by (simp only: call_def Do_def t'(1) Inl sum.case prod.case outcome.case)
  next
    case (Inr a)
    with t'(2,3) have "among view goal t' \<and> (\<exists>v. law v (Inr a) (view (fst t')))" by blast
    from triple_run [OF assms(2) this] show ?thesis
      by (simp only: call_def Do_def t'(1) Inr sum.case prod.case outcome.case)
  qed
qed

text \<open>An accepted operation becomes one of ours.\<close>

definition add_own :: "Operation \<Rightarrow> 's client \<Rightarrow> 's client" where
  "add_own op t = (fst t, insert (op_Name op) (fst (snd t)), snd (snd t))"

lemma add_own_simps [simp]:
  "fst (add_own op t) = fst t" "op_Name op \<in> fst (snd (add_own op t))"
  "among view goal (add_own op t) = among view goal t"
  by (simp_all add: add_own_def among_def)

lemma shared_op_get:
  "shared_op req t = (case shared_get req t of (Inl e, t') \<Rightarrow> (Inl e, t') | (Inr op, t') \<Rightarrow> (Inr op, add_own op t'))"
  by (simp add: shared_op_def add_own_def split: prod.splits sum.splits)

lemma triple_shared_op:
  assumes "answers True view req law"
    and "\<And>op. triple (\<lambda>t. among view goal t \<and> op_Name op \<in> fst (snd t) \<and>
           (\<exists>v. law v (Inr op) (view (fst t)))) (k (Some op, None)) Q"
    and "\<And>e. triple (\<lambda>t. among view goal t \<and> ((\<exists>v. law v (Inl e) (view (fst t))) \<or> error_is '''' e))
           (k (None, Some e)) Q"
  shows "triple (among view goal) (call (Do (shared_op req)) k) Q"
proof (rule tripleI)
  fix t
  assume "among view goal t"
  with assms(1) obtain r t' where t': "shared_get req t = (r, t')" "among view goal t'"
    "law (view (fst (others_go t))) r (view (fst t')) \<or>
      (\<exists>e. r = Inl e \<and> error_is '''' e \<and> view (fst t') = view (fst (others_go t)))"
    by (rule shared_request)
  show "\<exists>a t'. call (Do (shared_op req)) k t = (Ret a, t') \<and> Q a t'"
  proof (cases r)
    case (Inl e)
    with t'(2,3) have "among view goal t' \<and> ((\<exists>v. law v (Inl e) (view (fst t'))) \<or> error_is '''' e)"
      by blast
    from triple_run [OF assms(3) this] show ?thesis
      by (simp only: call_def Do_def shared_op_get t'(1) Inl sum.case prod.case outcome.case)
  next
    case (Inr op)
    with t'(2,3) have "among view goal (add_own op t') \<and> op_Name op \<in> fst (snd (add_own op t')) \<and>
        (\<exists>v. law v (Inr op) (view (fst (add_own op t'))))"
      unfolding add_own_simps(1,3) using add_own_simps(2) by blast
    from triple_run [OF assms(2) this] show ?thesis
      by (simp only: call_def Do_def shared_op_get t'(1) Inr sum.case prod.case outcome.case)
  qed
qed

text \<open>The operation reaches the goal.\<close>

definition achieves :: "effect \<Rightarrow> (gce_world \<Rightarrow> bool) \<Rightarrow> bool" where
  "achieves eff goal \<longleftrightarrow> (\<forall>w. node_there eff w \<longrightarrow> goal (apply_effect eff w))"

text \<open>A poll of one of our operations: it is done and has taken effect, in a world in which its
  node is still there, or it is still pending, or the request failed.\<close>

lemma shared_poll:
  assumes api: "reliable svc p view" and goal: "achieves eff goal"
    and t: "among view goal t" "pending view op eff t"
  obtains (finished) po t' where "shared_get (zoneOperations_get svc p z (op_Name op)) t = (Inr po, t')"
      and "op_Status po = ''DONE''" and "among view goal t'" and "goal (world_of view t')"
  | (running) po t' where "shared_get (zoneOperations_get svc p z (op_Name op)) t = (Inr po, t')"
      and "op_Status po \<noteq> ''DONE''" and "among view goal t'" and "pending view op eff t'"
  | (fault) e t' where "shared_get (zoneOperations_get svc p z (op_Name op)) t = (Inl e, t')"
      and "error_is '''' e" and "among view goal t'"
proof -
  obtain s own fs where o: "others_go t = (s, own, fs)" by (rule prod_cases3)
  have E: "among view goal (s', own, fs)" for s'
    using others_go_keeps(1) [OF t(1)] by (simp add: o among_def)
  have pend: "op_Name op \<in> own" "snd (view s) (op_Name op) = Some eff" "node_there eff (fst (view s))"
    using others_go_keeps(3) [OF t] by (simp_all add: o pending_def)
  obtain r s' where run: "zoneOperations_get svc p z (op_Name op) s = (r, s')" by (rule prod.exhaust)
  then have get: "shared_get (zoneOperations_get svc p z (op_Name op)) t = (r, s', own, fs)"
    by (simp add: shared_get_def o)
  from answersD [OF documentedD(7) [OF reliable_documented [OF api]] run]
  have law: "poll_law True (op_Name op) (view s) r (view s') \<or> refused '''' (view s) r (view s')" by simp
  show thesis
  proof (cases r)
    case (Inl e)
    with law pend have "error_is '''' e" by (auto simp: poll_law_def refused_def)
    with get Inl E show thesis by (intro fault) auto
  next
    case (Inr po)
    show thesis
    proof (cases "op_Status po = ''DONE''")
      case True
      with Inr law pend reliable_done [OF api run [unfolded Inr]] have "view s' =
          (apply_effect eff (fst (view s)), (snd (view s))(op_Name op := None))"
        by (auto simp: poll_law_def refused_def)
      with goal pend(3) get Inr E True show thesis by (intro finished) (auto simp: achieves_def)
    next
      case False
      with Inr law pend have "view s' = view s" by (auto simp: poll_law_def refused_def)
      with get Inr E False pend show thesis by (intro running) (auto simp: pending_def)
    qed
  qed
qed

lemma WaitFor_shared:
  assumes api: "reliable svc p view" and goal: "achieves eff goal"
    and "among view goal t" and "pending view op eff t"
  shows "\<exists>err t'. WaitFor n (WaitForOp_condition (gce_cloud (shared_service svc) p z0) (Some op) z) t =
      (Ret err, t') \<and> among view goal t' \<and>
    (case err of None \<Rightarrow> goal (world_of view t') | Some e \<Rightarrow> error_is '''' e)"
  using assms(3,4)
proof (induction n arbitrary: t)
  case 0
  from shared_poll [OF api goal 0, of z] show ?case
    by cases (auto simp: WaitForOp_condition_run call_def error_is_simps)
next
  case (Suc n)
  from shared_poll [OF api goal Suc.prems, of z] show ?case
  proof cases
    case (2 po t')
    with Suc.IH [of t'] show ?thesis by (simp add: WaitForOp_condition_run call_def)
  qed (auto simp: WaitForOp_condition_run call_def)
qed

lemma call_wait_shared:
  assumes "reliable svc p view" and "achieves eff goal"
    and "triple (\<lambda>t. among view goal t \<and> goal (world_of view t)) (k None) Q"
    and "\<And>e. error_is '''' e \<Longrightarrow> triple (among view goal) (k (Some e)) Q"
  shows "triple (\<lambda>t. among view goal t \<and> pending view op eff t)
    (call (CloudProvider_WaitForOp (gce_cloud (shared_service svc) p z0) (Some op) z) k) Q"
proof (rule tripleI)
  fix t
  assume "among view goal t \<and> pending view op eff t"
  with WaitFor_shared [OF assms(1,2)] obtain err t' where
    "CloudProvider_WaitForOp (gce_cloud (shared_service svc) p z0) (Some op) z t = (Ret err, t')"
    "among view goal t'" "case err of None \<Rightarrow> goal (world_of view t') | Some e \<Rightarrow> error_is '''' e"
    unfolding CloudProvider_WaitForOp_def Poll_def by blast
  with triple_run [OF assms(3), of t'] triple_run [OF assms(4), of _ t']
  show "\<exists>a t'. call (CloudProvider_WaitForOp (gce_cloud (shared_service svc) p z0)
      (Some op) z) k t = (Ret a, t') \<and> Q a t'"
    by (cases err) (simp_all only: call_Ret option.case)
qed

section \<open>The operations of the provider\<close>

lemma triple_preI:
  assumes "\<And>s. P s \<Longrightarrow> C \<and> R s" and "C \<Longrightarrow> triple R m Q"
  shows "triple P m Q"
  using assms unfolding triple_def by blast

lemma triple_weaken: "triple P m Q \<Longrightarrow> triple (\<lambda>s. P s \<and> R s) m Q"
  by (simp add: triple_def)

lemma call_disk_shared:
  assumes "reliable svc p view"
    and "\<And>d. disk_Name d = n \<Longrightarrow> triple (among view goal) (k (Some d, None)) Q"
    and "\<And>e. error_code e \<noteq> OK \<Longrightarrow> triple (among view goal) (k (None, Some e)) Q"
  shows "triple (among view goal)
    (call (CloudProvider_GetDiskOrError (gce_cloud (shared_service svc) p z0) z n) k) Q"
  unfolding CloudProvider_GetDiskOrError_def CloudProvider.simps deref_Some call_assoc shared_service_simps
proof (rule triple_shared_get [OF documentedD(1) [OF reliable_documented [OF assms(1)]]], goal_cases)
  case (1 d)
  show ?case
    by (rule triple_preI [where C = "disk_Name d = n" and R = "among view goal"])
       (auto simp: assms(2) get_disk_law_def refused_def split: option.splits)
next
  case (2 e)
  show ?case
    by (rule triple_preI [where C = True and R = "among view goal"]) (auto simp: assms(3))
qed

lemma call_instance_shared:
  assumes "reliable svc p view"
    and "\<And>i. triple (\<lambda>t. among view goal t \<and>
           devices (world_of view t) z n = Some (map attachment_of (inst_Disks i))) (k (Some i, None)) Q"
    and "\<And>e. error_code e \<noteq> OK \<Longrightarrow> triple (among view goal) (k (None, Some e)) Q"
  shows "triple (among view goal)
    (call (CloudProvider_GetInstanceOrError (gce_cloud (shared_service svc) p z0) z n) k) Q"
  unfolding CloudProvider_GetInstanceOrError_def CloudProvider.simps deref_Some call_assoc shared_service_simps
proof (rule triple_shared_get [OF documentedD(2) [OF reliable_documented [OF assms(1)]]], goal_cases)
  case (1 i)
  show ?case
    unfolding prod.case option.case call_ret
    by (rule triple_conseq [OF assms(2)]) (auto simp: get_instance_law_def refused_def split: option.splits)
next
  case (2 e)
  show ?case
    by (rule triple_preI [where C = True and R = "among view goal"]) (auto simp: assms(3))
qed


lemma call_existing_shared:
  assumes "reliable svc p view"
    and "\<And>e. error_code e \<noteq> OK \<Longrightarrow> triple (among view goal) (k (True, Some e)) Q"
    and "triple (\<lambda>t. among view goal t \<and> g_volumes (world_of view t) (z, n) \<noteq> None) (k (True, None)) Q"
    and "triple (among view goal) (k (False, None)) Q"
  shows "triple (among view goal)
    (call (CloudProvider_GetAndValidateExistingDisk (gce_cloud (shared_service svc) p z0) z n ty
       (GetRequiredBytes cr) (GetLimitBytes cr)) k) Q"
  unfolding CloudProvider_GetAndValidateExistingDisk_def CloudProvider.simps deref_Some call_assoc
    shared_service_simps
proof (rule triple_shared_get [OF documentedD(1) [OF reliable_documented [OF assms(1)]]], goal_cases)
  case (1 d)
  obtain ex err where v:
    "CloudProvider_validateDisk d ty (GetRequiredBytes cr) (GetLimitBytes cr) = (ex, err)"
    by (rule prod.exhaust)
  have "ex" and err: "\<And>e. err = Some e \<Longrightarrow> error_code e \<noteq> OK"
    using validateDisk_existing [OF v] by auto
  then have "triple (\<lambda>t. among view goal t \<and> g_volumes (world_of view t) (z, n) \<noteq> None) (k (ex, err)) Q"
    using assms(2,3) by (cases err) (auto simp: triple_def)
  then show ?case
    unfolding prod.case option.case v call_ret
    by (rule triple_conseq) (auto simp: get_disk_law_def refused_def split: option.splits)
next
  case (2 e)
  show ?case
    by (rule triple_preI [where C = True and R = "among view goal"]) (auto simp: assms(4))
qed

lemmas provider_ops = CloudProvider_InsertDisk_def CloudProvider_DeleteDisk_def
  CloudProvider_AttachDisk_def CloudProvider_DetachDisk_def CloudProvider.simps deref_Some
  shared_service_simps

text \<open>What an answer to a change says.\<close>

lemma accepted_Inr: "accepted eff v (Inr op) v' \<longleftrightarrow> v' = (fst v, (snd v)(op_Name op \<mapsto> eff))"
  "\<not> accepted eff v (Inl e) v'" "\<not> refused reason v (Inr op) v'"
  "refused reason v (Inl e) v' \<longleftrightarrow> v' = v \<and> error_is reason e"
  by (auto simp: accepted_def refused_def)

lemma law_accepts:
  "insert_law z d v (Inr op) v' \<Longrightarrow>
     v' = (fst v, (snd v)(op_Name op \<mapsto> ECreate z (disk_Name d) (disk_SizeGb d) (respType_last d)))"
  "delete_law src z n v (Inr op) v' \<Longrightarrow> v' = (fst v, (snd v)(op_Name op \<mapsto> EDelete z n))"
  "detach_law z i dev v (Inr op) v' \<Longrightarrow> v' = (fst v, (snd v)(op_Name op \<mapsto> EDetach z i dev))"
  by (simp_all add: insert_law_def delete_law_def detach_law_def accepted_Inr
      split: if_splits option.splits)

lemma attach_law_accepts:
  assumes "attach_law src z i a v (Inr op) v'" and "ad_Source a = src z n"
  shows "v' = (fst v, (snd v)(op_Name op \<mapsto> EAttach z i (attachment_of a))) \<and> devices (fst v) z i \<noteq> None"
  using spec [OF assms(1) [unfolded attach_law_def], of n] assms(2)
  by (auto simp: accepted_Inr split: if_splits option.splits)

lemma law_refuses:
  "insert_law z d v (Inl e) v' \<Longrightarrow> IsGCEError e ''alreadyExists'' \<Longrightarrow> g_volumes (fst v') (z, disk_Name d) \<noteq> None"
  "delete_law src z n v (Inl e) v' \<Longrightarrow> IsGCEError e ''notFound'' \<Longrightarrow> g_volumes (fst v') (z, n) = None"
  by (simp_all add: insert_law_def delete_law_def accepted_Inr error_is_simps split: if_splits)

lemma pendingI:
  assumes "op_Name op \<in> fst (snd t)" and "view (fst t) = (fst v, (snd v)(op_Name op \<mapsto> eff))"
    and "node_there eff (fst v)"
  shows "pending view op eff t"
  using assms by (simp add: pending_def)

lemma call_insert_shared:
  assumes "reliable svc p view"
    and "\<And>op. triple (\<lambda>t. among view goal t \<and>
           pending view op (ECreate z (disk_Name d) (disk_SizeGb d) (respType_last d)) t) (k (Some op, None)) Q"
    and "\<And>e. triple (\<lambda>t. among view goal t \<and> (IsGCEError e ''alreadyExists'' \<longrightarrow>
           g_volumes (world_of view t) (z, disk_Name d) \<noteq> None)) (k (None, Some e)) Q"
  shows "triple (among view goal)
    (call (CloudProvider_InsertDisk (gce_cloud (shared_service svc) p z0) z d) k) Q"
  unfolding provider_ops
proof (rule triple_shared_op [OF documentedD(3) [OF reliable_documented [OF assms(1)]]], goal_cases)
  case (1 op)
  show ?case
    by (rule triple_conseq [OF assms(2)]) (auto intro: pendingI dest: law_accepts)
next
  case (2 e)
  show ?case
    by (rule triple_conseq [OF assms(3)]) (use law_refuses(1) in \<open>fastforce simp: error_is_simps\<close>)+
qed

lemma call_delete_shared:
  assumes "reliable svc p view"
    and "\<And>op. triple (\<lambda>t. among view goal t \<and> pending view op (EDelete z n) t) (k (Some op, None)) Q"
    and "\<And>e. triple (\<lambda>t. among view goal t \<and> (IsGCEError e ''notFound'' \<longrightarrow>
           g_volumes (world_of view t) (z, n) = None)) (k (None, Some e)) Q"
  shows "triple (among view goal)
    (call (CloudProvider_DeleteDisk (gce_cloud (shared_service svc) p z0) z n) k) Q"
  unfolding provider_ops
proof (rule triple_shared_op [OF documentedD(4) [OF reliable_documented [OF assms(1)]]], goal_cases)
  case (1 op)
  show ?case
    by (rule triple_conseq [OF assms(2)]) (auto intro: pendingI dest: law_accepts)
next
  case (2 e)
  show ?case
    by (rule triple_conseq [OF assms(3)]) (use law_refuses(2) in \<open>fastforce simp: error_is_simps\<close>)+
qed

lemma call_attach_shared:
  assumes "reliable svc p view" and "ad_Source a = disk_source (svc_BasePath svc) p z n"
    and "\<And>op. triple (\<lambda>t. among view goal t \<and> pending view op (EAttach z i (attachment_of a)) t)
           (k (Some op, None)) Q"
    and "\<And>e. triple (among view goal) (k (None, Some e)) Q"
  shows "triple (among view goal)
    (call (CloudProvider_AttachDisk (gce_cloud (shared_service svc) p z0) z i a) k) Q"
  unfolding provider_ops
proof (rule triple_shared_op [OF documentedD(5) [OF reliable_documented [OF assms(1)]]], goal_cases)
  case (1 op)
  show ?case
  proof (rule triple_conseq [OF assms(3)], elim conjE exE)
    fix t v
    assume "among view goal t" and own: "op_Name op \<in> fst (snd t)"
      and "attach_law (disk_source (svc_BasePath svc) p) z i a v (Inr op) (view (fst t))"
    from attach_law_accepts [OF this(3) assms(2)]
    have "pending view op (EAttach z i (attachment_of a)) t"
      by (intro pendingI [OF own]) auto
    with \<open>among view goal t\<close> show "among view goal t \<and> pending view op (EAttach z i (attachment_of a)) t"
      by blast
  qed
next
  case (2 e)
  show ?case by (rule triple_conseq [OF assms(4)]) auto
qed

lemma call_detach_shared:
  assumes "reliable svc p view"
    and "\<And>op. triple (\<lambda>t. among view goal t \<and> pending view op (EDetach z i v) t) (k (Some op, None)) Q"
    and "\<And>e. triple (among view goal) (k (None, Some e)) Q"
  shows "triple (among view goal)
    (call (CloudProvider_DetachDisk (gce_cloud (shared_service svc) p z0) z i v) k) Q"
  unfolding provider_ops
proof (rule triple_shared_op [OF documentedD(6) [OF reliable_documented [OF assms(1)]]], goal_cases)
  case (1 op)
  show ?case
    by (rule triple_conseq [OF assms(2)]) (auto intro: pendingI dest: law_accepts)
next
  case (2 e)
  show ?case by (rule triple_conseq [OF assms(3)]) auto
qed

section \<open>An answer OK is true\<close>

text \<open>What a call is for, as a property of the volumes and attachments.\<close>

fun goal_of :: "string \<Rightarrow> rpc \<Rightarrow> gce_world \<Rightarrow> bool" where
  "goal_of z0 (Create req) w =
     (case apply_parameters (cv_Parameters req) ''pd-standard'' z0 of
        Inl _ \<Rightarrow> True
      | Inr (t, z) \<Rightarrow> g_volumes w (z, cv_Name req) \<noteq> None)"
| "goal_of z0 (Delete req) w =
     (case locate (dv_VolumeId req) of None \<Rightarrow> True | Some (z, n) \<Rightarrow> g_volumes w (z, n) = None)"
| "goal_of z0 (Publish req) w =
     (case locate (cp_VolumeId req) of None \<Rightarrow> True
      | Some (z, n) \<Rightarrow> (case devices w z (cp_NodeId req) of None \<Rightarrow> False
         | Some ds \<Rightarrow> \<exists>a \<in> set ds. at_device a = n \<and> at_mode a = access_mode (cp_Readonly req)))"
| "goal_of z0 (Unpublish req) w =
     (case locate (cu_VolumeId req) of None \<Rightarrow> True
      | Some (z, n) \<Rightarrow> (case devices w z (cu_NodeId req) of None \<Rightarrow> True
         | Some ds \<Rightarrow> n \<notin> at_device ` set ds))"

text \<open>A reply that is true of the state it is given in.\<close>

definition truthful ::
    "('s \<Rightarrow> gce_view) \<Rightarrow> (gce_world \<Rightarrow> bool) \<Rightarrow> 'a option \<times> error option \<Rightarrow> 's client \<Rightarrow> bool" where
  "truthful view goal reply t \<longleftrightarrow> (grpc_code reply = OK \<longrightarrow> goal (world_of view t))"

lemma truthful_error: "error_code e \<noteq> OK \<Longrightarrow> triple P (ret (r, Some e)) (truthful view goal)"
  by (simp add: triple_def truthful_def)

lemma truthful_goal:
  "(\<And>t. P t \<Longrightarrow> goal (world_of view t)) \<Longrightarrow> triple P (ret (Some r, None)) (truthful view goal)"
  by (simp add: triple_def truthful_def)

lemma truthful_Delete:
  assumes api: "reliable svc p view"
  shows "triple (among view (goal_of z0 (Delete req)))
    (DeleteVolume (cloudCompute (gce_cloud (shared_service svc) p z0)) req)
    (truthful view (goal_of z0 (Delete req)))"
proof (cases rule: locate_cases [of "dv_VolumeId req"])
  case (bad m)
  then show ?thesis
    by (auto simp: DeleteVolume_def Let_def intro: truthful_error truthful_goal)
next
  case (ok z n)
  have goal: "achieves (EDelete z n) (goal_of z0 (Delete req))" by (simp add: achieves_def ok(2))
  show ?thesis
  proof (cases "dv_VolumeId req = ''''")
    case True
    then show ?thesis by (simp add: DeleteVolume_def Let_def truthful_error)
  next
    case False
    with ok show ?thesis
      unfolding DeleteVolume_def Let_def cloudCompute_simps
      by (simp, intro call_delete_shared [OF api])
         (auto intro!: call_wait_shared [OF api goal] truthful_error truthful_goal)
  qed
qed


lemma truthful_Unpublish:
  assumes api: "reliable svc p view"
  shows "triple (among view (goal_of z0 (Unpublish req)))
    (ControllerUnpublishVolume (cloudCompute (gce_cloud (shared_service svc) p z0)) req)
    (truthful view (goal_of z0 (Unpublish req)))"
proof (cases "cu_VolumeId req = '''' \<or> cu_NodeId req = ''''")
  case True
  then show ?thesis by (auto simp: ControllerUnpublishVolume_def Let_def intro: truthful_error)
next
  case False
  show ?thesis
  proof (cases rule: locate_cases [of "cu_VolumeId req"])
    case (bad m)
    with False show ?thesis by (auto simp: ControllerUnpublishVolume_def Let_def intro: truthful_error)
  next
    case (ok z n)
    have goal: "achieves (EDetach z (cu_NodeId req) v) (goal_of z0 (Unpublish req))" if "v = n" for v
      using that by (auto simp: achieves_def ok(2) update_conv split: option.splits)
    from ok False show ?thesis
      unfolding ControllerUnpublishVolume_def Let_def cloudCompute_simps
      by (simp, intro call_disk_shared [OF api])
         (auto intro!: call_instance_shared [OF api] call_detach_shared [OF api, THEN triple_weaken]
            call_wait_shared [OF api goal] truthful_error truthful_goal)
  qed
qed

lemma truthful_attach:
  assumes api: "reliable svc p view"
    and goal: "achieves (EAttach z node (Attachment (disk_Name d) mode
      (disk_source (svc_BasePath svc) p z (disk_Name d)))) G"
  shows "triple (among view G)
    (attachVolume (cloudCompute (gce_cloud (shared_service svc) p z0)) z node d mode resp)
    (truthful view G)"
  unfolding attachVolume_def Let_def cloudCompute_simps
  by (simp, rule call_attach_shared [OF api, where n = "disk_Name d"])
     (auto intro!: call_wait_shared [OF api goal] truthful_error truthful_goal
        simp: source_uri_eq attachment_of_def)


lemma truthful_Publish:
  assumes api: "reliable svc p view"
  shows "triple (among view (goal_of z0 (Publish req)))
    (ControllerPublishVolume (cloudCompute (gce_cloud (shared_service svc) p z0)) req)
    (truthful view (goal_of z0 (Publish req)))"
proof (cases "cp_VolumeId req = '''' \<or> cp_NodeId req = '''' \<or> cp_VolumeCapability req = None")
  case True
  then show ?thesis
    by (auto simp: ControllerPublishVolume_def Let_def intro: truthful_error split: option.split)
next
  case False
  show ?thesis
  proof (cases rule: locate_cases [of "cp_VolumeId req"])
    case (bad m)
    with False show ?thesis by (auto simp: ControllerPublishVolume_def Let_def intro!: truthful_error)
  next
    case (ok z n)
    let ?src = "disk_source (svc_BasePath svc) p" and ?mode = "access_mode (cp_Readonly req)"
    have goal: "achieves (EAttach z (cp_NodeId req) (Attachment n ?mode (?src z n)))
        (goal_of z0 (Publish req))"
      by (auto simp: achieves_def ok(2) update_conv split: option.splits)
    have rest: "triple (\<lambda>t. among view (goal_of z0 (Publish req)) t \<and>
          devices (world_of view t) z (cp_NodeId req) = Some (map attachment_of (inst_Disks i)))
        (case attached_result (find (\<lambda>a. ad_DeviceName a = disk_Name d) (inst_Disks i)) mode of (attached, err) \<Rightarrow>
           if \<exists>e. err = Some e then
             ret (None, Some (StatusError AlreadyExists
               ''Disk %v already published to node %v but incompatbile: %v''))
           else if attached then ret (Some resp, None)
           else deref (Some d) (\<lambda>d. attachVolume (cloudCompute (gce_cloud (shared_service svc) p z0))
             z (cp_NodeId req) d mode resp))
        (truthful view (goal_of z0 (Publish req)))" if "n = disk_Name d" "mode = ?mode" for i d resp mode
    proof (cases "find (\<lambda>a. ad_DeviceName a = disk_Name d) (inst_Disks i)")
      case None
      with that show ?thesis
        using truthful_attach [OF api, of z "cp_NodeId req" d ?mode "goal_of z0 (Publish req)" z0 resp] goal
        by (simp add: attached_result_def triple_weaken)
    next
      case (Some a)
      then have "a \<in> set (inst_Disks i)" "ad_DeviceName a = disk_Name d" by (auto simp: find_Some_iff)
      then show ?thesis
        unfolding Some using ok(2) that
        by (auto simp: attached_result_def intro!: truthful_error truthful_goal)
    qed
    from False obtain cap where "cp_VolumeCapability req = Some cap" by auto
    with ok False show ?thesis
      unfolding ControllerPublishVolume_def Let_def cloudCompute_simps
      by (cases "cp_Readonly req")
         ((simp; rule call_disk_shared [OF api];
           auto intro!: call_instance_shared [OF api] rest truthful_error)[1])+
  qed
qed


text \<open>The second look at an existing disk does not undo the goal.\<close>

lemma existing_keeps_goal:
  assumes api: "reliable svc p view"
  shows "triple (\<lambda>t. among view G t \<and> G (world_of view t))
    (CloudProvider_GetAndValidateExistingDisk (gce_cloud (shared_service svc) p z0) z n ty
       (GetRequiredBytes cr) (GetLimitBytes cr))
    (\<lambda>(ex, err) t. (among view G t \<and> G (world_of view t)) \<and> (\<forall>e. err = Some e \<longrightarrow> error_code e \<noteq> OK))"
proof (rule tripleI)
  fix t
  assume t: "among view G t \<and> G (world_of view t)"
  from documentedD(1) [OF reliable_documented [OF api], of z n] t obtain r t' where
    r: "shared_get (disks_get svc p z n) t = (r, t')" "among view G t'"
    "get_disk_law z n (view (fst (others_go t))) r (view (fst t')) \<or>
      (\<exists>e. r = Inl e \<and> error_is '''' e \<and> view (fst t') = view (fst (others_go t)))"
    by (auto elim: shared_request)
  then have "view (fst t') = view (fst (others_go t))"
    by (auto simp: get_disk_law_def refused_def split: option.splits)
  with others_go_keeps(2) [of view G t] t have "G (world_of view t')" by simp
  moreover have "\<exists>ex err. CloudProvider_GetAndValidateExistingDisk (gce_cloud (shared_service svc) p z0) z n ty
       (GetRequiredBytes cr) (GetLimitBytes cr) t = (Ret (ex, err), t') \<and> (\<forall>e. err = Some e \<longrightarrow> error_code e \<noteq> OK)"
  proof (cases r)
    case (Inr d)
    obtain ex err where "CloudProvider_validateDisk d ty (GetRequiredBytes cr) (GetLimitBytes cr) = (ex, err)"
      by (rule prod.exhaust)
    with validateDisk_existing [OF this] r(1) Inr show ?thesis
      by (auto simp: GetAndValidateExistingDisk_cloud)
  qed (use r(1) in \<open>auto simp: GetAndValidateExistingDisk_cloud\<close>)
  ultimately show "\<exists>a t'. CloudProvider_GetAndValidateExistingDisk (gce_cloud (shared_service svc) p z0) z n ty
       (GetRequiredBytes cr) (GetLimitBytes cr) t = (Ret a, t') \<and>
     (case a of (ex, err) \<Rightarrow> \<lambda>t. (among view G t \<and> G (world_of view t)) \<and>
        (\<forall>e. err = Some e \<longrightarrow> error_code e \<noteq> OK)) t'"
    using r(2) by fastforce
qed

lemma truthful_recheck:
  assumes api: "reliable svc p view"
  shows "triple (\<lambda>t. among view G t \<and> G (world_of view t))
    (recheck_existing (cloudCompute (gce_cloud (shared_service svc) p z0)) z n ty cr resp)
    (truthful view G)"
  unfolding recheck_existing_def cloudCompute_simps
  by (rule triple_call_fact_pair [OF existing_keeps_goal [OF api]])
     (auto intro!: truthful_error truthful_goal split: option.split)

lemma truthful_Create:
  assumes api: "reliable svc p view"
  shows "triple (among view (goal_of z0 (Create req)))
    (CreateVolume (cloudCompute (gce_cloud (shared_service svc) p z0)) req)
    (truthful view (goal_of z0 (Create req)))"
proof (cases "cv_Name req = '''' \<or> cv_VolumeCapabilities req = []")
  case True
  then show ?thesis by (auto simp: CreateVolume_def Let_def intro!: truthful_error)
next
  case False
  let ?G = "goal_of z0 (Create req)" and ?n = "cv_Name req" and ?cr = "cv_CapacityRange req"
  show ?thesis
  proof (cases "apply_parameters (cv_Parameters req) ''pd-standard'' z0")
    case (Inl e)
    with False show ?thesis
      by (auto simp: CreateVolume_def Let_def DiskTypeStandard_def CloudProvider_GetZone_def
          simp del: ret_run dest: apply_parameters_code intro!: truthful_error)
  next
    case (Inr tz)
    obtain ty z where tz: "tz = (ty, z)" by (rule prod.exhaust)
    have G: "?G w \<longleftrightarrow> g_volumes w (z, ?n) \<noteq> None" for w by (simp add: Inr tz)
    have goal: "achieves (ECreate z ?n sz t') ?G" for sz t'
      by (simp add: achieves_def Inr tz)
    have second: "triple (\<lambda>t. among view ?G t \<and> g_volumes (world_of view t) (z, ?n) \<noteq> None)
        (recheck_existing (cloudCompute (gce_cloud (shared_service svc) p z0)) z ?n ty ?cr resp)
        (truthful view ?G)" for resp
      by (rule triple_conseq [OF truthful_recheck [OF api, where G = ?G]]) (use G in blast)+
    from False Inr tz show ?thesis
      unfolding CreateVolume_def Let_def cloudCompute_simps DiskTypeStandard_def CloudProvider_GetZone_def
      by (simp del: ret_run, intro call_existing_shared [OF api])
         (auto simp: error_is_simps second [simplified] simp del: ret_run
            intro!: truthful_error truthful_goal call_insert_shared [OF api] call_wait_shared [OF api goal])
  qed
qed

lemma triple_serve:
  assumes "triple P m (truthful view G)"
  shows "triple P (call m (\<lambda>r. ret (grpc_code r))) (\<lambda>c t. c = OK \<longrightarrow> G (world_of view t))"
proof (rule triple_call [OF assms])
  show "triple (truthful view G r) (ret (grpc_code r)) (\<lambda>c t. c = OK \<longrightarrow> G (world_of view t))" for r
    by (simp add: triple_def truthful_def)
qed

lemma shared_answers:
  assumes "reliable svc p view"
  shows "triple (among view (goal_of z0 r)) (serve_rpc (cloudCompute (gce_cloud (shared_service svc) p z0)) r)
    (\<lambda>c t. c = OK \<longrightarrow> goal_of z0 r (world_of view t))"
  unfolding serve_rpc.simps
  by (cases r) (simp_all only: serve_rpc.simps triple_serve truthful_Create truthful_Delete
    truthful_Publish truthful_Unpublish assms)


text \<open>Another client creates the same volume after the driver has seen that it is not there: the
  insert is refused, the second look finds the volume, and the answer is OK. The volume of the
  other client is of another disk type, since the type check accepts only those.\<close>

definition raced_req :: CreateVolumeRequest where
  "raced_req = create_req (Some \<lparr>cr_RequiredBytes = GbToBytes 5, cr_LimitBytes = GbToBytes 10\<rparr>)"

definition create_race :: "string set \<Rightarrow> toy \<Rightarrow> toy" where
  "create_race own s =
     (if g_volumes (toy_world s) (''us-a'', ''vol'') = None
      then s\<lparr>toy_world := apply_effect (ECreate ''us-a'' ''vol'' 7 ''pd-ssd'') (toy_world s)\<rparr> else s)"

lemma toy_reliable: "reliable toy_service p toy_view"
  using toy_documented [of True p]
  by (auto simp: reliable_def toy_service_def toy_poll_def toy_refuse_def split: if_splits option.splits)

lemma raced_create:
  "fst (serve_rpc (cloudCompute (gce_cloud (shared_service toy_service) ''p'' ''us-a''))
     (Create raced_req) (two_nodes, {}, [\<lambda>_ s. s, create_race])) = Ret OK"
  by code_simp


end
