(* ===== verification/Interference.thy ===== *)
theory Interference
  imports Lifecycle
begin

text \<open>
  Calls that overlap in time. The gRPC server handles calls concurrently and the driver takes no
  locks, so between two requests of a handler to the provider other calls may change its state.
  A provider is wrapped into one that lets the environment act before each request; a single
  request is atomic. The environment is a list of state changes, and what is relied on is only
  that each keeps the provider's invariant.
\<close>

section \<open>A provider with an environment\<close>

type_synonym 's shared = "'s \<times> ('s \<Rightarrow> 's) list"

definition others_act :: "'s shared \<Rightarrow> 's shared" where
  "others_act t = (case snd t of [] \<Rightarrow> t | f # fs \<Rightarrow> (f (fst t), fs))"

definition beside :: "('s, 'a) go \<Rightarrow> ('s shared, 'a) go" where
  "beside m t = (case others_act t of (s, fs) \<Rightarrow> (case m s of (r, s') \<Rightarrow> (r, s', fs)))"

definition interfered :: "'s GCECompute \<Rightarrow> 's shared GCECompute" where
  "interfered cp =
     \<lparr> GetProject = beside (GetProject cp),
       GetZone = beside (GetZone cp),
       GetDiskOrError = (\<lambda>z n. beside (GetDiskOrError cp z n)),
       GetAndValidateExistingDisk = (\<lambda>z n t r l. beside (GetAndValidateExistingDisk cp z n t r l)),
       InsertDisk = (\<lambda>z d. beside (InsertDisk cp z d)),
       DeleteDisk = (\<lambda>z n. beside (DeleteDisk cp z n)),
       AttachDisk = (\<lambda>z i a. beside (AttachDisk cp z i a)),
       DetachDisk = (\<lambda>z i v. beside (DetachDisk cp z i v)),
       GetDiskSourceURI = (\<lambda>d z. beside (GetDiskSourceURI cp d z)),
       GetDiskTypeURI = (\<lambda>z t. beside (GetDiskTypeURI cp z t)),
       GetInstanceOrError = (\<lambda>z i. beside (GetInstanceOrError cp z i)),
       WaitForOp = (\<lambda>op z. beside (WaitForOp cp op z)) \<rparr>"

lemma interfered_simps [simp]:
  "GetZone (interfered cp) = beside (GetZone cp)"
  "GetDiskOrError (interfered cp) z n = beside (GetDiskOrError cp z n)"
  "GetAndValidateExistingDisk (interfered cp) z n t r l = beside (GetAndValidateExistingDisk cp z n t r l)"
  "InsertDisk (interfered cp) z d = beside (InsertDisk cp z d)"
  "DeleteDisk (interfered cp) z n = beside (DeleteDisk cp z n)"
  "AttachDisk (interfered cp) z i a = beside (AttachDisk cp z i a)"
  "DetachDisk (interfered cp) z i v = beside (DetachDisk cp z i v)"
  "GetDiskSourceURI (interfered cp) d z = beside (GetDiskSourceURI cp d z)"
  "GetDiskTypeURI (interfered cp) z t = beside (GetDiskTypeURI cp z t)"
  "GetInstanceOrError (interfered cp) z i = beside (GetInstanceOrError cp z i)"
  "WaitForOp (interfered cp) op z = beside (WaitForOp cp op z)"
  by (simp_all add: interfered_def)

section \<open>The basic contract survives interference\<close>

text \<open>The state and the environment: the invariant holds and every change keeps it.\<close>

definition keeps :: "('s \<Rightarrow> bool) \<Rightarrow> ('s \<Rightarrow> 's) \<Rightarrow> bool" where
  "keeps I f \<longleftrightarrow> (\<forall>s. I s \<longrightarrow> I (f s))"

definition shared_inv :: "('s \<Rightarrow> bool) \<Rightarrow> 's shared \<Rightarrow> bool" where
  "shared_inv I t \<longleftrightarrow> I (fst t) \<and> list_all (keeps I) (snd t)"

lemma others_act_inv: "shared_inv I t \<Longrightarrow> shared_inv I (others_act t)"
  by (cases "snd t") (auto simp: shared_inv_def others_act_def keeps_def)

lemma triple_beside:
  assumes "triple I m (\<lambda>a s. I s \<and> C a)"
  shows "triple (shared_inv I) (beside m) (\<lambda>a t. shared_inv I t \<and> C a)"
proof (rule tripleI)
  fix t
  assume "shared_inv I t"
  then have act: "shared_inv I (others_act t)" by (rule others_act_inv)
  then have "I (fst (others_act t))" by (simp add: shared_inv_def)
  with assms obtain a s' where "m (fst (others_act t)) = (Ret a, s')" "I s'" "C a"
    by (auto simp: triple_def)
  with act show "\<exists>a t'. beside m t = (Ret a, t') \<and> shared_inv I t' \<and> C a"
    by (auto simp: beside_def shared_inv_def split: prod.splits)
qed

lemma triple_beside_inv: "triple I m (\<lambda>_. I) \<Longrightarrow> triple (shared_inv I) (beside m) (\<lambda>_. shared_inv I)"
  using triple_beside [of I m "\<lambda>_. True"] by simp

lemma triple_beside_pair:
  "triple I m (\<lambda>(a, b) s. I s \<and> C a b) \<Longrightarrow>
   triple (shared_inv I) (beside m) (\<lambda>(a, b) t. shared_inv I t \<and> C a b)"
  using triple_beside [of I m "\<lambda>(a, b). C a b"] by (simp add: case_prod_beta')

context gce_requests
begin

lemma shared_requests: "gce_requests (interfered cp) (shared_inv inv) opok"
  by unfold_locales
     (unfold interfered_simps,
      (rule triple_beside_inv [OF get_zone] triple_beside_inv [OF source_uri]
        triple_beside_inv [OF type_uri] triple_beside_pair [OF get_disk]
        triple_beside_pair [OF get_instance] triple_beside_pair [OF validate_disk]
        triple_beside_pair [OF insert_disk] triple_beside_pair [OF delete_disk]
        triple_beside_pair [OF attach_disk] triple_beside_inv [OF wait_for_op]; assumption?)+)

end

interpretation fake_shared: gce_requests "interfered fakeCompute" "shared_inv fake_inv" "\<lambda>_. True"
  by (rule fake.shared_requests)

section \<open>Calls beside others\<close>

text \<open>A whole call of another client, as one change of the state.\<close>

definition served :: "rpc \<Rightarrow> FakeCloudProvider \<Rightarrow> FakeCloudProvider" where
  "served r c = snd (serve_rpc fakeCompute r c)"

lemma safe_beside:
  assumes "triple (shared_inv I) m (\<lambda>(resp, err) t. shared_inv I t \<and> reply_ok C resp err)"
    and "I s" and "list_all (keeps I) env"
  shows "\<exists>resp err s' env'. m (s, env) = (Ret (resp, err), s', env') \<and> I s' \<and> reply_ok C resp err"
proof -
  have "shared_inv I (s, env)" using assms(2,3) by (simp add: shared_inv_def)
  from safe_run [OF assms(1) this] show ?thesis by (auto simp: shared_inv_def)
qed

lemma triple_then_ret:
  assumes "triple I m (\<lambda>(resp, err) s. I s \<and> C resp err)"
  shows "triple I (call m (\<lambda>r. ret (g r))) (\<lambda>_. I)"
proof (rule triple_call [OF assms])
  show "triple ((case r of (resp, err) \<Rightarrow> \<lambda>s. I s \<and> C resp err)) (ret (g r)) (\<lambda>_. I)" for r
    by (cases r) (simp add: triple_def)
qed

lemma served_keeps: "keeps fake_inv (served r)"
proof -
  have "triple fake_inv (serve_rpc fakeCompute r) (\<lambda>_. fake_inv)"
    using fake.CreateVolume_safe [THEN triple_then_ret] fake.DeleteVolume_safe [THEN triple_then_ret]
      fake.ControllerPublishVolume_safe [THEN triple_then_ret]
      fake.ControllerUnpublishVolume_safe [THEN triple_then_ret]
    by (cases r) simp_all
  then show ?thesis by (fastforce simp: keeps_def served_def triple_def)
qed

text \<open>C27. Calls that overlap in time, over the in-memory provider: whatever other calls do to the
  provider before each request of a create, a delete or a publish, as long as every disk stays
  stored under its name (which every call of the driver keeps), the handler does not panic, it
  answers with a response or an error of the documented codes, and it keeps the invariant.\<close>

theorem overlapping_calls_safe:
  assumes "fake_inv c" and "list_all (keeps fake_inv) env"
  shows "(\<exists>resp err c' env'. CreateVolume (interfered fakeCompute) creq (c, env) =
        (Ret (resp, err), c', env') \<and> fake_inv c' \<and>
        reply_ok {InvalidArgument, AlreadyExists, Internal} resp err) \<and>
    (\<exists>resp err c' env'. DeleteVolume (interfered fakeCompute) dreq (c, env) =
        (Ret (resp, err), c', env') \<and> fake_inv c' \<and>
        reply_ok {InvalidArgument, FailedPrecondition, Internal} resp err) \<and>
    (\<exists>resp err c' env'. ControllerPublishVolume (interfered fakeCompute) preq (c, env) =
        (Ret (resp, err), c', env') \<and> fake_inv c' \<and> reply_ok UNIV resp err)"
  by (intro conjI safe_beside [OF _ assms] fake_shared.CreateVolume_safe
      fake_shared.DeleteVolume_safe fake_shared.ControllerPublishVolume_safe)

text \<open>A create beside a delete and another create of the same volume.\<close>

theorem overlapping_calls_safe_witness:
  "\<exists>resp err c' env'. CreateVolume (interfered fakeCompute) (create_req None)
       (one_volume, [served (Delete \<lparr>dv_VolumeId = ''us-a/vol''\<rparr>), served (Create (create_req None))]) =
     (Ret (resp, err), c', env') \<and> fake_inv c' \<and>
     reply_ok {InvalidArgument, AlreadyExists, Internal} resp err"
proof -
  have "fake_inv one_volume"
    using reachable_inv [OF reachable_one_volume] by (simp add: state_inv_def)
  moreover have "list_all (keeps fake_inv)
      [served (Delete \<lparr>dv_VolumeId = ''us-a/vol''\<rparr>), served (Create (create_req None))]"
    by (simp add: served_keeps)
  ultimately show ?thesis
    using overlapping_calls_safe [of one_volume _ "create_req None"] by fastforce
qed

section \<open>Two publishes, two unpublishes\<close>

text \<open>The same call made twice, the second one served as a whole between the lookups of the
  first and its change.\<close>

abbreviation twice :: "rpc \<Rightarrow> (FakeCloudProvider \<Rightarrow> FakeCloudProvider) list" where
  "twice r \<equiv> [id, id, served r]"

lemma served_refines:
  assumes "state_inv c"
  obtains k where "spec r (abs_state c) = (k, abs_state (served r c))" "state_inv (served r c)"
  using all_refine [OF assms, of r] by (auto simp: refines_def served_def)

lemma call_beside: "call (beside m) k (s, f # fs) =
    (case m (f s) of (Ret a, s') \<Rightarrow> k a (s', fs) | (Panic, s') \<Rightarrow> (Panic, s', fs))"
  by (simp add: call_def beside_def others_act_def split: prod.splits outcome.splits)

lemma call_beside_Nil: "call (beside m) k (s, []) =
    (case m s of (Ret a, s') \<Rightarrow> k a (s', []) | (Panic, s') \<Rightarrow> (Panic, s', []))"
  by (simp add: call_def beside_def others_act_def split: prod.splits outcome.splits)

lemmas beside_run = interfered_simps call_beside call_beside_Nil

text \<open>The volume is on the node: after the other unpublish its device is no longer in the list.\<close>

lemma overlapping_unpublish:
  assumes "reachable c" and vid: "SplitZoneNameId vid = (z, v, None)" "node \<noteq> ''''"
    and there: "volumes (abs_state c) v = Some gb" "attachments (abs_state c) node = Some at" "at v \<noteq> None"
  shows "fst (ControllerUnpublishVolume (interfered fakeCompute) \<lparr>cu_VolumeId = vid, cu_NodeId = node\<rparr>
    (c, twice (Unpublish \<lparr>cu_VolumeId = vid, cu_NodeId = node\<rparr>))) = Panic"
proof -
  let ?req = "\<lparr>cu_VolumeId = vid, cu_NodeId = node\<rparr>"
  have inv: "state_inv c" using assms(1) by (rule reachable_inv)
  have vol: "volume_of vid = Some v" "vid \<noteq> ''''" using vid by (auto simp: volume_of_def SplitZoneNameId_def)
  from there(1,2) obtain d inst where d: "fake_disks c v = Some d"
    and inst: "fake_instances c node = Some inst" "at = attach_map (inst_Disks inst)" by auto
  from state_invD [OF inv] d have name: "disk_Name d = v" by auto
  from there(3) inst have here: "v \<in> ad_DeviceName ` set (inst_Disks inst)" by (metis attach_map_None)
  obtain k where "spec (Unpublish ?req) (abs_state c) = (k, abs_state (served (Unpublish ?req) c))"
    using served_refines [OF inv] by blast
  then have "abs_state (served (Unpublish ?req) c) =
      (abs_state c)\<lparr>attachments := (attachments (abs_state c))(node \<mapsto> at(v := None))\<rparr>"
    using vid there vol by (auto simp: Let_def simp del: abs_state_simps split: option.splits)
  from arg_cong [OF this, of "\<lambda>w. attachments w node"] obtain inst' where
    i': "fake_instances (served (Unpublish ?req) c) node = Some inst'" and "attach_map (inst_Disks inst') v = None" by auto
  then have "device_index (inst_Disks inst') v = None" by (simp add: attach_map_None device_index_None)
  with i' d inst name here vid vol(2) show ?thesis
    by (simp add: ControllerUnpublishVolume_def beside_run Fake_defs)
qed

text \<open>The volume is not on the node: the other publish has put it there.\<close>

lemma overlapping_publish:
  fixes ro :: bool
  assumes "reachable c" and vid: "SplitZoneNameId vid = (z, v, None)" "node \<noteq> ''''" and cap: "cap = Some cp"
    and there: "volumes (abs_state c) v = Some gb" "attachments (abs_state c) node = Some at" "at v = None"
  defines "req \<equiv> \<lparr>cp_VolumeId = vid, cp_NodeId = node, cp_VolumeCapability = cap, cp_Readonly = ro\<rparr>"
  shows "\<exists>resp c' inst. ControllerPublishVolume (interfered fakeCompute) req (c, twice (Publish req)) =
      (Ret (Some resp, None), c', []) \<and>
    fake_instances c' node = Some inst \<and> \<not> distinct (map ad_DeviceName (inst_Disks inst))"
proof -
  from there(1,2) obtain d inst where d: "fake_disks c v = Some d"
    and inst: "fake_instances c node = Some inst" "at = attach_map (inst_Disks inst)" by auto
  have vid': "vid \<noteq> ''''" using vid by (auto simp: SplitZoneNameId_def)
  from state_invD [OF reachable_inv [OF assms(1)]] d have name: "disk_Name d = v" by auto
  from there(3) inst have absent: "find (\<lambda>a. ad_DeviceName a = v) (inst_Disks inst) = None"
    by (auto simp: find_None_iff attach_map_None)
  let ?a = "\<lparr>ad_DeviceName = v, ad_Kind = disk_Kind d, ad_Mode = access_mode ro, ad_Source = '''', ad_Type = disk_Type d\<rparr>"
  have "served (Publish req) c = c\<lparr>fake_instances := (fake_instances c)(node \<mapsto>
      inst\<lparr>inst_Disks := inst_Disks inst @ [?a]\<rparr>)\<rparr>"
    using ControllerPublishVolume_fake [of req z v c] vid cap vid' d inst(1) name absent
    by (simp add: served_def call_def req_def)
  then show ?thesis
    using vid vid' d inst(1) name absent unfolding req_def
    by (cases ro) (simp_all add: ControllerPublishVolume_def attachVolume_def Let_def beside_run
          Fake_defs cap attached_result_def)
qed

text \<open>C28. The driver takes no lock. When the volume is published to the node, an unpublish whose
  detach comes after that of a second unpublish of the same volume panics, and the process ends.
  When it is not published, a publish whose attach comes after that of a second publish of the
  same volume is answered with OK, and the node has two attachments of one device name.\<close>

theorem overlapping_calls_collide:
  assumes "reachable c" and "SplitZoneNameId vid = (z, v, None)" and "node \<noteq> ''''"
    and "volumes (abs_state c) v = Some gb" and "attachments (abs_state c) node = Some at"
    and "cap \<noteq> None"
  shows "case at v of
      Some _ \<Rightarrow>
        (let req = \<lparr>cu_VolumeId = vid, cu_NodeId = node\<rparr> in
         fst (ControllerUnpublishVolume (interfered fakeCompute) req (c, twice (Unpublish req))) = Panic)
    | None \<Rightarrow>
        (let req = \<lparr>cp_VolumeId = vid, cp_NodeId = node, cp_VolumeCapability = cap, cp_Readonly = ro\<rparr> in
         \<exists>resp c' inst. ControllerPublishVolume (interfered fakeCompute) req (c, twice (Publish req)) =
             (Ret (Some resp, None), c', []) \<and>
           fake_instances c' node = Some inst \<and> \<not> distinct (map ad_DeviceName (inst_Disks inst)))"
proof (cases "at v")
  case (Some ro')
  with overlapping_unpublish [OF assms(1-5)] show ?thesis by (simp add: Let_def)
next
  case None
  from assms(6) obtain cp where "cap = Some cp" by blast
  with None overlapping_publish [OF assms(1-3) _ assms(4,5), of cap cp ro] show ?thesis by (simp add: Let_def)
qed


text \<open>Both happen: from the cloud with one volume, and from the one where it is published.\<close>

theorem overlapping_calls_collide_witness:
  "(\<exists>resp c' inst. ControllerPublishVolume (interfered fakeCompute) (publish_req True)
        (one_volume, twice (Publish (publish_req True))) = (Ret (Some resp, None), c', []) \<and>
      fake_instances c' ''node'' = Some inst \<and> \<not> distinct (map ad_DeviceName (inst_Disks inst))) \<and>
   (\<exists>c. reachable c \<and> fst (ControllerUnpublishVolume (interfered fakeCompute)
        \<lparr>cu_VolumeId = ''us-a/vol'', cu_NodeId = ''node''\<rparr>
        (c, twice (Unpublish \<lparr>cu_VolumeId = ''us-a/vol'', cu_NodeId = ''node''\<rparr>))) = Panic)"
proof (intro conjI)
  have "volumes (abs_state one_volume) ''vol'' = Some 5"
    and "attachments (abs_state one_volume) ''node'' = Some Map.empty"
    by (simp_all add: one_volume_def one_node_def start_def FakeCreateCloudProvider_def
        Fake_InsertInstance_def new_disk_def attach_map_def)
  from overlapping_calls_collide [OF reachable_one_volume volume_of_sample _ this,
      of "cp_VolumeCapability (publish_req True)" True]
  show "\<exists>resp c' inst. ControllerPublishVolume (interfered fakeCompute) (publish_req True)
        (one_volume, twice (Publish (publish_req True))) = (Ret (Some resp, None), c', []) \<and>
      fake_instances c' ''node'' = Some inst \<and> \<not> distinct (map ad_DeviceName (inst_Disks inst))"
    by (simp add: publish_req_def Let_def)
next
  obtain c where c: "reachable c" "volumes (abs_state c) ''vol'' = Some 5"
      "attachments (abs_state c) ''node'' = Some [''vol'' \<mapsto> True]"
    using published_state by blast
  from overlapping_calls_collide [OF c(1) volume_of_sample _ c(2,3), of "cp_VolumeCapability (publish_req True)"]
  have "fst (ControllerUnpublishVolume (interfered fakeCompute)
        \<lparr>cu_VolumeId = ''us-a/vol'', cu_NodeId = ''node''\<rparr>
        (c, twice (Unpublish \<lparr>cu_VolumeId = ''us-a/vol'', cu_NodeId = ''node''\<rparr>))) = Panic"
    by (simp add: Let_def publish_req_def)
  with c(1) show "\<exists>c. reachable c \<and> fst (ControllerUnpublishVolume (interfered fakeCompute)
        \<lparr>cu_VolumeId = ''us-a/vol'', cu_NodeId = ''node''\<rparr>
        (c, twice (Unpublish \<lparr>cu_VolumeId = ''us-a/vol'', cu_NodeId = ''node''\<rparr>))) = Panic"
    by blast
qed

end
