(* ===== verification/Wait.thy ===== *)
theory Wait
  imports CloudProvider
begin

text \<open>
  The two goroutines of a wait, from the vendored k8s.io/apimachinery/pkg/util/wait/wait.go:
  the poller, which turns a ticker and a timer into items of an unbuffered channel, and the
  caller of WaitFor, which runs the condition for every item it receives. They are modelled as
  a step relation over the state of the channels, and shown to do exactly what the function
  \<open>WaitFor\<close> of CloudProvider does for some number of received ticks. This is the ground for
  \<open>svc_ticks\<close>, the one parameter by which the provider sees time.
\<close>

section \<open>The state of a wait\<close>

text \<open>The poller is in its outer select, in the inner one with a tick in its hand, or has
  returned, which closes the channel. The caller is at the head of its loop, blocked in the
  receive, about to run the condition (with the flag \<open>open\<close> it received), or has ended.\<close>

datatype poller_pc = Selecting | Offering | Ended

datatype caller_pc = Loop | Blocked | Calling bool | Returned "error option" | Panicked

text \<open>
  Time counts from the creation of the ticker and the timer, in the unit of interval and
  timeout. Both deliver into channels with a buffer of one, so a tick that finds the buffer
  full is lost. \<open>done_closed\<close>: pollInternal closes its channel done when it returns.
\<close>

record 's wait_state =
  clock :: nat
  tick_ready :: bool
  timer_ready :: bool
  done_closed :: bool
  poller_at :: poller_pc
  caller_at :: caller_pc
  received :: nat
  wait_world :: 's

definition wait_start :: "'s \<Rightarrow> 's wait_state" where
  "wait_start s =
     \<lparr>clock = 0, tick_ready = False, timer_ready = False, done_closed = False,
      poller_at = Selecting, caller_at = Loop, received = 0, wait_world = s\<rparr>"

section \<open>The steps\<close>

text \<open>A timeout of 0 creates no timer.\<close>

definition time_passes :: "nat \<Rightarrow> nat \<Rightarrow> 's wait_state \<Rightarrow> 's wait_state" where
  "time_passes interval timeout w =
     w\<lparr>clock := Suc (clock w),
       tick_ready := (tick_ready w \<or> interval dvd Suc (clock w)),
       timer_ready := (timer_ready w \<or> timeout \<noteq> 0 \<and> Suc (clock w) = timeout)\<rparr>"

text \<open>The body of the loop of WaitFor after the receive.\<close>

definition run_condition ::
    "('s, bool \<times> error option) go \<Rightarrow> bool \<Rightarrow> 's wait_state \<Rightarrow> 's wait_state" where
  "run_condition fn opened w =
     (case fn (wait_world w) of
        (Panic, s') \<Rightarrow> w\<lparr>caller_at := Panicked, wait_world := s'\<rparr>
      | (Ret (ok, err), s') \<Rightarrow>
          w\<lparr>caller_at := (if err \<noteq> None then Returned err
                          else if ok then Returned None
                          else if \<not> opened then Returned (Some ErrWaitTimeout)
                          else Loop),
            wait_world := s'\<rparr>)"

fun caller_ended :: "caller_pc \<Rightarrow> bool" where
  "caller_ended (Returned _) = True"
| "caller_ended Panicked = True"
| "caller_ended _ = False"

text \<open>
  The steps of the two goroutines. A select picks any of its ready cases. The inner select
  sends when the caller is blocked in the receive and drops the tick otherwise. A receive from
  the closed channel returns at once.
\<close>

inductive goroutine_step ::
    "('s, bool \<times> error option) go \<Rightarrow> 's wait_state \<Rightarrow> 's wait_state \<Rightarrow> bool" for fn where
  ticks: "poller_at w = Selecting \<Longrightarrow> tick_ready w \<Longrightarrow>
    goroutine_step fn w (w\<lparr>poller_at := Offering, tick_ready := False\<rparr>)"
| sends: "poller_at w = Offering \<Longrightarrow> caller_at w = Blocked \<Longrightarrow>
    goroutine_step fn w
      (w\<lparr>poller_at := Selecting, caller_at := Calling True, received := Suc (received w)\<rparr>)"
| drops: "poller_at w = Offering \<Longrightarrow> caller_at w \<noteq> Blocked \<Longrightarrow>
    goroutine_step fn w (w\<lparr>poller_at := Selecting\<rparr>)"
| times_out: "poller_at w = Selecting \<Longrightarrow> timer_ready w \<Longrightarrow>
    goroutine_step fn w (w\<lparr>poller_at := Ended, timer_ready := False\<rparr>)"
| stops: "poller_at w = Selecting \<Longrightarrow> done_closed w \<Longrightarrow>
    goroutine_step fn w (w\<lparr>poller_at := Ended\<rparr>)"
| blocks: "caller_at w = Loop \<Longrightarrow> poller_at w \<noteq> Ended \<Longrightarrow>
    goroutine_step fn w (w\<lparr>caller_at := Blocked\<rparr>)"
| sees_close: "caller_at w = Loop \<or> caller_at w = Blocked \<Longrightarrow> poller_at w = Ended \<Longrightarrow>
    goroutine_step fn w (w\<lparr>caller_at := Calling False\<rparr>)"
| calls: "caller_at w = Calling opened \<Longrightarrow> goroutine_step fn w (run_condition fn opened w)"
| closes: "caller_ended (caller_at w) \<Longrightarrow> \<not> done_closed w \<Longrightarrow>
    goroutine_step fn w (w\<lparr>done_closed := True\<rparr>)"

text \<open>
  The poller is idle when its select has no ready case. In a prompt run time passes only when
  the poller is idle: it is not kept from running for a whole unit of time. The caller may take
  any time for the condition.
\<close>

definition poller_idle :: "'s wait_state \<Rightarrow> bool" where
  "poller_idle w \<longleftrightarrow> poller_at w = Ended \<or>
     poller_at w = Selecting \<and> \<not> tick_ready w \<and> \<not> timer_ready w \<and> \<not> done_closed w"

text \<open>A run, with the number of steps the goroutines have made.\<close>

inductive wait_run ::
    "bool \<Rightarrow> nat \<Rightarrow> nat \<Rightarrow> ('s, bool \<times> error option) go \<Rightarrow> 's wait_state \<Rightarrow> nat \<Rightarrow> 's wait_state \<Rightarrow> bool"
  for prompt interval timeout fn w0 where
  begins: "wait_run prompt interval timeout fn w0 0 w0"
| waits: "wait_run prompt interval timeout fn w0 k w \<Longrightarrow> prompt \<longrightarrow> poller_idle w \<Longrightarrow>
    wait_run prompt interval timeout fn w0 k (time_passes interval timeout w)"
| goes: "wait_run prompt interval timeout fn w0 k w \<Longrightarrow> goroutine_step fn w w' \<Longrightarrow>
    wait_run prompt interval timeout fn w0 (Suc k) w'"

text \<open>Both goroutines have ended; what the caller of Poll gets.\<close>

definition wait_over :: "'s wait_state \<Rightarrow> bool" where
  "wait_over w \<longleftrightarrow> poller_at w = Ended \<and> caller_ended (caller_at w) \<and> done_closed w"

fun caller_outcome :: "caller_pc \<Rightarrow> error option outcome" where
  "caller_outcome (Returned err) = Ret err"
| "caller_outcome _ = Panic"

lemma caller_ended_cases:
  "caller_ended c \<longleftrightarrow> (\<exists>err. c = Returned err) \<or> c = Panicked"
  by (cases c) auto

lemma time_passes_simps [simp]:
  "clock (time_passes i t w) = Suc (clock w)"
  "tick_ready (time_passes i t w) \<longleftrightarrow> tick_ready w \<or> i dvd Suc (clock w)"
  "timer_ready (time_passes i t w) \<longleftrightarrow> timer_ready w \<or> t \<noteq> 0 \<and> Suc (clock w) = t"
  "done_closed (time_passes i t w) = done_closed w"
  "poller_at (time_passes i t w) = poller_at w"
  "caller_at (time_passes i t w) = caller_at w"
  "received (time_passes i t w) = received w"
  "wait_world (time_passes i t w) = wait_world w"
  by (simp_all add: time_passes_def)

lemma run_condition_simps [simp]:
  "clock (run_condition fn opened w) = clock w"
  "tick_ready (run_condition fn opened w) = tick_ready w"
  "timer_ready (run_condition fn opened w) = timer_ready w"
  "done_closed (run_condition fn opened w) = done_closed w"
  "poller_at (run_condition fn opened w) = poller_at w"
  "received (run_condition fn opened w) = received w"
  by (simp_all add: run_condition_def split: prod.splits outcome.splits)

section \<open>What a run computes\<close>

text \<open>What is left of the wait, as the function \<open>WaitFor\<close>: for any number \<open>n\<close> of further ticks.\<close>

definition remaining :: "('s, bool \<times> error option) go \<Rightarrow> 's \<Rightarrow> 's wait_state \<Rightarrow> bool" where
  "remaining fn s0 w \<longleftrightarrow>
     (case caller_at w of
        Calling True \<Rightarrow> 0 < received w \<and>
          (\<forall>n. WaitFor (received w + n) fn s0 = WaitFor (Suc n) fn (wait_world w))
      | Returned err \<Rightarrow> WaitFor (received w) fn s0 = (Ret err, wait_world w)
      | Panicked \<Rightarrow> WaitFor (received w) fn s0 = (Panic, wait_world w)
      | _ \<Rightarrow> \<forall>n. WaitFor (received w + n) fn s0 = WaitFor n fn (wait_world w))"

lemma remaining_run_condition:
  assumes "remaining fn s0 w" and "caller_at w = Calling opened"
  shows "remaining fn s0 (run_condition fn opened w)"
proof -
  have *: "WaitFor (received w) fn s0 = WaitFor (if opened then Suc 0 else 0) fn (wait_world w)"
    using assms by (cases opened) (auto simp: remaining_def dest: spec [of _ 0])
  show ?thesis
    using assms * by (cases opened)
      (auto simp: remaining_def run_condition_def call_def split: prod.splits outcome.splits)
qed

lemma remaining_step:
  assumes "goroutine_step fn w w'" and "remaining fn s0 w"
  shows "remaining fn s0 w'"
  using assms(1)
proof cases
  case sends
  then have all: "\<forall>n. WaitFor (received w + n) fn s0 = WaitFor n fn (wait_world w)"
    using assms(2) by (simp add: remaining_def)
  have "WaitFor (Suc (received w) + n) fn s0 = WaitFor (Suc n) fn (wait_world w)" for n
    using spec [OF all, of "Suc n"] by (simp del: WaitFor.simps)
  with sends show ?thesis by (simp add: remaining_def del: WaitFor.simps)
next
  case (calls opened)
  with assms(2) show ?thesis by (simp only: remaining_run_condition)
qed (use assms(2) in \<open>auto simp: remaining_def split: caller_pc.splits bool.splits\<close>)

lemma remaining_run:
  assumes "wait_run prompt i t fn (wait_start s0) k w"
  shows "remaining fn s0 w"
  using assms
proof induction
  case begins
  then show ?case by (simp add: remaining_def wait_start_def)
next
  case (goes k w w')
  from goes(2,3) show ?case by (rule remaining_step)
qed (simp add: remaining_def split: caller_pc.splits bool.splits)


section \<open>How many ticks, how many steps\<close>

text \<open>In a prompt run with a timeout: the deadline has not passed unless the timer is ready or
  the poller has ended, and every tick received, offered or ready was due.\<close>

definition in_time :: "nat \<Rightarrow> nat \<Rightarrow> 's wait_state \<Rightarrow> bool" where
  "in_time i t w \<longleftrightarrow>
     (if poller_at w = Ended then received w \<le> t div i
      else clock w \<le> t \<and> (clock w = t \<longrightarrow> timer_ready w) \<and>
        received w + of_bool (tick_ready w) + of_bool (poller_at w = Offering) \<le> clock w div i)"

lemma in_time_received: "in_time i t w \<Longrightarrow> received w \<le> t div i"
  using div_le_mono [of "clock w" t i] by (auto simp: in_time_def split: if_splits)

lemma in_time_passes:
  assumes "in_time i t w" and "poller_idle w" and "0 < t"
  shows "in_time i t (time_passes i t w)"
  using assms by (auto simp: in_time_def poller_idle_def div_Suc dvd_eq_mod_eq_0 split: if_splits)

lemma in_time_step: "goroutine_step fn w w' \<Longrightarrow> in_time i t w \<Longrightarrow> in_time i t w'"
  by (cases rule: goroutine_step.cases, assumption)
     (use in_time_received [of i t w] in \<open>auto simp: in_time_def split: if_splits\<close>)

lemma in_time_run:
  assumes "wait_run True i t fn (wait_start s0) k w" and "0 < t"
  shows "in_time i t w"
  using assms(1)
proof induction
  case begins
  then show ?case using assms(2) by (simp add: in_time_def wait_start_def)
next
  case (waits k w)
  then show ?case using assms(2) by (simp add: in_time_passes)
next
  case (goes k w w')
  from goes(2,3) show ?case by (rule in_time_step)
qed

text \<open>A bound of the steps the goroutines can still make: four for each tick that is still to
  come (received by the poller, sent, the condition, the next receive), and those at the end.\<close>

fun caller_steps :: "bool \<Rightarrow> bool \<Rightarrow> caller_pc \<Rightarrow> nat" where
  "caller_steps closed dn Loop = (if closed then 3 else 1)"
| "caller_steps closed dn Blocked = (if closed then 3 else 0)"
| "caller_steps closed dn (Calling opened) = (if closed \<and> opened then 4 else 2)"
| "caller_steps closed dn _ = of_bool (\<not> dn)"

definition steps_left :: "nat \<Rightarrow> nat \<Rightarrow> 's wait_state \<Rightarrow> nat" where
  "steps_left i t w =
     (if poller_at w = Ended then 0
      else 4 + 4 * (t div i - clock w div i) + 4 * of_bool (tick_ready w) +
        3 * of_bool (poller_at w = Offering)) +
     caller_steps (poller_at w = Ended) (done_closed w) (caller_at w)"

lemma caller_steps_closed: "caller_steps True dn c \<le> 3 + caller_steps False dn c"
  by (cases c) auto

lemma caller_steps_condition:
  "caller_steps closed dn (caller_at (run_condition fn opened w)) < caller_steps closed dn (Calling opened)"
  by (auto simp: run_condition_def split: prod.split outcome.split)

lemma steps_left_step:
  assumes "goroutine_step fn w w'"
  shows "steps_left i t w' < steps_left i t w"
  using assms
proof cases
  case (calls opened)
  with caller_steps_condition [of "poller_at w = Ended" "done_closed w" fn opened w] show ?thesis
    by (cases "poller_at w = Ended") (simp_all add: steps_left_def del: caller_steps.simps)
qed (use caller_steps_closed [of "done_closed w" "caller_at w"] in
       \<open>auto simp: steps_left_def caller_ended_cases\<close>)

lemma steps_left_passes:
  assumes "in_time i t w" and "poller_idle w"
  shows "steps_left i t (time_passes i t w) \<le> steps_left i t w"
  using assms div_le_mono [of "Suc (clock w)" t i]
  by (auto simp: steps_left_def in_time_def poller_idle_def div_Suc dvd_eq_mod_eq_0
        split: if_splits)

lemma steps_left_run:
  assumes "wait_run True i t fn (wait_start s0) k w" and "0 < t"
  shows "k + steps_left i t w \<le> 4 * (t div i) + 5"
  using assms(1)
proof induction
  case begins
  then show ?case by (simp add: steps_left_def wait_start_def)
next
  case (waits k w)
  with steps_left_passes [of i t w] in_time_run [OF waits(1) assms(2)] show ?case by simp
next
  case (goes k w w')
  with steps_left_step [OF goes(2), of i t] show ?case by simp
qed

text \<open>Until both goroutines have ended one of them can go on, or all wait for the clock and the
  deadline is still to come.\<close>

lemma step_enabled:
  "poller_at w = Offering \<Longrightarrow> \<exists>w'. goroutine_step fn w w'"
  "poller_at w = Selecting \<Longrightarrow> tick_ready w \<or> timer_ready w \<or> done_closed w \<Longrightarrow>
     \<exists>w'. goroutine_step fn w w'"
  "caller_at w = Loop \<or> caller_at w = Blocked \<and> poller_at w = Ended \<or>
     caller_at w = Calling opened \<or> caller_ended (caller_at w) \<and> \<not> done_closed w \<Longrightarrow>
     \<exists>w'. goroutine_step fn w w'"
  by (blast intro: goroutine_step.intros)+

lemma wait_progress:
  assumes "in_time i t w" and "\<not> wait_over w"
  shows "(\<exists>w'. goroutine_step fn w w') \<or> poller_idle w \<and> caller_at w = Blocked \<and> clock w < t"
proof (cases "\<exists>w'. goroutine_step fn w w'")
  case False
  then have stuck: "poller_at w \<noteq> Offering"
    "poller_at w = Selecting \<longrightarrow> \<not> tick_ready w \<and> \<not> timer_ready w \<and> \<not> done_closed w"
    "caller_at w \<noteq> Loop" "\<not> (caller_at w = Blocked \<and> poller_at w = Ended)"
    "\<forall>opened. caller_at w \<noteq> Calling opened" "caller_ended (caller_at w) \<longrightarrow> done_closed w"
    using step_enabled [of w] by blast+
  then have "caller_at w = Blocked \<or> caller_ended (caller_at w)" by (cases "caller_at w") auto
  with stuck assms show ?thesis
    by (cases "poller_at w") (auto simp: wait_over_def poller_idle_def in_time_def)
qed simp

section \<open>Every number of ticks can happen\<close>

text \<open>A state of a prompt run between two ticks, before the deadline or right at it.\<close>

definition between_ticks :: "nat \<Rightarrow> 's wait_state \<Rightarrow> bool" where
  "between_ticks t w \<longleftrightarrow> poller_at w = Selecting \<and> \<not> tick_ready w \<and> \<not> done_closed w \<and>
     clock w \<le> t \<and> (timer_ready w \<longleftrightarrow> clock w = t)"

definition reaches ::
    "nat \<Rightarrow> nat \<Rightarrow> ('s, bool \<times> error option) go \<Rightarrow> 's wait_state \<Rightarrow> 's wait_state \<Rightarrow> bool" where
  "reaches i t fn w w' \<longleftrightarrow> (\<exists>k. wait_run True i t fn w k w')"

lemma reaches_refl [simp]: "reaches i t fn w w"
  unfolding reaches_def by (blast intro: wait_run.intros)

lemma reaches_passes: "reaches i t fn w0 w \<Longrightarrow> poller_idle w \<Longrightarrow> reaches i t fn w0 (time_passes i t w)"
  unfolding reaches_def by (blast intro: wait_run.intros)

lemma reaches_step: "reaches i t fn w0 w \<Longrightarrow> goroutine_step fn w w' \<Longrightarrow> reaches i t fn w0 w'"
  unfolding reaches_def by (blast intro: wait_run.intros)

text \<open>The caller takes the next tick.\<close>

lemma next_tick:
  assumes "reaches i t fn w0 w" and "between_ticks t w" and "caller_at w = Blocked"
    and "clock w div i < t div i" and "0 < i"
  shows "\<exists>w'. reaches i t fn w0 w' \<and> between_ticks t w' \<and> caller_at w' = Calling True \<and>
    received w' = Suc (received w) \<and> wait_world w' = wait_world w \<and>
    clock w' div i = Suc (clock w div i)"
  using assms
proof (induction "i - clock w mod i" arbitrary: w rule: less_induct)
  case less
  have before: "clock w < t"
    using less.prems(4) by (meson div_le_mono leD not_less)
  have idle: "poller_idle w"
    using less.prems(2) before by (simp add: between_ticks_def poller_idle_def)
  let ?w = "time_passes i t w"
  have reach: "reaches i t fn w0 ?w" by (rule reaches_passes [OF less.prems(1) idle])
  show ?case
  proof (cases "i dvd Suc (clock w)")
    case True
    let ?o = "?w\<lparr>poller_at := Offering, tick_ready := False\<rparr>"
    let ?s = "?o\<lparr>poller_at := Selecting, caller_at := Calling True, received := Suc (received ?o)\<rparr>"
    have "goroutine_step fn ?w ?o"
      using less.prems(2) True by (intro goroutine_step.ticks) (simp_all add: between_ticks_def)
    moreover have "goroutine_step fn ?o ?s"
      using less.prems(3) by (intro goroutine_step.sends) simp_all
    ultimately have "reaches i t fn w0 ?s" using reach by (blast intro: reaches_step)
    moreover have "between_ticks t ?s"
      using less.prems(2) before by (auto simp: between_ticks_def)
    moreover have "clock ?s div i = Suc (clock w div i)"
      using True by (simp add: div_Suc dvd_eq_mod_eq_0)
    ultimately show ?thesis by fastforce
  next
    case False
    then have div: "Suc (clock w) div i = clock w div i" and mod: "Suc (clock w) mod i = Suc (clock w mod i)"
      using less.prems(5) by (auto simp: div_Suc mod_Suc dvd_eq_mod_eq_0 split: if_splits)
    have "between_ticks t ?w"
      using less.prems(2) before False by (auto simp: between_ticks_def)
    moreover have "i - clock ?w mod i < i - clock w mod i"
      using less.prems(5) mod by (simp add: diff_less_mono2)
    ultimately show ?thesis
      using less.hyps [of ?w] reach less.prems div by simp
  qed
qed

text \<open>The caller is busy until the deadline, so that all ticks are dropped.\<close>

lemma to_deadline:
  assumes "reaches i t fn w0 w" and "between_ticks t w" and "caller_at w = Loop"
  shows "\<exists>w'. reaches i t fn w0 w' \<and> poller_at w' = Ended \<and> caller_at w' = Loop \<and>
    \<not> done_closed w' \<and> wait_world w' = wait_world w"
  using assms
proof (induction "t - clock w" arbitrary: w rule: less_induct)
  case less
  show ?case
  proof (cases "clock w = t")
    case True
    let ?e = "w\<lparr>poller_at := Ended, timer_ready := False\<rparr>"
    have "goroutine_step fn w ?e"
      using less.prems(2) True by (intro goroutine_step.times_out) (simp_all add: between_ticks_def)
    with less.prems show ?thesis
      by (intro exI [of _ ?e]) (auto simp: between_ticks_def intro: reaches_step)
  next
    case False
    with less.prems(2) have before: "clock w < t" and idle: "poller_idle w"
      by (auto simp: between_ticks_def poller_idle_def)
    let ?w = "time_passes i t w"
    let ?o = "?w\<lparr>poller_at := Offering, tick_ready := False\<rparr>"
    let ?d = "?o\<lparr>poller_at := Selecting\<rparr>"
    have reach: "reaches i t fn w0 ?w" by (rule reaches_passes [OF less.prems(1) idle])
    show ?thesis
    proof (cases "i dvd Suc (clock w)")
      case True
      have "goroutine_step fn ?w ?o"
        using less.prems(2) True by (intro goroutine_step.ticks) (simp_all add: between_ticks_def)
      moreover have "goroutine_step fn ?o ?d"
        using less.prems(3) by (intro goroutine_step.drops) simp_all
      ultimately have "reaches i t fn w0 ?d" using reach by (blast intro: reaches_step)
      moreover have "between_ticks t ?d"
        using less.prems(2) before by (auto simp: between_ticks_def)
      ultimately show ?thesis using less.hyps [of ?d] before less.prems(3) by simp
    next
      case False
      have "between_ticks t ?w"
        using less.prems(2) before False by (auto simp: between_ticks_def)
      with less.hyps [of ?w] before less.prems(3) reach show ?thesis by simp
    qed
  qed
qed

text \<open>After the condition has ended the wait, the channel done is closed and the poller stops.\<close>

lemma wind_up:
  assumes "reaches i t fn w0 w" and "caller_ended (caller_at w)" and "\<not> done_closed w"
    and "poller_at w \<noteq> Offering"
  shows "\<exists>w'. reaches i t fn w0 w' \<and> wait_over w' \<and> caller_at w' = caller_at w \<and>
    wait_world w' = wait_world w"
proof -
  let ?c = "w\<lparr>done_closed := True\<rparr>"
  have c: "reaches i t fn w0 ?c"
    using assms by (blast intro: reaches_step goroutine_step.closes)
  show ?thesis
  proof (cases "poller_at w = Ended")
    case True
    with c assms(2) show ?thesis by (intro exI [of _ ?c]) (simp add: wait_over_def)
  next
    case False
    with assms(4) have "poller_at ?c = Selecting" by (cases "poller_at w") simp_all
    then have "goroutine_step fn ?c (?c\<lparr>poller_at := Ended\<rparr>)"
      by (intro goroutine_step.stops) simp_all
    from reaches_step [OF c this] assms(2) show ?thesis
      by (intro exI [of _ "?c\<lparr>poller_at := Ended\<rparr>"]) (simp add: wait_over_def)
  qed
qed


lemma run_condition_ended:
  assumes "WaitFor (if opened then Suc n else 0) fn (wait_world w) = (r, s')"
    and "caller_at w = Calling opened"
  shows "caller_ended (caller_at (run_condition fn opened w)) \<and>
      caller_outcome (caller_at (run_condition fn opened w)) = r \<and>
      wait_world (run_condition fn opened w) = s' \<or>
    opened \<and> caller_at (run_condition fn opened w) = Loop \<and>
      WaitFor n fn (wait_world (run_condition fn opened w)) = (r, s')"
  using assms by (cases opened)
    (auto simp: run_condition_def call_def split: prod.splits outcome.splits if_splits)

lemma wait_realises:
  assumes "reaches i t fn w0 w" and "between_ticks t w" and "caller_at w = Loop" and "0 < i"
    and "n \<le> t div i - clock w div i" and "WaitFor n fn (wait_world w) = (r, s')"
  shows "\<exists>w'. reaches i t fn w0 w' \<and> wait_over w' \<and> caller_outcome (caller_at w') = r \<and>
    wait_world w' = s'"
  using assms
proof (induction n arbitrary: w)
  case 0
  from to_deadline [OF 0(1-3)] obtain e where e: "reaches i t fn w0 e" "poller_at e = Ended"
    "caller_at e = Loop" "\<not> done_closed e" "wait_world e = wait_world w" by blast
  let ?c = "e\<lparr>caller_at := Calling False\<rparr>"
  let ?f = "run_condition fn False ?c"
  have "goroutine_step fn e ?c" using e by (intro goroutine_step.sees_close) simp_all
  moreover have "goroutine_step fn ?c ?f" by (intro goroutine_step.calls) simp
  ultimately have "reaches i t fn w0 ?f" using e(1) by (blast intro: reaches_step)
  moreover have "caller_ended (caller_at ?f) \<and> caller_outcome (caller_at ?f) = r \<and> wait_world ?f = s'"
    using run_condition_ended [of False 0 fn ?c r s'] 0(6) e(5) by simp
  ultimately show ?case using wind_up [of i t fn w0 ?f] e(2,4) by fastforce
next
  case (Suc n)
  let ?b = "w\<lparr>caller_at := Blocked\<rparr>"
  have "goroutine_step fn w ?b"
    using Suc.prems(2,3) by (intro goroutine_step.blocks) (simp_all add: between_ticks_def)
  then have "reaches i t fn w0 ?b" using Suc.prems(1) by (blast intro: reaches_step)
  moreover have "between_ticks t ?b" using Suc.prems(2) by (simp add: between_ticks_def)
  moreover have "clock w div i < t div i" using Suc.prems(5) by linarith
  ultimately obtain c where c: "reaches i t fn w0 c" "between_ticks t c" "caller_at c = Calling True"
    "wait_world c = wait_world w" "clock c div i = Suc (clock w div i)"
    using next_tick [of i t fn w0 ?b] Suc.prems(4) by auto
  let ?f = "run_condition fn True c"
  have "goroutine_step fn c ?f" by (rule goroutine_step.calls [OF c(3)])
  with c(1) have f: "reaches i t fn w0 ?f" by (rule reaches_step)
  have b: "between_ticks t ?f" using c(2) by (simp add: between_ticks_def)
  consider "caller_ended (caller_at ?f)" "caller_outcome (caller_at ?f) = r" "wait_world ?f = s'"
    | "caller_at ?f = Loop" "WaitFor n fn (wait_world ?f) = (r, s')"
    using run_condition_ended [of True n fn c r s'] Suc.prems(6) c(3,4) by auto
  then show ?case
  proof cases
    case 1
    with wind_up [OF f] b show ?thesis by (fastforce simp: between_ticks_def)
  next
    case 2
    with Suc.IH [OF f b] Suc.prems(4,5) c(5) show ?thesis by simp
  qed
qed

section \<open>The wait as a whole\<close>

lemma wait_outcome:
  assumes "wait_run prompt i t fn (wait_start s) k w" and "caller_ended (caller_at w)"
  shows "WaitFor (received w) fn s = (caller_outcome (caller_at w), wait_world w)"
  using remaining_run [OF assms(1)] assms(2) by (auto simp: remaining_def caller_ended_cases)

text \<open>The outcomes of the two goroutines are those of \<open>WaitFor\<close> for the possible numbers of
  ticks.\<close>

lemma wait_outcomes:
  assumes "0 < i" and "0 < t"
  shows "(\<exists>k w. wait_run True i t fn (wait_start s) k w \<and> wait_over w \<and>
      caller_outcome (caller_at w) = r \<and> wait_world w = s') \<longleftrightarrow>
    (\<exists>n \<le> t div i. WaitFor n fn s = (r, s'))"
proof
  assume "\<exists>k w. wait_run True i t fn (wait_start s) k w \<and> wait_over w \<and>
      caller_outcome (caller_at w) = r \<and> wait_world w = s'"
  then obtain k w where w: "wait_run True i t fn (wait_start s) k w" "wait_over w"
    "caller_outcome (caller_at w) = r" "wait_world w = s'" by blast
  from in_time_received [OF in_time_run [OF w(1) assms(2)]] wait_outcome [OF w(1)] w(2-4)
  show "\<exists>n \<le> t div i. WaitFor n fn s = (r, s')" by (auto simp: wait_over_def)
next
  assume "\<exists>n \<le> t div i. WaitFor n fn s = (r, s')"
  then obtain n where n: "n \<le> t div i" "WaitFor n fn s = (r, s')" by blast
  have "between_ticks t (wait_start s)" using assms(2) by (simp add: between_ticks_def wait_start_def)
  from wait_realises [OF reaches_refl this _ assms(1), of n fn r s'] n
  show "\<exists>k w. wait_run True i t fn (wait_start s) k w \<and> wait_over w \<and>
      caller_outcome (caller_at w) = r \<and> wait_world w = s'"
    by (simp add: reaches_def wait_start_def) blast
qed

text \<open>The service with a given number of ticks; nothing else of it depends on time.\<close>

lemma WaitForOp_condition_ticks [simp]:
  "WaitForOp_condition (gce_cloud (svc\<lparr>svc_ticks := f\<rparr>) p z0) op z =
   WaitForOp_condition (gce_cloud svc p z0) op z"
  by (simp add: WaitForOp_condition_def)

text \<open>C9. The wait for an operation, as the two goroutines the code starts for it: the poller with
  its ticker of 3 seconds and timer of 300, and the caller, interleaved in any way in which the
  poller is not held up for a whole second. When both have ended, the outcome and the state are
  those of \<open>CloudProvider_WaitForOp\<close> for some number of ticks, and every number of ticks gives an
  outcome that can happen. The model of the wait with its parameter for time is exact.\<close>

theorem WaitForOp_goroutines:
  "(\<exists>k w. wait_run True 3 300 (WaitForOp_condition (gce_cloud svc p z0) op z) (wait_start s) k w \<and>
      wait_over w \<and> caller_outcome (caller_at w) = r \<and> wait_world w = s') \<longleftrightarrow>
   (\<exists>ticks. CloudProvider_WaitForOp (gce_cloud (svc\<lparr>svc_ticks := \<lambda>_. ticks\<rparr>) p z0) op z s = (r, s'))"
proof -
  have "(\<exists>ticks. CloudProvider_WaitForOp (gce_cloud (svc\<lparr>svc_ticks := \<lambda>_. ticks\<rparr>) p z0) op z s = (r, s')) \<longleftrightarrow>
      (\<exists>n \<le> 300 div 3. WaitFor n (WaitForOp_condition (gce_cloud svc p z0) op z) s = (r, s'))"
    by (auto simp: CloudProvider_WaitForOp_def Poll_def poller_def min_def split: if_splits)
  then show ?thesis by (simp only: wait_outcomes)
qed

text \<open>C33. A poll ends. In every prompt run with an interval and a timeout, whatever the condition
  answers, the two goroutines together make at most four steps for each tick the timeout has room for,
  and five more. Until both have ended one of them can make a step, or the caller waits for the
  next tick and the deadline is still to come. When the caller has ended, the condition was run
  at most once for each tick and once more.\<close>

theorem poll_ends:
  assumes "wait_run True i t (counted fn) (wait_start (s, 0)) k w" and "0 < t" and "0 < i"
  shows "k \<le> 4 * (t div i) + 5 \<and>
    (wait_over w \<or> (\<exists>w'. goroutine_step (counted fn) w w') \<or>
      poller_idle w \<and> caller_at w = Blocked \<and> clock w < t) \<and>
    (caller_ended (caller_at w) \<longrightarrow>
      1 \<le> snd (wait_world w) \<and> snd (wait_world w) \<le> Suc (t div i))"
proof -
  have time: "in_time i t w" by (rule in_time_run [OF assms(1,2)])
  have "1 \<le> snd (wait_world w) \<and> snd (wait_world w) \<le> Suc (t div i)" if "caller_ended (caller_at w)"
  proof -
    from wait_outcome [OF assms(1) that] have
      "WaitFor (received w) (counted fn) (s, 0) =
         (caller_outcome (caller_at w), fst (wait_world w), snd (wait_world w))" by simp
    from WaitFor_counted [OF this] in_time_received [OF time] show ?thesis by linarith
  qed
  with steps_left_run [OF assms(1,2)] wait_progress [OF time] show ?thesis by auto
qed

text \<open>A condition that is never met: the run to the end of its five minutes.\<close>

lemma never_met: "\<exists>s'. WaitFor n (counted (ret (False, None))) s = (Ret (Some ErrWaitTimeout), s')"
  by (induction n arbitrary: s) (auto simp: call_def counted_def split: prod.splits)

theorem poll_ends_witness:
  "\<exists>k w. wait_run True 3 300 (counted (ret (False, None))) (wait_start ((), 0)) k w \<and> wait_over w \<and>
     caller_outcome (caller_at w) = Ret (Some ErrWaitTimeout) \<and> k \<le> 405 \<and>
     1 \<le> snd (wait_world w) \<and> snd (wait_world w) \<le> 101"
proof -
  obtain s' where "WaitFor 100 (counted (ret (False, None))) ((), 0) = (Ret (Some ErrWaitTimeout), s')"
    using never_met by blast
  then have "\<exists>n \<le> 300 div 3. WaitFor n (counted (ret (False, None))) ((), 0) =
      (Ret (Some ErrWaitTimeout), s')"
    by (intro exI [of _ 100]) simp
  then obtain k w where run: "wait_run True 3 300 (counted (ret (False, None))) (wait_start ((), 0)) k w"
    and over: "wait_over w" "caller_outcome (caller_at w) = Ret (Some ErrWaitTimeout)"
    by (subst (asm) wait_outcomes [symmetric]) auto
  from poll_ends [OF run] over show ?thesis
    by (intro exI [of _ k] exI [of _ w] conjI run over) (auto simp: wait_over_def)
qed

end
