(* ===== verification/Mounter.thy ===== *)
theory Mounter
  imports Compute
begin

text \<open>
  pkg/mount-manager: formatting, mounting and finding devices on the node. The operating
  system (commands run through os/exec, the calls of packages os and filepath) is not code of
  the repository: it is the record \<open>OS\<close> over a machine state \<open>'s\<close>, an argument of every
  definition. The interface Mounter is a record as well, with two implementations: GCEMounter
  over an operating system, and FakeMounter.
\<close>

section \<open>The operating system\<close>

text \<open>
  \<open>os_exec\<close> runs a command and returns its combined output and an error (a non-zero exit
  status is an \<open>ExitError\<close>, a missing executable \<open>ErrExecutableNotFound\<close>); \<open>os_Stat\<close> and
  \<open>os_Lstat\<close> return the device number of the file.
\<close>

record 's OS =
  os_exec :: "string \<Rightarrow> string list \<Rightarrow> 's \<Rightarrow> (string \<times> error option) \<times> 's"
  os_Stat :: "string \<Rightarrow> 's \<Rightarrow> (error + int) \<times> 's"
  os_Lstat :: "string \<Rightarrow> 's \<Rightarrow> (error + int) \<times> 's"
  os_MkdirAll :: "string \<Rightarrow> nat \<Rightarrow> 's \<Rightarrow> error option \<times> 's"
  os_Remove :: "string \<Rightarrow> 's \<Rightarrow> error option \<times> 's"
  os_Glob :: "string \<Rightarrow> 's \<Rightarrow> (string list \<times> error option) \<times> 's"
  os_EvalSymlinks :: "string \<Rightarrow> 's \<Rightarrow> (string \<times> error option) \<times> 's"

text \<open>A system call as a computation: it returns.\<close>

definition sys :: "('s \<Rightarrow> 'a \<times> 's) \<Rightarrow> ('s, 'a) go" where
  "sys f s = (case f s of (a, s') \<Rightarrow> (Ret a, s'))"

lemma call_sys: "call (sys f) k s = (case f s of (a, s') \<Rightarrow> k a s')"
  by (simp add: call_def sys_def split: prod.split)

lemma triple_sys: "triple (\<lambda>_. True) (sys f) (\<lambda>_ _. True)"
  by (auto simp: triple_def sys_def split: prod.split)

section \<open>Constants\<close>

definition diskByIdPath :: string where "diskByIdPath = ''/host/dev/disk/by-id/''"
definition diskGooglePrefix :: string where "diskGooglePrefix = ''google-''"
definition diskScsiGooglePrefix :: string where
  "diskScsiGooglePrefix = ''scsi-0Google_PersistentDisk_''"
definition diskPartitionSuffix :: string where "diskPartitionSuffix = ''-part''"
definition diskSDPath :: string where "diskSDPath = ''/host/dev/sd''"
definition diskSDPattern :: string where "diskSDPattern = ''/host/dev/sd*''"
definition fsckErrorsCorrected :: int where "fsckErrorsCorrected = 1"
definition fsckErrorsUncorrected :: int where "fsckErrorsUncorrected = 4"
definition defaultMountCommand :: string where "defaultMountCommand = ''mount''"

abbreviation newline :: char where
  "newline \<equiv> CHR 0x0A"

section \<open>Helpers of mount-utils.go\<close>

definition matchDiskMode :: "AttachedDisk \<Rightarrow> bool \<Rightarrow> bool" where
  "matchDiskMode disk readonly =
     (if (ad_Mode disk = ''READ_ONLY'' \<and> \<not> readonly) \<or> (ad_Mode disk = ''READ_WRITE'' \<and> readonly)
      then False else True)"

definition execRun :: "'s OS \<Rightarrow> string \<Rightarrow> string list \<Rightarrow> ('s, string \<times> error option) go" where
  "execRun os cmd args = sys (os_exec os cmd args)"

definition getDiskFormat :: "'s OS \<Rightarrow> string \<Rightarrow> ('s, string \<times> error option) go" where
  "getDiskFormat os disk =
     (let args = [''-n'', ''-o'', ''FSTYPE'', disk] in
      call (execRun os ''lsblk'' args) (\<lambda>(output, err).
        if err \<noteq> None then ret ('''', err)
        else
          let lines = Split (TrimSuffix output [newline]) newline in
          if lines ! 0 \<noteq> '''' then ret (lines ! 0, None)
          else if length lines = 1 then ret ('''', None)
          else ret (''unknown data, probably partitions'', None)))"

definition makeMountArgs :: "string \<Rightarrow> string \<Rightarrow> string \<Rightarrow> string list \<Rightarrow> string list" where
  "makeMountArgs source target fstype options =
     (let mountArgs = [];
          mountArgs = (if fstype \<noteq> '''' then mountArgs @ [''-t'', fstype] else mountArgs);
          mountArgs = (if options \<noteq> [] then mountArgs @ [''-o'', Join options '','']
                       else mountArgs);
          mountArgs = (if source \<noteq> '''' then mountArgs @ [source] else mountArgs)
      in mountArgs @ [target])"

definition pathExists :: "'s OS \<Rightarrow> string \<Rightarrow> ('s, bool \<times> error option) go" where
  "pathExists os p =
     call (sys (os_Stat os p)) (\<lambda>reply.
       case reply of
         Inr _ \<Rightarrow> ret (True, None)
       | Inl err \<Rightarrow> if IsNotExist (Some err) then ret (False, None) else ret (False, Some err))"

definition Contains :: "string \<Rightarrow> string \<Rightarrow> bool" where
  "Contains s sub \<longleftrightarrow> cut s sub \<noteq> None"

definition udevadmChangeToDrive :: "'s OS \<Rightarrow> string \<Rightarrow> ('s, error option) go" where
  "udevadmChangeToDrive os drivePath =
     call (sys (os_EvalSymlinks os drivePath)) (\<lambda>(drive, err).
       if err \<noteq> None then
         ret (Some (PlainError ''udevadmChangeToDrive: filepath.EvalSymlinks(%q) failed with %v.''))
       else if \<not> Contains drive diskSDPath then
         ret (Some (PlainError ''udevadmChangeToDrive: expected input in the form \"%s\" but drive is %q.''))
       else
         call (execRun os ''udevadm'' [''trigger'', ''--action=change'',
                 ''--property-match=DEVNAME='' @ drive]) (\<lambda>(_, err).
           if err \<noteq> None then
             ret (Some (PlainError ''udevadmChangeToDrive: udevadm trigger failed for drive %q with %v.''))
           else ret None))"

text \<open>The loop returns at the first path that was not there before.\<close>

fun changeToNewDrives_loop :: "'s OS \<Rightarrow> string list \<Rightarrow> string list \<Rightarrow> ('s, error option) go" where
  "changeToNewDrives_loop os sdBefore [] = ret None"
| "changeToNewDrives_loop os sdBefore (sd # sds) =
     (if sd \<notin> set sdBefore then udevadmChangeToDrive os sd
      else changeToNewDrives_loop os sdBefore sds)"

definition udevadmChangeToNewDrives :: "'s OS \<Rightarrow> string list \<Rightarrow> ('s, error option) go" where
  "udevadmChangeToNewDrives os sdBefore =
     call (sys (os_Glob os diskSDPattern)) (\<lambda>(sdAfter, err).
       if err \<noteq> None then ret (Some (PlainError ''Error filepath.Glob(\"%s\"): %v''))
       else changeToNewDrives_loop os sdBefore sdAfter)"

section \<open>GCEMounter\<close>

definition GCE_IsLikelyNotMountPoint :: "'s OS \<Rightarrow> string \<Rightarrow> ('s, bool \<times> error option) go" where
  "GCE_IsLikelyNotMountPoint os file =
     call (sys (os_Stat os file)) (\<lambda>stat.
       case stat of Inl err \<Rightarrow> ret (True, Some err) | Inr dev \<Rightarrow>
     call (sys (os_Lstat os (file @ ''/..''))) (\<lambda>rootStat.
       case rootStat of Inl err \<Rightarrow> ret (True, Some err) | Inr rootDev \<Rightarrow>
       if dev \<noteq> rootDev then ret (False, None) else ret (True, None)))"

definition GCE_UnmountVolume :: "'s OS \<Rightarrow> string \<Rightarrow> ('s, string \<times> error option) go" where
  "GCE_UnmountVolume os targetPath = execRun os ''umount'' [targetPath]"

definition GCE_MkdirAll :: "'s OS \<Rightarrow> string \<Rightarrow> nat \<Rightarrow> ('s, error option) go" where
  "GCE_MkdirAll os p perm = sys (os_MkdirAll os p perm)"

definition GCE_Remove :: "'s OS \<Rightarrow> string \<Rightarrow> ('s, error option) go" where
  "GCE_Remove os name = sys (os_Remove os name)"

definition GCE_DoMount ::
    "'s OS \<Rightarrow> string \<Rightarrow> string \<Rightarrow> string \<Rightarrow> string list \<Rightarrow> ('s, error option) go" where
  "GCE_DoMount os source target fstype options =
     (let mountCmd = defaultMountCommand;
          mountArgs = makeMountArgs source target fstype options
      in call (execRun os mountCmd mountArgs) (\<lambda>(output, err).
           if err \<noteq> None then ret (Some (PlainError ''mount failed: %v''))
           else ret err))"

text \<open>The part run when the first mount failed with \<open>mountErr\<close>.\<close>

definition format_after_failed_mount ::
    "'s OS \<Rightarrow> string \<Rightarrow> string \<Rightarrow> string \<Rightarrow> string list \<Rightarrow> error option \<Rightarrow> ('s, error option) go" where
  "format_after_failed_mount os source target fstype options mountErr =
     call (getDiskFormat os source) (\<lambda>(existingFormat, err).
       if err \<noteq> None then ret err
       else if existingFormat = '''' then
         (let args = [source];
              fstype = (if fstype = '''' then ''ext4'' else fstype);
              args = (if fstype = ''ext4'' \<or> fstype = ''ext3'' then [''-F'', source] else args)
          in call (execRun os (''mkfs.'' @ fstype) args) (\<lambda>(_, err).
               if err = None then GCE_DoMount os source target fstype options
               else ret err))
       else if fstype = '''' \<or> fstype = existingFormat then ret mountErr
       else ret (Some (PlainError
              ''failed to mount the volume as %q, it already contains %s. Mount error: %v'')))"

definition GCE_FormatAndMount ::
    "'s OS \<Rightarrow> string \<Rightarrow> string \<Rightarrow> string \<Rightarrow> string list \<Rightarrow> ('s, error option) go" where
  "GCE_FormatAndMount os source target fstype options =
     (let options = options @ [''defaults''] in
      call (execRun os ''fsck'' [''-a'', source]) (\<lambda>(out, err).
      if err = Some (ExitError fsckErrorsUncorrected) then
        ret (Some (PlainError ''fsck found errors on device %s but could not correct them: %s.''))
      else
      call (GCE_DoMount os source target fstype options) (\<lambda>mountErr.
      if mountErr \<noteq> None then
        format_after_failed_mount os source target fstype options mountErr
      else ret mountErr)))"

definition GCE_GetDiskByIdPaths :: "string \<Rightarrow> string \<Rightarrow> string list" where
  "GCE_GetDiskByIdPaths pdName part =
     (let devicePaths = [path_Join [diskByIdPath, diskGooglePrefix @ pdName],
                         path_Join [diskByIdPath, diskScsiGooglePrefix @ pdName]]
      in if part \<noteq> '''' then map (\<lambda>p. p @ diskPartitionSuffix @ part) devicePaths
         else devicePaths)"

fun first_existing :: "'s OS \<Rightarrow> string list \<Rightarrow> ('s, string \<times> error option) go" where
  "first_existing os [] = ret ('''', None)"
| "first_existing os (p # ps) =
     call (pathExists os p) (\<lambda>(found, err).
       if err \<noteq> None then ret ('''', Some (PlainError ''Error checking if path exists: %v''))
       else if found then ret (p, None)
       else first_existing os ps)"

definition GCE_VerifyDevicePath :: "'s OS \<Rightarrow> string list \<Rightarrow> ('s, string \<times> error option) go" where
  "GCE_VerifyDevicePath os devicePaths =
     call (sys (os_Glob os diskSDPattern)) (\<lambda>(sdBefore, _).
     call (udevadmChangeToNewDrives os sdBefore) (\<lambda>_.
     first_existing os devicePaths))"


section \<open>The interface and its implementations\<close>

record 's Mounter =
  DoMount :: "string \<Rightarrow> string \<Rightarrow> string \<Rightarrow> string list \<Rightarrow> ('s, error option) go"
  FormatAndMount :: "string \<Rightarrow> string \<Rightarrow> string \<Rightarrow> string list \<Rightarrow> ('s, error option) go"
  IsLikelyNotMountPoint :: "string \<Rightarrow> ('s, bool \<times> error option) go"
  UnmountVolume :: "string \<Rightarrow> ('s, string \<times> error option) go"
  GetDiskByIdPaths :: "string \<Rightarrow> string \<Rightarrow> string list"
  VerifyDevicePath :: "string list \<Rightarrow> ('s, string \<times> error option) go"
  MkdirAll :: "string \<Rightarrow> nat \<Rightarrow> ('s, error option) go"
  Remove :: "string \<Rightarrow> ('s, error option) go"

definition GCEMounter :: "'s OS \<Rightarrow> 's Mounter" where
  "GCEMounter os =
     \<lparr> DoMount = GCE_DoMount os,
       FormatAndMount = GCE_FormatAndMount os,
       IsLikelyNotMountPoint = GCE_IsLikelyNotMountPoint os,
       UnmountVolume = GCE_UnmountVolume os,
       GetDiskByIdPaths = GCE_GetDiskByIdPaths,
       VerifyDevicePath = GCE_VerifyDevicePath os,
       MkdirAll = GCE_MkdirAll os,
       Remove = GCE_Remove os \<rparr>"

definition FakeMounter :: "'s Mounter" where
  "FakeMounter =
     \<lparr> DoMount = (\<lambda>source target fstype options. ret None),
       FormatAndMount = (\<lambda>source target fstype options. ret None),
       IsLikelyNotMountPoint = (\<lambda>file. ret (True, None)),
       UnmountVolume = (\<lambda>targetPath. ret (''TODO'', None)),
       GetDiskByIdPaths = (\<lambda>pdName part. []),
       VerifyDevicePath = (\<lambda>devicePaths. ret (''TODO'', None)),
       MkdirAll = (\<lambda>path perm. ret None),
       Remove = (\<lambda>name. ret None) \<rparr>"

lemma GCEMounter_simps [simp]:
  "DoMount (GCEMounter os) = GCE_DoMount os"
  "FormatAndMount (GCEMounter os) = GCE_FormatAndMount os"
  "IsLikelyNotMountPoint (GCEMounter os) = GCE_IsLikelyNotMountPoint os"
  "UnmountVolume (GCEMounter os) = GCE_UnmountVolume os"
  "GetDiskByIdPaths (GCEMounter os) = GCE_GetDiskByIdPaths"
  "VerifyDevicePath (GCEMounter os) = GCE_VerifyDevicePath os"
  "MkdirAll (GCEMounter os) = GCE_MkdirAll os"
  "Remove (GCEMounter os) = GCE_Remove os"
  by (simp_all add: GCEMounter_def)

section \<open>The contract of a mounter\<close>

text \<open>
  No operation panics and all keep the invariant; a mount-point check that fails says
  \<open>not a mount point\<close>, which NodePublishVolume relies on for a path that does not exist.
\<close>

locale mounter =
  fixes m :: "'s Mounter"
    and inv :: "'s \<Rightarrow> bool"
  assumes do_mount: "triple inv (DoMount m s t f opts) (\<lambda>_. inv)"
    and format_and_mount: "triple inv (FormatAndMount m s t f opts) (\<lambda>_. inv)"
    and not_mount_point: "triple inv (IsLikelyNotMountPoint m p)
      (\<lambda>(notMnt, err) s. inv s \<and> (err \<noteq> None \<longrightarrow> notMnt))"
    and unmount: "triple inv (UnmountVolume m p) (\<lambda>_. inv)"
    and verify: "triple inv (VerifyDevicePath m ps) (\<lambda>_. inv)"
    and mkdir: "triple inv (MkdirAll m p perm) (\<lambda>_. inv)"
    and remove: "triple inv (Remove m p) (\<lambda>_. inv)"
begin

lemma call_mounter [go_rules]:
  "(\<And>err. triple inv (k1 err) Q) \<Longrightarrow> triple inv (call (DoMount m s t f opts) k1) Q"
  "(\<And>err. triple inv (k1 err) Q) \<Longrightarrow> triple inv (call (FormatAndMount m s t f opts) k1) Q"
  "(\<And>err. triple inv (k1 err) Q) \<Longrightarrow> triple inv (call (MkdirAll m p perm) k1) Q"
  "(\<And>err. triple inv (k1 err) Q) \<Longrightarrow> triple inv (call (Remove m p) k1) Q"
  by (rule triple_call [OF do_mount], blast) (rule triple_call [OF format_and_mount], blast,
      rule triple_call [OF mkdir], blast, rule triple_call [OF remove], blast)

lemma call_mounter_pair [go_rules]:
  "(\<And>out err. triple inv (k2 out err) Q) \<Longrightarrow>
     triple inv (call (UnmountVolume m p) (\<lambda>(out, err). k2 out err)) Q"
  "(\<And>out err. triple inv (k2 out err) Q) \<Longrightarrow>
     triple inv (call (VerifyDevicePath m ps) (\<lambda>(out, err). k2 out err)) Q"
  by (rule triple_call [OF unmount], auto) (rule triple_call [OF verify], auto)

lemma call_not_mount_point [go_rules]:
  "(\<And>notMnt err. (err \<noteq> None \<Longrightarrow> notMnt) \<Longrightarrow> triple inv (k3 notMnt err) Q) \<Longrightarrow>
     triple inv (call (IsLikelyNotMountPoint m p) (\<lambda>(notMnt, err). k3 notMnt err)) Q"
  by (rule triple_call_fact_pair [OF not_mount_point]) auto

end

section \<open>Both mounters keep the contract\<close>

text \<open>Over a machine state nothing is asked of, every computation built from system calls
  returns.\<close>

abbreviation returns :: "('s, 'a) go \<Rightarrow> bool" where
  "returns m \<equiv> triple (\<lambda>_. True) m (\<lambda>_ _. True)"

lemma returns_Pair [simp]: "returns (Pair (Ret a))"
  by (simp add: triple_def)

lemma returns_sys [go_rules]: "(\<And>a. returns (k a)) \<Longrightarrow> returns (call (sys f) k)"
  by (rule triple_call [OF triple_sys])

lemma returns_execRun [go_rules]: "(\<And>a. returns (k a)) \<Longrightarrow> returns (call (execRun os c args) k)"
  unfolding execRun_def by (rule returns_sys)

lemma returns_call: "returns m \<Longrightarrow> (\<And>a. returns (k a)) \<Longrightarrow> returns (call m k)"
  by (rule triple_call)

lemma returns_DoMount: "returns (GCE_DoMount os s t f opts)"
  unfolding GCE_DoMount_def Let_def by (auto intro!: go_rules split: prod.split)

lemma returns_getDiskFormat: "returns (getDiskFormat os d)"
  unfolding getDiskFormat_def Let_def by (auto intro!: go_rules split: prod.split)

lemma returns_FormatAndMount: "returns (GCE_FormatAndMount os s t f opts)"
  unfolding GCE_FormatAndMount_def format_after_failed_mount_def Let_def
  by (auto intro!: go_rules returns_call [OF returns_DoMount] returns_call [OF returns_getDiskFormat]
        returns_DoMount split: prod.split)

lemma returns_udevadmChangeToDrive: "returns (udevadmChangeToDrive os d)"
  unfolding udevadmChangeToDrive_def by (auto intro!: go_rules split: prod.split)

lemma returns_loop: "returns (changeToNewDrives_loop os before ps)"
  by (induction os before ps rule: changeToNewDrives_loop.induct)
     (auto intro!: go_rules returns_udevadmChangeToDrive)

lemma returns_udevadmChangeToNewDrives: "returns (udevadmChangeToNewDrives os before)"
  unfolding udevadmChangeToNewDrives_def by (auto intro!: go_rules returns_loop split: prod.split)

lemma returns_pathExists: "returns (pathExists os p)"
  unfolding pathExists_def by (auto intro!: go_rules split: sum.split)

lemma returns_first_existing: "returns (first_existing os ps)"
  by (induction os ps rule: first_existing.induct)
     (auto intro!: go_rules returns_call [OF returns_pathExists] split: prod.split)

lemma returns_VerifyDevicePath: "returns (GCE_VerifyDevicePath os ps)"
  unfolding GCE_VerifyDevicePath_def
  by (auto intro!: go_rules returns_call [OF returns_udevadmChangeToNewDrives]
        returns_first_existing split: prod.split)

lemma IsLikelyNotMountPoint_law:
  "triple (\<lambda>_. True) (GCE_IsLikelyNotMountPoint os p) (\<lambda>(notMnt, err) s. True \<and> (err \<noteq> None \<longrightarrow> notMnt))"
  by (rule tripleI)
     (auto simp: GCE_IsLikelyNotMountPoint_def call_sys split: prod.split sum.split)

interpretation gce: mounter "GCEMounter os" "\<lambda>_. True" for os :: "'s OS"
  by unfold_locales
     (auto intro: returns_DoMount returns_FormatAndMount returns_VerifyDevicePath triple_sys
        IsLikelyNotMountPoint_law [simplified]
        simp: GCE_UnmountVolume_def GCE_MkdirAll_def GCE_Remove_def execRun_def)

interpretation fake_mnt: mounter FakeMounter inv for inv :: "'s \<Rightarrow> bool"
  by unfold_locales (auto simp: FakeMounter_def triple_def)


section \<open>The format of a disk\<close>

lemma TrimSuffix_newline:
  "TrimSuffix out [c] = (if out \<noteq> [] \<and> last out = c then butlast out else out)"
proof (cases out rule: rev_cases)
  case (snoc ys y)
  then show ?thesis by (auto simp: TrimSuffix_def suffix_def)
qed (simp add: TrimSuffix_def)

definition unformatted_output :: "string \<Rightarrow> bool" where
  "unformatted_output out \<longleftrightarrow> out = [] \<or> out = [newline]"

lemma Split_hd_Nil: "Split s c ! 0 = [] \<longleftrightarrow> s = [] \<or> hd s = c"
proof (cases s)
  case (Cons x xs)
  obtain y ys where "Split xs c = y # ys" by (rule Split_Cons_exhaust)
  with Cons show ?thesis by simp
qed simp

lemma trimmed_no_newline:
  "TrimSuffix out [newline] = [] \<longleftrightarrow> unformatted_output out"
proof (cases out rule: rev_cases)
  case (snoc ys y)
  then show ?thesis by (auto simp: TrimSuffix_newline unformatted_output_def)
qed (simp add: TrimSuffix_newline unformatted_output_def)

lemma single_line: "length (Split s c) = Suc 0 \<longleftrightarrow> c \<notin> set s"
  by (simp add: length_Split count_list_0_iff)

lemma Split_first: "Split x c ! 0 = takeWhile (\<lambda>y. y \<noteq> c) x"
proof (induction x)
  case (Cons a x)
  obtain y ys where "Split x c = y # ys" by (rule Split_Cons_exhaust)
  with Cons show ?case by simp
qed simp

lemma takeWhile_trim: "takeWhile (\<lambda>y. y \<noteq> c) (TrimSuffix out [c]) = takeWhile (\<lambda>y. y \<noteq> c) out"
  by (cases out rule: rev_cases) (auto simp: TrimSuffix_newline takeWhile_tail takeWhile_append)

definition lsblk_format :: "string \<Rightarrow> string" where
  "lsblk_format out =
     (if unformatted_output out then ''''
      else if hd out = newline then ''unknown data, probably partitions''
      else takeWhile (\<lambda>c. c \<noteq> newline) out)"

lemma lsblk_format_Nil [simp]: "lsblk_format out = '''' \<longleftrightarrow> unformatted_output out"
  by (cases out) (auto simp: lsblk_format_def unformatted_output_def)

lemma lines_format:
  "(let lines = Split (TrimSuffix out [newline]) newline in
    if lines ! 0 \<noteq> '''' then lines ! 0
    else if length lines = 1 then '''' else ''unknown data, probably partitions'') = lsblk_format out"
proof -
  consider (none) "unformatted_output out"
    | (parts) x xs where "out = newline # x # xs"
    | (some) c xs where "out = c # xs" "c \<noteq> newline"
    by (cases out; cases "tl out") (auto simp: unformatted_output_def)
  then show ?thesis
  proof cases
    case none
    then show ?thesis
      by (auto simp: lsblk_format_def unformatted_output_def TrimSuffix_newline)
  next
    case parts
    then have "newline \<in> set (TrimSuffix out [newline])" by (simp add: TrimSuffix_newline)
    with parts show ?thesis
      by (simp add: Let_def Split_first takeWhile_trim single_line lsblk_format_def
            unformatted_output_def)
  next
    case some
    then show ?thesis
      by (simp add: Let_def Split_first takeWhile_trim lsblk_format_def unformatted_output_def)
  qed
qed

lemma getDiskFormat_run:
  "getDiskFormat os d s =
     (case os_exec os ''lsblk'' [''-n'', ''-o'', ''FSTYPE'', d] s of
        ((out, Some e), s') \<Rightarrow> (Ret ('''', Some e), s')
      | ((out, None), s') \<Rightarrow> (Ret (lsblk_format out, None), s'))"
proof (cases "os_exec os ''lsblk'' [''-n'', ''-o'', ''FSTYPE'', d] s")
  case (Pair reply s')
  obtain out err where reply: "reply = (out, err)" by (rule prod.exhaust)
  show ?thesis
    unfolding getDiskFormat_def execRun_def Let_def call_sys Pair reply
    by (simp add: lines_format [of out, symmetric] Let_def split: option.split)
qed

end
