(* ===== verification/MounterProps.thy ===== *)
theory MounterProps
  imports Mounter
begin

text \<open>
  What the mount manager guarantees over every operating system: the commands FormatAndMount
  runs and when it may format, the arguments of mount, device paths, and the search for an
  existing device.
\<close>

section \<open>Recording the commands\<close>

type_synonym exec_event = "string \<times> string list \<times> string \<times> error option"

text \<open>The operating system with a log of the commands it ran and their replies.\<close>

definition pass :: "('s \<Rightarrow> 'a \<times> 's) \<Rightarrow> 's \<times> 'l \<Rightarrow> 'a \<times> 's \<times> 'l" where
  "pass f t = (case f (fst t) of (a, s') \<Rightarrow> (a, s', snd t))"

definition traced_os :: "'s OS \<Rightarrow> ('s \<times> exec_event list) OS" where
  "traced_os os =
     \<lparr> os_exec = (\<lambda>cmd args t. case os_exec os cmd args (fst t) of
          (r, s') \<Rightarrow> (r, s', snd t @ [(cmd, args, r)])),
       os_Stat = (\<lambda>p. pass (os_Stat os p)),
       os_Lstat = (\<lambda>p. pass (os_Lstat os p)),
       os_MkdirAll = (\<lambda>p perm. pass (os_MkdirAll os p perm)),
       os_Remove = (\<lambda>p. pass (os_Remove os p)),
       os_Glob = (\<lambda>p. pass (os_Glob os p)),
       os_EvalSymlinks = (\<lambda>p. pass (os_EvalSymlinks os p)) \<rparr>"

lemma traced_os_simps [simp]:
  "os_exec (traced_os os) cmd args (s, l) =
     (case os_exec os cmd args s of (r, s') \<Rightarrow> (r, s', l @ [(cmd, args, r)]))"
  "os_Stat (traced_os os) p (s, l) = (case os_Stat os p s of (r, s') \<Rightarrow> (r, s', l))"
  "os_Lstat (traced_os os) p (s, l) = (case os_Lstat os p s of (r, s') \<Rightarrow> (r, s', l))"
  "os_MkdirAll (traced_os os) p perm (s, l) = (case os_MkdirAll os p perm s of (r, s') \<Rightarrow> (r, s', l))"
  "os_Remove (traced_os os) p (s, l) = (case os_Remove os p s of (r, s') \<Rightarrow> (r, s', l))"
  "os_Glob (traced_os os) p (s, l) = (case os_Glob os p s of (r, s') \<Rightarrow> (r, s', l))"
  "os_EvalSymlinks (traced_os os) p (s, l) = (case os_EvalSymlinks os p s of (r, s') \<Rightarrow> (r, s', l))"
  by (simp_all add: traced_os_def pass_def split: prod.split)

section \<open>When a disk is formatted\<close>

lemma GCE_DoMount_run:
  "GCE_DoMount os source target fstype options s =
     (case os_exec os ''mount'' (makeMountArgs source target fstype options) s of
        ((out, err), s') \<Rightarrow>
          (Ret (if err = None then None else Some (PlainError ''mount failed: %v'')), s'))"
  by (simp add: GCE_DoMount_def Let_def call_sys execRun_def defaultMountCommand_def split: prod.split)

lemma call_DoMount:
  "call (GCE_DoMount os source target fstype options) k s =
     (case os_exec os ''mount'' (makeMountArgs source target fstype options) s of
        ((out, err), s') \<Rightarrow>
          k (if err = None then None else Some (PlainError ''mount failed: %v'')) s')"
  by (simp add: call_def GCE_DoMount_run split: prod.split)

lemma call_getDiskFormat:
  "call (getDiskFormat os d) k s =
     (case os_exec os ''lsblk'' [''-n'', ''-o'', ''FSTYPE'', d] s of
        ((out, Some e), s') \<Rightarrow> k ('''', Some e) s'
      | ((out, None), s') \<Rightarrow> k (lsblk_format out, None) s')"
  by (simp add: call_def getDiskFormat_run split: prod.split option.split)

text \<open>The command that makes the file system, and its arguments.\<close>

definition mkfs_cmd :: "string \<Rightarrow> string" where
  "mkfs_cmd fstype = ''mkfs.'' @ (if fstype = '''' then ''ext4'' else fstype)"

definition mkfs_args :: "string \<Rightarrow> string \<Rightarrow> string list" where
  "mkfs_args source fstype =
     (if fstype = '''' \<or> fstype = ''ext4'' \<or> fstype = ''ext3'' then [''-F'', source] else [source])"

lemma format_after_failed_mount_eq:
  "format_after_failed_mount os source target fstype options me s =
     (case os_exec os ''lsblk'' [''-n'', ''-o'', ''FSTYPE'', source] s of
        ((out2, Some e), s2) \<Rightarrow> (Ret (Some e), s2)
      | ((out2, None), s2) \<Rightarrow>
          if \<not> unformatted_output out2 then
            (Ret (if fstype = '''' \<or> fstype = lsblk_format out2 then me
                  else Some (PlainError
                    ''failed to mount the volume as %q, it already contains %s. Mount error: %v'')), s2)
          else (case os_exec os (mkfs_cmd fstype) (mkfs_args source fstype) s2 of
              ((out3, Some e), s3) \<Rightarrow> (Ret (Some e), s3)
            | ((out3, None), s3) \<Rightarrow>
                GCE_DoMount os source target (if fstype = '''' then ''ext4'' else fstype) options s3))"
  by (simp add: format_after_failed_mount_def call_getDiskFormat Let_def mkfs_cmd_def mkfs_args_def
        execRun_def call_sys split: prod.split option.split)

lemma format_after_failed_mount_run:
  "\<exists>log' err s'. format_after_failed_mount (traced_os os) source target fstype options (Some me) (s, log) =
       (Ret err, s', log @ log') \<and>
     ((\<exists>out2 e2. log' = [(''lsblk'', [''-n'', ''-o'', ''FSTYPE'', source], out2, e2)] \<and>
         (e2 \<noteq> None \<or> \<not> unformatted_output out2) \<and> err \<noteq> None) \<or>
      (\<exists>out2 out3 e3. log' = [(''lsblk'', [''-n'', ''-o'', ''FSTYPE'', source], out2, None),
           (mkfs_cmd fstype, mkfs_args source fstype, out3, Some e3)] \<and>
         unformatted_output out2 \<and> err \<noteq> None) \<or>
      (\<exists>out2 out3 out4 e4. log' = [(''lsblk'', [''-n'', ''-o'', ''FSTYPE'', source], out2, None),
           (mkfs_cmd fstype, mkfs_args source fstype, out3, None),
           (''mount'', makeMountArgs source target (if fstype = '''' then ''ext4'' else fstype) options,
              out4, e4)] \<and> unformatted_output out2 \<and> (err = None \<longleftrightarrow> e4 = None)))"
proof -
  define f where "f = (if fstype = '''' then ''ext4'' else fstype)"
  obtain out2 e2 s2 where lsblk:
    "os_exec os ''lsblk'' [''-n'', ''-o'', ''FSTYPE'', source] s = ((out2, e2), s2)"
    by (metis prod.exhaust)
  obtain out3 e3 s3 where mkfs:
    "os_exec os (mkfs_cmd fstype) (mkfs_args source fstype) s2 = ((out3, e3), s3)"
    by (metis prod.exhaust)
  obtain out4 e4 s4 where mnt:
    "os_exec os ''mount'' (makeMountArgs source target f options) s3 = ((out4, e4), s4)"
    by (metis prod.exhaust)
  note run = format_after_failed_mount_eq [of "traced_os os" source target fstype options "Some me" "(s, log)",
      folded f_def] GCE_DoMount_run [of "traced_os os"]
  show ?thesis
    unfolding f_def [symmetric]
    by (cases e2; cases "unformatted_output out2"; cases e3) (simp_all add: run lsblk mkfs mnt)
qed

text \<open>
  The runs FormatAndMount may make, and whether they succeed: fsck; then a mount; after a
  failed mount lsblk; mkfs only when lsblk succeeded and reported no format; a second mount
  only after mkfs succeeded.
\<close>

inductive format_run :: "string \<Rightarrow> string \<Rightarrow> string \<Rightarrow> string list \<Rightarrow> exec_event list \<Rightarrow> bool \<Rightarrow> bool"
  for source target fstype options where
  fsck_fatal:
    "format_run source target fstype options
       [(''fsck'', [''-a'', source], out, Some (ExitError 4))] False"
| mounted:
    "e0 \<noteq> Some (ExitError 4) \<Longrightarrow>
     format_run source target fstype options
       [(''fsck'', [''-a'', source], out0, e0),
        (''mount'', makeMountArgs source target fstype (options @ [''defaults'']), out1, None)] True"
| lsblk_failed:
    "e0 \<noteq> Some (ExitError 4) \<Longrightarrow>
     format_run source target fstype options
       [(''fsck'', [''-a'', source], out0, e0),
        (''mount'', makeMountArgs source target fstype (options @ [''defaults'']), out1, Some e1),
        (''lsblk'', [''-n'', ''-o'', ''FSTYPE'', source], out2, Some e2)] False"
| has_format:
    "e0 \<noteq> Some (ExitError 4) \<Longrightarrow> \<not> unformatted_output out2 \<Longrightarrow>
     format_run source target fstype options
       [(''fsck'', [''-a'', source], out0, e0),
        (''mount'', makeMountArgs source target fstype (options @ [''defaults'']), out1, Some e1),
        (''lsblk'', [''-n'', ''-o'', ''FSTYPE'', source], out2, e2)] False"
| mkfs_failed:
    "e0 \<noteq> Some (ExitError 4) \<Longrightarrow> unformatted_output out2 \<Longrightarrow>
     format_run source target fstype options
       [(''fsck'', [''-a'', source], out0, e0),
        (''mount'', makeMountArgs source target fstype (options @ [''defaults'']), out1, Some e1),
        (''lsblk'', [''-n'', ''-o'', ''FSTYPE'', source], out2, None),
        (mkfs_cmd fstype, mkfs_args source fstype, out3, Some e3)] False"
| formatted:
    "e0 \<noteq> Some (ExitError 4) \<Longrightarrow> unformatted_output out2 \<Longrightarrow> ok = (e4 = None) \<Longrightarrow>
     format_run source target fstype options
       [(''fsck'', [''-a'', source], out0, e0),
        (''mount'', makeMountArgs source target fstype (options @ [''defaults'']), out1, Some e1),
        (''lsblk'', [''-n'', ''-o'', ''FSTYPE'', source], out2, None),
        (mkfs_cmd fstype, mkfs_args source fstype, out3, None),
        (''mount'', makeMountArgs source target (if fstype = '''' then ''ext4'' else fstype)
           (options @ [''defaults'']), out4, e4)] ok"

lemma GCE_FormatAndMount_eq:
  "GCE_FormatAndMount os source target fstype options s =
     (case os_exec os ''fsck'' [''-a'', source] s of ((out0, e0), s0) \<Rightarrow>
        if e0 = Some (ExitError 4) then
          (Ret (Some (PlainError ''fsck found errors on device %s but could not correct them: %s.'')), s0)
        else (case os_exec os ''mount'' (makeMountArgs source target fstype (options @ [''defaults''])) s0 of
            ((out1, None), s1) \<Rightarrow> (Ret None, s1)
          | ((out1, Some e1), s1) \<Rightarrow>
              format_after_failed_mount os source target fstype (options @ [''defaults''])
                (Some (PlainError ''mount failed: %v'')) s1))"
  by (simp add: GCE_FormatAndMount_def Let_def call_DoMount execRun_def call_sys
        fsckErrorsUncorrected_def split: prod.split option.split)

lemma FormatAndMount_run:
  "\<exists>log' err s'. GCE_FormatAndMount (traced_os os) source target fstype options (s, log) =
       (Ret err, s', log @ log') \<and> format_run source target fstype options log' (err = None)"
proof -
  let ?opts = "options @ [''defaults'']"
  obtain out0 e0 s0 where fsck: "os_exec os ''fsck'' [''-a'', source] s = ((out0, e0), s0)"
    by (metis prod.exhaust)
  obtain out1 e1 s1 where mnt:
    "os_exec os ''mount'' (makeMountArgs source target fstype ?opts) s0 = ((out1, e1), s1)"
    by (metis prod.exhaust)
  note run = GCE_FormatAndMount_eq [of "traced_os os" source target fstype options "(s, log)"]
  consider (fatal) "e0 = Some (ExitError 4)" | (mounted) "e0 \<noteq> Some (ExitError 4)" "e1 = None"
    | (failed) me where "e0 \<noteq> Some (ExitError 4)" "e1 = Some me" by blast
  then show ?thesis
  proof cases
    case fatal
    then show ?thesis by (simp add: run fsck fsck_fatal)
  next
    case mounted
    then show ?thesis by (simp add: run fsck mnt format_run.mounted)
  next
    case failed
    let ?log = "log @ [(''fsck'', [''-a'', source], out0, e0),
        (''mount'', makeMountArgs source target fstype ?opts, out1, Some me)]"
    have "GCE_FormatAndMount (traced_os os) source target fstype options (s, log) =
        format_after_failed_mount (traced_os os) source target fstype ?opts
          (Some (PlainError ''mount failed: %v'')) (s1, ?log)"
      using failed by (simp add: run fsck mnt)
    with format_after_failed_mount_run [of os source target fstype ?opts
        "PlainError ''mount failed: %v''" s1 ?log] failed(1)
    show ?thesis
      by (auto intro!: lsblk_failed mkfs_failed formatted intro: has_format)
  qed
qed

text \<open>C12. Whatever the operating system answers, FormatAndMount returns (it does not panic),
  makes one of the runs of commands of \<open>format_run\<close>, and succeeds exactly when the last one is
  a mount that succeeded. It runs mkfs at most once, only after a mount that failed and an lsblk
  that succeeded and reported no format, and never after an uncorrectable fsck.\<close>

theorem FormatAndMount_runs:
  "\<exists>err s' log. GCE_FormatAndMount (traced_os os) source target fstype options (s, []) =
       (Ret err, s', log) \<and> format_run source target fstype options log (err = None)"
  using FormatAndMount_run [of os source target fstype options s "[]"] by fastforce

section \<open>The arguments of mount\<close>

text \<open>How mount(8) reads the arguments: optional \<open>-t type\<close>, optional \<open>-o options\<close>, then the
  source, if there is one, and the target.\<close>

definition take_flag :: "string \<Rightarrow> string list \<Rightarrow> string option \<times> string list" where
  "take_flag flag args =
     (case args of f # v # rest \<Rightarrow> if f = flag then (Some v, rest) else (None, args) | _ \<Rightarrow> (None, args))"

definition parse_mount_args :: "string list \<Rightarrow> (string \<times> string \<times> string \<times> string list) option" where
  "parse_mount_args args =
     (let (t, args) = take_flag ''-t'' args;
          (opts, args) = take_flag ''-o'' args;
          fstype = (case t of None \<Rightarrow> '''' | Some f \<Rightarrow> f);
          options = (case opts of None \<Rightarrow> [] | Some x \<Rightarrow> Split x (CHR '','')) in
      case args of
        [target] \<Rightarrow> Some ('''', target, fstype, options)
      | [source, target] \<Rightarrow> Some (source, target, fstype, options)
      | _ \<Rightarrow> None)"

text \<open>The argument list built for mount(8) is read back as the source, target, type and
  options it was built from, when no option contains a comma or is the only one and empty, and
  neither source nor target looks like one of the two flags.\<close>

lemma makeMountArgs_parsed:
  assumes "\<forall>x \<in> set options. CHR '','' \<notin> set x"
    and "source \<noteq> ''-t''" and "source \<noteq> ''-o''" and "target \<noteq> ''-t''" and "target \<noteq> ''-o''"
  shows "parse_mount_args (makeMountArgs source target fstype options) =
    Some (source, target, fstype, options)"
proof -
  have opts: "Split (Join options '','') (CHR '','') = options" if "options \<noteq> []"
    using Split_Join [OF that] assms(1) by simp
  show ?thesis
    using assms(2-5)
    by (cases "fstype = ''''"; cases "options = []"; cases "source = ''''")
       (simp_all add: parse_mount_args_def makeMountArgs_def take_flag_def opts)
qed

section \<open>Device paths\<close>

lemma path_Join_by_id:
  assumes "CHR ''/'' \<notin> set n" and "n \<noteq> ''''" and "n \<noteq> ''.''" and "n \<noteq> ''..''"
  shows "path_Join [diskByIdPath, n] = diskByIdPath @ n"
proof -
  let ?dirs = "[''host'', ''dev'', ''disk'', ''by-id'']"
  have split: "Split (diskByIdPath @ CHR ''/'' # n) (CHR ''/'') = '''' # ?dirs @ ['''', n]"
    using Split_no_sep [OF assms(1)] by (simp add: diskByIdPath_def)
  have "clean_components True [] ('''' # ?dirs @ ['''', n]) = ?dirs @ [n]"
    using assms(2-4) by simp
  then show ?thesis
    using assms(2)
    by (simp add: path_Join_def path_Clean_def split [unfolded diskByIdPath_def, simplified]
          diskByIdPath_def HasPrefix_def Let_def)
qed

lemma by_id_paths:
  assumes "CHR ''/'' \<notin> set name"
  shows "GCE_GetDiskByIdPaths name '''' =
    [''/host/dev/disk/by-id/google-'' @ name,
     ''/host/dev/disk/by-id/scsi-0Google_PersistentDisk_'' @ name]"
  using assms
  by (simp add: GCE_GetDiskByIdPaths_def Let_def path_Join_by_id diskGooglePrefix_def
        diskScsiGooglePrefix_def diskByIdPath_def [symmetric])

text \<open>For a volume identifier that parses, the candidate device paths are the two by-id links
  of the volume's name, whatever the name is: no name leaves the by-id directory.\<close>

lemma GetDiskByIdPaths_of_volume:
  assumes "SplitZoneNameId vid = (z, name, None)"
  shows "GCE_GetDiskByIdPaths name '''' =
    [''/host/dev/disk/by-id/google-'' @ name,
     ''/host/dev/disk/by-id/scsi-0Google_PersistentDisk_'' @ name]"
  by (rule by_id_paths [OF SplitZoneNameId_Some(3) [OF assms]])

section \<open>The device of a volume\<close>

definition not_there :: "error + int \<Rightarrow> bool" where
  "not_there reply = (case reply of Inl e \<Rightarrow> IsNotExist (Some e) | Inr _ \<Rightarrow> False)"

lemma first_existing_stable:
  assumes "\<And>p s. os_Stat os p s = (st p, s)"
  shows "first_existing os ps s =
    (case find (\<lambda>p. \<not> not_there (st p)) ps of
       None \<Rightarrow> (Ret ('''', None), s)
     | Some p \<Rightarrow> (case st p of
         Inr _ \<Rightarrow> (Ret (p, None), s)
       | Inl _ \<Rightarrow> (Ret ('''', Some (PlainError ''Error checking if path exists: %v'')), s)))"
proof (induction ps)
  case (Cons p ps)
  show ?case
  proof (cases "st p")
    case (Inl e)
    with Cons assms show ?thesis
      by (cases "IsNotExist (Some e)") (simp_all add: pathExists_def call_sys call_def sys_def not_there_def)
  next
    case (Inr d)
    with Cons assms show ?thesis
      by (simp add: pathExists_def call_sys call_def sys_def not_there_def)
  qed
qed simp

text \<open>When the answers of stat do not change during the call, VerifyDevicePath looks at the
  paths in order and stops at the first one that stat does not report as missing: it returns
  that path if stat succeeded, and an error otherwise; with no such path it returns the
  empty path and no error. What the udev part reports plays no role.\<close>

lemma VerifyDevicePath_stable:
  assumes "\<And>p s. os_Stat os p s = (st p, s)"
  shows "\<exists>s'. GCE_VerifyDevicePath os ps s =
    (Ret (case find (\<lambda>p. \<not> not_there (st p)) ps of
       None \<Rightarrow> ('''', None)
     | Some p \<Rightarrow> (case st p of
         Inr _ \<Rightarrow> (p, None)
       | Inl _ \<Rightarrow> ('''', Some (PlainError ''Error checking if path exists: %v'')))), s')"
proof -
  obtain before e s1 where glob: "os_Glob os diskSDPattern s = ((before, e), s1)"
    by (metis prod.exhaust)
  have "\<exists>r s2. udevadmChangeToNewDrives os before s1 = (Ret r, s2)"
    using returns_udevadmChangeToNewDrives [of os before] by (simp add: triple_def)
  then obtain r s2 where udev: "udevadmChangeToNewDrives os before s1 = (Ret r, s2)" by blast
  show ?thesis
    by (simp add: GCE_VerifyDevicePath_def call_sys glob call_Ret [where m = "udevadmChangeToNewDrives os before", OF udev]
          first_existing_stable [OF assms] split: option.split sum.split)
qed

text \<open>An operating system for witnesses: only the google link of the volume vol is there, the
  device is not formatted until mkfs has run, and mounts work once it has.\<close>

definition sample_device :: string where
  "sample_device = ''/host/dev/disk/by-id/google-vol''"

definition sample_stat :: "string \<Rightarrow> error + int" where
  "sample_stat p = (if p = sample_device then Inr 7 else Inl (NotExistError ''no such file''))"

definition sample_os :: "bool OS" where
  "sample_os =
     \<lparr> os_exec = (\<lambda>cmd args made.
         if cmd = ''mount'' then (('''', if made then None else Some (ExitError 32)), made)
         else if cmd = ''lsblk'' then ((if made then ''ext4'' @ [newline] else [newline], None), made)
         else if cmd = ''mkfs.ext4'' then (('''', None), True)
         else (('''', None), made)),
       os_Stat = (\<lambda>p made. (sample_stat p, made)),
       os_Lstat = (\<lambda>p made. (Inl (NotExistError ''no such file''), made)),
       os_MkdirAll = (\<lambda>p perm made. (None, made)),
       os_Remove = (\<lambda>p made. (None, made)),
       os_Glob = (\<lambda>p made. (([], None), made)),
       os_EvalSymlinks = (\<lambda>p made. ((p, None), made)) \<rparr>"

section \<open>udev and mount points\<close>

lemma changeToNewDrives_find:
  "changeToNewDrives_loop os before sds =
     (case find (\<lambda>sd. sd \<notin> set before) sds of None \<Rightarrow> ret None | Some sd \<Rightarrow> udevadmChangeToDrive os sd)"
  by (induction sds) simp_all

text \<open>Looking for a device runs at most one command: udevadm on the resolved path of the
  first drive that was not there before, and only when that path contains /host/dev/sd.\<close>

lemma udevadm_calls:
  "case udevadmChangeToNewDrives (traced_os os) before (s, []) of (r, s', log) \<Rightarrow>
     log = [] \<or>
     (\<exists>sds s1 sd drive s2 reply.
        os_Glob os ''/host/dev/sd*'' s = ((sds, None), s1) \<and>
        find (\<lambda>sd. sd \<notin> set before) sds = Some sd \<and>
        os_EvalSymlinks os sd s1 = ((drive, None), s2) \<and> Contains drive ''/host/dev/sd'' \<and>
        log = [(''udevadm'', [''trigger'', ''--action=change'', ''--property-match=DEVNAME='' @ drive],
                reply)])"
proof -
  obtain sds e s1 where glob: "os_Glob os ''/host/dev/sd*'' s = ((sds, e), s1)" by (metis prod.exhaust)
  show ?thesis
  proof (cases "find (\<lambda>sd. sd \<notin> set before) sds")
    case None
    then show ?thesis
      by (simp add: udevadmChangeToNewDrives_def call_sys glob diskSDPattern_def changeToNewDrives_find)
  next
    case (Some sd)
    obtain drive e' s2 where link: "os_EvalSymlinks os sd s1 = ((drive, e'), s2)"
      by (metis prod.exhaust)
    obtain reply s3 where exec: "os_exec os ''udevadm'' [''trigger'', ''--action=change'',
        ''--property-match=DEVNAME='' @ drive] s2 = (reply, s3)"
      by (metis prod.exhaust)
    from Some glob link exec show ?thesis
      by (cases reply) (simp add: udevadmChangeToNewDrives_def udevadmChangeToDrive_def call_sys
            diskSDPattern_def diskSDPath_def changeToNewDrives_find execRun_def)
  qed
qed

text \<open>A path is reported as a mount point exactly when it and its parent (the path followed
  by /..) can both be examined and lie on different devices; every error is reported
  together with \<open>not a mount point\<close>.\<close>

lemma IsLikelyNotMountPoint_spec:
  "case GCE_IsLikelyNotMountPoint os p s of (r, s') \<Rightarrow>
     \<exists>notMnt err. r = Ret (notMnt, err) \<and> (err \<noteq> None \<longrightarrow> notMnt) \<and>
       (\<not> notMnt \<longleftrightarrow> (\<exists>dev s1 root. os_Stat os p s = (Inr dev, s1) \<and>
          os_Lstat os (p @ ''/..'') s1 = (Inr root, s') \<and> dev \<noteq> root))"
proof -
  obtain stat s1 where stat: "os_Stat os p s = (stat, s1)" by (metis prod.exhaust)
  obtain root s2 where root: "os_Lstat os (p @ ''/..'') s1 = (root, s2)" by (metis prod.exhaust)
  show ?thesis
    by (cases stat; cases root) (auto simp: GCE_IsLikelyNotMountPoint_def call_sys stat root)
qed

section \<open>The format of a disk\<close>

text \<open>The format of a disk as read from lsblk: empty exactly for an output without any
  character or with a single newline; a first line that is not empty is the format; an empty
  first line followed by more stands for partitions. An error of lsblk is passed on.\<close>

lemma getDiskFormat_spec:
  "case getDiskFormat os d s of (r, s') \<Rightarrow>
     (case os_exec os ''lsblk'' [''-n'', ''-o'', ''FSTYPE'', d] s of ((out, err), s1) \<Rightarrow>
        s' = s1 \<and> (\<exists>fmt. r = Ret (fmt, err) \<and>
          (fmt = '''' \<longleftrightarrow> err \<noteq> None \<or> out = [] \<or> out = [newline]) \<and>
          (err = None \<and> out \<noteq> [] \<and> hd out \<noteq> newline \<longrightarrow>
             newline \<notin> set fmt \<and> (out = fmt \<or> (\<exists>more. out = fmt @ newline # more)))))"
proof (cases "os_exec os ''lsblk'' [''-n'', ''-o'', ''FSTYPE'', d] s")
  case (Pair reply s1)
  obtain out err where reply: "reply = (out, err)" by (rule prod.exhaust)
  have "out = takeWhile (\<lambda>c. c \<noteq> newline) out \<or>
      (\<exists>more. out = takeWhile (\<lambda>c. c \<noteq> newline) out @ newline # more)"
  proof (cases "newline \<in> set out")
    case True
    from split_list_first [OF this] show ?thesis
      by (auto simp: takeWhile_append takeWhile_eq_all_conv)
  next
    case False
    then have "takeWhile (\<lambda>c. c \<noteq> newline) out = out"
      by (auto simp: takeWhile_eq_all_conv)
    then show ?thesis by (rule disjI1 [OF sym])
  qed
  then have "out = lsblk_format out \<or> (\<exists>more. out = lsblk_format out @ newline # more)"
    "newline \<notin> set (lsblk_format out)" if "out \<noteq> []" "hd out \<noteq> newline"
    using that by (auto simp: lsblk_format_def unformatted_output_def takeWhile_eq_all_conv
        dest: set_takeWhileD)
  then show ?thesis
    by (cases err)
       (auto simp: getDiskFormat_run Pair reply unformatted_output_def)
qed

end
