(* ===== verification/Node.thy ===== *)
theory Node
  imports Driver MounterProps
begin

text \<open>
  pkg/gce-csi-driver/node.go: the node service. Each handler is one definition over a mounter
  \<open>m\<close>. The lemmas about every mounter stand in the locale of the mounter contract; the
  properties follow, over every operating system through GCEMounter.
\<close>

section \<open>The handlers\<close>

text \<open>The end of NodePublishVolume, when the bind mount failed: the target is unmounted if it is
  a mount point, and removed once it is not.\<close>

definition publish_cleanup ::
    "'s Mounter \<Rightarrow> string \<Rightarrow> ('s, NodePublishVolumeResponse option \<times> error option) go" where
  "publish_cleanup m targetPath =
     (let failed = ret (None, Some (StatusError Internal ''TODO: %v''));
          finish = call (Remove m targetPath) (\<lambda>_. failed)
      in call (IsLikelyNotMountPoint m targetPath) (\<lambda>(notMnt, mntErr).
         if mntErr \<noteq> None then failed
         else if \<not> notMnt then
           call (UnmountVolume m targetPath) (\<lambda>(_, mntErr).
           if mntErr \<noteq> None then failed
           else
           call (IsLikelyNotMountPoint m targetPath) (\<lambda>(notMnt, mntErr).
           if mntErr \<noteq> None then failed
           else if \<not> notMnt then failed
           else finish))
         else finish))"

definition NodePublishVolume ::
    "'s Mounter \<Rightarrow> NodePublishVolumeRequest \<Rightarrow>
     ('s, NodePublishVolumeResponse option \<times> error option) go" where
  "NodePublishVolume m req =
     (let targetPath = np_TargetPath req;
          stagingTargetPath = np_StagingTargetPath req;
          readOnly = np_Readonly req;
          volumeID = np_VolumeId req
      in if volumeID = '''' then
           ret (None, Some (StatusError InvalidArgument
             ''NodePublishVolume Volume ID must be provided''))
         else if stagingTargetPath = '''' then
           ret (None, Some (StatusError InvalidArgument
             ''NodePublishVolume Staging Target Path must be provided''))
         else if targetPath = '''' then
           ret (None, Some (StatusError InvalidArgument
             ''NodePublishVolume Target Path must be provided''))
         else if np_VolumeCapability req = None then
           ret (None, Some (StatusError InvalidArgument
             ''NodePublishVolume Volume Capability must be provided''))
         else
         call (IsLikelyNotMountPoint m targetPath) (\<lambda>(notMnt, err).
         if err \<noteq> None \<and> \<not> IsNotExist err then ret (None, err)
         else if \<not> notMnt then ret (None, None)
         else
         call (MkdirAll m targetPath 488) (\<lambda>err.
         if err \<noteq> None then ret (None, err)
         else
         let options = [''bind''];
             options = (if readOnly then options @ [''ro''] else options)
         in call (DoMount m stagingTargetPath targetPath ''ext4'' options) (\<lambda>err.
         if err \<noteq> None then publish_cleanup m targetPath
         else ret (Some NodePublishVolumeResponse, None)))))"

definition NodeUnpublishVolume ::
    "'s Mounter \<Rightarrow> NodeUnpublishVolumeRequest \<Rightarrow>
     ('s, NodeUnpublishVolumeResponse option \<times> error option) go" where
  "NodeUnpublishVolume m req =
     (let targetPath = nu_TargetPath req;
          volID = nu_VolumeId req
      in if volID = '''' then
           ret (None, Some (StatusError InvalidArgument
             ''NodeUnpublishVolume Volume ID must be provided''))
         else if targetPath = '''' then
           ret (None, Some (StatusError InvalidArgument
             ''NodeUnpublishVolume Target Path must be provided''))
         else
         call (UnmountVolume m targetPath) (\<lambda>(output, err).
         if err \<noteq> None then ret (None, Some (StatusError Internal ''Unmount failed: %v''))
         else ret (Some NodeUnpublishVolumeResponse, None)))"

text \<open>Part 3 of NodeStageVolume: the mount parameters from the capability. A block capability
  is refused; without a mount capability the defaults hold.\<close>

definition stage_mount ::
    "'s Mounter \<Rightarrow> string \<Rightarrow> string \<Rightarrow> VolumeCapability \<Rightarrow>
     ('s, NodeStageVolumeResponse option \<times> error option) go" where
  "stage_mount m devicePath stagingTargetPath volumeCapability =
     (let fstype = ''ext4'';
          options = [];
          mount = (\<lambda>fstype options.
            call (FormatAndMount m devicePath stagingTargetPath fstype options) (\<lambda>err.
            if err \<noteq> None then
              ret (None, Some (StatusError Internal
                ''Failed to format and mount device from (%q) to (%q) with fstype (%q) and options (%q): %v''))
            else ret (Some NodeStageVolumeResponse, None)))
      in case GetMount volumeCapability of
           Some mnt \<Rightarrow>
             mount (if mv_FsType mnt \<noteq> '''' then mv_FsType mnt else fstype) (options @ mv_MountFlags mnt)
         | None \<Rightarrow>
             if GetBlock volumeCapability \<noteq> None then
               ret (None, Some (StatusError Unimplemented ''Block volume support is not yet implemented''))
             else mount fstype options)"

definition NodeStageVolume ::
    "'s Mounter \<Rightarrow> NodeStageVolumeRequest \<Rightarrow>
     ('s, NodeStageVolumeResponse option \<times> error option) go" where
  "NodeStageVolume m req =
     (let volumeID = ns_VolumeId req;
          stagingTargetPath = ns_StagingTargetPath req
      in if volumeID = '''' then
           ret (None, Some (StatusError InvalidArgument
             ''NodeStageVolume Volume ID must be provided''))
         else if stagingTargetPath = '''' then
           ret (None, Some (StatusError InvalidArgument
             ''NodeStageVolume Staging Target Path must be provided''))
         else case ns_VolumeCapability req of
           None \<Rightarrow> ret (None, Some (StatusError InvalidArgument
             ''NodeStageVolume Volume Capability must be provided''))
         | Some volumeCapability \<Rightarrow>
         (case SplitZoneNameId volumeID of
           (_, _, Some e) \<Rightarrow> ret (None, Some e)
         | (_, volumeName, None) \<Rightarrow>
           let devicePaths = GetDiskByIdPaths m volumeName '''' in
           call (VerifyDevicePath m devicePaths) (\<lambda>(devicePath, err).
           if err \<noteq> None then
             ret (None, Some (StatusError Internal ''Error verifying GCE PD (%q) is attached: %v''))
           else if devicePath = '''' then
             ret (None, Some (StatusError Internal
               ''Unable to find device path out of attempted paths: %v''))
           else
           call (IsLikelyNotMountPoint m stagingTargetPath) (\<lambda>(notMnt, err).
           case err of
             Some e \<Rightarrow>
               if IsNotExist (Some e) then
                 call (MkdirAll m stagingTargetPath 488) (\<lambda>err.
                 if err \<noteq> None then
                   ret (None, Some (StatusError Internal ''Failed to create directory (%q): %v''))
                 else stage_mount m devicePath stagingTargetPath volumeCapability)
               else ret (None, Some (StatusError Internal
                      ''Unknown error when checking mount point (%q): %v''))
           | None \<Rightarrow>
               if \<not> notMnt then ret (None, Some (PlainError ''already a mount point''))
               else stage_mount m devicePath stagingTargetPath volumeCapability))))"

definition NodeUnstageVolume ::
    "'s Mounter \<Rightarrow> NodeUnstageVolumeRequest \<Rightarrow>
     ('s, NodeUnstageVolumeResponse option \<times> error option) go" where
  "NodeUnstageVolume m req =
     (let volumeID = nus_VolumeId req;
          stagingTargetPath = nus_StagingTargetPath req
      in if volumeID = '''' then
           ret (None, Some (StatusError InvalidArgument
             ''NodeUnstageVolume Volume ID must be provided''))
         else if stagingTargetPath = '''' then
           ret (None, Some (StatusError InvalidArgument
             ''NodeUnstageVolume Staging Target Path must be provided''))
         else
         call (UnmountVolume m stagingTargetPath) (\<lambda>(_, err).
         if err \<noteq> None then
           ret (None, Some (StatusError Internal ''NodeUnstageVolume failed to unmount at path %s: %v''))
         else ret (Some NodeUnstageVolumeResponse, None)))"

definition NodeGetId :: "('cp, 'm) GCEDriver \<Rightarrow> string option \<times> error option" where
  "NodeGetId drv = (Some (drv_nodeID drv), None)"

definition NodeGetCapabilities ::
    "('cp, 'm) GCEDriver \<Rightarrow> ServiceCapability list option \<times> error option" where
  "NodeGetCapabilities drv = (Some (drv_nscap drv), None)"


section \<open>Every mounter: no panic, the invariant is kept, the codes returned\<close>

context mounter
begin

lemma publish_cleanup_safe [go_rules]:
  "triple inv (publish_cleanup m p) (\<lambda>(resp, err) s. inv s \<and> resp = None \<and> err \<noteq> None)"
  unfolding publish_cleanup_def Let_def by (auto intro!: go_rules)

lemma publish_cleanup_fails [go_rules]:
  "triple inv (publish_cleanup m p)
     (\<lambda>(resp, err) s. inv s \<and> (reply_ok UNIV resp err \<or> resp = None \<and> err = None))"
  by (rule triple_conseq [OF publish_cleanup_safe]) (auto simp: reply_ok_def)

lemma NodePublishVolume_safe:
  "triple inv (NodePublishVolume m req)
     (\<lambda>(resp, err) s. inv s \<and> (reply_ok UNIV resp err \<or> resp = None \<and> err = None))"
  unfolding NodePublishVolume_def Let_def by (auto intro!: go_rules publish_cleanup_fails)

lemma NodeUnpublishVolume_safe:
  "triple inv (NodeUnpublishVolume m req)
     (\<lambda>(resp, err) s. inv s \<and> reply_ok {InvalidArgument, Internal} resp err)"
  unfolding NodeUnpublishVolume_def Let_def by (auto intro!: go_rules)

lemma stage_mount_safe [go_rules]:
  "{Internal, Unimplemented} \<subseteq> C \<Longrightarrow>
   triple inv (stage_mount m d p c) (\<lambda>(resp, err) s. inv s \<and> reply_ok C resp err)"
  unfolding stage_mount_def Let_def by (auto intro!: go_rules)

lemma NodeStageVolume_safe:
  "triple inv (NodeStageVolume m req)
     (\<lambda>(resp, err) s. inv s \<and>
        reply_ok {InvalidArgument, Internal, Unimplemented, UnknownCode} resp err)"
  unfolding NodeStageVolume_def Let_def
  by (cases rule: SplitZoneNameId_cases [of "ns_VolumeId req"]) (auto intro!: go_rules)

lemma NodeUnstageVolume_safe:
  "triple inv (NodeUnstageVolume m req)
     (\<lambda>(resp, err) s. inv s \<and> reply_ok {InvalidArgument, Internal} resp err)"
  unfolding NodeUnstageVolume_def Let_def by (auto intro!: go_rules)

end

text \<open>Over GCEMounter on every operating system, no node call panics. Staging, unstaging and
  unpublishing return either a response or an error, with one of the codes listed; publishing
  does so as well, or returns neither.\<close>

lemma node_total_gce:
  "(\<exists>resp err s'. NodeStageVolume (GCEMounter os) sreq s = (Ret (resp, err), s') \<and>
      reply_ok {InvalidArgument, Internal, Unimplemented, UnknownCode} resp err) \<and>
   (\<exists>resp err s'. NodeUnstageVolume (GCEMounter os) usreq s = (Ret (resp, err), s') \<and>
      reply_ok {InvalidArgument, Internal} resp err) \<and>
   (\<exists>resp err s'. NodePublishVolume (GCEMounter os) preq s = (Ret (resp, err), s') \<and>
      (reply_ok UNIV resp err \<or> resp = None \<and> err = None)) \<and>
   (\<exists>resp err s'. NodeUnpublishVolume (GCEMounter os) upreq s = (Ret (resp, err), s') \<and>
      reply_ok {InvalidArgument, Internal} resp err)"
  using gce.NodeStageVolume_safe [of os sreq] gce.NodeUnstageVolume_safe [of os usreq]
    gce.NodePublishVolume_safe [of os preq] gce.NodeUnpublishVolume_safe [of os upreq]
  by (simp add: triple_def)

text \<open>Publishing to a target that is already a mount point changes nothing and returns neither
  a response nor an error, which the client receives as an Internal error.\<close>

lemma NodePublishVolume_mounted:
  assumes "np_VolumeId req \<noteq> ''''" and "np_StagingTargetPath req \<noteq> ''''"
    and "np_TargetPath req \<noteq> ''''" and "np_VolumeCapability req \<noteq> None"
    and "IsLikelyNotMountPoint m (np_TargetPath req) s = (Ret (False, None), s')"
  shows "NodePublishVolume m req s = (Ret (None, None), s') \<and>
    call (NodePublishVolume m req) (\<lambda>r. ret (grpc_code r)) s = (Ret Internal, s')"
  using assms by (auto simp: NodePublishVolume_def Let_def call_def)

section \<open>Recording the calls of the node service\<close>

text \<open>The calls on a mounter with what they returned.\<close>

datatype mount_event =
    EMount string string string "string list" "error option"
  | EFormat string string string "string list" "error option"
  | ENotMnt string bool "error option"
  | EUnmount string "error option"
  | EVerify "string list" string "error option"
  | EMkdir string nat "error option"
  | ERemove string "error option"

definition recorded :: "('a \<Rightarrow> mount_event) \<Rightarrow> ('s, 'a) go \<Rightarrow> ('s \<times> mount_event list, 'a) go" where
  "recorded ev m t =
     (case m (fst t) of (Ret a, s') \<Rightarrow> (Ret a, s', snd t @ [ev a]) | (Panic, s') \<Rightarrow> (Panic, s', snd t))"

definition traced_mounter :: "'s Mounter \<Rightarrow> ('s \<times> mount_event list) Mounter" where
  "traced_mounter m =
     \<lparr> DoMount = (\<lambda>s t f opts. recorded (EMount s t f opts) (DoMount m s t f opts)),
       FormatAndMount = (\<lambda>s t f opts. recorded (EFormat s t f opts) (FormatAndMount m s t f opts)),
       IsLikelyNotMountPoint = (\<lambda>p. recorded (\<lambda>(b, e). ENotMnt p b e) (IsLikelyNotMountPoint m p)),
       UnmountVolume = (\<lambda>p. recorded (\<lambda>(out, e). EUnmount p e) (UnmountVolume m p)),
       GetDiskByIdPaths = GetDiskByIdPaths m,
       VerifyDevicePath = (\<lambda>ps. recorded (\<lambda>(d, e). EVerify ps d e) (VerifyDevicePath m ps)),
       MkdirAll = (\<lambda>p perm. recorded (EMkdir p perm) (MkdirAll m p perm)),
       Remove = (\<lambda>p. recorded (ERemove p) (Remove m p)) \<rparr>"

lemma traced_mounter_simps [simp]:
  "DoMount (traced_mounter m) s t f opts = recorded (EMount s t f opts) (DoMount m s t f opts)"
  "FormatAndMount (traced_mounter m) s t f opts =
     recorded (EFormat s t f opts) (FormatAndMount m s t f opts)"
  "IsLikelyNotMountPoint (traced_mounter m) p =
     recorded (\<lambda>(b, e). ENotMnt p b e) (IsLikelyNotMountPoint m p)"
  "UnmountVolume (traced_mounter m) p = recorded (\<lambda>(out, e). EUnmount p e) (UnmountVolume m p)"
  "GetDiskByIdPaths (traced_mounter m) = GetDiskByIdPaths m"
  "VerifyDevicePath (traced_mounter m) ps =
     recorded (\<lambda>(d, e). EVerify ps d e) (VerifyDevicePath m ps)"
  "MkdirAll (traced_mounter m) p perm = recorded (EMkdir p perm) (MkdirAll m p perm)"
  "Remove (traced_mounter m) p = recorded (ERemove p) (Remove m p)"
  by (simp_all add: traced_mounter_def)

lemma call_recorded:
  "call (recorded ev m) k (s, l) =
     (case m s of (Ret a, s') \<Rightarrow> k a (s', l @ [ev a]) | (Panic, s') \<Rightarrow> (Panic, s', l))"
  by (simp add: call_def recorded_def split: prod.split outcome.split)

section \<open>What publishing does\<close>

text \<open>Every removal comes right after a check that said: not a mount point.\<close>

fun removals_guarded :: "mount_event list \<Rightarrow> bool" where
  "removals_guarded (e # ERemove p r # es) =
     (e = ENotMnt p True None \<and> removals_guarded (ERemove p r # es))"
| "removals_guarded (e # es) = removals_guarded es"
| "removals_guarded [] = True"

definition event_path :: "mount_event \<Rightarrow> string option" where
  "event_path e =
     (case e of EMount _ t _ _ _ \<Rightarrow> Some t | EFormat _ t _ _ _ \<Rightarrow> Some t | ENotMnt p _ _ \<Rightarrow> Some p
      | EUnmount p _ \<Rightarrow> Some p | EVerify _ _ _ \<Rightarrow> None | EMkdir p _ _ \<Rightarrow> Some p
      | ERemove p _ \<Rightarrow> Some p)"

definition is_mount :: "mount_event \<Rightarrow> bool" where
  "is_mount e = (case e of EMount _ _ _ _ _ \<Rightarrow> True | EFormat _ _ _ _ _ \<Rightarrow> True | _ \<Rightarrow> False)"

lemma event_simps [simp]:
  "event_path (EMount s t f opts r) = Some t" "event_path (EFormat s t f opts r) = Some t"
  "event_path (ENotMnt p b r) = Some p" "event_path (EUnmount p r) = Some p"
  "event_path (EVerify ps d r) = None" "event_path (EMkdir p n r) = Some p"
  "event_path (ERemove p r) = Some p"
  "is_mount (EMount s t f opts r)" "is_mount (EFormat s t f opts r)" "\<not> is_mount (ENotMnt p b r)"
  "\<not> is_mount (EUnmount p r)" "\<not> is_mount (EVerify ps d r)" "\<not> is_mount (EMkdir p n r)"
  "\<not> is_mount (ERemove p r)"
  by (simp_all add: event_path_def is_mount_def)

definition bind_options :: "bool \<Rightarrow> string list" where
  "bind_options ro = (if ro then [''bind'', ''ro''] else [''bind''])"

text \<open>A log of NodePublishVolume and whether a response was returned.\<close>

definition publish_log_ok :: "NodePublishVolumeRequest \<Rightarrow> mount_event list \<Rightarrow> bool \<Rightarrow> bool" where
  "publish_log_ok req log success \<longleftrightarrow>
     removals_guarded (ENotMnt '''' False None # log) \<and>
     map event_path log = replicate (length log) (Some (np_TargetPath req)) \<and>
     (\<exists>r. filter is_mount log \<in> {[], [EMount (np_StagingTargetPath req) (np_TargetPath req) ''ext4''
            (bind_options (np_Readonly req)) r]}) \<and>
     (success \<longleftrightarrow> log \<noteq> [] \<and> last log = EMount (np_StagingTargetPath req) (np_TargetPath req) ''ext4''
            (bind_options (np_Readonly req)) None)"

text \<open>The calls of the clean-up after a failed bind mount.\<close>

inductive cleanup_log :: "string \<Rightarrow> mount_event list \<Rightarrow> bool" for p where
  clean_0: "cleanup_log p []"
| clean_1: "cleanup_log p [ENotMnt p b e]"
| clean_2: "cleanup_log p [ENotMnt p True None, ERemove p r]"
| clean_3: "cleanup_log p [ENotMnt p False None, EUnmount p e]"
| clean_4: "cleanup_log p [ENotMnt p False None, EUnmount p None, ENotMnt p b e]"
| clean_5: "cleanup_log p [ENotMnt p False None, EUnmount p None, ENotMnt p True None, ERemove p r]"

lemma publish_cleanup_log:
  "\<exists>r s' es. publish_cleanup (traced_mounter m) p (s, l) = (r, s', l @ es) \<and> cleanup_log p es \<and>
     (\<forall>resp err. r = Ret (resp, err) \<longrightarrow> resp = None)"
proof -
  obtain r1 s1 where c1: "IsLikelyNotMountPoint m p s = (r1, s1)" by (metis prod.exhaust)
  obtain r2 s2 where c2: "UnmountVolume m p s1 = (r2, s2)" by (metis prod.exhaust)
  obtain r3 s3 where c3: "IsLikelyNotMountPoint m p s2 = (r3, s3)" by (metis prod.exhaust)
  obtain r4 s4 where c4: "Remove m p s1 = (r4, s4)" by (metis prod.exhaust)
  obtain r5 s5 where c5: "Remove m p s3 = (r5, s5)" by (metis prod.exhaust)
  note run = publish_cleanup_def Let_def call_recorded c1 c2 c3 c4 c5
  consider (p1) "r1 = Panic" | (e1) b x where "r1 = Ret (b, Some x)" | (notMnt) "r1 = Ret (True, None)"
    | (mnt) "r1 = Ret (False, None)"
    by (metis (full_types) not_None_eq outcome.exhaust prod.exhaust)
  then show ?thesis
  proof cases
    case notMnt
    then show ?thesis by (cases r4) (simp_all add: run clean_1 clean_2)
  next
    case mnt
    consider (p2) "r2 = Panic" | (p3) y e where "r2 = Ret (y, e)" "r3 = Panic"
      | (both) y e b e' where "r2 = Ret (y, e)" "r3 = Ret (b, e')"
      by (metis outcome.exhaust prod.exhaust)
    then show ?thesis
    proof cases
      case (p3 y e)
      with mnt show ?thesis by (cases e) (simp_all add: run clean_1 clean_3)
    next
      case (both y e b e')
      with mnt show ?thesis
        by (cases e; cases e'; cases b; cases r5) (simp_all add: run clean_3 clean_4 clean_5)
    qed (use mnt in \<open>simp add: run clean_1\<close>)
  qed (simp_all add: run clean_0 clean_1)
qed


text \<open>The calls of a publish, and whether it returns a response.\<close>

inductive publish_run :: "NodePublishVolumeRequest \<Rightarrow> mount_event list \<Rightarrow> bool \<Rightarrow> bool" for req where
  pub_0: "publish_run req [] False"
| pub_1: "publish_run req [ENotMnt (np_TargetPath req) b e] False"
| pub_2: "publish_run req [ENotMnt (np_TargetPath req) True e, EMkdir (np_TargetPath req) 488 r] False"
| pub_ok: "publish_run req [ENotMnt (np_TargetPath req) True e, EMkdir (np_TargetPath req) 488 None,
      EMount (np_StagingTargetPath req) (np_TargetPath req) ''ext4''
        (bind_options (np_Readonly req)) None] True"
| pub_fail: "cleanup_log (np_TargetPath req) es \<Longrightarrow>
    publish_run req ([ENotMnt (np_TargetPath req) True e, EMkdir (np_TargetPath req) 488 None,
      EMount (np_StagingTargetPath req) (np_TargetPath req) ''ext4''
        (bind_options (np_Readonly req)) (Some x)] @ es) False"

lemma publish_run_ok: "publish_run req log ok \<Longrightarrow> publish_log_ok req log ok"
proof (induction rule: publish_run.induct)
  case (pub_fail es e x)
  then show ?case by cases (simp_all add: publish_log_ok_def)
qed (simp_all add: publish_log_ok_def)

definition succeeded :: "('a option \<times> error option) outcome \<Rightarrow> bool" where
  "succeeded r = (case r of Ret (Some _, None) \<Rightarrow> True | _ \<Rightarrow> False)"

lemma succeeded_simps [simp]:
  "\<not> succeeded Panic" "succeeded (Ret (Some x, None))" "\<not> succeeded (Ret (None, e))"
  "\<not> succeeded (Ret (y, Some d))"
  by (simp_all add: succeeded_def split: option.split)

lemma options_bind: "(if ro then [''bind''] @ [''ro''] else [''bind'']) = bind_options ro"
  by (simp add: bind_options_def)

text \<open>The end of a publish, after the check of the target.\<close>

lemma publish_mount_log:
  fixes req
  defines "t \<equiv> np_TargetPath req" and "o' \<equiv> bind_options (np_Readonly req)"
  shows "\<exists>r s' log. call (recorded (EMkdir t 488) (MkdirAll m t 488)) (\<lambda>err.
         if err \<noteq> None then ret (None, err)
         else call (recorded (EMount (np_StagingTargetPath req) t ''ext4'' o')
             (DoMount m (np_StagingTargetPath req) t ''ext4'' o')) (\<lambda>err.
           if err \<noteq> None then publish_cleanup (traced_mounter m) t
           else ret (Some NodePublishVolumeResponse, None))) (s, [ENotMnt t True e]) = (r, s', log) \<and>
     publish_run req log (succeeded r)"
proof -
  note pubs = pub_1 [of req, folded t_def] pub_2 [of req, folded t_def] pub_ok [of req, folded t_def o'_def]
  obtain r2 s2 where c2: "MkdirAll m t 488 s = (r2, s2)" by (metis prod.exhaust)
  obtain r3 s3 where c3: "DoMount m (np_StagingTargetPath req) t ''ext4'' o' s2 = (r3, s3)" by (metis prod.exhaust)
  consider (p2) "r2 = Panic" | (e2) x where "r2 = Ret (Some x)" | (p3) "r2 = Ret None" "r3 = Panic"
    | (ok) "r2 = Ret None" "r3 = Ret None" | (fail) x where "r2 = Ret None" "r3 = Ret (Some x)"
    by (metis not_None_eq outcome.exhaust)
  then show ?thesis
  proof cases
    case (fail x)
    let ?l = "[ENotMnt t True e, EMkdir t 488 None, EMount (np_StagingTargetPath req) t ''ext4'' o' (Some x)]"
    obtain r s' es where c: "publish_cleanup (traced_mounter m) t (s3, ?l) = (r, s', ?l @ es)"
      and es: "cleanup_log t es" and none: "\<forall>resp err. r = Ret (resp, err) \<longrightarrow> resp = None"
      using publish_cleanup_log [of m t s3 ?l] by (elim exE conjE)
    have "succeeded r = False"
      using none by (cases r) (auto simp: succeeded_def split: option.split)
    moreover have "publish_run req (?l @ es) False"
      using pub_fail es unfolding t_def o'_def by blast
    ultimately show ?thesis using fail c by (simp add: call_recorded c2 c3)
  qed (auto simp: call_recorded c2 c3 pubs)
qed

lemma NodePublishVolume_log:
  "\<exists>r s' log. NodePublishVolume (traced_mounter m) req (s, []) = (r, s', log) \<and>
     publish_run req log (succeeded r)"
proof (cases "np_VolumeId req = '''' \<or> np_StagingTargetPath req = '''' \<or> np_TargetPath req = '''' \<or>
    np_VolumeCapability req = None")
  case True
  then show ?thesis by (auto simp: NodePublishVolume_def Let_def pub_0)
next
  case False
  let ?t = "np_TargetPath req" and ?o = "bind_options (np_Readonly req)"
  obtain r1 s1 where c1: "IsLikelyNotMountPoint m ?t s = (r1, s1)" by (metis prod.exhaust)
  consider (p1) "r1 = Panic" | (no) b1 e1 where "r1 = Ret (b1, e1)" "\<not> (b1 \<and> (e1 = None \<or> IsNotExist e1))"
    | (go) e1 where "r1 = Ret (True, e1)" "e1 = None \<or> IsNotExist e1"
    by (metis (full_types) outcome.exhaust prod.exhaust)
  then show ?thesis
  proof cases
    case (go e1)
    have "NodePublishVolume (traced_mounter m) req (s, []) =
        call (recorded (EMkdir ?t 488) (MkdirAll m ?t 488)) (\<lambda>err.
         if err \<noteq> None then ret (None, err)
         else call (recorded (EMount (np_StagingTargetPath req) ?t ''ext4'' ?o)
             (DoMount m (np_StagingTargetPath req) ?t ''ext4'' ?o)) (\<lambda>err.
           if err \<noteq> None then publish_cleanup (traced_mounter m) ?t
           else ret (Some NodePublishVolumeResponse, None))) (s1, [ENotMnt ?t True e1])"
      unfolding NodePublishVolume_def Let_def options_bind traced_mounter_simps
      using False go by (auto simp: call_recorded c1)
    with publish_mount_log [of req m s1 e1] show ?thesis by simp
  qed (use False in \<open>auto simp: NodePublishVolume_def Let_def call_recorded options_bind c1 pub_0 pub_1\<close>)
qed

text \<open>C16. Over every mounter, whatever it answers, NodePublishVolume works on the target path only;
  it makes at most one mount, the bind mount of the staging path, read-only exactly when
  requested; it removes the target only right after a check that reported no mount point
  there; and it returns a response exactly when that mount was made and succeeded.\<close>

theorem NodePublishVolume_calls:
  "case NodePublishVolume (traced_mounter m) req (s, []) of (r, s', log) \<Rightarrow>
     publish_log_ok req log (succeeded r)"
  using NodePublishVolume_log [of m req s] publish_run_ok by fastforce


section \<open>What staging does\<close>

definition stage_params :: "VolumeCapability \<Rightarrow> (string \<times> string list) option" where
  "stage_params cap =
     (case GetMount cap of
        Some mnt \<Rightarrow> Some (if mv_FsType mnt = '''' then ''ext4'' else mv_FsType mnt, mv_MountFlags mnt)
      | None \<Rightarrow> if GetBlock cap = None then Some (''ext4'', []) else None)"

lemma stage_mount_eq:
  "stage_mount m d p cap =
     (case stage_params cap of
        None \<Rightarrow> ret (None, Some (StatusError Unimplemented ''Block volume support is not yet implemented''))
      | Some (fstype, options) \<Rightarrow> call (FormatAndMount m d p fstype options) (\<lambda>err.
          if err \<noteq> None then
            ret (None, Some (StatusError Internal
              ''Failed to format and mount device from (%q) to (%q) with fstype (%q) and options (%q): %v''))
          else ret (Some NodeStageVolumeResponse, None)))"
  by (auto simp: stage_mount_def stage_params_def Let_def split: option.split)

text \<open>The calls of a stage with the candidate devices \<open>ps\<close>, and whether it returns a response.\<close>

inductive stage_run ::
    "NodeStageVolumeRequest \<Rightarrow> string list \<Rightarrow> mount_event list \<Rightarrow> bool \<Rightarrow> bool" for req ps where
  stage_0: "stage_run req ps [] False"
| stage_1: "stage_run req ps [EVerify ps d e] False"
| stage_2: "d \<noteq> '''' \<Longrightarrow>
    stage_run req ps [EVerify ps d None, ENotMnt (ns_StagingTargetPath req) b e] False"
| stage_3: "d \<noteq> '''' \<Longrightarrow> IsNotExist e \<Longrightarrow>
    stage_run req ps [EVerify ps d None, ENotMnt (ns_StagingTargetPath req) b e,
      EMkdir (ns_StagingTargetPath req) 488 r] False"
| stage_mounted: "d \<noteq> '''' \<Longrightarrow> ns_VolumeCapability req = Some cap \<Longrightarrow>
    stage_params cap = Some (fstype, options) \<Longrightarrow> ok = (r = None) \<Longrightarrow>
    stage_run req ps [EVerify ps d None, ENotMnt (ns_StagingTargetPath req) True None,
      EFormat d (ns_StagingTargetPath req) fstype options r] ok"
| stage_created: "d \<noteq> '''' \<Longrightarrow> IsNotExist e \<Longrightarrow> ns_VolumeCapability req = Some cap \<Longrightarrow>
    stage_params cap = Some (fstype, options) \<Longrightarrow> ok = (r = None) \<Longrightarrow>
    stage_run req ps [EVerify ps d None, ENotMnt (ns_StagingTargetPath req) b e,
      EMkdir (ns_StagingTargetPath req) 488 None,
      EFormat d (ns_StagingTargetPath req) fstype options r] ok"

text \<open>The last part, after either way to reach it.\<close>

lemma stage_mount_log:
  "\<exists>r s' es. stage_mount (traced_mounter m) d p cap (s, l) = (r, s', l @ es) \<and>
     (es = [] \<and> \<not> succeeded r \<or>
      (\<exists>fstype options e. stage_params cap = Some (fstype, options) \<and>
         es = [EFormat d p fstype options e] \<and> (succeeded r \<longleftrightarrow> e = None)))"
proof (cases "stage_params cap")
  case None
  then show ?thesis by (simp add: stage_mount_eq)
next
  case (Some x)
  obtain fstype options where x: "x = (fstype, options)" by (rule prod.exhaust)
  obtain r s' where run: "FormatAndMount m d p fstype options s = (r, s')" by (metis prod.exhaust)
  show ?thesis
  proof (cases r)
    case (Ret e)
    with Some x run show ?thesis by (cases e) (simp_all add: stage_mount_eq call_recorded)
  next
    case Panic
    with Some x run show ?thesis by (simp add: stage_mount_eq call_recorded)
  qed
qed

text \<open>The end of a stage, after one of the two ways to a path that is not mounted.\<close>

lemma stage_mount_run:
  assumes "d \<noteq> ''''" and "ns_VolumeCapability req = Some cap" and t: "t = ns_StagingTargetPath req"
    and l: "l = [EVerify ps d None, ENotMnt t True None] \<or>
      (\<exists>b x. IsNotExist (Some x) \<and> l = [EVerify ps d None, ENotMnt t b (Some x), EMkdir t 488 None])"
  shows "\<exists>r s' log. stage_mount (traced_mounter m) d t cap (s, l) = (r, s', log) \<and> stage_run req ps log (succeeded r)"
proof -
  from stage_mount_log [of m d t cap s l] obtain r s' es where
    m: "stage_mount (traced_mounter m) d t cap (s, l) = (r, s', l @ es)"
    and es: "es = [] \<and> \<not> succeeded r \<or> (\<exists>fstype options e. stage_params cap = Some (fstype, options) \<and>
       es = [EFormat d t fstype options e] \<and> (succeeded r \<longleftrightarrow> e = None))"
    by (elim exE conjE)
  from l es have "stage_run req ps (l @ es) (succeeded r)"
    using assms(1,2) by (auto simp: t intro: stage_run.intros)
  with m show ?thesis by blast
qed

lemma NodeStageVolume_log:
  assumes "SplitZoneNameId (ns_VolumeId req) = (z, name, None)"
  shows "\<exists>r s' log. NodeStageVolume (traced_mounter m) req (s, []) = (r, s', log) \<and>
     stage_run req (GetDiskByIdPaths m name '''') log (succeeded r)"
proof (cases "ns_VolumeId req = '''' \<or> ns_StagingTargetPath req = '''' \<or> ns_VolumeCapability req = None")
  case True
  then show ?thesis by (auto simp: NodeStageVolume_def Let_def stage_0)
next
  case False
  then obtain cap where cap: "ns_VolumeCapability req = Some cap" by auto
  define ps where "ps = GetDiskByIdPaths m name ''''"
  define t where "t = ns_StagingTargetPath req"
  obtain r1 s1 where c1: "VerifyDevicePath m ps s = (r1, s1)" by (metis prod.exhaust)
  obtain r2 s2 where c2: "IsLikelyNotMountPoint m t s1 = (r2, s2)" by (metis prod.exhaust)
  obtain r3 s3 where c3: "MkdirAll m t 488 s2 = (r3, s3)" by (metis prod.exhaust)
  note run = NodeStageVolume_def Let_def call_recorded c1 c2 c3 ps_def [symmetric] t_def [symmetric]
  note rest = stage_mount_run [OF _ cap t_def]
  consider (p1) "r1 = Panic" | (e1) d x where "r1 = Ret (d, Some x)" | (none) "r1 = Ret ('''', None)"
    | (found) d where "r1 = Ret (d, None)" "d \<noteq> ''''"
    by (metis not_None_eq outcome.exhaust prod.exhaust)
  then show ?thesis
  proof cases
    case found
    consider (p2) "r2 = Panic" | (mnt) "r2 = Ret (False, None)" | (notMnt) "r2 = Ret (True, None)"
      | (e2) b x where "r2 = Ret (b, Some x)" "\<not> IsNotExist (Some x)"
      | (new) b x where "r2 = Ret (b, Some x)" "IsNotExist (Some x)"
      by (metis (full_types) not_None_eq outcome.exhaust prod.exhaust)
    then show ?thesis
    proof cases
      case notMnt
      have "NodeStageVolume (traced_mounter m) req (s, []) =
          stage_mount (traced_mounter m) d t cap (s2, [EVerify ps d None, ENotMnt t True None])"
        using False assms cap found notMnt by (simp add: run)
      with rest [OF found(2) disjI1 [OF refl], of m s2 ps] show ?thesis by (simp add: ps_def)
    next
      case new
      consider (p3) "r3 = Panic" | (e3) y where "r3 = Ret (Some y)" | (made) "r3 = Ret None"
        by (metis not_None_eq outcome.exhaust)
      then show ?thesis
      proof cases
        case made
        have "NodeStageVolume (traced_mounter m) req (s, []) = stage_mount (traced_mounter m) d t cap
            (s3, [EVerify ps d None, ENotMnt t b (Some x), EMkdir t 488 None])"
          using False assms cap found new made by (simp add: run)
        with rest [OF found(2), of _ ps m s3] new(2) show ?thesis by (metis ps_def)
      qed (use False assms cap found new in \<open>auto simp: run, auto simp: t_def ps_def intro: stage_run.intros\<close>)
    qed (use False assms cap found in \<open>auto simp: run, auto simp: t_def ps_def intro: stage_run.intros\<close>)
  qed (use False assms cap in \<open>auto simp: run, auto simp: t_def ps_def intro: stage_run.intros\<close>)
qed

text \<open>C17. Over every mounter, whatever it answers, NodeStageVolume formats or mounts at most once.
  It does so only for a device that the verification of the candidate paths returned, at the
  staging path, after that path was reported as no mount point (or as missing, and then
  created), with the file system and flags of the request (ext4 by default), never for a
  block volume; and it returns a response exactly when that call succeeded.\<close>

theorem NodeStageVolume_calls:
  "case NodeStageVolume (traced_mounter m) req (s, []) of (r, s', log) \<Rightarrow>
     (\<exists>z name. stage_run req (GetDiskByIdPaths m name '''') log (succeeded r) \<and>
        (log = [] \<or> SplitZoneNameId (ns_VolumeId req) = (z, name, None)))"
proof (cases rule: SplitZoneNameId_cases [of "ns_VolumeId req"])
  case (ok z n)
  with NodeStageVolume_log [OF ok(1), of m s] show ?thesis by fastforce
next
  case (bad x)
  then show ?thesis
    by (auto simp: NodeStageVolume_def Let_def stage_0 split: option.split)
qed


section \<open>The commands a stage runs on the machine\<close>

lemma udevadm_log:
  "\<exists>r s' udev. udevadmChangeToNewDrives (traced_os os) before (s, l) = (Ret r, s', l @ udev) \<and>
     fst ` set udev \<subseteq> {''udevadm''}"
proof -
  obtain sds e s1 where glob: "os_Glob os diskSDPattern s = ((sds, e), s1)" by (metis prod.exhaust)
  show ?thesis
  proof (cases "find (\<lambda>sd. sd \<notin> set before) sds")
    case None
    then show ?thesis
      by (simp add: udevadmChangeToNewDrives_def call_sys glob changeToNewDrives_find)
  next
    case (Some sd)
    obtain drive e' s2 where link: "os_EvalSymlinks os sd s1 = ((drive, e'), s2)"
      by (metis prod.exhaust)
    obtain out e3 s3 where exec: "os_exec os ''udevadm'' [''trigger'', ''--action=change'',
        ''--property-match=DEVNAME='' @ drive] s2 = ((out, e3), s3)"
      by (metis prod.exhaust)
    from Some glob link exec show ?thesis
      by (simp add: udevadmChangeToNewDrives_def udevadmChangeToDrive_def call_sys
            changeToNewDrives_find execRun_def)
  qed
qed

lemma first_existing_log:
  "\<exists>d e s'. first_existing (traced_os os) ps (s, l) = (Ret (d, e), s', l) \<and> (d = '''' \<or> d \<in> set ps)"
proof (induction ps arbitrary: s)
  case (Cons p ps)
  obtain st s1 where stat: "os_Stat os p s = (st, s1)" by (metis prod.exhaust)
  have exists_run: "pathExists (traced_os os) p (s, l) = (Ret (case st of Inr _ \<Rightarrow> (True, None)
      | Inl e \<Rightarrow> (False, if IsNotExist (Some e) then None else Some e)), s1, l)"
    by (simp add: pathExists_def call_sys stat split: sum.split)
  from Cons [of s1] show ?case
    by (cases st) (auto simp: call_def exists_run)
qed simp

lemma VerifyDevicePath_log:
  "\<exists>d e s' udev. GCE_VerifyDevicePath (traced_os os) ps (s, l) = (Ret (d, e), s', l @ udev) \<and>
     fst ` set udev \<subseteq> {''udevadm''} \<and> (d = '''' \<or> d \<in> set ps)"
proof -
  obtain before e s1 where glob: "os_Glob os diskSDPattern s = ((before, e), s1)"
    by (metis prod.exhaust)
  obtain r s2 udev where u: "udevadmChangeToNewDrives (traced_os os) before (s1, l) = (Ret r, s2, l @ udev)"
    "fst ` set udev \<subseteq> {''udevadm''}"
    using udevadm_log [of os before s1 l] by (elim exE conjE)
  obtain d e' s3 where f: "first_existing (traced_os os) ps (s2, l @ udev) = (Ret (d, e'), s3, l @ udev)"
    "d = '''' \<or> d \<in> set ps"
    using first_existing_log [of os ps s2 "l @ udev"] by (elim exE conjE)
  have "GCE_VerifyDevicePath (traced_os os) ps (s, l) = (Ret (d, e'), s3, l @ udev)"
    by (simp add: GCE_VerifyDevicePath_def call_sys glob call_def [of "udevadmChangeToNewDrives _ _"]
          u(1) f(1))
  with u(2) f(2) show ?thesis by blast
qed

lemma not_mount_point_log:
  "\<exists>b e s'. GCE_IsLikelyNotMountPoint (traced_os os) p (s, l) = (Ret (b, e), s', l)"
proof -
  obtain stat s1 where stat: "os_Stat os p s = (stat, s1)" by (metis prod.exhaust)
  obtain root s2 where root: "os_Lstat os (p @ ''/..'') s1 = (root, s2)" by (metis prod.exhaust)
  show ?thesis
    by (cases stat; cases root) (auto simp: GCE_IsLikelyNotMountPoint_def call_sys stat root)
qed

definition stage_commands ::
    "string list \<Rightarrow> NodeStageVolumeRequest \<Rightarrow> exec_event list \<Rightarrow> bool \<Rightarrow> bool" where
  "stage_commands ps req log ok \<longleftrightarrow>
     log = [] \<and> \<not> ok \<or>
     (\<exists>d cap fstype options. d \<in> set ps \<and> ns_VolumeCapability req = Some cap \<and>
        stage_params cap = Some (fstype, options) \<and>
        format_run d (ns_StagingTargetPath req) fstype options log ok)"

lemma stage_mount_commands:
  assumes "d \<in> set ps" and "ns_VolumeCapability req = Some cap"
  shows "\<exists>r s' es. stage_mount (GCEMounter (traced_os os)) d (ns_StagingTargetPath req) cap (s, l) =
      (r, s', l @ es) \<and> stage_commands ps req es (succeeded r)"
proof (cases "stage_params cap")
  case None
  then show ?thesis by (simp add: stage_mount_eq stage_commands_def)
next
  case (Some x)
  obtain fstype options where x: "x = (fstype, options)" by (rule prod.exhaust)
  from FormatAndMount_run [of os d "ns_StagingTargetPath req" fstype options s l] obtain es err s' where
    "GCE_FormatAndMount (traced_os os) d (ns_StagingTargetPath req) fstype options (s, l) =
       (Ret err, s', l @ es)"
    "format_run d (ns_StagingTargetPath req) fstype options es (err = None)" by blast
  with assms Some x show ?thesis
    by (cases err) (auto simp: stage_mount_eq call_def stage_commands_def)
qed

text \<open>A stage with valid arguments stops after udevadm, or goes on to the mount of a device.\<close>

lemma NodeStageVolume_reaches:
  fixes os :: "'s OS" and s :: 's
  assumes args: "ns_VolumeId req \<noteq> ''''" "ns_StagingTargetPath req \<noteq> ''''" "ns_VolumeCapability req = Some cap"
    and split: "SplitZoneNameId (ns_VolumeId req) = (z, name, None)"
    and paths: "GCE_GetDiskByIdPaths name '''' = ps"
  defines "run \<equiv> NodeStageVolume (GCEMounter (traced_os os)) req (s, [])"
  obtains (stop) r s' udev where "run = (r, s', udev)" "\<not> succeeded r" "fst ` set udev \<subseteq> {''udevadm''}"
    | (go) d s0 udev where "d \<in> set ps" "fst ` set udev \<subseteq> {''udevadm''}"
        "run = stage_mount (GCEMounter (traced_os os)) d (ns_StagingTargetPath req) cap (s0, udev)"
proof -
  define t where "t = ns_StagingTargetPath req"
  obtain d e s1 udev where v: "GCE_VerifyDevicePath (traced_os os) ps (s, []) = (Ret (d, e), s1, udev)"
    "fst ` set udev \<subseteq> {''udevadm''}" "d = '''' \<or> d \<in> set ps"
    using VerifyDevicePath_log [of os ps s "[]"] by auto
  obtain b e2 s2 where n: "GCE_IsLikelyNotMountPoint (traced_os os) t (s1, udev) = (Ret (b, e2), s2, udev)"
    using not_mount_point_log [of os t s1 udev] by (elim exE)
  obtain e3 s3 where k: "GCE_MkdirAll (traced_os os) t 488 (s2, udev) = (Ret e3, s3, udev)"
    by (cases "os_MkdirAll os t 488 s2") (simp add: GCE_MkdirAll_def sys_def)
  note steps = NodeStageVolume_def Let_def call_def [of "GCE_VerifyDevicePath _ _"]
    call_def [of "GCE_IsLikelyNotMountPoint _ _"] call_def [of "GCE_MkdirAll _ _ _"]
    v(1) n k paths t_def [symmetric]
  consider (a) r s' where "run = (r, s', udev)" "\<not> succeeded r"
    | (b) s0 where "d \<in> set ps" "run = stage_mount (GCEMounter (traced_os os)) d t cap (s0, udev)"
    unfolding run_def using args split v(3)
    by (cases e; cases "d = ''''"; cases e2; cases "IsNotExist e2"; cases e3; cases b) (auto simp: steps)
  then show thesis using v(2) stop go unfolding t_def by cases blast+
qed

text \<open>C11. End to end, on every operating system: staging a volume runs no other commands than
  udevadm, followed by nothing or by one run of FormatAndMount on one of the two by-id links
  of that volume, with the staging path as target. So the only device it can ever format is
  one of these two, and only when mounting it failed and lsblk reported it unformatted.\<close>

theorem NodeStageVolume_commands:
  "\<exists>r s' udev fmt. NodeStageVolume (GCEMounter (traced_os os)) req (s, []) = (r, s', udev @ fmt) \<and>
     fst ` set udev \<subseteq> {''udevadm''} \<and>
     stage_commands
       (case SplitZoneNameId (ns_VolumeId req) of (z, name, _) \<Rightarrow>
          [''/host/dev/disk/by-id/google-'' @ name,
           ''/host/dev/disk/by-id/scsi-0Google_PersistentDisk_'' @ name])
       req fmt (succeeded r)"
proof (cases "ns_VolumeId req = '''' \<or> ns_StagingTargetPath req = '''' \<or> ns_VolumeCapability req = None
    \<or> snd (snd (SplitZoneNameId (ns_VolumeId req))) \<noteq> None")
  case True
  then show ?thesis
    by (cases rule: SplitZoneNameId_cases [of "ns_VolumeId req"])
       (auto simp: NodeStageVolume_def Let_def stage_commands_def split: option.split)
next
  case False
  then obtain cap where args: "ns_VolumeId req \<noteq> ''''" "ns_StagingTargetPath req \<noteq> ''''"
    "ns_VolumeCapability req = Some cap" by auto
  from False obtain z name where split: "SplitZoneNameId (ns_VolumeId req) = (z, name, None)"
    by (cases rule: SplitZoneNameId_cases [of "ns_VolumeId req"]) auto
  define ps where "ps = [''/host/dev/disk/by-id/google-'' @ name,
      ''/host/dev/disk/by-id/scsi-0Google_PersistentDisk_'' @ name]"
  have paths: "GCE_GetDiskByIdPaths name '''' = ps"
    using SplitZoneNameId_Some(3) [OF split] by (simp add: ps_def by_id_paths)
  have "\<exists>r s' udev fmt. NodeStageVolume (GCEMounter (traced_os os)) req (s, []) = (r, s', udev @ fmt) \<and>
      fst ` set udev \<subseteq> {''udevadm''} \<and> stage_commands ps req fmt (succeeded r)"
  proof (cases rule: NodeStageVolume_reaches [OF args split paths, of os s])
    case (1 r s' udev)
    then show ?thesis by (intro exI [of _ r] exI [of _ s'] exI [of _ udev] exI [of _ "[] :: exec_event list"])
      (simp add: stage_commands_def)
  next
    case go: (2 d s0 udev)
    with stage_mount_commands [OF go(1) args(3), of os s0 udev] show ?thesis by metis
  qed
  then show ?thesis by (simp only: split ps_def prod.case)
qed

end
