(* ===== verification/Journey.thy ===== *)
theory Journey
  imports GceRefine Node
begin

text \<open>
  The life of a volume across the program's parts: controller, provider and API on one side, node
  service, mount manager and operating system on the other. What connects them is outside the
  repository: a disk attached to an instance under a device name appears there as a by-id link
  of that name.
\<close>

section \<open>The device links of a node\<close>

text \<open>The links udev makes, as the answers of stat: a google link for every attached device, and
  no link of either kind for another name.\<close>

definition links_of :: "(string \<Rightarrow> error + int) \<Rightarrow> attachment list \<Rightarrow> bool" where
  "links_of st ds \<longleftrightarrow> (\<forall>dev.
     if dev \<in> at_device ` set ds then \<exists>d. st (''/host/dev/disk/by-id/google-'' @ dev) = Inr d
     else not_there (st (''/host/dev/disk/by-id/google-'' @ dev)) \<and>
          not_there (st (''/host/dev/disk/by-id/scsi-0Google_PersistentDisk_'' @ dev)))"

lemma VerifyDevicePath_links:
  assumes stat: "\<And>q t. os_Stat os q t = (st q, t)" and links: "links_of st ds"
    and vol: "SplitZoneNameId vid = (z, n, None)"
  shows "\<exists>t'. GCE_VerifyDevicePath os (GCE_GetDiskByIdPaths n '''') t =
    (Ret (if n \<in> at_device ` set ds then ''/host/dev/disk/by-id/google-'' @ n else '''', None), t')"
proof -
  from links have "if n \<in> at_device ` set ds then \<exists>d. st (''/host/dev/disk/by-id/google-'' @ n) = Inr d
     else not_there (st (''/host/dev/disk/by-id/google-'' @ n)) \<and>
          not_there (st (''/host/dev/disk/by-id/scsi-0Google_PersistentDisk_'' @ n))"
    unfolding links_of_def by blast
  moreover obtain t' where "GCE_VerifyDevicePath os (GCE_GetDiskByIdPaths n '''') t =
    (Ret (case find (\<lambda>p. \<not> not_there (st p)) (GCE_GetDiskByIdPaths n '''') of
       None \<Rightarrow> ('''', None)
     | Some p \<Rightarrow> (case st p of
         Inr _ \<Rightarrow> (p, None)
       | Inl _ \<Rightarrow> ('''', Some (PlainError ''Error checking if path exists: %v'')))), t')"
    using VerifyDevicePath_stable [OF stat] by blast
  ultimately show ?thesis
    by (auto simp: GetDiskByIdPaths_of_volume [OF vol] not_there_def split: if_splits)
qed

section \<open>Staging needs the device\<close>

text \<open>A node whose staging path is not there yet, or there and not a mount point.\<close>

definition staging_ready :: "'s OS \<Rightarrow> string \<Rightarrow> bool" where
  "staging_ready os path \<longleftrightarrow> (\<forall>t. \<exists>e t'. GCE_IsLikelyNotMountPoint os path t = (Ret (True, e), t') \<and>
     (e = None \<or> IsNotExist e \<and> fst (os_MkdirAll os path 488 t') = None))"

lemma NodeStageVolume_links:
  assumes stat: "\<And>q t. os_Stat os q t = (st q, t)" and links: "links_of st ds"
    and vol: "SplitZoneNameId (ns_VolumeId req) = (z, n, None)"
    and req: "ns_VolumeId req \<noteq> ''''" "ns_StagingTargetPath req \<noteq> ''''" "ns_VolumeCapability req = Some cap"
    and ready: "staging_ready os (ns_StagingTargetPath req)"
  shows "if n \<in> at_device ` set ds
    then \<exists>t'. NodeStageVolume (GCEMounter os) req t =
      stage_mount (GCEMounter os) (''/host/dev/disk/by-id/google-'' @ n) (ns_StagingTargetPath req) cap t'
    else \<exists>m t'. NodeStageVolume (GCEMounter os) req t = (Ret (None, Some (StatusError Internal m)), t')"
proof -
  from VerifyDevicePath_links [OF stat links vol, of t] obtain t1 where verify:
    "GCE_VerifyDevicePath os (GCE_GetDiskByIdPaths n '''') t =
      (Ret (if n \<in> at_device ` set ds then ''/host/dev/disk/by-id/google-'' @ n else '''', None), t1)"
    by blast
  from ready obtain e t2 where
    mnt: "GCE_IsLikelyNotMountPoint os (ns_StagingTargetPath req) t1 = (Ret (True, e), t2)"
    and e: "e = None \<or> IsNotExist e \<and> fst (os_MkdirAll os (ns_StagingTargetPath req) 488 t2) = None"
    unfolding staging_ready_def by blast
  obtain r t3 where mk: "os_MkdirAll os (ns_StagingTargetPath req) 488 t2 = (r, t3)" by (metis prod.exhaust)
  from verify mnt e mk req vol show ?thesis
    by (cases e) (auto simp: NodeStageVolume_def Let_def call_def GCE_MkdirAll_def sys_def)
qed

section \<open>From CreateVolume to NodeStageVolume\<close>

lemma served_publish:
  "ControllerPublishVolume cp req s = (Ret (Some resp, None), s') \<Longrightarrow>
   serve_rpc cp (Publish req) s = (Ret OK, s')"
  by (simp add: call_def)

lemma served_create:
  "CreateVolume cp req s = (Ret (Some resp, None), s') \<Longrightarrow>
   serve_rpc cp (Create req) s = (Ret OK, s')"
  by (simp add: call_def)

text \<open>A publish that is answered OK leaves the device on the node.\<close>

lemma publish_attaches:
  assumes api: "documented False svc p view" and quiet: "view s = (w, Map.empty)"
    and ok: "serve_rpc (cloudCompute (gce_cloud svc p z0)) (Publish req) s = (Ret OK, s')"
  shows "\<exists>z n ds. SplitZoneNameId (cp_VolumeId req) = (z, n, None) \<and>
    devices (fst (view s')) z (cp_NodeId req) = Some ds \<and> n \<in> at_device ` set ds"
proof -
  let ?src = "disk_source (svc_BasePath svc) p"
  obtain k eff where sp: "gce_spec ?src z0 (Publish req) w = (k, eff)" by (rule prod.exhaust)
  from serve_one [OF api quiet, of z0 "Publish req"] sp ok have k: "k = OK"
    and after: "view s' = (after eff w, Map.empty)" by simp_all
  show ?thesis
  proof (cases rule: locate_cases [of "cp_VolumeId req"])
    case (ok z n)
    from sp k ok(2) obtain ds where ds: "devices w z (cp_NodeId req) = Some ds"
      and alt: "(\<exists>a. find (\<lambda>a. at_device a = n) ds = Some a \<and> eff = None) \<or>
        (\<exists>m. eff = Some (EAttach z (cp_NodeId req) (Attachment n m (?src z n))))"
      by (auto simp: publish_spec_def split: if_splits option.splits)
    from alt show ?thesis
    proof (elim disjE exE conjE)
      fix a
      assume "find (\<lambda>a. at_device a = n) ds = Some a" "eff = None"
      with after ds ok show ?thesis by (auto simp: after_def find_Some_iff)
    next
      fix m
      assume "eff = Some (EAttach z (cp_NodeId req) (Attachment n m (?src z n)))"
      with after ds ok show ?thesis by (auto simp: after_def update_conv')
    qed
  next
    case (bad m)
    with sp k show ?thesis by (auto split: if_splits)
  qed
qed

text \<open>From CreateVolume to the node, over an API that behaves as documented: when a create
  and then a publish of the returned identifier succeed, staging that identifier on the node it
  was published to finds the device (given the by-id links of the node's attached devices) and
  goes on to format and mount exactly the google link of the volume's name. On a node where
  the device is not attached the same staging fails with Internal and mounts nothing.\<close>

lemma volume_journey:
  assumes api: "documented False svc p view" and quiet: "view s0 = (w, Map.empty)"
    and create: "CreateVolume (cloudCompute (gce_cloud svc p z0)) creq s0 = (Ret (Some resp, None), s1)"
    and publish: "ControllerPublishVolume (cloudCompute (gce_cloud svc p z0)) preq s1 = (Ret (Some presp, None), s2)"
    and id: "cp_VolumeId preq = vol_Id (cvr_Volume resp)" "ns_VolumeId sreq = vol_Id (cvr_Volume resp)"
    and stage: "ns_StagingTargetPath sreq \<noteq> ''''" "ns_VolumeCapability sreq = Some cap"
    and stat: "\<And>q t. os_Stat os q t = (st q, t)" and ready: "staging_ready os (ns_StagingTargetPath sreq)"
  shows "\<exists>z ds. SplitZoneNameId (vol_Id (cvr_Volume resp)) = (z, cv_Name creq, None) \<and>
    devices (fst (view s2)) z (cp_NodeId preq) = Some ds \<and> cv_Name creq \<in> at_device ` set ds \<and>
    (links_of st ds \<longrightarrow> (\<exists>t'. NodeStageVolume (GCEMounter os) sreq t =
       stage_mount (GCEMounter os) (''/host/dev/disk/by-id/google-'' @ cv_Name creq)
         (ns_StagingTargetPath sreq) cap t')) \<and>
    (\<forall>ds'. links_of st ds' \<and> cv_Name creq \<notin> at_device ` set ds' \<longrightarrow>
       (\<exists>m t'. NodeStageVolume (GCEMounter os) sreq t = (Ret (None, Some (StatusError Internal m)), t')))"
proof -
  from serve_one [OF api quiet, of z0 "Create creq"] served_create [OF create]
  obtain w1 where s1: "view s1 = (w1, Map.empty)" by auto
  from publish_attaches [OF api s1 served_publish [OF publish]] obtain z n ds where
    vol: "SplitZoneNameId (vol_Id (cvr_Volume resp)) = (z, n, None)"
    and dev: "devices (fst (view s2)) z (cp_NodeId preq) = Some ds" "n \<in> at_device ` set ds"
    unfolding id(1) by blast
  from create_succeeded [OF create] obtain z' where name: "cv_Name creq \<noteq> ''''"
    and vid: "vol_Id (cvr_Volume resp) = CombineVolumeId z' (cv_Name creq)" by blast
  from vol vid have n: "n = cv_Name creq"
    by (metis combine_volume_id_parts)
  have vol': "SplitZoneNameId (ns_VolumeId sreq) = (z, n, None)" and "ns_VolumeId sreq \<noteq> ''''"
    using vol vid by (simp_all add: id(2) CombineVolumeId_def)
  note staged = NodeStageVolume_links [OF stat _ this stage ready, where t = t]
  have found: "\<exists>t'. NodeStageVolume (GCEMounter os) sreq t =
       stage_mount (GCEMounter os) (''/host/dev/disk/by-id/google-'' @ cv_Name creq)
         (ns_StagingTargetPath sreq) cap t'" if "links_of st ds"
    using staged [OF that] dev(2) n by simp
  have missing: "\<exists>m t'. NodeStageVolume (GCEMounter os) sreq t = (Ret (None, Some (StatusError Internal m)), t')"
    if "links_of st ds' \<and> cv_Name creq \<notin> at_device ` set ds'" for ds'
    using staged [of ds'] that n by simp
  from vol dev found missing show ?thesis
    unfolding n by (intro exI [of _ z] exI [of _ ds]) blast
qed

text \<open>A sample: a volume is created and published in the sample cloud.\<close>

definition sample_created :: "(CreateVolumeResponse option \<times> error option) outcome \<times> toy" where
  "sample_created =
     CreateVolume (cloudCompute (gce_cloud toy_service ''p'' ''us-a'')) (create_req None) two_nodes"

definition sample_published ::
    "(ControllerPublishVolumeResponse option \<times> error option) outcome \<times> toy" where
  "sample_published =
     ControllerPublishVolume (cloudCompute (gce_cloud toy_service ''p'' ''us-a'')) (publish_req False)
       (snd sample_created)"

lemma sample_created_reply:
  "fst sample_created = Ret (Some (create_response (getRequestCapacity None) ''us-a'' ''vol''), None)"
  by code_simp

lemma sample_published_reply:
  "fst sample_published = Ret (Some \<lparr>cpr_PublishInfo = None\<rparr>, None)"
  by code_simp

end
