(* ===== verification/Machine.thy ===== *)
theory Machine
  imports MounterProps
begin

text \<open>
  A node as its tools are documented: the commands mount, umount, fsck, lsblk and mkfs, the
  system calls stat, mkdir and rmdir, and the by-id links of udev, seen by the mount manager of
  pkg/mount-manager. The machine is not code of the repository: it stays the record \<open>OS\<close> over an
  arbitrary state, and \<open>documented_machine\<close> names the laws the driver relies on, over an
  abstract view of that state. With \<open>faults\<close> a command or call may also fail for a reason of
  its own and then changes nothing.
\<close>

section \<open>The view\<close>

text \<open>A mount shows the file system of a volume or a folder of the machine that was bound, and
  may be read-only. The disks by volume name, each with its format (empty when it has none);
  the directories, each with whether it has entries; the mounts of each path, the last one
  first.\<close>

datatype content = Volume string | Folder string

type_synonym mount = "content \<times> bool"

record machine =
  m_disks :: "string \<rightharpoonup> string"
  m_dirs :: "string \<rightharpoonup> bool"
  m_mounts :: "string \<Rightarrow> mount list"

definition shown :: "machine \<Rightarrow> string \<Rightarrow> mount" where
  "shown w p = (case m_mounts w p of [] \<Rightarrow> (Folder p, False) | x # _ \<Rightarrow> x)"

fun is_volume :: "content \<Rightarrow> bool" where
  "is_volume (Volume n) = True"
| "is_volume (Folder p) = False"

definition push_mount :: "string \<Rightarrow> mount \<Rightarrow> machine \<Rightarrow> machine" where
  "push_mount p x w = w\<lparr>m_mounts := (m_mounts w)(p := x # m_mounts w p)\<rparr>"

definition pop_mount :: "string \<Rightarrow> machine \<Rightarrow> machine" where
  "pop_mount p w = w\<lparr>m_mounts := (m_mounts w)(p := tl (m_mounts w p))\<rparr>"

definition make_dir :: "string \<Rightarrow> machine \<Rightarrow> machine" where
  "make_dir p w = (if m_dirs w p = None then w\<lparr>m_dirs := (m_dirs w)(p \<mapsto> False)\<rparr> else w)"

definition format_disk :: "string \<Rightarrow> string \<Rightarrow> machine \<Rightarrow> machine" where
  "format_disk n fs w = w\<lparr>m_disks := (m_disks w)(n \<mapsto> fs)\<rparr>"

text \<open>The two links of a volume's device.\<close>

definition google_link :: "string \<Rightarrow> string" where
  "google_link n = ''/host/dev/disk/by-id/google-'' @ n"

definition scsi_link :: "string \<Rightarrow> string" where
  "scsi_link n = ''/host/dev/disk/by-id/scsi-0Google_PersistentDisk_'' @ n"

definition volume_of_link :: "string \<Rightarrow> string option" where
  "volume_of_link p =
     (if prefix (google_link '''') p then Some (drop (length (google_link '''')) p)
      else if prefix (scsi_link '''') p then Some (drop (length (scsi_link '''')) p)
      else None)"

text \<open>What the machine supports: options of mount, formats a file system driver can read, and
  file systems that can be made.\<close>

record support =
  known_option :: "string \<Rightarrow> bool"
  can_mount :: "string \<Rightarrow> string \<Rightarrow> bool"
  can_make :: "string \<Rightarrow> bool"

text \<open>The effect of a mount, or None when it is refused. A bind mount shows what its source
  shows; it is read-only when that is or when it is asked for.\<close>

definition mount_result ::
    "support \<Rightarrow> string \<Rightarrow> string \<Rightarrow> string \<Rightarrow> string list \<Rightarrow> machine \<Rightarrow> machine option" where
  "mount_result kit src tgt fstype opts w =
     (if \<not> list_all (known_option kit) opts \<or> m_dirs w tgt = None then None
      else if ''bind'' \<in> set opts then
        (if volume_of_link src \<noteq> None \<or> m_dirs w src = None then None
         else Some (push_mount tgt (fst (shown w src), snd (shown w src) \<or> ''ro'' \<in> set opts) w))
      else (case volume_of_link src of None \<Rightarrow> None
        | Some n \<Rightarrow> (case m_disks w n of None \<Rightarrow> None
          | Some f \<Rightarrow>
              if f \<noteq> '''' \<and> (fstype = '''' \<or> can_mount kit fstype f)
              then Some (push_mount tgt (Volume n, ''ro'' \<in> set opts) w) else None)))"

section \<open>The documented answers\<close>

text \<open>A failure of the machine: an error that is not a gRPC status, and nothing changed.\<close>

definition fails :: "machine \<Rightarrow> error option \<Rightarrow> machine \<Rightarrow> bool" where
  "fails w err w' \<longleftrightarrow> w' = w \<and> (\<exists>e. err = Some e \<and> error_code e = UnknownCode)"

definition does :: "(machine \<Rightarrow> machine option) \<Rightarrow> machine \<Rightarrow> error option \<Rightarrow> machine \<Rightarrow> bool" where
  "does change w err w' \<longleftrightarrow>
     (case change w of None \<Rightarrow> fails w err w' | Some w1 \<Rightarrow> err = None \<and> w' = w1)"

definition umount_result :: "string \<Rightarrow> machine \<Rightarrow> machine option" where
  "umount_result p w = (if m_mounts w p = [] then None else Some (pop_mount p w))"

text \<open>Only a directory that is not mounted on and has no entries can be removed.\<close>

definition rmdir_result :: "string \<Rightarrow> machine \<Rightarrow> machine option" where
  "rmdir_result p w =
     (if m_dirs w p = Some False \<and> m_mounts w p = [] then Some (w\<lparr>m_dirs := (m_dirs w)(p := None)\<rparr>)
      else None)"

text \<open>mkfs with the option -F overwrites what is there; without it a formatted disk is refused.\<close>

definition mkfs_result :: "support \<Rightarrow> string \<Rightarrow> bool \<Rightarrow> string \<Rightarrow> machine \<Rightarrow> machine option" where
  "mkfs_result kit fs force n w =
     (if can_make kit fs \<and> m_disks w n \<noteq> None \<and> (force \<or> m_disks w n = Some '''')
      then Some (format_disk n fs w) else None)"

text \<open>The device number of a path: that of the root file system unless a volume is mounted
  there.\<close>

definition stat_law :: "int \<Rightarrow> string \<Rightarrow> machine \<Rightarrow> error + int \<Rightarrow> machine \<Rightarrow> bool" where
  "stat_law root p w r w' \<longleftrightarrow> w' = w \<and>
     (if m_dirs w p = None then not_there r
      else \<exists>d. r = Inr d \<and> (d = root \<longleftrightarrow> \<not> is_volume (fst (shown w p))))"

definition link_law :: "string \<Rightarrow> machine \<Rightarrow> error + int \<Rightarrow> machine \<Rightarrow> bool" where
  "link_law n w r w' \<longleftrightarrow> w' = w \<and> (if m_disks w n = None then not_there r else \<exists>d. r = Inr d)"

text \<open>lsblk prints nothing, or an empty line, exactly for a disk without a format.\<close>

definition lsblk_law :: "string \<Rightarrow> machine \<Rightarrow> string \<times> error option \<Rightarrow> machine \<Rightarrow> bool" where
  "lsblk_law n w r w' \<longleftrightarrow> w' = w \<and>
     (case m_disks w n of
        None \<Rightarrow> fails w (snd r) w'
      | Some f \<Rightarrow> snd r = None \<and> (unformatted_output (fst r) \<longleftrightarrow> f = ''''))"

section \<open>The contract of the machine\<close>

definition obeys ::
    "bool \<Rightarrow> ('s \<Rightarrow> machine) \<Rightarrow> ('s \<Rightarrow> 'a \<times> 's) \<Rightarrow> (machine \<Rightarrow> 'a \<Rightarrow> machine \<Rightarrow> bool) \<Rightarrow>
     ('a \<Rightarrow> error option) \<Rightarrow> bool" where
  "obeys faults view request law err \<longleftrightarrow>
     (\<forall>s. case request s of (r, s') \<Rightarrow> law (view s) r (view s') \<or>
        faults \<and> fails (view s) (err r) (view s') \<and> \<not> IsNotExist (err r))"

definition sum_error :: "error + 'a \<Rightarrow> error option" where
  "sum_error r = (case r of Inl e \<Rightarrow> Some e | Inr _ \<Rightarrow> None)"

text \<open>\<open>plain\<close>: the directories the driver is given. They are absolute paths on the root file
  system, none of them below another or below a mount point.\<close>

definition documented_machine ::
    "bool \<Rightarrow> 's OS \<Rightarrow> ('s \<Rightarrow> machine) \<Rightarrow> (string \<Rightarrow> bool) \<Rightarrow> support \<Rightarrow> int \<Rightarrow> bool" where
  "documented_machine faults os view plain kit root \<longleftrightarrow>
     (\<forall>p. plain p \<longrightarrow> p \<noteq> '''' \<and> hd p = CHR ''/'' \<and> volume_of_link p = None) \<and>
     (\<forall>p. plain p \<longrightarrow> obeys faults view (os_Stat os p) (stat_law root p) sum_error) \<and>
     (\<forall>p. plain p \<longrightarrow>
        obeys faults view (os_Lstat os (p @ ''/..'')) (\<lambda>w r w'. w' = w \<and> r = Inr root) sum_error) \<and>
     (\<forall>n. \<forall>dev \<in> {google_link n, scsi_link n}.
        obeys faults view (os_Stat os dev) (link_law n) sum_error \<and>
        obeys faults view (os_exec os ''fsck'' [''-a'', dev])
          (\<lambda>w r w'. w' = w \<and> snd r \<noteq> Some (ExitError 4)) snd \<and>
        obeys faults view (os_exec os ''lsblk'' [''-n'', ''-o'', ''FSTYPE'', dev]) (lsblk_law n) snd \<and>
        (\<forall>fs. obeys faults view (os_exec os (''mkfs.'' @ fs) [dev])
           (\<lambda>w r. does (mkfs_result kit fs False n) w (snd r)) snd) \<and>
        (\<forall>fs \<in> {''ext3'', ''ext4''}. obeys faults view (os_exec os (''mkfs.'' @ fs) [''-F'', dev])
           (\<lambda>w r. does (mkfs_result kit fs True n) w (snd r)) snd)) \<and>
     (\<forall>p perm. plain p \<longrightarrow>
        obeys faults view (os_MkdirAll os p perm) (does (\<lambda>w. Some (make_dir p w))) (\<lambda>r. r)) \<and>
     (\<forall>p. plain p \<longrightarrow> obeys faults view (os_Remove os p) (does (rmdir_result p)) (\<lambda>r. r)) \<and>
     (\<forall>args src tgt fs opts. parse_mount_args args = Some (src, tgt, fs, opts) \<longrightarrow>
        plain tgt \<longrightarrow> plain src \<or> volume_of_link src \<noteq> None \<longrightarrow>
        obeys faults view (os_exec os ''mount'' args)
          (\<lambda>w r. does (mount_result kit src tgt fs opts) w (snd r)) snd) \<and>
     (\<forall>p. plain p \<longrightarrow>
        obeys faults view (os_exec os ''umount'' [p]) (\<lambda>w r. does (umount_result p) w (snd r)) snd) \<and>
     (\<forall>args. obeys faults view (os_exec os ''udevadm'' args) (\<lambda>w r w'. w' = w) snd) \<and>
     (\<forall>g. obeys faults view (os_Glob os g) (\<lambda>w r w'. w' = w) snd) \<and>
     (\<forall>p. obeys faults view (os_EvalSymlinks os p) (\<lambda>w r w'. w' = w) snd)"

lemma documented_machineD:
  assumes "documented_machine faults os view plain kit root"
  shows "plain p \<Longrightarrow> p \<noteq> '''' \<and> hd p = CHR ''/'' \<and> volume_of_link p = None"
    and "plain p \<Longrightarrow> obeys faults view (os_Stat os p) (stat_law root p) sum_error"
    and "plain p \<Longrightarrow>
      obeys faults view (os_Lstat os (p @ ''/..'')) (\<lambda>w r w'. w' = w \<and> r = Inr root) sum_error"
    and "dev \<in> {google_link n, scsi_link n} \<Longrightarrow> obeys faults view (os_Stat os dev) (link_law n) sum_error"
    and "dev \<in> {google_link n, scsi_link n} \<Longrightarrow> obeys faults view (os_exec os ''fsck'' [''-a'', dev])
      (\<lambda>w r w'. w' = w \<and> snd r \<noteq> Some (ExitError 4)) snd"
    and "dev \<in> {google_link n, scsi_link n} \<Longrightarrow>
      obeys faults view (os_exec os ''lsblk'' [''-n'', ''-o'', ''FSTYPE'', dev]) (lsblk_law n) snd"
    and "dev \<in> {google_link n, scsi_link n} \<Longrightarrow> obeys faults view (os_exec os (''mkfs.'' @ fs) [dev])
      (\<lambda>w r. does (mkfs_result kit fs False n) w (snd r)) snd"
    and "dev \<in> {google_link n, scsi_link n} \<Longrightarrow> fs \<in> {''ext3'', ''ext4''} \<Longrightarrow>
      obeys faults view (os_exec os (''mkfs.'' @ fs) [''-F'', dev])
        (\<lambda>w r. does (mkfs_result kit fs True n) w (snd r)) snd"
    and "plain p \<Longrightarrow> obeys faults view (os_MkdirAll os p perm) (does (\<lambda>w. Some (make_dir p w))) (\<lambda>r. r)"
    and "plain p \<Longrightarrow> obeys faults view (os_Remove os p) (does (rmdir_result p)) (\<lambda>r. r)"
    and "parse_mount_args args = Some (src, tgt, fs, opts) \<Longrightarrow> plain tgt \<Longrightarrow>
      plain src \<or> volume_of_link src \<noteq> None \<Longrightarrow>
      obeys faults view (os_exec os ''mount'' args)
        (\<lambda>w r. does (mount_result kit src tgt fs opts) w (snd r)) snd"
    and "plain p \<Longrightarrow>
      obeys faults view (os_exec os ''umount'' [p]) (\<lambda>w r. does (umount_result p) w (snd r)) snd"
    and "obeys faults view (os_exec os ''udevadm'' args) (\<lambda>w r w'. w' = w) snd"
    and "obeys faults view (os_Glob os g) (\<lambda>w r w'. w' = w) snd"
    and "obeys faults view (os_EvalSymlinks os q) (\<lambda>w r w'. w' = w) snd"
  using assms unfolding documented_machine_def by blast+

section \<open>A machine that keeps the contract\<close>

text \<open>For the witnesses: it knows the options of the driver, makes and mounts ext3, ext4 and xfs,
  and takes every absolute path that is not a link for a directory it can be given.\<close>

definition toy_support :: support where
  "toy_support =
     \<lparr> known_option = (\<lambda>opt. opt \<in> set [''bind'', ''ro'', ''defaults'', ''noatime'']),
       can_mount = (\<lambda>fs f. fs = f \<or> fs = ''ext4'' \<and> f = ''ext3''),
       can_make = (\<lambda>fs. fs \<in> set [''ext3'', ''ext4'', ''xfs'']) \<rparr>"

definition toy_plain :: "string \<Rightarrow> bool" where
  "toy_plain p \<longleftrightarrow> p \<noteq> '''' \<and> hd p = CHR ''/'' \<and> volume_of_link p = None"

definition toy_does :: "(machine \<Rightarrow> machine option) \<Rightarrow> machine \<Rightarrow> error option \<times> machine" where
  "toy_does change w =
     (case change w of None \<Rightarrow> (Some (ExitError 32), w) | Some w1 \<Rightarrow> (None, w1))"

definition toy_run :: "(machine \<Rightarrow> machine option) \<Rightarrow> machine \<Rightarrow> (string \<times> error option) \<times> machine" where
  "toy_run change w = (case toy_does change w of (err, w') \<Rightarrow> (('''', err), w'))"

definition toy_exec :: "string \<Rightarrow> string list \<Rightarrow> machine \<Rightarrow> (string \<times> error option) \<times> machine" where
  "toy_exec cmd args w =
     (if cmd = ''mount'' then (case parse_mount_args args of
        None \<Rightarrow> (('''', Some (ExitError 1)), w)
      | Some (src, tgt, fs, opts) \<Rightarrow> toy_run (mount_result toy_support src tgt fs opts) w)
      else if cmd = ''umount'' then toy_run (umount_result (last args)) w
      else if cmd = ''lsblk'' then (case volume_of_link (last args) of
        None \<Rightarrow> (('''', Some (ExitError 32)), w)
      | Some n \<Rightarrow> (case m_disks w n of
          None \<Rightarrow> (('''', Some (ExitError 32)), w)
        | Some f \<Rightarrow> ((f @ [newline], None), w)))
      else if prefix ''mkfs.'' cmd then (case volume_of_link (last args) of
        None \<Rightarrow> (('''', Some (ExitError 1)), w)
      | Some n \<Rightarrow> toy_run (mkfs_result toy_support (drop 5 cmd) (hd args = ''-F'') n) w)
      else (('''', None), w))"

definition toy_stat :: "string \<Rightarrow> machine \<Rightarrow> error + int" where
  "toy_stat p w =
     (case volume_of_link p of
        Some n \<Rightarrow> (if m_disks w n = None then Inl (NotExistError '''') else Inr 0)
      | None \<Rightarrow> (if m_dirs w p = None then Inl (NotExistError '''')
                 else Inr (if is_volume (fst (shown w p)) then 1 else 0)))"

definition toy_os :: "machine OS" where
  "toy_os =
     \<lparr> os_exec = toy_exec,
       os_Stat = (\<lambda>p w. (toy_stat p w, w)),
       os_Lstat = (\<lambda>p w. (Inr 0, w)),
       os_MkdirAll = (\<lambda>p perm w. (None, make_dir p w)),
       os_Remove = (\<lambda>p. toy_does (rmdir_result p)),
       os_Glob = (\<lambda>g w. (([], None), w)),
       os_EvalSymlinks = (\<lambda>p w. ((p, None), w)) \<rparr>"

lemma volume_of_links [simp]:
  "volume_of_link (google_link n) = Some n" "volume_of_link (scsi_link n) = Some n"
  by (simp_all add: volume_of_link_def google_link_def scsi_link_def)

lemma links_not_F [simp]: "google_link n \<noteq> CHR ''-'' # x" "scsi_link n \<noteq> CHR ''-'' # x"
  by (simp_all add: google_link_def scsi_link_def)

lemma does_total [simp]: "does (\<lambda>w. Some (f w)) w err w' \<longleftrightarrow> err = None \<and> w' = f w"
  by (simp add: does_def)

lemma obeysI: "(\<And>s. law (view s) (fst (request s)) (view (snd (request s)))) \<Longrightarrow> obeys faults view request law err"
  by (auto simp: obeys_def case_prod_beta)

lemma toy_does_does: "does change w (fst (toy_does change w)) (snd (toy_does change w))"
  by (auto simp: does_def toy_does_def fails_def split: option.split)

lemma toy_run_does: "does change w (snd (fst (toy_run change w))) (snd (toy_run change w))"
  using toy_does_does [of change w] by (simp add: toy_run_def case_prod_beta)

lemma toy_machine_documented: "documented_machine faults toy_os (\<lambda>w. w) toy_plain toy_support 0"
  unfolding documented_machine_def toy_os_def OS.simps
  by (intro conjI allI impI ballI obeysI)
     (auto simp: toy_plain_def stat_law_def link_law_def toy_stat_def not_there_def toy_exec_def lsblk_law_def
        unformatted_output_def fails_def toy_does_does toy_run_does split: option.splits)

end
