(* ===== verification/NodeRefine.thy ===== *)
theory NodeRefine
  imports Node Machine
begin

text \<open>
  The node service over GCEMounter and a machine that behaves as documented: each of the four
  calls that change the machine refines an abstract specification over mounts, directories and
  the formats of disks, with and without faults of the machine.
\<close>

section \<open>The calls and their specification\<close>

datatype node_rpc =
    Stage NodeStageVolumeRequest
  | Unstage NodeUnstageVolumeRequest
  | Node_publish NodePublishVolumeRequest
  | Node_unpublish NodeUnpublishVolumeRequest

fun serve_node :: "'s Mounter \<Rightarrow> node_rpc \<Rightarrow> ('s, code) go" where
  "serve_node m (Stage req) = call (NodeStageVolume m req) (\<lambda>r. ret (grpc_code r))"
| "serve_node m (Unstage req) = call (NodeUnstageVolume m req) (\<lambda>r. ret (grpc_code r))"
| "serve_node m (Node_publish req) = call (NodePublishVolume m req) (\<lambda>r. ret (grpc_code r))"
| "serve_node m (Node_unpublish req) = call (NodeUnpublishVolume m req) (\<lambda>r. ret (grpc_code r))"

text \<open>The options as mount reads them.\<close>

definition seen_options :: "string list \<Rightarrow> string list" where
  "seen_options opts = (if opts = [] then [] else Split (Join opts '','') (CHR '',''))"

text \<open>A disk is mounted as it is when that is possible; a disk without a format is formatted
  first.\<close>

definition mount_volume ::
    "support \<Rightarrow> string \<Rightarrow> string \<Rightarrow> string \<Rightarrow> string list \<Rightarrow> machine \<Rightarrow> code \<times> machine" where
  "mount_volume kit n p fs opts w =
     (case mount_result kit (google_link n) p fs opts w of
        Some w1 \<Rightarrow> (OK, w1)
      | None \<Rightarrow>
          if m_disks w n = Some '''' \<and> can_make kit fs then
            (case mount_result kit (google_link n) p fs opts (format_disk n fs w) of
               Some w1 \<Rightarrow> (OK, w1)
             | None \<Rightarrow> (Internal, format_disk n fs w))
          else (Internal, w))"

definition mounted_on :: "machine \<Rightarrow> string \<Rightarrow> bool" where
  "mounted_on w p \<longleftrightarrow> m_dirs w p \<noteq> None \<and> is_volume (fst (shown w p))"

definition unmount :: "string \<Rightarrow> machine \<Rightarrow> code \<times> machine" where
  "unmount p w = (case umount_result p w of None \<Rightarrow> (Internal, w) | Some w1 \<Rightarrow> (OK, w1))"

fun node_spec :: "support \<Rightarrow> node_rpc \<Rightarrow> machine \<Rightarrow> code \<times> machine" where
  "node_spec kit (Stage req) w =
     (let p = ns_StagingTargetPath req in
      if ns_VolumeId req = '''' \<or> p = '''' then (InvalidArgument, w)
      else case ns_VolumeCapability req of None \<Rightarrow> (InvalidArgument, w) | Some cap \<Rightarrow>
      (case SplitZoneNameId (ns_VolumeId req) of
         (_, _, Some _) \<Rightarrow> (UnknownCode, w)
       | (_, n, None) \<Rightarrow>
           if m_disks w n = None then (Internal, w)
           else if mounted_on w p then (UnknownCode, w)
           else (case stage_params cap of
              None \<Rightarrow> (Unimplemented, make_dir p w)
            | Some (fs, opts) \<Rightarrow>
                mount_volume kit n p fs (seen_options (opts @ [''defaults''])) (make_dir p w))))"
| "node_spec kit (Unstage req) w =
     (if nus_VolumeId req = '''' \<or> nus_StagingTargetPath req = '''' then (InvalidArgument, w)
      else unmount (nus_StagingTargetPath req) w)"
| "node_spec kit (Node_publish req) w =
     (let p = np_TargetPath req in
      if np_VolumeId req = '''' \<or> np_StagingTargetPath req = '''' \<or> p = '''' \<or>
         np_VolumeCapability req = None then (InvalidArgument, w)
      else if mounted_on w p then (Internal, w)
      else (case mount_result kit (np_StagingTargetPath req) p ''ext4'' (bind_options (np_Readonly req))
                (make_dir p w) of
          Some w1 \<Rightarrow> (OK, w1)
        | None \<Rightarrow> (Internal, case rmdir_result p (make_dir p w) of None \<Rightarrow> make_dir p w | Some w1 \<Rightarrow> w1)))"
| "node_spec kit (Node_unpublish req) w =
     (if nu_VolumeId req = '''' \<or> nu_TargetPath req = '''' then (InvalidArgument, w)
      else unmount (nu_TargetPath req) w)"

text \<open>What is mounted on is there.\<close>

definition machine_inv :: "machine \<Rightarrow> bool" where
  "machine_inv w \<longleftrightarrow> (\<forall>p. m_mounts w p \<noteq> [] \<longrightarrow> m_dirs w p \<noteq> None)"

text \<open>With faults a call may fail instead. Then no mount has changed and no disk has lost its
  format.\<close>

definition formats_kept :: "machine \<Rightarrow> machine \<Rightarrow> bool" where
  "formats_kept w w' \<longleftrightarrow> (\<forall>n f. m_disks w n = Some f \<longrightarrow> f \<noteq> '''' \<longrightarrow> m_disks w' n = Some f)"

definition node_allowed :: "bool \<Rightarrow> code \<times> machine \<Rightarrow> machine \<Rightarrow> code \<Rightarrow> machine \<Rightarrow> bool" where
  "node_allowed faults spec w c w' \<longleftrightarrow>
     (c, w') = spec \<or>
     faults \<and> c \<noteq> OK \<and> m_mounts w' = m_mounts w \<and> formats_kept w w' \<and> machine_inv w'"

fun node_paths :: "node_rpc \<Rightarrow> string list" where
  "node_paths (Stage req) = [ns_StagingTargetPath req]"
| "node_paths (Unstage req) = [nus_StagingTargetPath req]"
| "node_paths (Node_publish req) = [np_StagingTargetPath req, np_TargetPath req]"
| "node_paths (Node_unpublish req) = [nu_TargetPath req]"

definition given_paths :: "(string \<Rightarrow> bool) \<Rightarrow> node_rpc \<Rightarrow> bool" where
  "given_paths plain r \<longleftrightarrow> (\<forall>p \<in> set (node_paths r). p \<noteq> '''' \<longrightarrow> plain p)"

section \<open>Calls of the machine\<close>

abbreviation at_machine :: "('s \<Rightarrow> machine) \<Rightarrow> machine \<Rightarrow> 's \<Rightarrow> bool" where
  "at_machine view w \<equiv> \<lambda>s. view s = w"

abbreviation fault :: "bool \<Rightarrow> error option \<Rightarrow> bool" where
  "fault faults err \<equiv> faults \<and> (\<exists>e. err = Some e \<and> error_code e = UnknownCode \<and> \<not> IsNotExist (Some e))"

lemma call_obeys:
  assumes "obeys faults view request law err"
    and "\<And>r w'. law w r w' \<Longrightarrow> triple (at_machine view w') (k r) Q"
    and "\<And>r. fault faults (err r) \<Longrightarrow> triple (at_machine view w) (k r) Q"
  shows "triple (at_machine view w) (call (sys request) k) Q"
proof (rule tripleI)
  fix s
  assume w: "view s = w"
  obtain r s' where run: "request s = (r, s')" by (rule prod.exhaust)
  with assms(1) have "law (view s) r (view s') \<or>
      faults \<and> fails (view s) (err r) (view s') \<and> \<not> IsNotExist (err r)"
    unfolding obeys_def by (metis (mono_tags, lifting) case_prod_conv)
  then have "\<exists>a s2. k r s' = (Ret a, s2) \<and> Q a s2"
  proof
    assume "law (view s) r (view s')"
    from assms(2) [OF this [unfolded w]] show ?thesis by (simp add: triple_def)
  next
    assume "faults \<and> fails (view s) (err r) (view s') \<and> \<not> IsNotExist (err r)"
    then have "fault faults (err r)" and "view s' = w" by (auto simp: fails_def w)
    with assms(3) [of r] show ?thesis by (simp add: triple_def)
  qed
  then show "\<exists>a s2. call (sys request) k s = (Ret a, s2) \<and> Q a s2" by (simp add: call_sys run)
qed

text \<open>A change either happens, or an error is returned and nothing has changed.\<close>

lemma call_does:
  assumes "obeys faults view request (\<lambda>w r. does change w (err r)) err"
    and "\<And>r w'. change w = Some w' \<Longrightarrow> err r = None \<Longrightarrow> triple (at_machine view w') (k r) Q"
    and "\<And>r e. err r = Some e \<Longrightarrow> error_code e = UnknownCode \<Longrightarrow> change w = None \<or> faults \<Longrightarrow>
      triple (at_machine view w) (k r) Q"
  shows "triple (at_machine view w) (call (sys request) k) Q"
  by (rule call_obeys [OF assms(1)])
     (auto simp: does_def fails_def intro: assms(2,3) split: option.splits)

section \<open>The operations of the mounter\<close>

text \<open>Whether a volume is mounted on a path; a path that is not there is none.\<close>

lemma call_not_mount_point_machine:
  assumes doc: "documented_machine faults os view plain kit root" and p: "plain p"
    and new: "\<And>e. m_dirs w p = None \<Longrightarrow> IsNotExist (Some e) \<Longrightarrow> triple (at_machine view w) (k (True, Some e)) Q"
    and old: "m_dirs w p \<noteq> None \<Longrightarrow> triple (at_machine view w) (k (\<not> mounted_on w p, None)) Q"
    and flt: "\<And>e. fault faults (Some e) \<Longrightarrow> triple (at_machine view w) (k (True, Some e)) Q"
  shows "triple (at_machine view w) (call (GCE_IsLikelyNotMountPoint os p) k) Q"
  unfolding GCE_IsLikelyNotMountPoint_def call_assoc
proof (rule call_obeys [OF documented_machineD(2) [OF doc p]], goal_cases)
  case (1 r w')
  show ?case
  proof (cases "m_dirs w p")
    case None
    with 1 new show ?thesis by (cases r) (auto simp: stat_law_def not_there_def)
  next
    case (Some b)
    with 1 obtain d where d: "r = Inr d" "d = root \<longleftrightarrow> \<not> mounted_on w p" "w' = w"
      by (auto simp: stat_law_def mounted_on_def)
    show ?thesis
      unfolding d(1,3) sum.case call_assoc
      by (rule call_obeys [OF documented_machineD(3) [OF doc p]])
         (use old Some d(2) flt in \<open>auto simp: sum_error_def split: sum.splits\<close>)
  qed
next
  case (2 r)
  with flt show ?case by (cases r) (auto simp: sum_error_def)
qed

lemma call_unmount_machine:
  assumes "documented_machine faults os view plain kit root" and "plain p"
    and "\<And>out w'. umount_result p w = Some w' \<Longrightarrow> triple (at_machine view w') (k (out, None)) Q"
    and "\<And>out e. umount_result p w = None \<or> faults \<Longrightarrow> triple (at_machine view w) (k (out, Some e)) Q"
  shows "triple (at_machine view w) (call (GCE_UnmountVolume os p) k) Q"
  unfolding GCE_UnmountVolume_def execRun_def
proof (rule call_does [OF documented_machineD(12) [OF assms(1,2)]], goal_cases)
  case (1 r w')
  with assms(3) [of w' "fst r"] show ?case by (cases r) auto
next
  case (2 r e)
  with assms(4) [of "fst r" e] show ?case by (cases r) auto
qed

lemma call_mkdir_machine:
  assumes "documented_machine faults os view plain kit root" and "plain p"
    and "triple (at_machine view (make_dir p w)) (k None) Q"
    and "\<And>e. faults \<Longrightarrow> error_code e = UnknownCode \<Longrightarrow> triple (at_machine view w) (k (Some e)) Q"
  shows "triple (at_machine view w) (call (GCE_MkdirAll os p perm) k) Q"
  unfolding GCE_MkdirAll_def
  by (rule call_does [OF documented_machineD(9) [OF assms(1,2)]]) (use assms(3,4) in auto)

lemma call_rmdir_machine:
  assumes "documented_machine faults os view plain kit root" and "plain p"
    and "\<And>w'. rmdir_result p w = Some w' \<Longrightarrow> triple (at_machine view w') (k None) Q"
    and "\<And>e. rmdir_result p w = None \<or> faults \<Longrightarrow> triple (at_machine view w) (k (Some e)) Q"
  shows "triple (at_machine view w) (call (GCE_Remove os p) k) Q"
  unfolding GCE_Remove_def
  by (rule call_does [OF documented_machineD(10) [OF assms(1,2)]]) (use assms(3,4) in auto)

text \<open>mount reads the arguments as they are meant.\<close>

lemma makeMountArgs_seen:
  assumes "source \<noteq> ''''" and "source \<noteq> ''-t''" and "source \<noteq> ''-o''"
    and "target \<noteq> ''-t''" and "target \<noteq> ''-o''" and "fstype \<noteq> ''''" and "options \<noteq> []"
  shows "parse_mount_args (makeMountArgs source target fstype options) =
    Some (source, target, fstype, seen_options options)"
  using assms by (simp add: parse_mount_args_def makeMountArgs_def take_flag_def seen_options_def)

lemma plain_not_flag:
  assumes "documented_machine faults os view plain kit root" and "plain p"
  shows "p \<noteq> ''''" "p \<noteq> ''-t''" "p \<noteq> ''-o''"
  using documented_machineD(1) [OF assms] by auto


lemma call_mount_machine:
  assumes doc: "documented_machine faults os view plain kit root" and tgt: "plain tgt"
    and src: "plain src \<or> src = google_link n" and "fs \<noteq> ''''" and "opts \<noteq> []"
    and ok: "\<And>w'. mount_result kit src tgt fs (seen_options opts) w = Some w' \<Longrightarrow>
      triple (at_machine view w') (k None) Q"
    and no: "\<And>m. mount_result kit src tgt fs (seen_options opts) w = None \<or> faults \<Longrightarrow>
      triple (at_machine view w) (k (Some (PlainError m))) Q"
  shows "triple (at_machine view w) (call (GCE_DoMount os src tgt fs opts) k) Q"
proof -
  have "src \<noteq> ''''" "src \<noteq> ''-t''" "src \<noteq> ''-o''"
    using src by (auto simp: google_link_def dest: plain_not_flag [OF doc])
  then have "parse_mount_args (makeMountArgs src tgt fs opts) = Some (src, tgt, fs, seen_options opts)"
    using makeMountArgs_seen [of src tgt fs opts] plain_not_flag(2,3) [OF doc tgt] assms(4,5) by blast
  note law = documented_machineD(11) [OF doc this tgt]
  show ?thesis
    unfolding GCE_DoMount_def Let_def call_assoc execRun_def defaultMountCommand_def
  proof (rule call_does [OF law], goal_cases)
    case (2 r w')
    with ok [of w'] show ?case by (cases r) auto
  next
    case (3 r e)
    with no show ?case by (cases r) auto
  qed (use src in auto)
qed

text \<open>Looking for the device: the google link when the disk is there. The udev part changes
  nothing.\<close>

lemma call_keeps:
  assumes "obeys faults view request (\<lambda>w r w'. w' = w) err"
    and "\<And>r. triple (at_machine view w) (k r) Q"
  shows "triple (at_machine view w) (call (sys request) k) Q"
  by (rule call_obeys [OF assms(1)]) (use assms(2) in auto)

lemma udevadmChangeToDrive_keeps:
  assumes "documented_machine faults os view plain kit root"
  shows "triple (at_machine view w) (udevadmChangeToDrive os d) (\<lambda>_. at_machine view w)"
  unfolding udevadmChangeToDrive_def
  by (rule call_keeps [OF documented_machineD(15) [OF assms]])
     (auto intro!: call_keeps [OF documented_machineD(13) [OF assms]] go_rules
        simp: execRun_def split: prod.split)

lemma changeToNewDrives_keeps:
  assumes "documented_machine faults os view plain kit root"
  shows "triple (at_machine view w) (changeToNewDrives_loop os before sds) (\<lambda>_. at_machine view w)"
  by (induction sds) (auto simp del: ret_run intro!: udevadmChangeToDrive_keeps [OF assms] triple_ret)

lemma call_first_existing_machine:
  assumes doc: "documented_machine faults os view plain kit root"
    and ok: "triple (at_machine view w) (k (if m_disks w n = None then '''' else google_link n, None)) Q"
    and no: "\<And>e. faults \<Longrightarrow> triple (at_machine view w) (k ('''', Some e)) Q"
  shows "triple (at_machine view w) (call (first_existing os [google_link n, scsi_link n]) k) Q"
proof -
  have look: "triple (at_machine view w) (call (pathExists os dev) h) Q"
    if "dev \<in> {google_link n, scsi_link n}"
      and "triple (at_machine view w) (h (m_disks w n \<noteq> None, None)) Q"
      and "\<And>e. faults \<Longrightarrow> triple (at_machine view w) (h (False, Some e)) Q" for dev h
    unfolding pathExists_def call_assoc
  proof (rule call_obeys [OF documented_machineD(4) [OF doc that(1)]], goal_cases)
    case (1 r w')
    with that(2) show ?case
      by (cases r; cases "m_disks w n") (auto simp: link_law_def not_there_def)
  next
    case (2 r)
    with that(3) show ?case by (cases r) (auto simp: sum_error_def)
  qed
  show ?thesis
    unfolding first_existing.simps call_assoc
    using ok no by (intro look) (auto simp: call_assoc intro!: look)
qed

lemma call_verify_machine:
  assumes doc: "documented_machine faults os view plain kit root"
    and "triple (at_machine view w) (k (if m_disks w n = None then '''' else google_link n, None)) Q"
    and "\<And>e. faults \<Longrightarrow> triple (at_machine view w) (k ('''', Some e)) Q"
  shows "triple (at_machine view w) (call (GCE_VerifyDevicePath os [google_link n, scsi_link n]) k) Q"
proof -
  have udev: "triple (at_machine view w) (udevadmChangeToNewDrives os before) (\<lambda>_. at_machine view w)" for before
    unfolding udevadmChangeToNewDrives_def
    by (rule call_keeps [OF documented_machineD(14) [OF doc]])
       (auto intro!: changeToNewDrives_keeps [OF doc] go_rules split: prod.split)
  show ?thesis
    unfolding GCE_VerifyDevicePath_def call_assoc
  proof (rule call_keeps [OF documented_machineD(14) [OF doc]], goal_cases)
    case (1 r)
    show ?case
      by (cases r, simp only: prod.case call_assoc, rule triple_call [OF udev])
         (rule call_first_existing_machine [OF doc assms(2,3)])
  qed
qed

text \<open>Formatting and mounting the disk of a volume.\<close>

lemma call_getDiskFormat_machine:
  assumes doc: "documented_machine faults os view plain kit root" and disk: "m_disks w n = Some f"
    and ok: "\<And>g. (g = '''' \<longleftrightarrow> f = '''') \<Longrightarrow> triple (at_machine view w) (k (g, None)) Q"
    and no: "\<And>e. faults \<Longrightarrow> triple (at_machine view w) (k ('''', Some e)) Q"
  shows "triple (at_machine view w) (call (getDiskFormat os (google_link n)) k) Q"
proof -
  have "call (getDiskFormat os (google_link n)) k =
      call (sys (os_exec os ''lsblk'' [''-n'', ''-o'', ''FSTYPE'', google_link n]))
        (\<lambda>(out, err). case err of None \<Rightarrow> k (lsblk_format out, None) | Some e \<Rightarrow> k ('''', Some e))"
    by (rule ext) (simp add: call_getDiskFormat call_sys split: prod.split option.split)
  moreover have "triple (at_machine view w) \<dots> Q"
  proof (rule call_obeys [OF documented_machineD(6) [OF doc, of "google_link n" n]], goal_cases)
    case (2 r w')
    with disk ok [of "lsblk_format (fst r)"] show ?case by (cases r) (auto simp: lsblk_law_def)
  next
    case (3 r)
    with no show ?case by (cases r) auto
  qed simp
  ultimately show ?thesis by simp
qed

lemma call_mkfs_machine:
  assumes doc: "documented_machine faults os view plain kit root" and disk: "m_disks w n = Some ''''"
    and ok: "\<And>out. can_make kit fs \<Longrightarrow> triple (at_machine view (format_disk n fs w)) (k (out, None)) Q"
    and no: "\<And>out e. \<not> can_make kit fs \<or> faults \<Longrightarrow> triple (at_machine view w) (k (out, Some e)) Q"
  shows "triple (at_machine view w)
    (call (execRun os (''mkfs.'' @ fs)
       (if fs = ''ext4'' \<or> fs = ''ext3'' then [''-F'', google_link n] else [google_link n])) k) Q"
proof -
  have "obeys faults view (os_exec os (''mkfs.'' @ fs)
       (if fs = ''ext4'' \<or> fs = ''ext3'' then [''-F'', google_link n] else [google_link n]))
      (\<lambda>w r. does (mkfs_result kit fs (fs = ''ext4'' \<or> fs = ''ext3'') n) w (snd r)) snd"
    using documented_machineD(7) [OF doc, of "google_link n" n fs]
      documented_machineD(8) [OF doc, of "google_link n" n fs] by auto
  then show ?thesis
    unfolding execRun_def
  proof (rule call_does, goal_cases)
    case (1 r w')
    with disk ok [of "fst r"] show ?case by (cases r) (auto simp: mkfs_result_def split: if_splits)
  next
    case (2 r e)
    with disk no [of "fst r" e] show ?case by (cases r) (auto simp: mkfs_result_def split: if_splits)
  qed
qed

lemma mount_unformatted: "m_disks w n = Some '''' \<Longrightarrow> mount_result kit (google_link n) p fs opts w = None"
  by (simp add: mount_result_def)

lemma format_disk_simps [simp]:
  "m_mounts (format_disk n fs w) = m_mounts w" "m_dirs (format_disk n fs w) = m_dirs w"
  "m_disks (format_disk n fs w) = (m_disks w)(n \<mapsto> fs)"
  by (simp_all add: format_disk_def)

lemma machine_inv_format [simp]: "machine_inv (format_disk n fs w) \<longleftrightarrow> machine_inv w"
  by (simp add: machine_inv_def)

lemma formats_kept_refl [simp]: "formats_kept w w"
  by (simp add: formats_kept_def)

lemma formats_kept_format [simp]: "m_disks w n = Some '''' \<Longrightarrow> formats_kept w (format_disk n fs w)"
  by (simp add: formats_kept_def)

lemma call_FormatAndMount_machine:
  assumes doc: "documented_machine faults os view plain kit root" and p: "plain p" and fs: "fs \<noteq> ''''"
    and disk: "m_disks w n = Some f" and inv: "machine_inv w"
    and ok: "\<And>w'. mount_volume kit n p fs (seen_options (opts @ [''defaults''])) w = (OK, w') \<Longrightarrow>
      triple (at_machine view w') (k None) Q"
    and no: "\<And>e w'. mount_volume kit n p fs (seen_options (opts @ [''defaults''])) w = (Internal, w') \<or>
        faults \<and> m_mounts w' = m_mounts w \<and> formats_kept w w' \<and> machine_inv w' \<Longrightarrow>
      triple (at_machine view w') (k (Some e)) Q"
  shows "triple (at_machine view w) (call (GCE_FormatAndMount os (google_link n) p fs opts) k) Q"
proof -
  let ?opts = "opts @ [''defaults'']"
  let ?mount = "\<lambda>w. mount_result kit (google_link n) p fs (seen_options ?opts) w"
  have again: "triple (at_machine view (format_disk n fs w)) (call (GCE_DoMount os (google_link n) p fs ?opts) k) Q"
    if "f = ''''" and "can_make kit fs"
    by (rule call_mount_machine [OF doc p _ fs])
       (use that disk ok no inv in \<open>auto simp: mount_volume_def mount_unformatted\<close>)
  have failed: "triple (at_machine view w)
      (call (format_after_failed_mount os (google_link n) p fs ?opts (Some (PlainError m))) k) Q"
    if "?mount w = None \<or> faults" for m
    unfolding format_after_failed_mount_def call_assoc
  proof (rule call_getDiskFormat_machine [OF doc disk], goal_cases)
    case (1 g)
    show ?case
    proof (cases "f = ''''")
      case False
      with 1 that disk no inv show ?thesis by (auto simp: mount_volume_def fs)
    next
      case True
      with 1 disk have g: "g = ''''" and disk': "m_disks w n = Some ''''" by simp_all
      show ?thesis
        by (simp only: g fs Let_def prod.case call_assoc simp_thms if_True if_False,
            rule call_mkfs_machine [OF doc disk'])
           (auto simp: True disk' inv again no mount_volume_def mount_unformatted)
    qed
  next
    case (2 e)
    with no inv show ?case by simp
  qed
  show ?thesis
    unfolding GCE_FormatAndMount_def Let_def call_assoc execRun_def
  proof (rule call_obeys [OF documented_machineD(5) [OF doc, of "google_link n" n]], goal_cases)
    case (2 r w')
    then show ?case
      by (cases r, simp add: call_assoc fsckErrorsUncorrected_def, intro call_mount_machine [OF doc p _ fs])
         (auto simp: ok failed mount_volume_def)
  next
    case (3 r)
    then show ?case
      by (cases r, simp add: call_assoc fsckErrorsUncorrected_def, intro conjI impI call_mount_machine [OF doc p _ fs])
         (auto simp: ok no failed inv mount_volume_def)
  qed simp
qed

section \<open>The handlers\<close>

lemma answer:
  "spec = (c, w') \<or> faults \<and> c \<noteq> OK \<and> m_mounts w' = m_mounts w \<and> formats_kept w w' \<and> machine_inv w' \<Longrightarrow>
     triple (at_machine view w') (ret c) (\<lambda>c s. node_allowed faults spec w c (view s))"
  by (auto simp: triple_def node_allowed_def)

lemma make_dir_simps [simp]:
  "m_mounts (make_dir p w) = m_mounts w" "m_disks (make_dir p w) = m_disks w"
  "m_dirs (make_dir p w) p \<noteq> None" "m_dirs w p \<noteq> None \<Longrightarrow> make_dir p w = w"
  "formats_kept (make_dir p w) w' \<longleftrightarrow> formats_kept w w'" "formats_kept w (make_dir p w)"
  by (auto simp: make_dir_def formats_kept_def)

lemma machine_inv_simps [simp]:
  "machine_inv w \<Longrightarrow> machine_inv (make_dir p w)"
  by (auto simp: machine_inv_def make_dir_def)

lemma rmdir_result_keeps:
  "rmdir_result p w = Some w' \<Longrightarrow> m_mounts w' = m_mounts w \<and> m_disks w' = m_disks w"
  "rmdir_result p w = Some w' \<Longrightarrow> machine_inv w \<Longrightarrow> machine_inv w'"
  by (auto simp: rmdir_result_def machine_inv_def split: if_splits)


lemma unmount_conforms:
  assumes doc: "documented_machine faults os view plain kit root"
    and inv: "machine_inv w"
  shows "given_paths plain (Unstage ureq) \<Longrightarrow>
      triple (at_machine view w) (serve_node (GCEMounter os) (Unstage ureq))
        (\<lambda>c s. node_allowed faults (node_spec kit (Unstage ureq) w) w c (view s))"
    and "given_paths plain (Node_unpublish preq) \<Longrightarrow>
      triple (at_machine view w) (serve_node (GCEMounter os) (Node_unpublish preq))
        (\<lambda>c s. node_allowed faults (node_spec kit (Node_unpublish preq) w) w c (view s))"
  using inv
  by (auto simp: given_paths_def NodeUnstageVolume_def NodeUnpublishVolume_def Let_def call_assoc unmount_def
      simp del: ret_run intro!: answer call_unmount_machine [OF doc])

lemma publish_cleanup_machine:
  assumes doc: "documented_machine faults os view plain kit root" and p: "plain p"
    and inv: "machine_inv w0" and free: "\<not> mounted_on w0 p"
    and refused: "mount_result kit src p ''ext4'' opts (make_dir p w0) = None \<or> faults"
    and spec: "mount_result kit src p ''ext4'' opts (make_dir p w0) = None \<Longrightarrow>
      spec = (Internal, case rmdir_result p (make_dir p w0) of None \<Rightarrow> make_dir p w0 | Some w1 \<Rightarrow> w1)"
  shows "triple (at_machine view (make_dir p w0))
    (call (publish_cleanup (GCEMounter os) p) (\<lambda>r. ret (grpc_code r)))
    (\<lambda>c s. node_allowed faults spec w0 c (view s))"
proof -
  have free': "\<not> mounted_on (make_dir p w0) p"
    using free inv [unfolded machine_inv_def, rule_format, of p]
    by (auto simp: mounted_on_def shown_def make_dir_def split: list.splits if_splits)
  have "triple (at_machine view (make_dir p w0))
      (call (GCE_Remove os p) (\<lambda>_. ret (grpc_code (None :: NodePublishVolumeResponse option, Some (StatusError Internal m)))))
      (\<lambda>c s. node_allowed faults spec w0 c (view s))" for m
    by (rule call_rmdir_machine [OF doc p])
       (use refused spec inv in \<open>auto simp del: ret_run dest: rmdir_result_keeps simp: formats_kept_def
          intro!: answer\<close>)
  with free' inv show ?thesis
    unfolding publish_cleanup_def Let_def GCEMounter_simps call_assoc
    by (intro call_not_mount_point_machine [OF doc p])
       (auto simp: call_assoc simp del: ret_run intro!: answer)
qed

lemma options_bind_if: "(if ro then [''bind''] @ [''ro''] else [''bind'']) = bind_options ro"
  by (simp add: bind_options_def)

lemma seen_bind [simp]: "seen_options (bind_options ro) = bind_options ro" "bind_options ro \<noteq> []"
  by (auto simp: seen_options_def bind_options_def)

lemma bind_mount_conforms:
  assumes doc: "documented_machine faults os view plain kit root"
    and p: "plain (np_TargetPath req)" "plain (np_StagingTargetPath req)"
    and inv: "machine_inv w" and free: "\<not> mounted_on w (np_TargetPath req)"
    and req: "np_VolumeId req \<noteq> ''''" "np_VolumeCapability req \<noteq> None"
    and there: "w1 = make_dir (np_TargetPath req) w"
  shows "triple (at_machine view w1)
    (call (GCE_DoMount os (np_StagingTargetPath req) (np_TargetPath req) ''ext4'' (bind_options (np_Readonly req)))
      (\<lambda>err. call (if err \<noteq> None then publish_cleanup (GCEMounter os) (np_TargetPath req)
          else ret (Some NodePublishVolumeResponse, None)) (\<lambda>r. ret (grpc_code r))))
    (\<lambda>c s. node_allowed faults (node_spec kit (Node_publish req) w) w c (view s))"
proof -
  have names: "np_StagingTargetPath req \<noteq> ''''" "np_TargetPath req \<noteq> ''''"
    using plain_not_flag(1) [OF doc p(1)] plain_not_flag(1) [OF doc p(2)] by auto
  show ?thesis
    by (rule call_mount_machine [OF doc p(1) disjI1 [OF p(2)]])
       (use req names free in \<open>auto simp: Let_def there simp del: ret_run
          intro!: answer publish_cleanup_machine [OF doc p(1) inv free, where src = "np_StagingTargetPath req"
            and opts = "bind_options (np_Readonly req)"]\<close>)
qed

lemma publish_conforms:
  assumes doc: "documented_machine faults os view plain kit root" and inv: "machine_inv w"
    and paths: "given_paths plain (Node_publish req)"
  shows "triple (at_machine view w) (serve_node (GCEMounter os) (Node_publish req))
    (\<lambda>c s. node_allowed faults (node_spec kit (Node_publish req) w) w c (view s))"
proof (cases "np_VolumeId req = '''' \<or> np_StagingTargetPath req = '''' \<or> np_TargetPath req = '''' \<or>
    np_VolumeCapability req = None")
  case True
  then show ?thesis
    by (auto simp: NodePublishVolume_def Let_def simp del: ret_run intro!: answer)
next
  case False
  with paths have p: "plain (np_TargetPath req)" "plain (np_StagingTargetPath req)"
    by (simp_all add: given_paths_def)
  have free: "\<not> mounted_on w (np_TargetPath req)" if "m_dirs w (np_TargetPath req) = None"
    using that by (simp add: mounted_on_def)
  from False have named: "(np_VolumeId req = '''') = False" "(np_StagingTargetPath req = '''') = False"
    "(np_TargetPath req = '''') = False" "(np_VolumeCapability req = None) = False"
    by simp_all
  note go = bind_mount_conforms [OF doc p inv]

  have taken: "node_spec kit (Node_publish req) w = (Internal, w)" if "mounted_on w (np_TargetPath req)"
    using that False by (simp add: Let_def)
  show ?thesis
    unfolding serve_node.simps NodePublishVolume_def Let_def GCEMounter_simps options_bind_if named if_False call_assoc
    by (rule call_not_mount_point_machine [OF doc p(1)])
       (use inv False in \<open>auto simp: call_assoc free taken simp del: not_None_eq ret_run node_spec.simps
          intro!: call_mkdir_machine [OF doc p(1)] go answer\<close>)
qed

lemma google_link_not_Nil: "google_link n \<noteq> ''''"
  by (simp add: google_link_def)

lemma stage_mount_conforms:
  assumes doc: "documented_machine faults os view plain kit root" and p: "plain (ns_StagingTargetPath req)"
    and inv: "machine_inv w" and free: "\<not> mounted_on w (ns_StagingTargetPath req)"
    and req: "ns_VolumeId req \<noteq> ''''" "ns_VolumeCapability req = Some cap"
    and vol: "SplitZoneNameId (ns_VolumeId req) = (z, n, None)" and disk: "m_disks w n \<noteq> None"
    and there: "w1 = make_dir (ns_StagingTargetPath req) w"
  shows "triple (at_machine view w1)
    (call (stage_mount (GCEMounter os) (google_link n) (ns_StagingTargetPath req) cap) (\<lambda>r. ret (grpc_code r)))
    (\<lambda>c s. node_allowed faults (node_spec kit (Stage req) w) w c (view s))"
proof -
  let ?w = "make_dir (ns_StagingTargetPath req) w"
  have spec: "node_spec kit (Stage req) w = (case stage_params cap of None \<Rightarrow> (Unimplemented, ?w)
      | Some (fs, opts) \<Rightarrow> mount_volume kit n (ns_StagingTargetPath req) fs (seen_options (opts @ [''defaults''])) ?w)"
    using req vol disk free plain_not_flag(1) [OF doc p] by (auto simp: Let_def)
  show ?thesis
  proof (cases "stage_params cap")
    case None
    then show ?thesis
      unfolding stage_mount_eq spec there by (simp del: ret_run node_spec.simps) (rule answer, simp)
  next
    case (Some x)
    then obtain fs opts where x: "stage_params cap = Some (fs, opts)" by (cases x) auto
    then have fs: "fs \<noteq> ''''" by (auto simp: stage_params_def split: option.splits if_splits)
    obtain f where disk': "m_disks ?w n = Some f" using disk by auto
    show ?thesis
      unfolding stage_mount_eq x option.case prod.case call_assoc GCEMounter_simps spec there
      by (rule call_FormatAndMount_machine [OF doc p fs disk' machine_inv_simps [OF inv]])
         (use inv in \<open>auto simp del: ret_run intro!: answer\<close>)
  qed
qed

lemma stage_conforms:
  assumes doc: "documented_machine faults os view plain kit root" and inv: "machine_inv w"
    and paths: "given_paths plain (Stage req)"
  shows "triple (at_machine view w) (serve_node (GCEMounter os) (Stage req))
    (\<lambda>c s. node_allowed faults (node_spec kit (Stage req) w) w c (view s))"
proof (cases "ns_VolumeId req = '''' \<or> ns_StagingTargetPath req = '''' \<or> ns_VolumeCapability req = None")
  case True
  then show ?thesis
    by (auto simp: NodeStageVolume_def Let_def simp del: ret_run intro!: answer split: option.splits)
next
  case False
  then obtain cap where named: "(ns_VolumeId req = '''') = False" "(ns_StagingTargetPath req = '''') = False"
    and cap: "ns_VolumeCapability req = Some cap" by auto
  from paths named have p: "plain (ns_StagingTargetPath req)" by (simp add: given_paths_def)
  show ?thesis
  proof (cases rule: SplitZoneNameId_cases [of "ns_VolumeId req"])
    case (bad m)
    with named cap show ?thesis
      by (auto simp: NodeStageVolume_def Let_def simp del: ret_run intro!: answer)
  next
    case (ok z n)
    have links: "GCE_GetDiskByIdPaths n '''' = [google_link n, scsi_link n]"
      using GetDiskByIdPaths_of_volume [OF ok(1)] by (simp add: google_link_def scsi_link_def)
    have named': "(ns_VolumeCapability req = None) = False" using cap by simp
    note go = stage_mount_conforms [OF doc p inv _ _ cap ok(1)]
    have free: "\<not> mounted_on w (ns_StagingTargetPath req)" if "m_dirs w (ns_StagingTargetPath req) = None"
      using that by (simp add: mounted_on_def)
    have taken: "node_spec kit (Stage req) w = (UnknownCode, w)"
      if "mounted_on w (ns_StagingTargetPath req)" "m_disks w n = Some f" for f
      using that named cap ok by (simp add: Let_def)
    have gone: "node_spec kit (Stage req) w = (Internal, w)" if "m_disks w n = None"
      using that named cap ok by (simp add: Let_def)
    show ?thesis
      unfolding serve_node.simps NodeStageVolume_def Let_def named if_False cap option.case ok prod.case
        GCEMounter_simps links call_assoc
      by (rule call_verify_machine [OF doc])
         (use inv named in \<open>auto simp: call_assoc gone taken free google_link_not_Nil simp del: ret_run node_spec.simps
            intro!: call_not_mount_point_machine [OF doc p] call_mkdir_machine [OF doc p] go answer\<close>)
  qed
qed

lemma node_conforms_triple:
  assumes "documented_machine faults os view plain kit root" and "machine_inv w" and "given_paths plain r"
  shows "triple (at_machine view w) (serve_node (GCEMounter os) r)
    (\<lambda>c s. node_allowed faults (node_spec kit r w) w c (view s))"
proof (cases r)
  case (Stage req)
  with stage_conforms assms show ?thesis by blast
next
  case (Unstage req)
  with unmount_conforms(1) assms show ?thesis by blast
next
  case (Node_publish req)
  with publish_conforms assms show ?thesis by blast
next
  case (Node_unpublish req)
  with unmount_conforms(2) assms show ?thesis by blast
qed

lemma node_conforms_all:
  assumes "documented_machine faults os view plain kit root" and "machine_inv (view s)" and "given_paths plain r"
  shows "\<exists>c s'. serve_node (GCEMounter os) r s = (Ret c, s') \<and>
    node_allowed faults (node_spec kit r (view s)) (view s) c (view s')"
  using node_conforms_triple [OF assms] by (simp add: triple_def)

text \<open>C3. The node service over a machine whose commands, system calls and device links behave as
  documented. Every stage, unstage, publish and unpublish returns the code of the specification
  and leaves the machine as the specification says: a volume is staged by mounting its disk,
  formatted first exactly when it has no format, and published by a bind mount of its staging
  path. When commands and calls of the machine may also fail for reasons of their own, a call
  either still does that, or it answers an error, no mount has changed and no disk has lost its
  format.\<close>

theorem node_conforms:
  assumes "documented_machine faults os view plain kit root" and "machine_inv (view s)" and "given_paths plain r"
  shows "\<exists>c s'. serve_node (GCEMounter os) r s = (Ret c, s') \<and>
    node_allowed faults (node_spec kit r (view s)) (view s) c (view s')"
  by (rule node_conforms_all [OF assms])

end
