(* ===== verification/NodeProps.thy ===== *)
theory NodeProps
  imports NodeRefine
begin

text \<open>
  What follows for sequences of node calls on a documented machine: what stays true of disks and
  mounts, that unpublishing and unstaging undo publishing and staging, what a repeated call is
  answered, and what publishing does when nothing is staged.
\<close>

section \<open>What stays true of a machine\<close>

text \<open>A volume that is mounted has a format.\<close>

definition mounted_formatted :: "machine \<Rightarrow> bool" where
  "mounted_formatted w \<longleftrightarrow> (\<forall>p n ro. (Volume n, ro) \<in> set (m_mounts w p) \<longrightarrow>
     (\<exists>f. m_disks w n = Some f \<and> f \<noteq> ''''))"

definition machine_good :: "machine \<Rightarrow> bool" where
  "machine_good w \<longleftrightarrow> machine_inv w \<and> mounted_formatted w"

lemma push_mount_simps [simp]:
  "m_disks (push_mount p x w) = m_disks w" "m_dirs (push_mount p x w) = m_dirs w"
  "m_mounts (push_mount p x w) = (m_mounts w)(p := x # m_mounts w p)"
  "m_disks (pop_mount p w) = m_disks w" "m_dirs (pop_mount p w) = m_dirs w"
  "m_mounts (pop_mount p w) = (m_mounts w)(p := tl (m_mounts w p))"
  by (simp_all add: push_mount_def pop_mount_def)

lemma mounted_formattedD:
  "mounted_formatted w \<Longrightarrow> (Volume n, ro) \<in> set (m_mounts w p) \<Longrightarrow> \<exists>f. m_disks w n = Some f \<and> f \<noteq> ''''"
  by (simp add: mounted_formatted_def) blast

lemma shown_formatted:
  assumes "mounted_formatted w" and "fst (shown w p) = Volume n"
  shows "\<exists>f. m_disks w n = Some f \<and> f \<noteq> ''''"
proof -
  from assms(2) have "(Volume n, snd (hd (m_mounts w p))) \<in> set (m_mounts w p)"
    by (cases "m_mounts w p") (auto simp: shown_def)
  with mounted_formattedD [OF assms(1)] show ?thesis by blast
qed

text \<open>A mount that is made shows a formatted disk, or what its source shows.\<close>

lemma mount_result_push:
  assumes "mount_result kit src tgt fs opts w = Some w'"
  shows "\<exists>x. w' = push_mount tgt x w \<and> m_dirs w tgt \<noteq> None \<and>
    (fst x = fst (shown w src) \<or> (\<exists>n f. fst x = Volume n \<and> m_disks w n = Some f \<and> f \<noteq> ''''))"
  using assms by (auto simp: mount_result_def split: if_splits option.splits)

lemma push_mount_good:
  assumes "machine_good w" and "m_dirs w p \<noteq> None"
    and "\<And>n. fst x = Volume n \<Longrightarrow> \<exists>f. m_disks w n = Some f \<and> f \<noteq> ''''"
  shows "machine_good (push_mount p x w)"
  using assms(1,2)
  by (auto simp: machine_good_def machine_inv_def mounted_formatted_def [of "push_mount p x w"]
      intro: assms(3) dest: mounted_formattedD)

lemma mount_result_good:
  assumes "mount_result kit src tgt fs opts w = Some w'" and "machine_good w"
  shows "machine_good w'" and "m_disks w' = m_disks w"
proof -
  from mount_result_push [OF assms(1)] obtain x where x: "w' = push_mount tgt x w" "m_dirs w tgt \<noteq> None"
    "fst x = fst (shown w src) \<or> (\<exists>n f. fst x = Volume n \<and> m_disks w n = Some f \<and> f \<noteq> '''')"
    by blast
  then have "\<exists>f. m_disks w n = Some f \<and> f \<noteq> ''''" if "fst x = Volume n" for n
    using that shown_formatted [of w src n] assms(2) by (auto simp: machine_good_def)
  with push_mount_good [OF assms(2) x(2)] x(1) show "machine_good w'" by blast
  show "m_disks w' = m_disks w" by (simp add: x(1))
qed

lemma mounted_kept:
  assumes "machine_good w" and "m_mounts w' = m_mounts w" and "formats_kept w w'" and "machine_inv w'"
  shows "machine_good w'"
proof -
  have "\<exists>f. m_disks w' n = Some f \<and> f \<noteq> ''''" if "(Volume n, ro) \<in> set (m_mounts w' p)" for n ro p
    using that assms(1-3) mounted_formattedD [of w n ro p] by (auto simp: machine_good_def formats_kept_def)
  with assms(4) show ?thesis by (auto simp: machine_good_def mounted_formatted_def)
qed

lemma make_dir_good [simp]: "machine_good w \<Longrightarrow> machine_good (make_dir p w)"
  by (rule mounted_kept [of w]) (auto simp: machine_good_def)

lemma unmount_good: "machine_good w \<Longrightarrow> machine_good (snd (unmount p w)) \<and> formats_kept w (snd (unmount p w))"
proof (cases "m_mounts w p = []")
  case False
  assume "machine_good w"
  moreover have "set (tl (m_mounts w p)) \<subseteq> set (m_mounts w p)" by (cases "m_mounts w p") auto
  ultimately have "machine_good (pop_mount p w)" using False
    by (auto simp: machine_good_def machine_inv_def mounted_formatted_def [of "pop_mount p w"]
        dest: mounted_formattedD)
  with False show ?thesis by (simp add: unmount_def umount_result_def formats_kept_def)
qed (simp add: unmount_def umount_result_def)

lemma formats_kept_disks: "m_disks w' = m_disks w \<Longrightarrow> formats_kept w w'"
  by (simp add: formats_kept_def)

lemma formats_kept_trans: "formats_kept a b \<Longrightarrow> formats_kept b c \<Longrightarrow> formats_kept a c"
  by (simp add: formats_kept_def)

lemma mount_volume_good:
  assumes "machine_good w"
  shows "machine_good (snd (mount_volume kit n p fs opts w)) \<and>
    formats_kept w (snd (mount_volume kit n p fs opts w))"
proof (cases "mount_result kit (google_link n) p fs opts w")
  case (Some w')
  with mount_result_good [OF Some assms] show ?thesis by (simp add: mount_volume_def formats_kept_disks)
next
  case None
  show ?thesis
  proof (cases "m_disks w n = Some '''' \<and> can_make kit fs")
    case True
    have good: "machine_good (format_disk n fs w)"
      by (rule mounted_kept [OF assms]) (use True assms in \<open>auto simp: machine_good_def\<close>)
    have "formats_kept w (format_disk n fs w)" using True by simp
    have kept: "formats_kept w (format_disk n fs w)" using True by simp
    show ?thesis
    proof (cases "mount_result kit (google_link n) p fs opts (format_disk n fs w)")
      case (Some w')
      from mount_result_good [OF Some good] kept have "machine_good w'" "formats_kept w w'"
        by (auto simp: formats_kept_def)
      with Some None True show ?thesis by (simp add: mount_volume_def)
    next
      case again: None
      with None True good kept show ?thesis by (simp add: mount_volume_def)
    qed
  qed (use None assms in \<open>auto simp: mount_volume_def\<close>)
qed

lemma publish_spec_good:
  assumes "machine_good w"
  shows "machine_good (snd (node_spec kit (Node_publish req) w)) \<and>
    formats_kept w (snd (node_spec kit (Node_publish req) w))"
proof -
  let ?p = "np_TargetPath req"
  let ?w = "make_dir ?p w"
  let ?m = "mount_result kit (np_StagingTargetPath req) ?p ''ext4'' (bind_options (np_Readonly req)) ?w"
  have removed: "machine_good w' \<and> formats_kept w w'" if "rmdir_result ?p ?w = Some w'" for w'
    using rmdir_result_keeps [OF that] assms
    by (auto simp: formats_kept_def machine_good_def intro: mounted_kept [OF assms, unfolded machine_good_def, THEN conjunct2])
  show ?thesis
  proof (cases ?m)
    case (Some w')
    from mount_result_good [OF Some make_dir_good [OF assms]] have "machine_good w'" "formats_kept w w'"
      by (simp_all add: formats_kept_disks)
    with Some assms show ?thesis by (simp add: Let_def)
  next
    case None
    with removed assms show ?thesis by (cases "rmdir_result ?p ?w") (simp_all add: Let_def)
  qed
qed

lemma stage_spec_good:
  assumes "machine_good w"
  shows "machine_good (snd (node_spec kit (Stage req) w)) \<and> formats_kept w (snd (node_spec kit (Stage req) w))"
proof (cases rule: SplitZoneNameId_cases [of "ns_VolumeId req"])
  case (ok z n)
  have "machine_good (snd (mount_volume kit n p fs opts (make_dir p w))) \<and>
      formats_kept w (snd (mount_volume kit n p fs opts (make_dir p w)))" for p fs opts
    using mount_volume_good [OF make_dir_good [OF assms]] by simp
  with ok assms show ?thesis by (simp add: Let_def split: option.split)
next
  case (bad m)
  with assms show ?thesis by (simp add: Let_def split: option.split)
qed

lemma node_spec_good:
  assumes "machine_good w"
  shows "machine_good (snd (node_spec kit r w)) \<and> formats_kept w (snd (node_spec kit r w))"
proof (cases r)
  case (Stage req)
  then show ?thesis using stage_spec_good [OF assms] by (simp only:)
next
  case (Node_publish req)
  then show ?thesis using publish_spec_good [OF assms] by (simp only:)
qed (use assms unmount_good in simp_all)

section \<open>Sequences of calls\<close>

fun serve_nodes :: "'s Mounter \<Rightarrow> node_rpc list \<Rightarrow> ('s, code list) go" where
  "serve_nodes m [] = ret []"
| "serve_nodes m (r # rs) =
     call (serve_node m r) (\<lambda>c. call (serve_nodes m rs) (\<lambda>cs. ret (c # cs)))"

lemma node_call_good:
  assumes "documented_machine faults os view plain kit root" and "machine_good (view s)" and "given_paths plain r"
  shows "\<exists>c s'. serve_node (GCEMounter os) r s = (Ret c, s') \<and> machine_good (view s') \<and>
    formats_kept (view s) (view s')"
proof -
  from assms(2) have "machine_inv (view s)" by (simp add: machine_good_def)
  from node_conforms_all [OF assms(1) this assms(3)] obtain c s' where
    "serve_node (GCEMounter os) r s = (Ret c, s')"
    "node_allowed faults (node_spec kit r (view s)) (view s) c (view s')" by blast
  with node_spec_good [OF assms(2), of kit r] mounted_kept [OF assms(2), of "view s'"]
  show ?thesis by (cases "node_spec kit r (view s)") (auto simp: node_allowed_def)
qed

text \<open>C6. Disks on a documented machine whose commands and calls may fail at any time: no sequence
  of stage, unstage, publish and unpublish calls, in whatever order and with whatever options,
  formats a disk that already has a format; every volume that is mounted has one; and what is
  mounted on exists. Every call of the sequence returns.\<close>

theorem node_runs_keep_formats:
  assumes "documented_machine faults os view plain kit root" and "machine_good (view s)"
    and "list_all (given_paths plain) rs"
  shows "\<exists>cs s'. serve_nodes (GCEMounter os) rs s = (Ret cs, s') \<and> length cs = length rs \<and>
    formats_kept (view s) (view s') \<and> machine_good (view s')"
  using assms(2,3)
proof (induction rs arbitrary: s)
  case (Cons r rs)
  from Cons.prems(2) have "given_paths plain r" by simp
  from node_call_good [OF assms(1) Cons.prems(1) this] obtain c s1 where
    one: "serve_node (GCEMounter os) r s = (Ret c, s1)" "machine_good (view s1)"
      "formats_kept (view s) (view s1)" by blast
  from Cons.IH [OF one(2)] Cons.prems(2) obtain cs s2 where
    "serve_nodes (GCEMounter os) rs s1 = (Ret cs, s2)" "length cs = length rs"
    "formats_kept (view s1) (view s2)" "machine_good (view s2)" by auto
  with one show ?case by (auto simp: call_Ret intro: formats_kept_trans)
qed simp

text \<open>Without faults a call does what the specification says.\<close>

lemma node_exact:
  assumes "documented_machine False os view plain kit root" and "machine_good (view s)" and "given_paths plain r"
  obtains s' where "serve_node (GCEMounter os) r s = (Ret (fst (node_spec kit r (view s))), s')"
    and "view s' = snd (node_spec kit r (view s))"
  using node_conforms_all [OF assms(1) _ assms(3), of s] assms(2)
  by (auto simp: node_allowed_def machine_good_def) (metis fst_conv snd_conv)

lemma node_exactD:
  assumes "documented_machine False os view plain kit root" and "machine_good (view s)" and "given_paths plain r"
    and "serve_node (GCEMounter os) r s = (Ret c, s')"
  shows "node_spec kit r (view s) = (c, view s')"
  using node_exact [OF assms(1-3)] assms(4) by (metis Pair_inject outcome.inject prod.collapse)

section \<open>What an answer OK means\<close>

lemma mount_link_Some:
  assumes "mount_result kit (google_link n) p fs opts w = Some w'"
  shows "\<exists>ro. m_mounts w' = (m_mounts w)(p := (Volume n, ro) # m_mounts w p) \<and> m_dirs w' = m_dirs w \<and>
    m_dirs w p \<noteq> None \<and> m_disks w' n \<noteq> None"
  using assms by (auto simp: mount_result_def split: option.splits if_splits)

lemma mount_volume_OK:
  assumes "mount_volume kit n p fs opts w = (OK, w')"
  shows "\<exists>ro. m_mounts w' = (m_mounts w)(p := (Volume n, ro) # m_mounts w p) \<and> m_dirs w' = m_dirs w \<and>
    m_dirs w p \<noteq> None \<and> m_disks w' n \<noteq> None"
  using assms mount_link_Some [of kit n p fs opts w w'] mount_link_Some [of kit n p fs opts "format_disk n fs w" w']
  by (auto simp: mount_volume_def split: option.splits if_splits)

lemma stage_OK:
  assumes "node_spec kit (Stage req) w = (OK, w')"
  shows "\<exists>z n ro. SplitZoneNameId (ns_VolumeId req) = (z, n, None) \<and> \<not> mounted_on w (ns_StagingTargetPath req) \<and>
    m_mounts w' = (m_mounts w)(ns_StagingTargetPath req :=
      (Volume n, ro) # m_mounts w (ns_StagingTargetPath req)) \<and>
    m_dirs w' (ns_StagingTargetPath req) \<noteq> None \<and> m_disks w' n \<noteq> None \<and>
    ns_VolumeId req \<noteq> '''' \<and> ns_StagingTargetPath req \<noteq> '''' \<and> ns_VolumeCapability req \<noteq> None"
proof (cases rule: SplitZoneNameId_cases [of "ns_VolumeId req"])
  case (ok z n)
  let ?p = "ns_StagingTargetPath req"
  from assms ok obtain fs opts where "ns_VolumeId req \<noteq> ''''" "?p \<noteq> ''''" "\<not> mounted_on w ?p"
    "ns_VolumeCapability req \<noteq> None"
    and "mount_volume kit n ?p fs opts (make_dir ?p w) = (OK, w')"
    by (auto simp: Let_def split: if_splits option.splits)
  with mount_volume_OK [OF this(5)] ok show ?thesis by (auto simp: fun_upd_def)
next
  case (bad m)
  with assms show ?thesis by (simp add: Let_def split: if_splits option.splits)
qed

lemma shown_make_dir [simp]: "shown (make_dir q w) p = shown w p"
  by (simp add: shown_def)

lemma publish_OK:
  assumes "node_spec kit (Node_publish req) w = (OK, w')"
  shows "m_mounts w' = (m_mounts w)(np_TargetPath req :=
      (fst (shown w (np_StagingTargetPath req)), snd (shown w (np_StagingTargetPath req)) \<or> np_Readonly req) #
      m_mounts w (np_TargetPath req))"
    and "\<not> mounted_on w (np_TargetPath req)" and "m_dirs w' (np_TargetPath req) \<noteq> None"
    and "np_VolumeId req \<noteq> ''''" and "np_StagingTargetPath req \<noteq> ''''" and "np_TargetPath req \<noteq> ''''"
    and "np_VolumeCapability req \<noteq> None"
proof -
  let ?t = "np_TargetPath req" and ?p = "np_StagingTargetPath req"
  let ?m = "mount_result kit ?p ?t ''ext4'' (bind_options (np_Readonly req)) (make_dir ?t w)"
  from assms have "?m = Some w'" and names: "np_VolumeId req \<noteq> ''''" "?p \<noteq> ''''" "?t \<noteq> ''''"
    "np_VolumeCapability req \<noteq> None" "\<not> mounted_on w ?t"
    by (auto simp: Let_def split: if_splits option.splits)
  then have "w' = push_mount ?t (fst (shown w ?p), snd (shown w ?p) \<or> np_Readonly req) (make_dir ?t w)"
    by (auto simp: mount_result_def bind_options_def split: if_splits)
  then show "m_mounts w' = (m_mounts w)(?t := (fst (shown w ?p), snd (shown w ?p) \<or> np_Readonly req) # m_mounts w ?t)"
    "m_dirs w' ?t \<noteq> None"
    by simp_all
  show "\<not> mounted_on w ?t" "np_VolumeId req \<noteq> ''''" "?p \<noteq> ''''" "?t \<noteq> ''''" "np_VolumeCapability req \<noteq> None"
    by fact+
qed

lemma unmount_OK: "unmount p w = (OK, w') \<longleftrightarrow> m_mounts w p \<noteq> [] \<and> w' = pop_mount p w"
  by (auto simp: unmount_def umount_result_def)

lemma two_calls:
  "serve_nodes m [r1, r2] s = (Ret [c1, c2], s2) \<longleftrightarrow>
     (\<exists>s1. serve_node m r1 s = (Ret c1, s1) \<and> serve_node m r2 s1 = (Ret c2, s2))"
  by (auto simp: call_def split: prod.splits outcome.splits)

text \<open>C22. On a documented machine unpublishing and unstaging undo publishing and staging. When a
  stage and then a publish from its path to another are answered OK, both paths show the
  volume the identifier names, read-only on the target when that was asked for; an unpublish of
  the target and an unstage of the staging path are then answered OK, and leave exactly the
  mounts there were before and the disks as the stage left them.\<close>

theorem node_calls_undone:
  assumes doc: "documented_machine False os view plain kit root" and inv: "machine_good (view s)"
    and paths: "given_paths plain (Stage sreq)" "given_paths plain (Node_publish preq)"
    and same: "np_StagingTargetPath preq = ns_StagingTargetPath sreq" "np_TargetPath preq \<noteq> ns_StagingTargetPath sreq"
    and undo: "nu_VolumeId upreq \<noteq> ''''" "nu_TargetPath upreq = np_TargetPath preq"
      "nus_VolumeId usreq \<noteq> ''''" "nus_StagingTargetPath usreq = ns_StagingTargetPath sreq"
    and run: "serve_nodes (GCEMounter os) [Stage sreq, Node_publish preq] s = (Ret [OK, OK], s2)"
  shows "\<exists>z n ro s4. SplitZoneNameId (ns_VolumeId sreq) = (z, n, None) \<and>
    shown (view s2) (ns_StagingTargetPath sreq) = (Volume n, ro) \<and>
    shown (view s2) (np_TargetPath preq) = (Volume n, ro \<or> np_Readonly preq) \<and>
    serve_nodes (GCEMounter os) [Node_unpublish upreq, Unstage usreq] s2 = (Ret [OK, OK], s4) \<and>
    m_mounts (view s4) = m_mounts (view s) \<and> m_disks (view s4) = m_disks (view s2)"
proof -
  let ?p = "ns_StagingTargetPath sreq" and ?t = "np_TargetPath preq"
  from run obtain s1 where one: "serve_node (GCEMounter os) (Stage sreq) s = (Ret OK, s1)"
    and two: "serve_node (GCEMounter os) (Node_publish preq) s1 = (Ret OK, s2)"
    unfolding two_calls by blast
  note spec1 = node_exactD [OF doc inv paths(1) one]
  have inv1: "machine_good (view s1)" using node_spec_good [OF inv, of kit "Stage sreq"] spec1 by simp
  note spec2 = node_exactD [OF doc inv1 paths(2) two]
  have inv2: "machine_good (view s2)" using node_spec_good [OF inv1, of kit "Node_publish preq"] spec2 by simp
  from stage_OK [OF spec1] obtain z n ro where vol: "SplitZoneNameId (ns_VolumeId sreq) = (z, n, None)"
    and m1: "m_mounts (view s1) = (m_mounts (view s))(?p := (Volume n, ro) # m_mounts (view s) ?p)"
    and p: "?p \<noteq> ''''" by blast
  note ok2 = publish_OK [OF spec2]
  have shown1: "shown (view s1) ?p = (Volume n, ro)" by (simp add: shown_def m1)
  have m2: "m_mounts (view s2) = (m_mounts (view s1))(?t := (Volume n, ro \<or> np_Readonly preq) # m_mounts (view s1) ?t)"
    using ok2(1) shown1 same(1) by simp
  have plain3: "given_paths plain (Node_unpublish upreq)" "given_paths plain (Unstage usreq)"
    using paths undo by (simp_all add: given_paths_def)
  have spec3: "node_spec kit (Node_unpublish upreq) (view s2) = (OK, pop_mount ?t (view s2))"
    using undo ok2(6) m2 by (simp add: unmount_OK)
  obtain s3 where three: "serve_node (GCEMounter os) (Node_unpublish upreq) s2 = (Ret OK, s3)"
    "view s3 = pop_mount ?t (view s2)"
    using node_exact [OF doc inv2 plain3(1)] spec3 by (metis fst_conv snd_conv)
  have inv3: "machine_good (view s3)"
    using node_spec_good [OF inv2, of kit "Node_unpublish upreq"] spec3 three(2) by simp
  have "m_mounts (view s3) ?p \<noteq> []" using three(2) m2 m1 same(2) by simp
  then have spec4: "node_spec kit (Unstage usreq) (view s3) = (OK, pop_mount ?p (view s3))"
    using undo p by (simp add: unmount_OK)
  obtain s4 where four: "serve_node (GCEMounter os) (Unstage usreq) s3 = (Ret OK, s4)"
    "view s4 = pop_mount ?p (view s3)"
    using node_exact [OF doc inv3 plain3(2)] spec4 by (metis fst_conv snd_conv)
  have "m_mounts (view s4) = m_mounts (view s)" "m_disks (view s4) = m_disks (view s2)"
    using four(2) three(2) m2 m1 same(2) by (auto simp: fun_eq_iff)
  moreover have "shown (view s2) ?p = (Volume n, ro)" "shown (view s2) ?t = (Volume n, ro \<or> np_Readonly preq)"
    using m1 m2 same(2) by (simp_all add: shown_def)
  moreover have "serve_nodes (GCEMounter os) [Node_unpublish upreq, Unstage usreq] s2 = (Ret [OK, OK], s4)"
    unfolding two_calls using three(1) four(1) by blast
  ultimately show ?thesis using vol by blast
qed

lemma mounted_on_shown: "machine_inv w \<Longrightarrow> mounted_on w p \<longleftrightarrow> is_volume (fst (shown w p))"
proof -
  assume "machine_inv w"
  then have "m_dirs w p \<noteq> None" if "m_mounts w p \<noteq> []" using that unfolding machine_inv_def by blast
  then show ?thesis by (cases "m_mounts w p") (auto simp: mounted_on_def shown_def)
qed

section \<open>Repeated calls\<close>

text \<open>C18. No node call is idempotent. On a documented machine, when a call has been answered OK, the
  same call once more changes nothing and is refused: a stage with Unknown; a publish, of a
  staged volume, with Internal (its reply is empty); an unstage or unpublish, of a path mounted
  once, with Internal.\<close>

theorem node_repeats_refused:
  assumes doc: "documented_machine False os view plain kit root" and inv: "machine_good (view s)"
    and paths: "given_paths plain r" and run: "serve_node (GCEMounter os) r s = (Ret OK, s1)"
    and proper: "case r of
        Stage _ \<Rightarrow> True
      | Node_publish req \<Rightarrow> is_volume (fst (shown (view s) (np_StagingTargetPath req)))
      | Unstage req \<Rightarrow> length (m_mounts (view s) (nus_StagingTargetPath req)) = 1
      | Node_unpublish req \<Rightarrow> length (m_mounts (view s) (nu_TargetPath req)) = 1"
  shows "\<exists>s2. serve_node (GCEMounter os) r s1 =
      (Ret (case r of Stage _ \<Rightarrow> UnknownCode | _ \<Rightarrow> Internal), s2) \<and> view s2 = view s1"
proof -
  note spec = node_exactD [OF doc inv paths run]
  have inv1: "machine_good (view s1)" using node_spec_good [OF inv, of kit r] spec by simp
  have "node_spec kit r (view s1) = (case r of Stage _ \<Rightarrow> UnknownCode | _ \<Rightarrow> Internal, view s1)"
  proof (cases r)
    case (Stage req)
    from stage_OK [OF spec [unfolded Stage]] obtain z n where
      "SplitZoneNameId (ns_VolumeId req) = (z, n, None)" "m_disks (view s1) n \<noteq> None"
      "ns_VolumeId req \<noteq> ''''" "ns_StagingTargetPath req \<noteq> ''''" "ns_VolumeCapability req \<noteq> None"
      "mounted_on (view s1) (ns_StagingTargetPath req)"
      by (auto simp: mounted_on_def shown_def)
    with Stage show ?thesis by (auto simp: Let_def)
  next
    case (Node_publish req)
    note ok = publish_OK [OF spec [unfolded Node_publish]]
    from ok(1,3) proper Node_publish have "mounted_on (view s1) (np_TargetPath req)"
      by (auto simp: mounted_on_def shown_def)
    with ok Node_publish show ?thesis by (simp add: Let_def)
  next
    case (Unstage req)
    with spec proper show ?thesis
      by (auto simp: unmount_OK length_Suc_conv unmount_def [of _ "pop_mount _ _"] umount_result_def split: if_splits)
  next
    case (Node_unpublish req)
    with spec proper show ?thesis
      by (auto simp: unmount_OK length_Suc_conv unmount_def [of _ "pop_mount _ _"] umount_result_def split: if_splits)
  qed
  with node_exact [OF doc inv1 paths] show ?thesis by (metis fst_conv snd_conv)
qed

section \<open>Publishing what is not staged\<close>

text \<open>C10. Publishing does not ask whether anything is staged. On a documented machine, after a stage
  and an unstage of the same path were answered OK, a publish from that path, to another on which
  no volume is mounted, is answered OK as well; what the target shows is not the volume but the
  folder of the staging path on the node's own disk, which the unstage left behind.\<close>

theorem unstaged_publish:
  assumes doc: "documented_machine False os view plain kit root" and inv: "machine_good (view s)"
    and paths: "given_paths plain (Stage sreq)" "given_paths plain (Node_publish preq)"
    and staged: "serve_nodes (GCEMounter os) [Stage sreq, Unstage ureq] s = (Ret [OK, OK], s1)"
    and same: "nus_StagingTargetPath ureq = ns_StagingTargetPath sreq"
      "np_StagingTargetPath preq = ns_StagingTargetPath sreq" "np_TargetPath preq \<noteq> ns_StagingTargetPath sreq"
    and empty: "m_mounts (view s) (ns_StagingTargetPath sreq) = []" "\<not> mounted_on (view s) (np_TargetPath preq)"
    and options: "known_option kit ''bind''" "known_option kit ''ro''"
    and named: "np_VolumeId preq \<noteq> ''''" "np_TargetPath preq \<noteq> ''''" "np_VolumeCapability preq \<noteq> None"
  shows "\<exists>s2. serve_node (GCEMounter os) (Node_publish preq) s1 = (Ret OK, s2) \<and>
    shown (view s2) (np_TargetPath preq) = (Folder (ns_StagingTargetPath sreq), np_Readonly preq)"
proof -
  let ?p = "ns_StagingTargetPath sreq" and ?t = "np_TargetPath preq"
  from staged obtain s0 where one: "serve_node (GCEMounter os) (Stage sreq) s = (Ret OK, s0)"
    and two: "serve_node (GCEMounter os) (Unstage ureq) s0 = (Ret OK, s1)"
    unfolding two_calls by blast
  note spec1 = node_exactD [OF doc inv paths(1) one]
  have inv0: "machine_good (view s0)" using node_spec_good [OF inv, of kit "Stage sreq"] spec1 by simp
  have plain2: "given_paths plain (Unstage ureq)" using paths same(1) by (simp add: given_paths_def)
  note spec2 = node_exactD [OF doc inv0 plain2 two]
  have inv1: "machine_good (view s1)" using node_spec_good [OF inv0, of kit "Unstage ureq"] spec2 by simp
  from stage_OK [OF spec1] obtain n ro where
    m0: "m_mounts (view s0) = (m_mounts (view s))(?p := (Volume n, ro) # m_mounts (view s) ?p)"
    and p: "m_dirs (view s0) ?p \<noteq> None" "?p \<noteq> ''''" by blast
  from spec2 same(1) have s1: "view s1 = pop_mount ?p (view s0)" by (auto simp: unmount_OK split: if_splits)
  have m1: "m_mounts (view s1) = m_mounts (view s)" using s1 m0 by (auto simp: fun_eq_iff)
  have "\<not> is_volume (fst (shown (view s) ?t))"
    using empty(2) mounted_on_shown inv by (simp add: machine_good_def)
  then have free: "\<not> mounted_on (view s1) ?t" by (simp add: mounted_on_def shown_def m1)
  have links: "volume_of_link ?p = None"
    using documented_machineD(1) [OF doc, of ?p] paths(1) p(2) by (simp add: given_paths_def)
  have shown: "shown (make_dir ?t (view s1)) ?p = (Folder ?p, False)" by (simp add: shown_def m1 empty(1))
  have "m_dirs (make_dir ?t (view s1)) ?p \<noteq> None" using p(1) s1 by (auto simp: make_dir_def)
  then have "mount_result kit ?p ?t ''ext4'' (bind_options (np_Readonly preq)) (make_dir ?t (view s1)) =
      Some (push_mount ?t (Folder ?p, np_Readonly preq) (make_dir ?t (view s1)))"
    using options links shown by (auto simp: mount_result_def bind_options_def)
  with named same(2) p(2) free have "node_spec kit (Node_publish preq) (view s1) =
      (OK, push_mount ?t (Folder ?p, np_Readonly preq) (make_dir ?t (view s1)))"
    by (simp add: Let_def)
  with node_exact [OF doc inv1 paths(2)] obtain s2 where
    "serve_node (GCEMounter os) (Node_publish preq) s1 = (Ret OK, s2)"
    "view s2 = push_mount ?t (Folder ?p, np_Readonly preq) (make_dir ?t (view s1))"
    by (metis fst_conv snd_conv)
  then show ?thesis by (auto simp: shown_def)
qed

section \<open>Witnesses\<close>

text \<open>A node with the disk of a new volume, without a format, and a disk in use elsewhere.\<close>

definition new_node :: machine where
  "new_node = \<lparr>m_disks = [''vol'' \<mapsto> '''', ''data'' \<mapsto> ''xfs''], m_dirs = Map.empty, m_mounts = (\<lambda>_. [])\<rparr>"

definition node_cap :: "VolumeCapability" where
  "node_cap = \<lparr>vc_AccessType = Some (VC_Mount (Some \<lparr>mv_FsType = '''', mv_MountFlags = [''noatime'']\<rparr>)),
     vc_AccessMode = Some SINGLE_NODE_WRITER\<rparr>"

definition stage_vol :: NodeStageVolumeRequest where
  "stage_vol = \<lparr>ns_VolumeId = ''us-a/vol'', ns_StagingTargetPath = ''/staging'', ns_VolumeCapability = Some node_cap\<rparr>"

definition publish_vol :: NodePublishVolumeRequest where
  "publish_vol = \<lparr>np_VolumeId = ''us-a/vol'', np_StagingTargetPath = ''/staging'', np_TargetPath = ''/target'',
     np_VolumeCapability = Some node_cap, np_Readonly = True\<rparr>"

definition unstage_vol :: NodeUnstageVolumeRequest where
  "unstage_vol = \<lparr>nus_VolumeId = ''us-a/vol'', nus_StagingTargetPath = ''/staging''\<rparr>"

definition unpublish_vol :: NodeUnpublishVolumeRequest where
  "unpublish_vol = \<lparr>nu_VolumeId = ''us-a/vol'', nu_TargetPath = ''/target''\<rparr>"

lemma new_node_good: "machine_good new_node"
  by (simp add: machine_good_def machine_inv_def mounted_formatted_def new_node_def)

lemma given_sample:
  "given_paths toy_plain (Stage stage_vol)" "given_paths toy_plain (Node_publish publish_vol)"
  by (simp_all add: given_paths_def toy_plain_def stage_vol_def publish_vol_def volume_of_link_def
      google_link_def scsi_link_def)

lemma sample_runs:
  "fst (serve_nodes (GCEMounter toy_os) [Stage stage_vol, Node_publish publish_vol] new_node) = Ret [OK, OK]"
  "fst (serve_nodes (GCEMounter toy_os) [Stage stage_vol, Unstage unstage_vol] new_node) = Ret [OK, OK]"
  "fst (serve_node (GCEMounter toy_os) (Stage stage_vol) new_node) = Ret OK"
  by code_simp+

theorem node_conforms_witness:
  "\<exists>c s'. serve_node (GCEMounter toy_os) (Stage stage_vol) new_node = (Ret c, s') \<and>
    node_allowed False (node_spec toy_support (Stage stage_vol) new_node) new_node c s'"
  using node_conforms [OF toy_machine_documented _ given_sample(1), of new_node] new_node_good
  by (simp add: machine_good_def)

theorem node_runs_keep_formats_witness:
  "\<exists>cs s'. serve_nodes (GCEMounter toy_os) [Stage stage_vol, Node_publish publish_vol] new_node = (Ret cs, s') \<and>
    m_disks s' ''data'' = Some ''xfs''"
proof -
  have "list_all (given_paths toy_plain) [Stage stage_vol, Node_publish publish_vol]" using given_sample by simp
  from node_runs_keep_formats [OF toy_machine_documented new_node_good this] show ?thesis
    by (auto simp: formats_kept_def new_node_def)
qed

theorem node_calls_undone_witness:
  "\<exists>s2 s4. serve_nodes (GCEMounter toy_os) [Stage stage_vol, Node_publish publish_vol] new_node = (Ret [OK, OK], s2) \<and>
    fst (shown s2 ''/target'') = Volume ''vol'' \<and> snd (shown s2 ''/target'') \<and>
    serve_nodes (GCEMounter toy_os) [Node_unpublish unpublish_vol, Unstage unstage_vol] s2 = (Ret [OK, OK], s4) \<and>
    m_mounts s4 = (\<lambda>_. [])"
proof -
  obtain s2 where run: "serve_nodes (GCEMounter toy_os) [Stage stage_vol, Node_publish publish_vol] new_node =
      (Ret [OK, OK], s2)"
    using sample_runs(1) by (metis prod.collapse)
  have vol: "SplitZoneNameId (ns_VolumeId stage_vol) = (''us-a'', ''vol'', None)" by code_simp
  from node_calls_undone [OF toy_machine_documented new_node_good given_sample _ _ _ _ _ _ run,
      of unpublish_vol unstage_vol] vol
  obtain ro s4 where "shown s2 ''/target'' = (Volume ''vol'', ro \<or> True)"
    "serve_nodes (GCEMounter toy_os) [Node_unpublish unpublish_vol, Unstage unstage_vol] s2 = (Ret [OK, OK], s4)"
    "m_mounts s4 = m_mounts new_node"
    by (auto simp: publish_vol_def stage_vol_def unpublish_vol_def unstage_vol_def)
  with run show ?thesis by (auto simp: new_node_def)
qed

theorem node_repeats_refused_witness:
  "\<exists>s1 s2. serve_node (GCEMounter toy_os) (Stage stage_vol) new_node = (Ret OK, s1) \<and>
    serve_node (GCEMounter toy_os) (Stage stage_vol) s1 = (Ret UnknownCode, s2) \<and> s2 = s1"
proof -
  obtain s1 where run: "serve_node (GCEMounter toy_os) (Stage stage_vol) new_node = (Ret OK, s1)"
    using sample_runs(3) by (metis prod.collapse)
  from node_repeats_refused [OF toy_machine_documented new_node_good given_sample(1) run] run
  show ?thesis by auto
qed

theorem unstaged_publish_witness:
  "\<exists>s1 s2. serve_nodes (GCEMounter toy_os) [Stage stage_vol, Unstage unstage_vol] new_node = (Ret [OK, OK], s1) \<and>
    serve_node (GCEMounter toy_os) (Node_publish publish_vol) s1 = (Ret OK, s2) \<and>
    shown s2 ''/target'' = (Folder ''/staging'', True)"
proof -
  obtain s1 where run: "serve_nodes (GCEMounter toy_os) [Stage stage_vol, Unstage unstage_vol] new_node =
      (Ret [OK, OK], s1)"
    using sample_runs(2) by (metis prod.collapse)
  from unstaged_publish [OF toy_machine_documented new_node_good given_sample run] run show ?thesis
    by (auto simp: stage_vol_def publish_vol_def unstage_vol_def new_node_def mounted_on_def toy_support_def)
qed

end
