(* ===== verification/Delivery.thy ===== *)
theory Delivery
  imports Journey NodeProps
begin

text \<open>
  From CreateVolume to a path on a node that shows the volume: the controller over a documented
  API on one side, the node service over a documented machine on the other. What connects them
  is outside the repository: the disk of a device attached to an instance is there on the machine.
\<close>

section \<open>When the node calls succeed\<close>

text \<open>A disk with a format that can be mounted, or without one and one can be made.\<close>

definition mountable :: "support \<Rightarrow> string \<Rightarrow> string \<Rightarrow> bool" where
  "mountable kit fs f \<longleftrightarrow> (if f = '''' then can_make kit fs \<and> can_mount kit fs fs else can_mount kit fs f)"

lemma stage_succeeds:
  assumes req: "ns_VolumeId req \<noteq> ''''" "ns_StagingTargetPath req \<noteq> ''''" "ns_VolumeCapability req = Some cap"
    and vol: "SplitZoneNameId (ns_VolumeId req) = (z, n, None)"
    and params: "stage_params cap = Some (fs, opts)" and free: "\<not> mounted_on w (ns_StagingTargetPath req)"
    and options: "list_all (known_option kit) (seen_options (opts @ [''defaults'']))"
      "''bind'' \<notin> set (seen_options (opts @ [''defaults'']))"
    and disk: "m_disks w n = Some f" "mountable kit fs f"
  shows "\<exists>w'. node_spec kit (Stage req) w = (OK, w') \<and>
    m_mounts w' = (m_mounts w)(ns_StagingTargetPath req :=
      (Volume n, ''ro'' \<in> set (seen_options (opts @ [''defaults'']))) # m_mounts w (ns_StagingTargetPath req)) \<and>
    m_disks w' n = Some (if f = '''' then fs else f) \<and> m_dirs w' = m_dirs (make_dir (ns_StagingTargetPath req) w)"
proof -
  let ?p = "ns_StagingTargetPath req" and ?o = "seen_options (opts @ [''defaults''])"
  have fs: "fs \<noteq> ''''" using params by (auto simp: stage_params_def split: option.splits if_splits)
  have spec: "node_spec kit (Stage req) w = mount_volume kit n ?p fs ?o (make_dir ?p w)"
    using req vol params free disk(1) by (simp add: Let_def)
  show ?thesis
    unfolding spec using options disk fs
    by (cases "f = ''''") (simp_all add: mount_volume_def mount_result_def mountable_def)
qed

lemma publish_succeeds:
  assumes req: "np_VolumeId req \<noteq> ''''" "np_StagingTargetPath req \<noteq> ''''" "np_TargetPath req \<noteq> ''''"
      "np_VolumeCapability req \<noteq> None"
    and free: "\<not> mounted_on w (np_TargetPath req)" and there: "m_dirs w (np_StagingTargetPath req) \<noteq> None"
      "volume_of_link (np_StagingTargetPath req) = None"
    and options: "known_option kit ''bind''" "known_option kit ''ro''"
  shows "node_spec kit (Node_publish req) w = (OK, push_mount (np_TargetPath req)
    (fst (shown w (np_StagingTargetPath req)), snd (shown w (np_StagingTargetPath req)) \<or> np_Readonly req)
    (make_dir (np_TargetPath req) w))"
proof -
  have "m_dirs (make_dir (np_TargetPath req) w) (np_StagingTargetPath req) \<noteq> None"
    using there(1) by (auto simp: make_dir_def)
  with assms show ?thesis by (auto simp: Let_def mount_result_def bind_options_def)
qed

section \<open>Delivery\<close>

text \<open>The disk of every attached device is on the machine.\<close>

definition disks_arrive :: "attachment list \<Rightarrow> machine \<Rightarrow> bool" where
  "disks_arrive ds w \<longleftrightarrow> (\<forall>a \<in> set ds. m_disks w (at_device a) \<noteq> None)"

text \<open>The node calls for a volume identifier: a stage and a publish of the staged path.\<close>

definition node_requests ::
    "(string \<Rightarrow> bool) \<Rightarrow> string \<Rightarrow> NodeStageVolumeRequest \<Rightarrow> NodePublishVolumeRequest \<Rightarrow> bool" where
  "node_requests plain vid sreq nreq \<longleftrightarrow>
     ns_VolumeId sreq = vid \<and> np_VolumeId nreq = vid \<and> np_StagingTargetPath nreq = ns_StagingTargetPath sreq \<and>
     np_TargetPath nreq \<noteq> ns_StagingTargetPath sreq \<and>
     plain (ns_StagingTargetPath sreq) \<and> plain (np_TargetPath nreq) \<and>
     ns_VolumeCapability sreq \<noteq> None \<and> np_VolumeCapability nreq \<noteq> None"

lemma node_calls_deliver:
  assumes doc: "documented_machine False os view plain kit root" and good: "machine_good (view t)"
    and reqs: "node_requests plain vid sreq nreq" and vol: "SplitZoneNameId vid = (z, n, None)" "vid \<noteq> ''''"
    and cap: "ns_VolumeCapability sreq = Some cap" "stage_params cap = Some (fs, opts)"
    and options: "list_all (known_option kit) (''bind'' # ''ro'' # seen_options (opts @ [''defaults'']))"
      "''bind'' \<notin> set (seen_options (opts @ [''defaults'']))"
    and free: "\<not> mounted_on (view t) (ns_StagingTargetPath sreq)" "\<not> mounted_on (view t) (np_TargetPath nreq)"
    and disk: "m_disks (view t) n = Some f" "mountable kit fs f"
  shows "\<exists>t2. serve_nodes (GCEMounter os) [Stage sreq, Node_publish nreq] t = (Ret [OK, OK], t2) \<and>
    fst (shown (view t2) (np_TargetPath nreq)) = Volume n \<and>
    (np_Readonly nreq \<longrightarrow> snd (shown (view t2) (np_TargetPath nreq))) \<and>
    m_disks (view t2) n = Some (if f = '''' then fs else f)"
proof -
  let ?p = "ns_StagingTargetPath sreq" and ?t = "np_TargetPath nreq"
  have plain: "plain ?p" "plain ?t" and same: "np_StagingTargetPath nreq = ?p" "?t \<noteq> ?p"
    and ids: "ns_VolumeId sreq = vid" "np_VolumeId nreq = vid" "np_VolumeCapability nreq \<noteq> None"
    using reqs by (auto simp: node_requests_def)
  note names = documented_machineD(1) [OF doc plain(1)] documented_machineD(1) [OF doc plain(2)]
  have given: "given_paths plain (Stage sreq)" "given_paths plain (Node_publish nreq)"
    using plain same(1) by (simp_all add: given_paths_def)
  obtain w1 where spec1: "node_spec kit (Stage sreq) (view t) = (OK, w1)"
    and m1: "m_mounts w1 = (m_mounts (view t))(?p := (Volume n, ''ro'' \<in> set (seen_options (opts @ [''defaults'']))) #
      m_mounts (view t) ?p)"
    and d1: "m_disks w1 n = Some (if f = '''' then fs else f)" "m_dirs w1 = m_dirs (make_dir ?p (view t))"
    using stage_succeeds [of sreq cap z n fs opts "view t" kit f] ids vol names cap free(1) options disk by auto
  from node_exact [OF doc good given(1)] spec1 obtain t1 where
    one: "serve_node (GCEMounter os) (Stage sreq) t = (Ret OK, t1)" "view t1 = w1" by (metis fst_conv snd_conv)
  have good1: "machine_good w1" using node_spec_good [OF good, of kit "Stage sreq"] spec1 by simp
  have free1: "\<not> mounted_on w1 ?t"
    using free(2) same(2) good good1 by (simp add: machine_good_def mounted_on_shown shown_def m1)
  have shown1: "shown w1 ?p = (Volume n, ''ro'' \<in> set (seen_options (opts @ [''defaults''])))"
    by (simp add: shown_def m1)
  have spec2: "node_spec kit (Node_publish nreq) w1 = (OK, push_mount ?t
      (Volume n, ''ro'' \<in> set (seen_options (opts @ [''defaults''])) \<or> np_Readonly nreq) (make_dir ?t w1))"
    using publish_succeeds [of nreq w1 kit] ids vol(2) names same(1) free1 d1(2) options(1) shown1
      make_dir_simps(3) [of ?p "view t"] by (simp del: node_spec.simps)
  from node_exact [OF doc _ given(2), of t1] spec2 good1 one(2) obtain t2 where
    two: "serve_node (GCEMounter os) (Node_publish nreq) t1 = (Ret OK, t2)"
    "view t2 = push_mount ?t (Volume n, ''ro'' \<in> set (seen_options (opts @ [''defaults''])) \<or> np_Readonly nreq)
      (make_dir ?t w1)" by (metis fst_conv snd_conv)
  have "serve_nodes (GCEMounter os) [Stage sreq, Node_publish nreq] t = (Ret [OK, OK], t2)"
    unfolding two_calls using one(1) two(1) by blast
  with two(2) d1(1) show ?thesis by (auto simp: shown_def)
qed



end
