(* ===== verification/Server.thy ===== *)
theory Server
  imports Node Controller
begin

text \<open>
  Serving and start-up: ParseEndpoint and logGRPC of pkg/gce-csi-driver/utils.go, the
  non-blocking gRPC server of server.go, Run of gce-driver.go, the creation of the provider
  in pkg/gce-cloud-provider/gce.go, and handle of cmd/main.go. The network, the metadata
  server and the Google libraries are not code of the repository: they are records of calls
  over a world \<open>'s\<close>. glog.Fatal ends the process.
\<close>

section \<open>Endpoints\<close>

definition ParseEndpoint :: "string \<Rightarrow> (string \<times> string \<times> error option) outcome" where
  "ParseEndpoint ep =
     (let invalid = Ret ('''', '''', Some (PlainError ''Invalid endpoint: %v'')) in
      if HasPrefix (ToLower ep) ''unix://'' \<or> HasPrefix (ToLower ep) ''tcp://'' then
        (let s = SplitN2 ep ''://'' in
         if length s < 2 then Panic
         else if s ! 1 \<noteq> '''' then Ret (s ! 0, s ! 1, None) else invalid)
      else invalid)"

definition logGRPC :: "('req \<Rightarrow> ('s, 'resp option \<times> error option) go) \<Rightarrow> 'req \<Rightarrow>
    ('s, 'resp option \<times> error option) go" where
  "logGRPC handler req = call (handler req) (\<lambda>(resp, err). ret (resp, err))"

text \<open>An endpoint is valid exactly when it has the form scheme://address, with a scheme that is
  unix or tcp in any case, and an address that is not empty.\<close>

definition endpoint_of :: "string \<Rightarrow> string \<Rightarrow> string \<Rightarrow> bool" where
  "endpoint_of ep scheme addr \<longleftrightarrow>
     ep = scheme @ ''://'' @ addr \<and> ToLower scheme \<in> {''unix'', ''tcp''} \<and> addr \<noteq> ''''"

lemma ToLower_scheme: "ToLower (p @ ''://'' @ r) = ToLower p @ ''://'' @ ToLower r"
proof -
  have slash: "ToLower (CHR ''/'' # xs) = CHR ''/'' # ToLower xs" for xs
    by (simp add: ToLower.simps ascii_lower_def)
  show ?thesis using ToLower_colon [of p "''//'' @ r"] by (simp add: slash)
qed

lemma scheme_no_colon: "ToLower scheme \<in> {''unix'', ''tcp''} \<Longrightarrow> CHR '':'' \<notin> set scheme"
proof
  assume "ToLower scheme \<in> {''unix'', ''tcp''}" and "CHR '':'' \<in> set scheme"
  then obtain a b where "scheme = a @ CHR '':'' # b" by (meson split_list)
  then have "CHR '':'' \<in> set (ToLower scheme)" by (simp add: ToLower_colon)
  with \<open>ToLower scheme \<in> {''unix'', ''tcp''}\<close> show False by auto
qed

lemma SplitN2_endpoint: "CHR '':'' \<notin> set p \<Longrightarrow> SplitN2 (p @ ''://'' @ r) ''://'' = [p, r]"
  using cut_first [of "CHR '':''" p "''//''" r] by (simp add: SplitN2_def)


lemma ascii_lower_slash: "ascii_lower c = CHR ''/'' \<Longrightarrow> c = CHR ''/''"
proof (rule ccontr)
  assume *: "ascii_lower c = CHR ''/''" "c \<noteq> CHR ''/''"
  then have "65 \<le> (of_char c :: nat)" "(of_char c :: nat) \<le> 90"
    by (auto simp: ascii_lower_def Let_def split: if_splits)
  moreover from this * have "(char_of ((of_char c :: nat) + 32) :: char) = CHR ''/''"
    by (simp add: ascii_lower_def Let_def)
  then have "(of_char (char_of ((of_char c :: nat) + 32) :: char) :: nat) = of_char (CHR ''/'')"
    by simp
  ultimately show False by simp
qed

lemma ToLower_slashD: "ToLower r = CHR ''/'' # y \<Longrightarrow> \<exists>r'. r = CHR ''/'' # r' \<and> ToLower r' = y"
  by (cases r) (auto simp: ToLower.simps split: if_splits dest!: ascii_lower_slash)

lemma HasPrefix_endpoint:
  "HasPrefix (ToLower ep) ''unix://'' \<or> HasPrefix (ToLower ep) ''tcp://'' \<longleftrightarrow>
     (\<exists>scheme addr. ep = scheme @ ''://'' @ addr \<and> ToLower scheme \<in> {''unix'', ''tcp''})"
    (is "?l \<longleftrightarrow> ?r")
proof
  assume ?l
  have "\<exists>sch y. ToLower ep = sch @ CHR '':'' # ''//'' @ y \<and> sch \<in> {''unix'', ''tcp''}"
    using \<open>?l\<close>
  proof
    assume "HasPrefix (ToLower ep) ''unix://''"
    then obtain y where "ToLower ep = ''unix://'' @ y" by (auto simp: HasPrefix_def prefix_def)
    then show ?thesis by (intro exI [of _ "''unix''"] exI [of _ y]) simp
  next
    assume "HasPrefix (ToLower ep) ''tcp://''"
    then obtain y where "ToLower ep = ''tcp://'' @ y" by (auto simp: HasPrefix_def prefix_def)
    then show ?thesis by (intro exI [of _ "''tcp''"] exI [of _ y]) simp
  qed
  then obtain sch y where *: "ToLower ep = sch @ CHR '':'' # ''//'' @ y" "sch \<in> {''unix'', ''tcp''}"
    by blast
  then have "CHR '':'' \<notin> set sch" by auto
  from ToLower_colonD [OF *(1) this] obtain p r where
    ep: "ep = p @ CHR '':'' # r" "ToLower p = sch" and r: "ToLower r = ''//'' @ y" by metis
  from r obtain r1 where "r = CHR ''/'' # r1" "ToLower r1 = CHR ''/'' # y"
    using ToLower_slashD [of r "CHR ''/'' # y"] by auto
  then obtain r2 where "r = ''//'' @ r2" using ToLower_slashD [of r1 y] by auto
  with ep *(2) show ?r by (intro exI [of _ p] exI [of _ r2]) simp
next
  assume ?r
  then obtain scheme addr where "ep = scheme @ ''://'' @ addr" and s: "ToLower scheme \<in> {''unix'', ''tcp''}"
    by blast
  then have "ToLower ep = ToLower scheme @ ''://'' @ ToLower addr" by (simp only: ToLower_scheme)
  with s show ?l by (auto simp: HasPrefix_def)
qed

lemma ParseEndpoint_correct:
  "\<exists>proto addr err. ParseEndpoint ep = Ret (proto, addr, err) \<and>
     (case err of
        None \<Rightarrow> endpoint_of ep proto addr
      | Some e \<Rightarrow> proto = '''' \<and> addr = '''' \<and> (\<nexists>p a. endpoint_of ep p a))"
proof (cases "\<exists>scheme addr. ep = scheme @ ''://'' @ addr \<and> ToLower scheme \<in> {''unix'', ''tcp''}")
  case True
  then obtain p a where ep: "ep = p @ ''://'' @ a" "ToLower p \<in> {''unix'', ''tcp''}" by blast
  have p: "CHR '':'' \<notin> set p" using ep(2) by (rule scheme_no_colon)
  have split: "SplitN2 ep ''://'' = [p, a]" using SplitN2_endpoint [OF p, of a] by (simp add: ep(1))
  have pre: "HasPrefix (ToLower ep) ''unix://'' \<or> HasPrefix (ToLower ep) ''tcp://''"
    unfolding HasPrefix_endpoint using True .
  have run: "ParseEndpoint ep = Ret (if a \<noteq> '''' then (p, a, None)
      else ('''', '''', Some (PlainError ''Invalid endpoint: %v'')))"
    by (simp only: ParseEndpoint_def Let_def pre if_True split) simp
  have uniq: "p' = p \<and> a' = a" if "endpoint_of ep p' a'" for p' a'
  proof -
    have p': "CHR '':'' \<notin> set p'"
      by (rule scheme_no_colon) (use that in \<open>simp only: endpoint_of_def\<close>)
    have "ep = p' @ ''://'' @ a'" using that by (simp only: endpoint_of_def)
    then have "p' @ CHR '':'' # (''//'' @ a') = p @ CHR '':'' # (''//'' @ a)" using ep(1) by simp
    from first_split_unique [OF this p' p] show ?thesis by simp
  qed
  have none: "\<nexists>p' a'. endpoint_of ep p' a'" if "a = ''''"
    using uniq that by (metis endpoint_of_def)
  show ?thesis
  proof (cases "a = ''''")
    case True
    with run none show ?thesis by simp
  next
    case False
    with run ep show ?thesis by (simp add: endpoint_of_def)
  qed
next
  case False
  then have "ParseEndpoint ep = Ret ('''', '''', Some (PlainError ''Invalid endpoint: %v''))"
    using HasPrefix_endpoint [of ep] unfolding ParseEndpoint_def Let_def by (simp only: if_False)
  moreover have "\<nexists>p a. endpoint_of ep p a" using False by (auto simp: endpoint_of_def)
  ultimately show ?thesis by simp
qed


section \<open>Serving\<close>

text \<open>os.Remove and net.Listen, as calls over a world.\<close>

record 's Net =
  net_Remove :: "string \<Rightarrow> 's \<Rightarrow> error option \<times> 's"
  net_Listen :: "string \<Rightarrow> string \<Rightarrow> 's \<Rightarrow> error option \<times> 's"

text \<open>How a call that may end the process ends: it goes on, or glog.Fatal was reached.\<close>

datatype 'a proc = Running 'a | Fatal string

text \<open>What serve hands to the gRPC library: the address it listens on and the registered
  services (a nil server is not registered).\<close>

record Serving =
  srv_network :: string
  srv_address :: string
  srv_services :: "string list"

definition registered_services :: "'i option \<Rightarrow> 'c option \<Rightarrow> 'n option \<Rightarrow> string list" where
  "registered_services ids cs ns =
     (if ids \<noteq> None then [''csi.v0.Identity''] else []) @
     (if cs \<noteq> None then [''csi.v0.Controller''] else []) @
     (if ns \<noteq> None then [''csi.v0.Node''] else [])"

definition listen_and_serve ::
    "'s Net \<Rightarrow> string \<Rightarrow> string \<Rightarrow> 'i option \<Rightarrow> 'c option \<Rightarrow> 'n option \<Rightarrow> ('s, Serving proc) go" where
  "listen_and_serve net proto addr ids cs ns =
     call (sys (net_Listen net proto addr)) (\<lambda>err.
       if err \<noteq> None then ret (Fatal ''Failed to listen: %v'')
       else ret (Running \<lparr>srv_network = proto, srv_address = addr,
              srv_services = registered_services ids cs ns\<rparr>))"

definition serve :: "'s Net \<Rightarrow> string \<Rightarrow> 'i option \<Rightarrow> 'c option \<Rightarrow> 'n option \<Rightarrow> ('s, Serving proc) go" where
  "serve net endpoint ids cs ns =
     call (lift_out (ParseEndpoint endpoint)) (\<lambda>(proto, addr, err).
       if err \<noteq> None then ret (Fatal ''Invalid endpoint: %v'')
       else if proto = ''unix'' then
         (let addr = CHR ''/'' # addr in
          call (sys (net_Remove net addr)) (\<lambda>err.
            if err \<noteq> None \<and> \<not> IsNotExist err
            then ret (Fatal ''Failed to remove %s, error: %s'')
            else listen_and_serve net proto addr ids cs ns))
       else listen_and_serve net proto addr ids cs ns)"

lemma listen_and_serve_run:
  "listen_and_serve net proto addr ids cs ns s =
     (case net_Listen net proto addr s of
        (None, s') \<Rightarrow> (Ret (Running \<lparr>srv_network = proto, srv_address = addr,
            srv_services = registered_services ids cs ns\<rparr>), s')
      | (Some e, s') \<Rightarrow> (Ret (Fatal ''Failed to listen: %v''), s'))"
  by (simp add: listen_and_serve_def call_sys split: prod.split option.split)

lemma serve_correct:
  "\<exists>r s'. serve net ep ids cs ns s = (Ret r, s') \<and>
     (case r of
        Fatal _ \<Rightarrow> True
      | Running srv \<Rightarrow>
          srv_services srv = registered_services ids cs ns \<and>
          (\<exists>addr. endpoint_of ep (srv_network srv) addr \<and>
             (if srv_network srv = ''unix''
              then srv_address srv = CHR ''/'' # addr \<and>
                (\<exists>e s1. net_Remove net (CHR ''/'' # addr) s = (e, s1) \<and>
                   (e = None \<or> IsNotExist e) \<and>
                   net_Listen net ''unix'' (CHR ''/'' # addr) s1 = (None, s'))
              else srv_address srv = addr \<and> net_Listen net (srv_network srv) addr s = (None, s'))))"
proof -
  obtain proto addr err where parse: "ParseEndpoint ep = Ret (proto, addr, err)"
    and ok: "case err of None \<Rightarrow> endpoint_of ep proto addr | Some e \<Rightarrow> True"
    using ParseEndpoint_correct [of ep] by (metis (no_types, lifting) option.case_eq_if)
  obtain e1 s1 where remove: "net_Remove net (CHR ''/'' # addr) s = (e1, s1)" by (metis prod.exhaust)
  obtain e2 s2 where listen1: "net_Listen net proto (CHR ''/'' # addr) s1 = (e2, s2)" by (metis prod.exhaust)
  obtain e3 s3 where listen2: "net_Listen net proto addr s = (e3, s3)" by (metis prod.exhaust)
  note run = serve_def parse call_sys remove listen_and_serve_run Let_def
  show ?thesis
  proof (cases err)
    case (Some e)
    then show ?thesis by (simp add: run)
  next
    case None
    show ?thesis
    proof (cases "proto = ''unix''")
      case True
      with None ok show ?thesis
        by (cases "e1 = None \<or> IsNotExist e1"; cases e2) (auto simp: run listen1 [unfolded True])
    next
      case False
      with None ok show ?thesis by (cases e3) (auto simp: run listen2)
    qed
  qed
qed

text \<open>C39. Over every network, serving either ends the process or listens; it listens only on a
  valid endpoint, on its scheme as written, with the services that are not nil. With the scheme unix in lower case the address is
  made absolute and a socket file there is removed first; with any other spelling, UNIX for
  example, the path stays relative and nothing is removed.\<close>

theorem serve_spec:
  "\<exists>r s'. serve net ep ids cs ns s = (Ret r, s') \<and>
     (case r of
        Fatal _ \<Rightarrow> True
      | Running srv \<Rightarrow>
          srv_services srv = registered_services ids cs ns \<and>
          (\<exists>addr. endpoint_of ep (srv_network srv) addr \<and>
             (if srv_network srv = ''unix''
              then srv_address srv = CHR ''/'' # addr \<and>
                (\<exists>e s1. net_Remove net (CHR ''/'' # addr) s = (e, s1) \<and>
                   (e = None \<or> IsNotExist e) \<and>
                   net_Listen net ''unix'' (CHR ''/'' # addr) s1 = (None, s'))
              else srv_address srv = addr \<and> net_Listen net (srv_network srv) addr s = (None, s'))))"
  by (rule serve_correct)

section \<open>The server and its wait group\<close>

text \<open>
  The state of the non-blocking server: the counter of the wait group, whether the goroutine
  of serve has been started, has set the gRPC server, and has returned from it, and whether
  the process has ended. Start adds one to the counter; no code of the driver calls Done.
\<close>

record server_state =
  st_wg :: nat
  st_started :: bool
  st_server :: "Serving option"
  st_finished :: bool
  st_exited :: bool

definition NewNonBlockingGRPCServer :: server_state where
  "NewNonBlockingGRPCServer =
     \<lparr>st_wg = 0, st_started = False, st_server = None, st_finished = False, st_exited = False\<rparr>"

definition server_Start :: "server_state \<Rightarrow> server_state" where
  "server_Start st = st\<lparr>st_wg := st_wg st + 1, st_started := True\<rparr>"

text \<open>Wait returns when the counter is zero.\<close>

definition server_Wait_returns :: "server_state \<Rightarrow> bool" where
  "server_Wait_returns st \<longleftrightarrow> st_wg st = 0"

text \<open>Stop and ForceStop dereference the gRPC server, which is nil until serve has set it.\<close>

definition server_Stop :: "server_state \<Rightarrow> server_state outcome" where
  "server_Stop st =
     (case st_server st of None \<Rightarrow> Panic | Some _ \<Rightarrow> Ret (st\<lparr>st_finished := True\<rparr>))"

text \<open>The steps of the callers and of the goroutine, for the outcome \<open>out\<close> of \<open>serve\<close>.\<close>

inductive server_step :: "Serving proc \<Rightarrow> server_state \<Rightarrow> server_state \<Rightarrow> bool" for out where
  start: "\<not> st_exited st \<Longrightarrow> server_step out st (server_Start st)"
| serving: "\<not> st_exited st \<Longrightarrow> st_started st \<Longrightarrow> out = Running srv \<Longrightarrow>
    server_step out st (st\<lparr>st_server := Some srv\<rparr>)"
| fatal: "\<not> st_exited st \<Longrightarrow> st_started st \<Longrightarrow> out = Fatal msg \<Longrightarrow>
    server_step out st (st\<lparr>st_exited := True\<rparr>)"
| stop: "\<not> st_exited st \<Longrightarrow> server_Stop st = Ret st' \<Longrightarrow> server_step out st st'"

inductive server_reach :: "Serving proc \<Rightarrow> server_state \<Rightarrow> bool" for out where
  init: "server_reach out NewNonBlockingGRPCServer"
| step: "server_reach out st \<Longrightarrow> server_step out st st' \<Longrightarrow> server_reach out st'"

lemma server_wg: "server_reach out st \<Longrightarrow> st_started st \<longleftrightarrow> st_wg st \<noteq> 0"
proof (induction rule: server_reach.induct)
  case init
  show ?case by (simp add: NewNonBlockingGRPCServer_def)
next
  case (step st st')
  from step(2) step(3) show ?case
    by cases (auto simp: server_Start_def server_Stop_def split: option.splits)
qed



end
