(* ===== verification/Startup.thy ===== *)
theory Startup
  imports Server
begin

text \<open>
  Start-up: the creation of the provider in pkg/gce-cloud-provider/gce.go, Run of
  gce-driver.go and handle of cmd/main.go. The Google libraries (token source, API client,
  metadata server) are not code of the repository: they are the record \<open>Google\<close> of calls over
  a world \<open>'s\<close>.
\<close>

section \<open>Creating the provider\<close>

text \<open>
  \<open>default_token_source\<close> is google.DefaultTokenSource (nil error: there is one),
  \<open>fetch_token\<close> its Token method, \<open>token_ticks\<close> the ticks of the poll timer delivered before
  the deadline of a poll that starts in this world, \<open>new_service\<close> is compute.New.
\<close>

record 's Google =
  default_token_source :: "'s \<Rightarrow> error option \<times> 's"
  fetch_token :: "'s \<Rightarrow> error option \<times> 's"
  token_ticks :: "'s \<Rightarrow> nat"
  new_service :: "'s \<Rightarrow> (error + 's ComputeService) \<times> 's"
  metadata_Get :: "string \<Rightarrow> 's \<Rightarrow> (error + string) \<times> 's"
  metadata_ProjectID :: "'s \<Rightarrow> (error + string) \<times> 's"

text \<open>PollImmediate checks the condition once before it polls.\<close>

definition PollImmediate ::
    "('s \<Rightarrow> nat) \<Rightarrow> nat \<Rightarrow> nat \<Rightarrow> ('s, bool \<times> error option) go \<Rightarrow> ('s, error option) go" where
  "PollImmediate ticks interval timeout condition =
     call condition (\<lambda>(done, err).
       if err \<noteq> None then ret err
       else if done then ret None
       else (\<lambda>s. Poll (ticks s) interval timeout condition s))"

definition token_condition :: "'s Google \<Rightarrow> ('s, bool \<times> error option) go" where
  "token_condition g =
     call (sys (fetch_token g)) (\<lambda>err. if err \<noteq> None then ret (False, None) else ret (True, None))"

definition newDefaultOauthClient :: "'s Google \<Rightarrow> ('s, unit option \<times> error option) go" where
  "newDefaultOauthClient g =
     call (sys (default_token_source g)) (\<lambda>err.
       if err \<noteq> None then ret (None, err)
       else
         call (PollImmediate (token_ticks g) 5 30 (token_condition g)) (\<lambda>err.
           if err \<noteq> None then ret (None, err) else ret (Some (), None)))"

definition createCloudService :: "'s Google \<Rightarrow> ('s, 's ComputeService option \<times> error option) go" where
  "createCloudService g =
     call (newDefaultOauthClient g) (\<lambda>(client, err).
       if err \<noteq> None then ret (None, err)
       else
         call (sys (new_service g)) (\<lambda>reply.
           case reply of Inl err \<Rightarrow> ret (None, Some err) | Inr service \<Rightarrow> ret (Some service, None)))"

definition getProjectAndZoneFromMetadata ::
    "'s Google \<Rightarrow> ('s, string \<times> string \<times> error option) go" where
  "getProjectAndZoneFromMetadata g =
     call (sys (metadata_Get g ''instance/zone'')) (\<lambda>reply.
       case reply of Inl err \<Rightarrow> ret ('''', '''', Some err) | Inr result \<Rightarrow>
       let parts = Split result (CHR ''/'') in
       if length parts \<noteq> 4 then ret ('''', '''', Some (PlainError ''unexpected response: %s''))
       else
         let z = parts ! 3 in
         call (sys (metadata_ProjectID g)) (\<lambda>reply.
           case reply of
             Inl err \<Rightarrow> ret ('''', '''', Some err)
           | Inr projectID \<Rightarrow> ret (projectID, z, None)))"

definition CreateCloudProvider :: "'s Google \<Rightarrow> ('s, 's CloudProvider option \<times> error option) go" where
  "CreateCloudProvider g =
     call (createCloudService g) (\<lambda>(svc, err).
       if err \<noteq> None then ret (None, err)
       else
         call (getProjectAndZoneFromMetadata g) (\<lambda>(project, z, err).
           if err \<noteq> None then
             ret (None, Some (PlainError ''Failed getting Project and Zone from Metadata server: %v''))
           else ret (Some \<lparr>gce_service = svc, gce_project = project, gce_zone = z\<rparr>, None)))"

section \<open>main\<close>

text \<open>Run starts the server and waits; the process goes on with what serve does. The three
  pointers become interface values, which are not nil even when the pointer is: each is \<open>Some\<close> for
  the checks of serve.\<close>

definition Run :: "'s Net \<Rightarrow> string \<Rightarrow> ('cp, 'm) GCEDriver \<Rightarrow> ('s, Serving proc) go" where
  "Run net endpoint drv =
     serve net endpoint (Some (drv_ids drv)) (Some (drv_cs drv)) (Some (drv_ns drv))"

definition handle_main ::
    "'s Google \<Rightarrow> 's OS \<Rightarrow> 's Net \<Rightarrow> string \<Rightarrow> string \<Rightarrow> string \<Rightarrow>
     ('s, (('s CloudProvider, 's Mounter) GCEDriver \<times> Serving) proc) go" where
  "handle_main g os net endpoint driverName nodeID =
     (let gceDriver = GetGCEDriver in
      call (CreateCloudProvider g) (\<lambda>(cloudProvider, err).
      if err \<noteq> None then ret (Fatal ''Failed to get cloud provider: %v'')
      else deref cloudProvider (\<lambda>cloudProvider.
      let mounter = GCEMounter os;
          (err, gceDriver) = SetupGCEDriver cloudProvider mounter driverName nodeID gceDriver
      in if err \<noteq> None then ret (Fatal ''Failed to initialize GCE CSI Driver: %v'')
         else call (Run net endpoint gceDriver) (\<lambda>r.
           case r of Fatal msg \<Rightarrow> ret (Fatal msg) | Running srv \<Rightarrow> ret (Running (gceDriver, srv))))))"

section \<open>Facts\<close>

text \<open>Every wait is a bounded number of checks of the condition; a success means that one of
  them succeeded.\<close>

lemma PollImmediate_success:
  assumes "PollImmediate ticks i t fn s = (Ret None, s')"
  shows "\<exists>s0. fn s0 = (Ret (True, None), s')"
  using assms WaitFor_success
  by (auto simp: PollImmediate_def Poll_def call_Ret_iff split: if_splits dest!: WaitFor_success)

lemma token_success:
  "token_condition g s0 = (Ret (True, None), s') \<Longrightarrow> fetch_token g s0 = (None, s')"
  by (auto simp: token_condition_def call_sys split: prod.splits if_splits)

lemma returns_token_condition: "returns (token_condition g)"
  unfolding token_condition_def by (auto intro!: go_rules)

lemma returns_newDefaultOauthClient:
  "triple (\<lambda>_. True) (newDefaultOauthClient g) (\<lambda>(c, err) s. c = None \<longleftrightarrow> err \<noteq> None)"
proof -
  have w: "\<exists>a s'. WaitFor n (token_condition g) s = (Ret a, s')" for n s
    using triple_WaitFor [OF returns_token_condition, of n g] by (simp add: triple_def)
  have poll: "returns (PollImmediate ticks i t (token_condition g))" for ticks i t
    unfolding PollImmediate_def
    by (rule triple_call [OF returns_token_condition])
       (auto simp: triple_def Poll_def w)
  show ?thesis
    unfolding newDefaultOauthClient_def
    by (rule triple_call [OF triple_sys])
       (auto intro!: go_rules triple_call [OF poll])
qed

lemma createCloudService_result:
  obtains (failed) e s' where "createCloudService g s = (Ret (None, Some e), s')"
    | (made) svc s0 s1 s' where "createCloudService g s = (Ret (Some svc, None), s')"
        "fetch_token g s0 = (None, s1)" "new_service g s1 = (Inr svc, s')"
proof -
  obtain client err s1 where client: "newDefaultOauthClient g s = (Ret (client, err), s1)"
    by (rule tripleD [OF returns_newDefaultOauthClient [of g] TrueI, of s]) auto
  obtain service s2 where svc: "new_service g s1 = (service, s2)" by (metis prod.exhaust)
  note run = createCloudService_def call_def [of "newDefaultOauthClient g"] client call_sys svc
  show thesis
  proof (cases "err = None")
    case False
    then show thesis by (auto simp: run intro: failed)
  next
    case True
    then have "\<exists>s0. fetch_token g s0 = (None, s1)"
      using client by (auto simp: newDefaultOauthClient_def call_sys call_Ret_iff
          split: prod.splits if_splits dest!: PollImmediate_success token_success)
    with True svc show thesis by (cases service) (auto simp: run intro: failed made)
  qed
qed

lemma getProjectAndZoneFromMetadata_result:
  obtains (failed) e s' where "getProjectAndZoneFromMetadata g s = (Ret ('''', '''', Some e), s')"
    | (read) a b d z pid s1 s' where "getProjectAndZoneFromMetadata g s = (Ret (pid, z, None), s')"
        "metadata_Get g ''instance/zone'' s = (Inr (Join [a, b, d, z] ''/''), s1)" "CHR ''/'' \<notin> set z"
        "metadata_ProjectID g s1 = (Inr pid, s')"
proof -
  obtain r s1 where meta: "metadata_Get g ''instance/zone'' s = (r, s1)" by (metis prod.exhaust)
  obtain proj s2 where proj: "metadata_ProjectID g s1 = (proj, s2)" by (metis prod.exhaust)
  note run = getProjectAndZoneFromMetadata_def call_sys meta proj Let_def
  show thesis
  proof (cases "\<exists>result. r = Inr result \<and> length (Split result (CHR ''/'')) = 4")
    case False
    then show thesis by (cases r) (auto simp: run intro: failed)
  next
    case True
    then obtain result a b d z where r: "r = Inr result" and parts: "Split result (CHR ''/'') = [a, b, d, z]"
      by (auto simp: length_Suc_conv eval_nat_numeral)
    have "result = Join [a, b, d, z] ''/''" "CHR ''/'' \<notin> set z"
      using Join_Split [of result "CHR ''/''"] Split_pieces [of z result "CHR ''/''"] parts by auto
    with r parts meta proj show thesis by (cases proj) (auto simp: run intro: failed read)
  qed
qed

lemma CreateCloudProvider_correct:
  "\<exists>cloud err s'. CreateCloudProvider g s = (Ret (cloud, err), s') \<and>
     reply_ok UNIV cloud err \<and>
     (case cloud of
        None \<Rightarrow> True
      | Some c \<Rightarrow>
          (\<exists>s0 s1 svc s2 s3 a b d s4. fetch_token g s0 = (None, s1) \<and>
             new_service g s1 = (Inr svc, s2) \<and> gce_service c = Some svc \<and>
             metadata_Get g ''instance/zone'' s2 = (Inr (Join [a, b, d, gce_zone c] ''/''), s3) \<and>
             CHR ''/'' \<notin> set (gce_zone c) \<and>
             metadata_ProjectID g s3 = (Inr (gce_project c), s4)))"
proof (cases rule: createCloudService_result [of g s])
  case failed
  then show ?thesis by (simp add: CreateCloudProvider_def call_def)
next
  case (made svc s0 s1 s2)
  then show ?thesis
  proof (cases rule: getProjectAndZoneFromMetadata_result [of g s2])
    case failed
    with made show ?thesis by (simp add: CreateCloudProvider_def call_def)
  next
    case (read a b d z pid s3 s4)
    with made have "CreateCloudProvider g s =
        (Ret (Some \<lparr>gce_service = Some svc, gce_project = pid, gce_zone = z\<rparr>, None), s4)"
      by (simp add: CreateCloudProvider_def call_def)
    with made read show ?thesis by fastforce
  qed
qed

text \<open>Over every Google library: creating the provider never panics, and returns either a
  provider or an error. When it succeeds, a token could be fetched, the provider has an API
  client, its project is the one of the metadata server, and its zone is the last of the
  exactly four parts of the metadata server's answer for instance/zone.\<close>

lemma CreateCloudProvider_spec:
  "\<exists>cloud err s'. CreateCloudProvider g s = (Ret (cloud, err), s') \<and>
     reply_ok UNIV cloud err \<and>
     (case cloud of
        None \<Rightarrow> True
      | Some c \<Rightarrow>
          (\<exists>s0 s1 svc s2 s3 a b d s4. fetch_token g s0 = (None, s1) \<and>
             new_service g s1 = (Inr svc, s2) \<and> gce_service c = Some svc \<and>
             metadata_Get g ''instance/zone'' s2 = (Inr (Join [a, b, d, gce_zone c] ''/''), s3) \<and>
             CHR ''/'' \<notin> set (gce_zone c) \<and>
             metadata_ProjectID g s3 = (Inr (gce_project c), s4)))"
  by (rule CreateCloudProvider_correct)


lemma serve_running:
  obtains (fatal) msg s' where "serve net ep ids cs ns s = (Ret (Fatal msg), s')"
  | (running) srv s' addr where "serve net ep ids cs ns s = (Ret (Running srv), s')"
      "endpoint_of ep (srv_network srv) addr" "srv_services srv = registered_services ids cs ns"
proof -
  from serve_correct [of net ep ids cs ns s] obtain r s' where
    run: "serve net ep ids cs ns s = (Ret r, s')"
    and ok: "case r of Fatal _ \<Rightarrow> True | Running srv \<Rightarrow>
      srv_services srv = registered_services ids cs ns \<and> (\<exists>addr. endpoint_of ep (srv_network srv) addr)"
    by (fastforce split: proc.splits)
  show ?thesis
  proof (cases r)
    case (Fatal msg)
    with run fatal show ?thesis by simp
  next
    case (Running srv)
    with ok obtain addr where "endpoint_of ep (srv_network srv) addr"
      "srv_services srv = registered_services ids cs ns" by auto
    with run Running running show ?thesis by simp
  qed
qed

lemma CreateCloudProvider_cases:
  obtains (failed) e s' where "CreateCloudProvider g s = (Ret (None, Some e), s')"
  | (made) svc p z s' where "CreateCloudProvider g s = (Ret (Some (gce_cloud svc p z), None), s')"
proof -
  from CreateCloudProvider_correct [of g s] obtain cloud err s' where
    run: "CreateCloudProvider g s = (Ret (cloud, err), s')" and ok: "reply_ok UNIV cloud err"
    and svc: "case cloud of None \<Rightarrow> True | Some c \<Rightarrow> \<exists>svc. gce_service c = Some svc"
    by (fastforce split: option.splits)
  show ?thesis
  proof (cases cloud)
    case None
    with ok run failed show ?thesis by (cases err) auto
  next
    case (Some c)
    with svc obtain svc where "gce_service c = Some svc" by auto
    then have "c = gce_cloud svc (gce_project c) (gce_zone c)" by simp
    with ok run Some made show ?thesis by (cases err) (auto simp: reply_ok_def)
  qed
qed

text \<open>What a driver that serves looks like, for the given flags.\<close>

definition serves_as ::
    "'s OS \<Rightarrow> string \<Rightarrow> string \<Rightarrow> string \<Rightarrow> (('s CloudProvider, 's Mounter) GCEDriver \<times> Serving) proc \<Rightarrow> bool"
  where
  "serves_as os ep name node r \<longleftrightarrow>
     (case r of
        Fatal _ \<Rightarrow> True
      | Running (drv, srv) \<Rightarrow>
          name \<noteq> '''' \<and> node \<noteq> '''' \<and> (\<exists>addr. endpoint_of ep (srv_network srv) addr) \<and>
          srv_services srv = [''csi.v0.Identity'', ''csi.v0.Controller'', ''csi.v0.Node''] \<and>
          NodeGetId drv = (Some node, None) \<and> GetPluginInfo drv = (Some name, None) \<and>
          (\<exists>svc p z. drv_cs drv = Some (gce_cloud svc p z)) \<and> drv_ns drv = Some (GCEMounter os))"

lemma handle_main_serves:
  "\<exists>r s'. handle_main g os net ep name node s = (Ret r, s') \<and> serves_as os ep name node r"
proof (cases rule: CreateCloudProvider_cases [of g s])
  case (failed e s')
  then show ?thesis by (simp add: handle_main_def Let_def call_def serves_as_def)
next
  case (made svc p z s')
  let ?cloud = "gce_cloud svc p z" and ?m = "GCEMounter os"
  show ?thesis
  proof (cases "name = '''' \<or> node = ''''")
    case True
    with made show ?thesis
      by (auto simp: handle_main_def Let_def call_def SetupGCEDriver_def serves_as_def)
  next
    case False
    then have ne: "name \<noteq> ''''" "node \<noteq> ''''" by auto
    define drv where "drv = snd (SetupGCEDriver ?cloud ?m name node GetGCEDriver)"
    have made_drv: "SetupGCEDriver ?cloud ?m name node GetGCEDriver = (None, drv)"
      and drv: "drv_ids drv = Some ()" "drv_cs drv = Some ?cloud" "drv_ns drv = Some ?m"
        "drv_nodeID drv = node" "drv_name drv = name"
      by (simp_all add: drv_def SetupGCEDriver_run [OF ne])
    show ?thesis
      by (cases rule: serve_running [of net ep "Some (drv_ids drv)" "Some (drv_cs drv)"
            "Some (drv_ns drv)" s'])
         (use made made_drv drv ne in \<open>auto simp: handle_main_def Let_def call_def Run_def
            registered_services_def NodeGetId_def GetPluginInfo_def serves_as_def\<close>)
  qed
qed

end
