(* ===== verification/Flags.thy ===== *)
theory Flags
  imports Startup
begin

text \<open>
  cmd/main.go: the command line. Parsing is that of Go's package flag, on the flags of the
  program and those that other packages declare (glog), which are a parameter: which of them
  exist, which are boolean, and which values they take. The values of all flags are a map.
\<close>

section \<open>Go's package flag\<close>

text \<open>For each declared flag: whether it is boolean, and which values its Set accepts.\<close>

type_synonym flag_table = "string \<rightharpoonup> bool \<times> (string \<Rightarrow> bool)"
type_synonym flag_values = "string \<rightharpoonup> string"

text \<open>flag.Set: the value is stored unless the flag is not declared or refuses it.\<close>

definition flag_Set :: "flag_table \<Rightarrow> string \<Rightarrow> string \<Rightarrow> flag_values \<Rightarrow> flag_values option" where
  "flag_Set declared name v values =
     (case declared name of
        None \<Rightarrow> None
      | Some (_, accepts) \<Rightarrow> if accepts v then Some (values(name \<mapsto> v)) else None)"

text \<open>What one argument is: not a flag (parsing stops), the terminator, badly written, or a flag
  with the value after the first equals sign, which is not the first character.\<close>

datatype arg_kind = NotFlag | Terminator | BadSyntax | Flag string "string option"

definition flag_arg :: "string \<Rightarrow> arg_kind" where
  "flag_arg name =
     (case name of
        [] \<Rightarrow> BadSyntax
      | c # cs \<Rightarrow>
          if c = CHR ''-'' \<or> c = CHR ''='' then BadSyntax
          else (case cut cs ''='' of
                  None \<Rightarrow> Flag name None
                | Some (n, v) \<Rightarrow> Flag (c # n) (Some v)))"

definition classify_arg :: "string \<Rightarrow> arg_kind" where
  "classify_arg s =
     (if length s < 2 \<or> s ! 0 \<noteq> CHR ''-'' then NotFlag
      else if s ! 1 = CHR ''-'' then
        (if length s = 2 then Terminator else flag_arg (drop 2 s))
      else flag_arg (drop 1 s))"

text \<open>flag.Parse with ExitOnError: every error ends the process.\<close>

datatype parsed = Parsed flag_values | Usage_exit

fun parse_flags :: "flag_table \<Rightarrow> string list \<Rightarrow> flag_values \<Rightarrow> parsed" where
  "parse_flags declared [] values = Parsed values"
| "parse_flags declared (s # args) values =
     (case classify_arg s of
        NotFlag \<Rightarrow> Parsed values
      | Terminator \<Rightarrow> Parsed values
      | BadSyntax \<Rightarrow> Usage_exit
      | Flag name val \<Rightarrow>
          (case declared name of
             None \<Rightarrow> Usage_exit
           | Some (is_bool, _) \<Rightarrow>
               if is_bool then
                 (case flag_Set declared name (case val of None \<Rightarrow> ''true'' | Some v \<Rightarrow> v) values of
                    None \<Rightarrow> Usage_exit
                  | Some values \<Rightarrow> parse_flags declared args values)
               else
                 (case val of
                    Some v \<Rightarrow>
                      (case flag_Set declared name v values of
                         None \<Rightarrow> Usage_exit
                       | Some values \<Rightarrow> parse_flags declared args values)
                  | None \<Rightarrow>
                      (case args of
                         [] \<Rightarrow> Usage_exit
                       | v # args \<Rightarrow>
                           (case flag_Set declared name v values of
                              None \<Rightarrow> Usage_exit
                            | Some values \<Rightarrow> parse_flags declared args values)))))"

section \<open>The flags of the program\<close>

definition main_defaults :: flag_values where
  "main_defaults =
     [''endpoint'' \<mapsto> ''unix://tmp/csi.sock'',
      ''drivername'' \<mapsto> ''com.google.csi.gcepd'',
      ''nodeid'' \<mapsto> '''']"

text \<open>String flags accept every value. A flag declared twice panics when the program starts, so
  the flags of other packages have other names.\<close>

definition main_flags :: "flag_table \<Rightarrow> flag_table" where
  "main_flags others =
     (\<lambda>name. if main_defaults name \<noteq> None then Some (False, \<lambda>_. True) else others name)"

text \<open>The result of flag.Set is not looked at.\<close>

definition init_main :: "flag_table \<Rightarrow> flag_values \<Rightarrow> flag_values" where
  "init_main others values =
     (case flag_Set (main_flags others) ''logtostderr'' ''true'' values of
        None \<Rightarrow> values | Some values \<Rightarrow> values)"

abbreviation flag_value :: "flag_values \<Rightarrow> string \<Rightarrow> string" where
  "flag_value values name \<equiv> (case values name of None \<Rightarrow> '''' | Some v \<Rightarrow> v)"

text \<open>main: \<open>None\<close> stands for the exit with the usage message.\<close>

definition main_program ::
    "'s Google \<Rightarrow> 's OS \<Rightarrow> 's Net \<Rightarrow> flag_table \<Rightarrow> string list \<Rightarrow>
     ('s, (('s CloudProvider, 's Mounter) GCEDriver \<times> Serving) proc option) go" where
  "main_program g os net others args =
     (case parse_flags (main_flags others) args (init_main others main_defaults) of
        Usage_exit \<Rightarrow> ret None
      | Parsed values \<Rightarrow>
          call (handle_main g os net (flag_value values ''endpoint'') (flag_value values ''drivername'')
                  (flag_value values ''nodeid'')) (\<lambda>r. ret (Some r)))"

section \<open>Facts\<close>

text \<open>A setting is written in one of the four ways the package accepts.\<close>

datatype style = Style (double_dash: bool) (with_equals: bool)

definition dashes :: "style \<Rightarrow> string" where
  "dashes st = (if double_dash st then ''--'' else ''-'')"

definition write_setting :: "style \<times> string \<times> string \<Rightarrow> string list" where
  "write_setting = (\<lambda>(st, name, v).
     if with_equals st then [dashes st @ name @ ''='' @ v] else [dashes st @ name, v])"

definition flag_name :: "string \<Rightarrow> bool" where
  "flag_name name \<longleftrightarrow> name \<noteq> '''' \<and> hd name \<noteq> CHR ''-'' \<and> CHR ''='' \<notin> set name"

lemma cut_equals:
  "CHR ''='' \<notin> set n \<Longrightarrow> cut (n @ ''='' @ v) ''='' = Some (n, v)"
  "CHR ''='' \<notin> set n \<Longrightarrow> cut n ''='' = None"
  using cut_first [of "CHR ''=''" n "''''" v]
  by (simp, induction n) (auto simp: prefix_def)

lemma flag_arg_name:
  assumes "flag_name name"
  shows "flag_arg (name @ ''='' @ v) = Flag name (Some v)" and "flag_arg name = Flag name None"
proof -
  from assms obtain c cs where name: "name = c # cs" "c \<noteq> CHR ''-''" "c \<noteq> CHR ''=''" "CHR ''='' \<notin> set cs"
    by (cases name) (auto simp: flag_name_def)
  from cut_equals(1) [OF name(4), of v] show "flag_arg (name @ ''='' @ v) = Flag name (Some v)"
    using name by (simp add: flag_arg_def)
  from cut_equals(2) [OF name(4)] show "flag_arg name = Flag name None"
    using name by (simp add: flag_arg_def)
qed

lemma classify_dashes:
  assumes "x \<noteq> ''''" and "hd x \<noteq> CHR ''-''"
  shows "classify_arg (dashes st @ x) = flag_arg x"
  using assms by (cases x) (auto simp: classify_arg_def dashes_def)

lemma classify_setting:
  assumes "flag_name name"
  shows "classify_arg (dashes st @ name @ ''='' @ v) = Flag name (Some v)"
    and "classify_arg (dashes st @ name) = Flag name None"
  using classify_dashes [of "name @ ''='' @ v" st] classify_dashes [of name st] assms
    flag_arg_name [OF assms]
  by (cases name; simp add: flag_name_def)+

lemma parse_setting:
  assumes "flag_name name" and "declared name = Some (False, accepts)" and "accepts v"
  shows "parse_flags declared (write_setting (st, name, v) @ args) values =
    parse_flags declared args (values(name \<mapsto> v))"
  using assms classify_setting [OF assms(1), of st]
  by (cases "with_equals st") (simp_all add: write_setting_def flag_Set_def)

lemma init_main_own: "main_defaults name \<noteq> None \<Longrightarrow> init_main others values name = values name"
  by (auto simp: init_main_def flag_Set_def main_defaults_def split: option.splits if_splits)

lemma main_flag_own:
  assumes "main_defaults name \<noteq> None"
  shows "flag_name name" and "main_flags others name = Some (False, \<lambda>_. True)"
  using assms by (auto simp: main_flags_def main_defaults_def flag_name_def split: if_splits)

lemma parse_settings:
  assumes "\<forall>(st, name, v) \<in> set ss. main_defaults name \<noteq> None"
  shows "parse_flags (main_flags others) (concat (map write_setting ss) @ args) vals =
    parse_flags (main_flags others) args (vals ++ map_of (rev (map snd ss)))"
  using assms
proof (induction ss arbitrary: vals)
  case (Cons s ss)
  obtain st name v where s: "s = (st, name, v)" by (metis prod.exhaust)
  with Cons.prems have own: "main_defaults name \<noteq> None" by simp
  show ?case
    using Cons parse_setting [of name "main_flags others" "\<lambda>_. True" v st] main_flag_own [OF own]
    by (simp add: s map_add_assoc [symmetric])
qed simp

text \<open>The three flags, written in any of the ways the package accepts (one dash or two, the
  value after an equals sign or as the next argument) and in any order, are read back: each
  has the last value given for it, and its default when none was given.\<close>

lemma main_flags_parsed:
  assumes "\<forall>(st, name, v) \<in> set ss. name \<in> {''endpoint'', ''drivername'', ''nodeid''}"
  shows "\<exists>values. parse_flags (main_flags others) (concat (map write_setting ss))
      (init_main others main_defaults) = Parsed values \<and>
    (\<forall>name \<in> {''endpoint'', ''drivername'', ''nodeid''}.
       values name = (case map_of (rev (map snd ss)) name of
         None \<Rightarrow> main_defaults name | Some v \<Rightarrow> Some v))"
proof -
  have own: "main_defaults name \<noteq> None" if "name \<in> {''endpoint'', ''drivername'', ''nodeid''}" for name
    using that by (auto simp: main_defaults_def)
  with assms have "\<forall>(st, name, v) \<in> set ss. main_defaults name \<noteq> None" by fastforce
  from parse_settings [OF this, of others "[]"] own show ?thesis
    by (auto simp: map_add_def init_main_own split: option.splits)
qed

end
