(* ===== verification/Service.thy ===== *)
theory Service
  imports Flags ControllerProps
begin

text \<open>
  The three services as the gRPC server offers them: every request a client can send, its
  handler, the interceptor logGRPC of utils.go, and what goes back on the wire. The dispatch is
  that of the generated code (_Controller_CreateVolume_Handler and its like) for the services
  registered in server.go; a request of another service is answered Unimplemented by gRPC.
\<close>

section \<open>Requests and responses\<close>

datatype request =
    GetPluginInfoReq | GetPluginCapabilitiesReq | ProbeReq
  | CreateVolumeReq CreateVolumeRequest
  | DeleteVolumeReq DeleteVolumeRequest
  | ControllerPublishReq ControllerPublishVolumeRequest
  | ControllerUnpublishReq ControllerUnpublishVolumeRequest
  | ValidateReq ValidateVolumeCapabilitiesRequest
  | ListVolumesReq | GetCapacityReq | ControllerGetCapabilitiesReq
  | NodeStageReq NodeStageVolumeRequest
  | NodeUnstageReq NodeUnstageVolumeRequest
  | NodePublishReq NodePublishVolumeRequest
  | NodeUnpublishReq NodeUnpublishVolumeRequest
  | NodeGetIdReq | NodeGetCapabilitiesReq

datatype response =
    PluginInfoResp string
  | PluginCapabilitiesResp "PluginCapability list"
  | ProbeResp unit
  | CreateVolumeResp CreateVolumeResponse
  | DeleteVolumeResp DeleteVolumeResponse
  | ControllerPublishResp ControllerPublishVolumeResponse
  | ControllerUnpublishResp ControllerUnpublishVolumeResponse
  | ValidateResp ValidateVolumeCapabilitiesResponse
  | ListVolumesResp unit | GetCapacityResp unit
  | ControllerCapabilitiesResp "ServiceCapability list"
  | NodeStageResp NodeStageVolumeResponse
  | NodeUnstageResp NodeUnstageVolumeResponse
  | NodePublishResp NodePublishVolumeResponse
  | NodeUnpublishResp NodeUnpublishVolumeResponse
  | NodeIdResp string
  | NodeCapabilitiesResp "ServiceCapability list"

text \<open>The full name of a method, of the request and of the response it is declared to have. gRPC
  looks the service up by the part between the slashes.\<close>

fun method_of :: "request \<Rightarrow> string" where
  "method_of GetPluginInfoReq = ''/csi.v0.Identity/GetPluginInfo''"
| "method_of GetPluginCapabilitiesReq = ''/csi.v0.Identity/GetPluginCapabilities''"
| "method_of ProbeReq = ''/csi.v0.Identity/Probe''"
| "method_of (CreateVolumeReq _) = ''/csi.v0.Controller/CreateVolume''"
| "method_of (DeleteVolumeReq _) = ''/csi.v0.Controller/DeleteVolume''"
| "method_of (ControllerPublishReq _) = ''/csi.v0.Controller/ControllerPublishVolume''"
| "method_of (ControllerUnpublishReq _) = ''/csi.v0.Controller/ControllerUnpublishVolume''"
| "method_of (ValidateReq _) = ''/csi.v0.Controller/ValidateVolumeCapabilities''"
| "method_of ListVolumesReq = ''/csi.v0.Controller/ListVolumes''"
| "method_of GetCapacityReq = ''/csi.v0.Controller/GetCapacity''"
| "method_of ControllerGetCapabilitiesReq = ''/csi.v0.Controller/ControllerGetCapabilities''"
| "method_of (NodeStageReq _) = ''/csi.v0.Node/NodeStageVolume''"
| "method_of (NodeUnstageReq _) = ''/csi.v0.Node/NodeUnstageVolume''"
| "method_of (NodePublishReq _) = ''/csi.v0.Node/NodePublishVolume''"
| "method_of (NodeUnpublishReq _) = ''/csi.v0.Node/NodeUnpublishVolume''"
| "method_of NodeGetIdReq = ''/csi.v0.Node/NodeGetId''"
| "method_of NodeGetCapabilitiesReq = ''/csi.v0.Node/NodeGetCapabilities''"

fun response_method :: "response \<Rightarrow> string" where
  "response_method (PluginInfoResp _) = ''/csi.v0.Identity/GetPluginInfo''"
| "response_method (PluginCapabilitiesResp _) = ''/csi.v0.Identity/GetPluginCapabilities''"
| "response_method (ProbeResp _) = ''/csi.v0.Identity/Probe''"
| "response_method (CreateVolumeResp _) = ''/csi.v0.Controller/CreateVolume''"
| "response_method (DeleteVolumeResp _) = ''/csi.v0.Controller/DeleteVolume''"
| "response_method (ControllerPublishResp _) = ''/csi.v0.Controller/ControllerPublishVolume''"
| "response_method (ControllerUnpublishResp _) = ''/csi.v0.Controller/ControllerUnpublishVolume''"
| "response_method (ValidateResp _) = ''/csi.v0.Controller/ValidateVolumeCapabilities''"
| "response_method (ListVolumesResp _) = ''/csi.v0.Controller/ListVolumes''"
| "response_method (GetCapacityResp _) = ''/csi.v0.Controller/GetCapacity''"
| "response_method (ControllerCapabilitiesResp _) = ''/csi.v0.Controller/ControllerGetCapabilities''"
| "response_method (NodeStageResp _) = ''/csi.v0.Node/NodeStageVolume''"
| "response_method (NodeUnstageResp _) = ''/csi.v0.Node/NodeUnstageVolume''"
| "response_method (NodePublishResp _) = ''/csi.v0.Node/NodePublishVolume''"
| "response_method (NodeUnpublishResp _) = ''/csi.v0.Node/NodeUnpublishVolume''"
| "response_method (NodeIdResp _) = ''/csi.v0.Node/NodeGetId''"
| "response_method (NodeCapabilitiesResp _) = ''/csi.v0.Node/NodeGetCapabilities''"

definition service_of :: "request \<Rightarrow> string" where
  "service_of req = Split (method_of req) (CHR ''/'') ! 1"

abbreviation response_matches :: "request \<Rightarrow> response \<Rightarrow> bool" where
  "response_matches req r \<equiv> response_method r = method_of req"

section \<open>Dispatch\<close>

definition answer :: "('a \<Rightarrow> response) \<Rightarrow> ('s, 'a option \<times> error option) go \<Rightarrow>
    ('s, response option \<times> error option) go" where
  "answer f m = call m (\<lambda>(resp, err). ret (map_option f resp, err))"

text \<open>The handler of a request, for a driver that was set up with the provider \<open>cp\<close> and the
  mounter \<open>m\<close>.\<close>

fun dispatch ::
    "('c, 'n) GCEDriver \<Rightarrow> 's GCECompute \<Rightarrow> 's Mounter \<Rightarrow> request \<Rightarrow>
     ('s, response option \<times> error option) go" where
  "dispatch drv cp m GetPluginInfoReq = answer PluginInfoResp (ret (GetPluginInfo drv))"
| "dispatch drv cp m GetPluginCapabilitiesReq = answer PluginCapabilitiesResp (ret GetPluginCapabilities)"
| "dispatch drv cp m ProbeReq = answer ProbeResp (ret Probe)"
| "dispatch drv cp m (CreateVolumeReq r) = answer CreateVolumeResp (CreateVolume cp r)"
| "dispatch drv cp m (DeleteVolumeReq r) = answer DeleteVolumeResp (DeleteVolume cp r)"
| "dispatch drv cp m (ControllerPublishReq r) = answer ControllerPublishResp (ControllerPublishVolume cp r)"
| "dispatch drv cp m (ControllerUnpublishReq r) =
     answer ControllerUnpublishResp (ControllerUnpublishVolume cp r)"
| "dispatch drv cp m (ValidateReq r) = answer ValidateResp (lift_out (ValidateVolumeCapabilities drv r))"
| "dispatch drv cp m ListVolumesReq = answer ListVolumesResp (ret ListVolumes)"
| "dispatch drv cp m GetCapacityReq = answer GetCapacityResp (ret GetCapacity)"
| "dispatch drv cp m ControllerGetCapabilitiesReq =
     answer ControllerCapabilitiesResp (ret (ControllerGetCapabilities drv))"
| "dispatch drv cp m (NodeStageReq r) = answer NodeStageResp (NodeStageVolume m r)"
| "dispatch drv cp m (NodeUnstageReq r) = answer NodeUnstageResp (NodeUnstageVolume m r)"
| "dispatch drv cp m (NodePublishReq r) = answer NodePublishResp (NodePublishVolume m r)"
| "dispatch drv cp m (NodeUnpublishReq r) = answer NodeUnpublishResp (NodeUnpublishVolume m r)"
| "dispatch drv cp m NodeGetIdReq = answer NodeIdResp (ret (NodeGetId drv))"
| "dispatch drv cp m NodeGetCapabilitiesReq = answer NodeCapabilitiesResp (ret (NodeGetCapabilities drv))"

text \<open>What the client receives: an error hides the response.\<close>

definition wire :: "'a option \<times> error option \<Rightarrow> code \<times> 'a option" where
  "wire reply = (grpc_code reply, if snd reply = None then fst reply else None)"

definition serve_request ::
    "string list \<Rightarrow> ('c, 'n) GCEDriver \<Rightarrow> 's GCECompute \<Rightarrow> 's Mounter \<Rightarrow> request \<Rightarrow>
     ('s, code \<times> response option) go" where
  "serve_request services drv cp m req =
     (if service_of req \<notin> set services then ret (Unimplemented, None)
      else call (logGRPC (dispatch drv cp m) req) (\<lambda>reply. ret (wire reply)))"

text \<open>Requests one after the other; a handler that panics ends the process.\<close>

fun serve_requests ::
    "string list \<Rightarrow> ('c, 'n) GCEDriver \<Rightarrow> 's GCECompute \<Rightarrow> 's Mounter \<Rightarrow> request list \<Rightarrow>
     ('s, (code \<times> response option) list) go" where
  "serve_requests services drv cp m [] = ret []"
| "serve_requests services drv cp m (r # rs) =
     call (serve_request services drv cp m r) (\<lambda>reply.
     call (serve_requests services drv cp m rs) (\<lambda>replies. ret (reply # replies)))"

section \<open>Every request is answered\<close>

text \<open>The requests that cannot panic: all but a validation of a capability without a mode.\<close>

fun modes_given :: "request \<Rightarrow> bool" where
  "modes_given (ValidateReq r) = (\<forall>c \<in> set (vv_VolumeCapabilities r). vc_AccessMode c \<noteq> None)"
| "modes_given _ = True"

lemma validate_capabilities_returns:
  "\<forall>c \<in> set cs. vc_AccessMode c \<noteq> None \<Longrightarrow> \<exists>reply. validate_capabilities vcap cs = Ret reply"
  by (induction cs) (auto simp: found_mode_Some)

lemma ValidateVolumeCapabilities_returns:
  "\<forall>c \<in> set (vv_VolumeCapabilities r). vc_AccessMode c \<noteq> None \<Longrightarrow>
   \<exists>reply. ValidateVolumeCapabilities drv r = Ret reply"
  using validate_capabilities_returns by (auto simp: ValidateVolumeCapabilities_def)

text \<open>A reply as a client may expect it.\<close>

definition good_reply :: "request \<Rightarrow> code \<times> response option \<Rightarrow> bool" where
  "good_reply req reply \<longleftrightarrow>
     (\<forall>r. snd reply = Some r \<longrightarrow> fst reply = OK \<and> response_matches req r)"

definition reply_for :: "request \<Rightarrow> response option \<times> error option \<Rightarrow> bool" where
  "reply_for req reply \<longleftrightarrow> (\<forall>r. fst reply = Some r \<longrightarrow> response_matches req r)"

lemma wire_reply:
  "reply_for req reply \<Longrightarrow> good_reply req (wire reply)"
  by (cases reply; cases "snd reply") (auto simp: reply_for_def good_reply_def wire_def)

text \<open>The driver over any provider and any mounter that keep their contracts on one state.\<close>

locale csi_service = gce_compute cp inv opok + mounter m inv
  for cp :: "'s GCECompute" and m :: "'s Mounter" and inv :: "'s \<Rightarrow> bool" and opok
begin

lemma answer_safe:
  assumes "triple inv h (\<lambda>_. inv)" and "\<And>a. response_matches req (f a)"
  shows "triple inv (answer f h) (\<lambda>reply s. inv s \<and> reply_for req reply)"
  unfolding answer_def using assms(1)
  by (rule triple_call) (auto simp: triple_def reply_for_def assms(2) split: prod.splits)

lemmas handlers_safe = CreateVolume_safe DeleteVolume_safe ControllerPublishVolume_safe
  ControllerUnpublishVolume_safe NodeStageVolume_safe NodeUnstageVolume_safe
  NodePublishVolume_safe NodeUnpublishVolume_safe

lemma handlers_keep:
  "triple inv (CreateVolume cp r1) (\<lambda>_. inv)" "triple inv (DeleteVolume cp r2) (\<lambda>_. inv)"
  "triple inv (ControllerPublishVolume cp r3) (\<lambda>_. inv)"
  "triple inv (ControllerUnpublishVolume cp r4) (\<lambda>_. inv)"
  "triple inv (NodeStageVolume m r5) (\<lambda>_. inv)" "triple inv (NodeUnstageVolume m r6) (\<lambda>_. inv)"
  "triple inv (NodePublishVolume m r7) (\<lambda>_. inv)" "triple inv (NodeUnpublishVolume m r8) (\<lambda>_. inv)"
  by (rule triple_conseq [OF handlers_safe(1)] triple_conseq [OF handlers_safe(2)]
      triple_conseq [OF handlers_safe(3)] triple_conseq [OF handlers_safe(4)]
      triple_conseq [OF handlers_safe(5)] triple_conseq [OF handlers_safe(6)]
      triple_conseq [OF handlers_safe(7)] triple_conseq [OF handlers_safe(8)]; auto)+

lemma dispatch_safe:
  assumes "modes_given req"
  shows "triple inv (dispatch drv cp m req) (\<lambda>reply s. inv s \<and> reply_for req reply)"
proof (cases req)
  case (ValidateReq r)
  with assms obtain reply where "ValidateVolumeCapabilities drv r = Ret reply"
    using ValidateVolumeCapabilities_returns [of r drv] by auto
  then show ?thesis
    unfolding ValidateReq dispatch.simps by (intro answer_safe) (simp_all add: triple_def)
qed (simp_all add: answer_safe handlers_keep triple_ret)

lemma serve_request_safe:
  assumes "modes_given req"
  shows "triple inv (serve_request services drv cp m req) (\<lambda>reply s. inv s \<and> good_reply req reply)"
proof (cases "service_of req \<in> set services")
  case False
  then show ?thesis by (simp add: serve_request_def triple_def good_reply_def)
next
  case True
  have "triple inv (logGRPC (dispatch drv cp m) req) (\<lambda>reply s. inv s \<and> reply_for req reply)"
    unfolding logGRPC_def using dispatch_safe [OF assms]
    by (rule triple_call) (auto simp: triple_def)
  with True show ?thesis
    unfolding serve_request_def
    by simp (rule triple_call, assumption, auto simp: triple_def wire_reply)
qed

lemma serve_requests_safe:
  assumes "\<forall>req \<in> set reqs. modes_given req"
  shows "triple inv (serve_requests services drv cp m reqs)
    (\<lambda>replies s. inv s \<and> list_all2 good_reply reqs replies)"
  using assms
proof (induction reqs)
  case (Cons req reqs)
  have first: "triple inv (serve_request services drv cp m req) (\<lambda>reply s. inv s \<and> good_reply req reply)"
    using serve_request_safe [of req] Cons.prems by simp
  have rest: "triple inv (serve_requests services drv cp m reqs)
      (\<lambda>replies s. inv s \<and> list_all2 good_reply reqs replies)"
    using Cons by simp
  show ?case
    unfolding serve_requests.simps
    by (rule triple_call_fact [OF first], rule triple_call_fact [OF rest]) (simp add: triple_def)
qed (simp add: triple_def)

end

interpretation gce_driver: csi_service "cloudCompute (gce_cloud svc p z)" "GCEMounter os"
    "\<lambda>_. True" "\<lambda>op. op \<noteq> None"
  for svc :: "'s ComputeService" and os :: "'s OS" and p z
  by (intro csi_service.intro cloud.gce_compute_axioms gce.mounter_axioms)

interpretation fake_driver: csi_service fakeCompute FakeMounter fake_inv "\<lambda>_. True"
  by (intro csi_service.intro fake.gce_compute_axioms fake_mnt.mounter_axioms)


text \<open>A machine for witnesses on which every call succeeds.\<close>

definition still_os :: "unit OS" where
  "still_os =
     \<lparr> os_exec = (\<lambda>cmd args s. (('''', None), s)),
       os_Stat = (\<lambda>p s. (Inr 1, s)), os_Lstat = (\<lambda>p s. (Inr 1, s)),
       os_MkdirAll = (\<lambda>p perm s. (None, s)), os_Remove = (\<lambda>p s. (None, s)),
       os_Glob = (\<lambda>p s. (([], None), s)), os_EvalSymlinks = (\<lambda>p s. ((p, None), s)) \<rparr>"

definition sample_requests :: "request list" where
  "sample_requests =
     [ProbeReq, ListVolumesReq, DeleteVolumeReq \<lparr>dv_VolumeId = ''z/vol''\<rparr>,
      ValidateReq \<lparr>vv_VolumeId = ''z/vol'',
        vv_VolumeCapabilities = [\<lparr>vc_AccessType = None, vc_AccessMode = Some 1\<rparr>]\<rparr>]"


text \<open>A client ends the process with one request, whatever follows it: a validation of a
  volume with one capability whose access mode is missing.\<close>

lemma validation_ends_process:
  assumes "vid \<noteq> ''''" and "''csi.v0.Controller'' \<in> set services"
  shows "serve_requests services drv cp m
    (ValidateReq \<lparr>vv_VolumeId = vid, vv_VolumeCapabilities = [\<lparr>vc_AccessType = t, vc_AccessMode = None\<rparr>]\<rparr> # reqs) s =
    (Panic, s)"
  using assms
  by (simp add: serve_request_def service_of_def logGRPC_def answer_def call_def
        ValidateVolumeCapabilities_def found_mode_None split: outcome.split)

end
