(* ===== verification/Tests.thy ===== *)
theory Tests
  imports Service Lifecycle
begin

text \<open>
  The tests of the repository, run on the model. The tables of
  pkg/gce-csi-driver/utils_test.go and controller_test.go are evaluated here, and the set-up of
  test/sanity/sanity_test.go is verified for every sequence of requests: the whole driver over
  the in-memory provider and the fake mounter.
\<close>

section \<open>TestParseEndpoint\<close>

text \<open>An endpoint with the expected protocol and address, or None for an expected error.\<close>

definition endpoint_cases :: "(string \<times> (string \<times> string) option) list" where
  "endpoint_cases =
     [(''unix://fake.sock'', Some (''unix'', ''fake.sock'')),
      (''unix:///fakedir/fakedir/fake.sock'', Some (''unix'', ''/fakedir/fakedir/fake.sock'')),
      (''UNIX://fake.sock'', Some (''UNIX'', ''fake.sock'')),
      (''tcp://127.0.0.1:80'', Some (''tcp'', ''127.0.0.1:80'')),
      (''TCP://127.0.0.1:80'', Some (''TCP'', ''127.0.0.1:80'')),
      (''tcp://fakehost:80'', Some (''tcp'', ''fakehost:80'')),
      (''unix:/fake.sock/'', None), (''fake.sock'', None), (''unix://'', None), (''://'', None),
      ('''', None)]"

definition endpoint_test :: "string \<times> (string \<times> string) option \<Rightarrow> bool" where
  "endpoint_test tc =
     (case ParseEndpoint (fst tc) of
        Panic \<Rightarrow> False
      | Ret (proto, addr, err) \<Rightarrow>
          (case snd tc of
             Some (p, a) \<Rightarrow> err = None \<and> proto = p \<and> addr = a
           | None \<Rightarrow> err \<noteq> None))"

section \<open>TestCreateVolumeArguments\<close>

text \<open>A case: its name, the request, the expected capacity and id, the expected code. The test
  is written for a SetupGCEDriver without a mounter; the model passes the fake mounter.\<close>

record create_case =
  tc_name :: string
  tc_req :: CreateVolumeRequest
  tc_expVol :: "(int64 \<times> string) option"
  tc_expErrCode :: code

definition stdVolCap :: "VolumeCapability list" where
  "stdVolCap = [\<lparr>vc_AccessType = Some (VC_Mount (Some \<lparr>mv_FsType = '''', mv_MountFlags = []\<rparr>)),
     vc_AccessMode = Some SINGLE_NODE_WRITER\<rparr>]"

abbreviation cap_range :: "int64 \<Rightarrow> int64 \<Rightarrow> CapacityRange option" where
  "cap_range r l \<equiv> Some \<lparr>cr_RequiredBytes = r, cr_LimitBytes = l\<rparr>"

definition stdCapRange :: "CapacityRange option" where
  "stdCapRange = cap_range (GbToBytes 20) 0"

definition stdParams :: "(string \<times> string) list" where
  "stdParams = [(''zone'', ''test-zone''), (''type'', ''test-type'')]"

abbreviation create_req_of ::
    "string \<Rightarrow> CapacityRange option \<Rightarrow> VolumeCapability list \<Rightarrow> (string \<times> string) list \<Rightarrow> CreateVolumeRequest"
  where
  "create_req_of n cr vc ps \<equiv>
     \<lparr>cv_Name = n, cv_CapacityRange = cr, cv_VolumeCapabilities = vc, cv_Parameters = ps\<rparr>"

definition succeeds :: "string \<Rightarrow> CreateVolumeRequest \<Rightarrow> int64 \<Rightarrow> create_case" where
  "succeeds nm req bytes = \<lparr>tc_name = nm, tc_req = req,
     tc_expVol = Some (bytes, ''test-project/test-zone/test-vol''), tc_expErrCode = OK\<rparr>"

definition fails :: "string \<Rightarrow> CreateVolumeRequest \<Rightarrow> create_case" where
  "fails nm req = \<lparr>tc_name = nm, tc_req = req, tc_expVol = None, tc_expErrCode = InvalidArgument\<rparr>"

text \<open>The secrets of one case are a field no handler reads.\<close>

definition create_cases :: "create_case list" where
  "create_cases =
     [succeeds ''success normal'' (create_req_of ''test-vol'' stdCapRange stdVolCap stdParams) (GbToBytes 20),
      fails ''fail no name'' (create_req_of '''' stdCapRange stdVolCap stdParams),
      succeeds ''success no capacity range'' (create_req_of ''test-vol'' None stdVolCap stdParams)
        DefaultVolumeSize,
      fails ''fail no capabilities'' (create_req_of ''test-vol'' stdCapRange [] stdParams),
      succeeds ''success no params'' (create_req_of ''test-vol'' stdCapRange stdVolCap []) (GbToBytes 20),
      succeeds ''success with random secrets''
        (create_req_of ''test-vol'' stdCapRange stdVolCap stdParams) (GbToBytes 20),
      succeeds ''success capacity range: full specified''
        (create_req_of ''test-vol'' (cap_range (GbToBytes 20) (GbToBytes 50)) stdVolCap stdParams)
        (GbToBytes 20),
      fails ''fail capacity range: limit less than required''
        (create_req_of ''test-vol'' (cap_range (GbToBytes 50) (GbToBytes 20)) stdVolCap stdParams),
      succeeds ''success capacity range: only limit specified''
        (create_req_of ''test-vol'' (cap_range 0 (GbToBytes 50)) stdVolCap stdParams) DefaultVolumeSize,
      fails ''fail capacity range: only limit specified too low''
        (create_req_of ''test-vol'' (cap_range 0 (GbToBytes 2)) stdVolCap stdParams)]"

text \<open>The body of the loop: how a case ends.\<close>

datatype verdict = Passes | Wrong_code | Wrong_capacity | Wrong_id | Set_up_fails | Test_panics

definition create_test :: "create_case \<Rightarrow> verdict" where
  "create_test tc =
     (case FakeCreateCloudProvider ''test-project'' ''test-zone'' of (cloud, err) \<Rightarrow>
      if err \<noteq> None then Set_up_fails
      else (case SetupGCEDriver fakeCompute FakeMounter ''test-driver'' ''test-node''
             (GetGCEDriver :: (FakeCloudProvider GCECompute, FakeCloudProvider Mounter) GCEDriver) of
        (Some _, _) \<Rightarrow> Set_up_fails
      | (None, drv) \<Rightarrow>
        (case drv_cs drv of None \<Rightarrow> Test_panics | Some cs \<Rightarrow>
         (case fst (CreateVolume cs (tc_req tc) cloud) of
            Panic \<Rightarrow> Test_panics
          | Ret (resp, Some e) \<Rightarrow> (if error_code e = tc_expErrCode tc then Passes else Wrong_code)
          | Ret (None, None) \<Rightarrow> Test_panics
          | Ret (Some r, None) \<Rightarrow>
              (if tc_expErrCode tc \<noteq> OK then Wrong_code
               else (case tc_expVol tc of None \<Rightarrow> Test_panics
               | Some (bytes, vid) \<Rightarrow>
                   (if vol_CapacityBytes (cvr_Volume r) \<noteq> bytes then Wrong_capacity
                    else if vol_Id (cvr_Volume r) \<noteq> vid then Wrong_id
                    else Passes)))))))"


section \<open>TestSanity\<close>

definition sanity_nodeID :: string where
  "sanity_nodeID = ''io.kubernetes.storage.mock''"

definition sanity_cloud :: FakeCloudProvider where
  "sanity_cloud = Fake_InsertInstance \<lparr>inst_Name = sanity_nodeID, inst_Disks = []\<rparr> sanity_nodeID
     (fst (FakeCreateCloudProvider ''test-project'' ''test-zone''))"

definition sanity_setup ::
    "error option \<times> (FakeCloudProvider GCECompute, FakeCloudProvider Mounter) GCEDriver" where
  "sanity_setup = SetupGCEDriver fakeCompute FakeMounter ''test-driver'' sanity_nodeID GetGCEDriver"

text \<open>What the specification of Lifecycle says of a sequence of requests of all services: the codes of
  the four calls that change volumes, and the volumes and attachments at the end.\<close>

fun rpc_of :: "request \<Rightarrow> rpc option" where
  "rpc_of (CreateVolumeReq r) = Some (Create r)"
| "rpc_of (DeleteVolumeReq r) = Some (Delete r)"
| "rpc_of (ControllerPublishReq r) = Some (Publish r)"
| "rpc_of (ControllerUnpublishReq r) = Some (Unpublish r)"
| "rpc_of _ = None"

fun spec_requests :: "request list \<Rightarrow> world \<Rightarrow> code option list \<times> world" where
  "spec_requests [] w = ([], w)"
| "spec_requests (req # reqs) w =
     (case rpc_of req of
        None \<Rightarrow> (case spec_requests reqs w of (ks, w') \<Rightarrow> (None # ks, w'))
      | Some r \<Rightarrow> (case spec r w of (k, w1) \<Rightarrow>
          (case spec_requests reqs w1 of (ks, w') \<Rightarrow> (Some k # ks, w'))))"

definition code_agrees :: "code option \<Rightarrow> code \<times> response option \<Rightarrow> bool" where
  "code_agrees k reply \<longleftrightarrow> (\<forall>c. k = Some c \<longrightarrow> fst reply = c)"

abbreviation all_services :: "string list" where
  "all_services \<equiv> [''csi.v0.Identity'', ''csi.v0.Controller'', ''csi.v0.Node'']"

lemma service_of_all [simp]: "service_of req \<in> set all_services"
  by (cases req) (simp_all add: service_of_def)

lemma grpc_code_answer: "grpc_code (map_option f resp, err) = grpc_code (resp, err)"
  by (cases resp; cases err) simp_all

lemma serve_request_run:
  "serve_request all_services drv cp m req c =
     (case dispatch drv cp m req c of (Ret reply, c') \<Rightarrow> (Ret (wire reply), c') | (Panic, c') \<Rightarrow> (Panic, c'))"
  unfolding serve_request_def logGRPC_def
  by (simp add: call_def del: list.set split: prod.splits outcome.splits)

text \<open>A call that changes volumes is served with the code and the state of \<open>serve_rpc\<close>; any other
  request leaves the cloud as it is.\<close>

lemma serve_rpc_request:
  assumes "rpc_of req = Some r" and "serve_request all_services drv fakeCompute FakeMounter req c = (Ret reply, c')"
  shows "serve_rpc fakeCompute r c = (Ret (fst reply), c')"
  using assms
  by (cases req) (auto simp: serve_request_run answer_def call_def wire_def grpc_code_answer
    simp del: dispatch.simps(1-3,8-) split: prod.splits outcome.splits)

lemma triple_keeps_state:
  assumes "triple (\<lambda>s. s = c) h (\<lambda>(resp, err) s. s = c \<and> Q resp err)" and "h c = (r, c')"
  shows "c' = c"
  using assms by (auto simp: triple_def)

lemmas fake_node_keeps = fake_mnt.NodeStageVolume_safe [THEN triple_keeps_state]
  fake_mnt.NodeUnstageVolume_safe [THEN triple_keeps_state]
  fake_mnt.NodePublishVolume_safe [THEN triple_keeps_state]
  fake_mnt.NodeUnpublishVolume_safe [THEN triple_keeps_state]

lemma other_request:
  assumes "rpc_of req = None" and "serve_request all_services drv fakeCompute FakeMounter req c = (r, c')"
  shows "c' = c"
  using assms
  by (cases req) (auto simp: serve_request_run answer_def call_def dest: fake_node_keeps
    split: prod.splits outcome.splits)

lemma serve_request_refines:
  assumes "reachable c" and "modes_given req"
  obtains reply c' where "serve_request all_services drv fakeCompute FakeMounter req c = (Ret reply, c')"
    and "good_reply req reply" and "reachable c'"
    and "(case rpc_of req of None \<Rightarrow> c' = c | Some r \<Rightarrow> spec r (abs_state c) = (fst reply, abs_state c'))"
proof -
  have inv: "state_inv c" by (rule reachable_inv [OF assms(1)])
  then have "fake_inv c" by (simp add: state_inv_def)
  with fake_driver.serve_request_safe [OF assms(2), of all_services drv] obtain reply c' where
    run: "serve_request all_services drv fakeCompute FakeMounter req c = (Ret reply, c')"
    and good: "good_reply req reply" unfolding triple_def by blast
  show thesis
  proof (cases "rpc_of req")
    case None
    from other_request [OF None run] run good None assms(1) show thesis by (intro that) auto
  next
    case (Some r)
    have served: "serve_rpc fakeCompute r c = (Ret (fst reply), c')"
      by (rule serve_rpc_request [OF Some run])
    with all_refine [OF inv, of r] have "spec r (abs_state c) = (fst reply, abs_state c')"
      by (auto simp: refines_def)
    with run good Some reachable_served [OF assms(1) served] show thesis by (intro that) auto
  qed
qed

lemma serve_requests_refine:
  assumes "reachable c" and "\<forall>req \<in> set reqs. modes_given req"
  shows "\<exists>replies c'. serve_requests all_services drv fakeCompute FakeMounter reqs c = (Ret replies, c') \<and>
    list_all2 good_reply reqs replies \<and> reachable c' \<and>
    (\<exists>codes. spec_requests reqs (abs_state c) = (codes, abs_state c') \<and> list_all2 code_agrees codes replies)"
  using assms
proof (induction reqs arbitrary: c)
  case (Cons req reqs)
  from Cons.prems have "modes_given req" by simp
  from serve_request_refines [OF Cons.prems(1) this, of drv] obtain reply c1 where
    one: "serve_request all_services drv fakeCompute FakeMounter req c = (Ret reply, c1)"
      "good_reply req reply" "reachable c1"
      "case rpc_of req of None \<Rightarrow> c1 = c | Some r \<Rightarrow> spec r (abs_state c) = (fst reply, abs_state c1)"
    by blast
  from Cons.IH [OF one(3)] Cons.prems(2) obtain replies c' codes where
    rest: "serve_requests all_services drv fakeCompute FakeMounter reqs c1 = (Ret replies, c')"
      "list_all2 good_reply reqs replies" "reachable c'"
      "spec_requests reqs (abs_state c1) = (codes, abs_state c')" "list_all2 code_agrees codes replies"
    by auto
  have "\<exists>k. spec_requests (req # reqs) (abs_state c) = (k # codes, abs_state c') \<and> code_agrees k reply"
    using one(4) rest(4) by (cases "rpc_of req") (auto simp: code_agrees_def)
  with one rest show ?case by (auto simp: call_Ret)
qed simp

lemma reachable_sanity: "reachable sanity_cloud"
proof -
  have "fake_step (start ''test-project'' ''test-zone'') (Join_node sanity_nodeID) sanity_cloud"
    unfolding sanity_cloud_def start_def [symmetric]
    by (rule join) (simp add: start_def FakeCreateCloudProvider_def)
  then have "runs fake_step (start ''test-project'' ''test-zone'') ([] @ [Join_node sanity_nodeID]) sanity_cloud"
    by (rule runs_snoc [OF runs_Nil])
  then show ?thesis unfolding reachable_def by blast
qed

lemma sanity_setup_run:
  obtains drv where "sanity_setup = (None, drv)" and "drv_cs drv = Some fakeCompute"
    and "drv_ns drv = Some FakeMounter"
    and "registered_services (drv_ids drv) (drv_cs drv) (drv_ns drv) = all_services"
proof -
  have "sanity_nodeID \<noteq> ''''" by (simp add: sanity_nodeID_def)
  then have run: "sanity_setup = (None, snd sanity_setup)" "drv_ids (snd sanity_setup) = Some ()"
      "drv_cs (snd sanity_setup) = Some fakeCompute" "drv_ns (snd sanity_setup) = Some FakeMounter"
    by (simp_all add: sanity_setup_def SetupGCEDriver_run)
  show thesis by (rule that [OF run(1,3,4)]) (simp add: registered_services_def run(2-4))
qed


text \<open>A volume's life as the sanity test sends it.\<close>

definition sanity_requests :: "request list" where
  "sanity_requests =
     [ProbeReq, CreateVolumeReq (create_req_of ''sanity'' stdCapRange stdVolCap []),
      ControllerPublishReq \<lparr>cp_VolumeId = ''test-zone/sanity'', cp_NodeId = sanity_nodeID,
        cp_VolumeCapability = Some (hd stdVolCap), cp_Readonly = False\<rparr>,
      NodeStageReq \<lparr>ns_VolumeId = ''test-zone/sanity'', ns_StagingTargetPath = ''/tmp/csi/stage'',
        ns_VolumeCapability = Some (hd stdVolCap)\<rparr>,
      ControllerUnpublishReq \<lparr>cu_VolumeId = ''test-zone/sanity'', cu_NodeId = sanity_nodeID\<rparr>,
      DeleteVolumeReq \<lparr>dv_VolumeId = ''test-zone/sanity''\<rparr>]"


end
