(* ===== verification/Remote.thy ===== *)
theory Remote
  imports CloudProvider
begin

text \<open>
  The runner of the remote tests, first part: package test/remote/remote (ssh.go, e2e.go,
  remote.go), and the archive of run_remote.go that is built beside the rest. The runner talks
  to the local machine, to hosts over ssh and scp, and to the Compute API. All that is outside of
  the repository: the record \<open>lab\<close>, whose answers are functions of everything done so far, so that
  each may be anything at each point.
\<close>

section \<open>The outside\<close>

text \<open>What the runner does to its surroundings, each action with the part of the answer that the
  facts below speak of.\<close>

datatype action =
    A_exec string "string list" bool   \<comment> \<open>a command, and whether it succeeded\<close>
  | A_tempdir | A_removeall string | A_getwd | A_lookupenv string | A_stat string
  | A_mkdirall string | A_remove string | A_create string | A_write string
  | A_now | A_uuid | A_sleep | A_stdout | A_credentials | A_client
  | A_get string "string option"       \<comment> \<open>an instance by name: its status, if there was an answer\<close>
  | A_insert string bool               \<comment> \<open>whether it succeeded\<close>
  | A_delete string
  | A_serial string

text \<open>An instance: its status, and the address of each access configuration of each network
  interface. A request for a new one.\<close>

record vm =
  vm_Status :: string
  vm_NatIPs :: "string list list"

record vm_request =
  vr_Name :: string
  vr_MachineType :: string
  vr_DiskName :: string
  vr_SourceImage :: string

text \<open>\<open>lab_Insert\<close> answers with the errors of the operation; \<open>lab_stdout\<close> with whether standard output
  is a character device (None: it cannot be examined); \<open>lab_ticks\<close> are the ticks of a poll that starts
  now; \<open>lab_background\<close> says whether the goroutine that builds the archive has run by now.\<close>

record lab =
  lab_exec :: "action list \<Rightarrow> string \<Rightarrow> string list \<Rightarrow> string \<times> error option"
  lab_TempDir :: "action list \<Rightarrow> error + string"
  lab_Getwd :: "action list \<Rightarrow> error + string"
  lab_LookupEnv :: "action list \<Rightarrow> string \<Rightarrow> string option"
  lab_Stat :: "action list \<Rightarrow> string \<Rightarrow> error option"
  lab_MkdirAll :: "action list \<Rightarrow> string \<Rightarrow> error option"
  lab_Create :: "action list \<Rightarrow> string \<Rightarrow> error option"
  lab_WriteString :: "action list \<Rightarrow> string \<Rightarrow> error option"
  lab_timestamp :: "action list \<Rightarrow> string"
  lab_NewUUID :: "action list \<Rightarrow> string"
  lab_stdout :: "action list \<Rightarrow> bool option"
  lab_user :: "error + string"
  lab_DefaultClient :: "action list \<Rightarrow> error option"
  lab_New :: "action list \<Rightarrow> error option"
  lab_Get :: "action list \<Rightarrow> string \<Rightarrow> error + vm"
  lab_Insert :: "action list \<Rightarrow> vm_request \<Rightarrow> error + string list option"
  lab_Delete :: "action list \<Rightarrow> string \<Rightarrow> error option"
  lab_SerialPort :: "action list \<Rightarrow> string \<Rightarrow> error + string"
  lab_ticks :: "action list \<Rightarrow> nat"
  lab_background :: "action list \<Rightarrow> bool"

text \<open>The command line of the runner.\<close>

record runner_flags =
  rf_testArgs :: string
  rf_zone :: string
  rf_project :: string
  rf_cleanup :: bool
  rf_deleteInstances :: bool
  rf_buildOnly :: bool
  rf_ginkgoFlags :: string
  rf_testTimeout :: nat
  rf_resultsDir :: string
  rf_sshOptions :: string
  rf_sshEnv :: string
  rf_sshKey :: string
  rf_sshUser :: string

text \<open>The variables of the process, after what it has done: the addresses of hosts, the default ssh
  keys, and the archive, None until it has been built (the \<open>Once\<close> of run_remote.go).\<close>

record runner =
  history :: "action list"
  hostnameIpOverrides :: "string \<Rightarrow> string option"
  sshDefaultKeyMap :: "string \<Rightarrow> string option"
  archive :: "(string \<times> error option) option"

definition perform :: "(action list \<Rightarrow> 'a) \<Rightarrow> ('a \<Rightarrow> action) \<Rightarrow> (runner, 'a) go" where
  "perform f ev r = (let a = f (history r) in (Ret a, r\<lparr>history := history r @ [ev a]\<rparr>))"

definition run_local :: "lab \<Rightarrow> string \<Rightarrow> string list \<Rightarrow> (runner, string \<times> error option) go" where
  "run_local w cmd args = perform (\<lambda>h. lab_exec w h cmd args) (\<lambda>(_, err). A_exec cmd args (err = None))"

text \<open>Go's defer: the deferred call runs when the body returns and when it panics, but not when the
  body ended the process.\<close>

definition deferring :: "('a \<Rightarrow> bool) \<Rightarrow> ('s, unit) go \<Rightarrow> ('s, 'a) go \<Rightarrow> ('s, 'a) go" where
  "deferring exited d m s =
     (case m s of
        (Ret a, s1) \<Rightarrow> if exited a then (Ret a, s1) else call d (\<lambda>_. ret a) s1
      | (Panic, s1) \<Rightarrow> call d (\<lambda>_. panic) s1)"

section \<open>The test package\<close>

text \<open>SetupTestPackage of e2e.go: the loop over the binaries, and the function.\<close>

fun copy_bins :: "lab \<Rightarrow> string \<Rightarrow> string \<Rightarrow> string list \<Rightarrow> (runner, error option) go" where
  "copy_bins w buildOutputDir tardir [] = ret None"
| "copy_bins w buildOutputDir tardir (bin # bins) =
     (let source = path_Join [buildOutputDir, bin] in
      call (perform (\<lambda>h. lab_Stat w h source) (\<lambda>_. A_stat source)) (\<lambda>err.
      if err \<noteq> None then ret (Some (PlainError ''failed to locate test binary %s: %v''))
      else
        call (run_local w ''cp'' [source, path_Join [tardir, bin]]) (\<lambda>(_, err).
        if err \<noteq> None then ret (Some (PlainError ''failed to copy %q: %v Output: %q''))
        else copy_bins w buildOutputDir tardir bins)))"

definition SetupTestPackage :: "lab \<Rightarrow> string \<Rightarrow> (runner, error option) go" where
  "SetupTestPackage w tardir =
     call (perform (\<lambda>h. lab_LookupEnv w h ''GOPATH'') (\<lambda>_. A_lookupenv ''GOPATH'')) (\<lambda>gopath.
       case gopath of
         None \<Rightarrow> ret (Some (PlainError ''Could not find gopath''))
       | Some gopath \<Rightarrow>
           copy_bins w (path_Join [gopath,
               ''src/github.com/GoogleCloudPlatform/compute-persistent-disk-csi-driver/bin''])
             tardir [''gce-csi-driver'', ''gce-csi-driver-test''])"

definition archiveName :: string where "archiveName = ''e2e_gce_pd_test.tar.gz''"

definition build_in :: "lab \<Rightarrow> string \<Rightarrow> (runner, string \<times> error option) go" where
  "build_in w tardir =
     call (SetupTestPackage w tardir) (\<lambda>err.
     if err \<noteq> None then ret ('''', Some (PlainError ''failed to setup test package %q: %v''))
     else
       call (run_local w ''tar'' [''-zcvf'', archiveName, ''-C'', tardir, ''.'']) (\<lambda>(_, err).
       if err \<noteq> None then ret ('''', Some (PlainError ''failed to build tar %v.  Output:\<newline>%s''))
       else
         call (perform (lab_Getwd w) (\<lambda>_. A_getwd)) (\<lambda>dir.
         case dir of
           Inl _ \<Rightarrow> ret ('''', Some (PlainError ''failed to get working directory %v''))
         | Inr dir \<Rightarrow> ret (path_Join [dir, archiveName], None))))"

definition CreateTestArchive :: "lab \<Rightarrow> (runner, string \<times> error option) go" where
  "CreateTestArchive w =
     call (perform (lab_TempDir w) (\<lambda>_. A_tempdir)) (\<lambda>tardir.
     case tardir of
       Inl _ \<Rightarrow> ret ('''', Some (PlainError ''failed to create temporary directory %v''))
     | Inr tardir \<Rightarrow>
         deferring (\<lambda>_. False) (perform (\<lambda>_. ()) (\<lambda>_. A_removeall tardir)) (build_in w tardir))"

text \<open>getArchive of run_remote.go: the first caller builds the archive, every other one gets its
  result. The main goroutine starts another one that does the same; before each action of the main
  goroutine that one may have run.\<close>

definition getArchive :: "lab \<Rightarrow> (runner, string \<times> error option) go" where
  "getArchive w r =
     (case archive r of
        Some a \<Rightarrow> (Ret a, r)
      | None \<Rightarrow> call (CreateTestArchive w) (\<lambda>a r. (Ret a, r\<lparr>archive := Some a\<rparr>)) r)"

definition external :: "lab \<Rightarrow> (runner, 'a) go \<Rightarrow> (runner, 'a) go" where
  "external w m r =
     (if lab_background w (history r) then call (getArchive w) (\<lambda>_. m) r else m r)"

section \<open>ssh.go\<close>

definition sshOptionsMap :: "string \<Rightarrow> string option" where
  "sshOptionsMap = [''gce'' \<mapsto> ''-o UserKnownHostsFile=/dev/null -o IdentitiesOnly=yes -o CheckHostIP=no '' @
     ''-o StrictHostKeyChecking=no -o ServerAliveInterval=30 -o LogLevel=ERROR'']"

text \<open>The package's init, with the home directory of the user.\<close>

definition ssh_init :: "string \<Rightarrow> runner" where
  "ssh_init home =
     \<lparr>history = [], hostnameIpOverrides = Map.empty,
      sshDefaultKeyMap = [''gce'' \<mapsto> Sprintf ''%s/.ssh/google_compute_engine'' [home]], archive = None\<rparr>"

definition AddHostnameIP :: "string \<Rightarrow> string \<Rightarrow> (runner, unit) go" where
  "AddHostnameIP hostname ip r =
     (Ret (), r\<lparr>hostnameIpOverrides := (hostnameIpOverrides r)(hostname \<mapsto> ip)\<rparr>)"

definition GetHostnameOrIP :: "runner_flags \<Rightarrow> runner \<Rightarrow> string \<Rightarrow> string" where
  "GetHostnameOrIP fl r hostname =
     (let host = (case hostnameIpOverrides r hostname of Some ip \<Rightarrow> ip | None \<Rightarrow> hostname)
      in if rf_sshUser fl \<noteq> '''' then Sprintf ''%s@%s'' [rf_sshUser fl, host] else host)"

definition getSSHCommand :: "string \<Rightarrow> string list \<Rightarrow> string" where
  "getSSHCommand sep args = CHR 0x27 # Join args sep @ [CHR 0x27]"

definition runSSHCommand :: "lab \<Rightarrow> runner_flags \<Rightarrow> string \<Rightarrow> string list \<Rightarrow> (runner, string \<times> error option) go" where
  "runSSHCommand w fl cmd args r =
     (let args =
            (if rf_sshKey fl \<noteq> '''' then [''-i'', rf_sshKey fl] @ args
             else case sshDefaultKeyMap r (rf_sshEnv fl) of Some key \<Rightarrow> [''-i'', key] @ args | None \<Rightarrow> args);
          args = (case sshOptionsMap (rf_sshEnv fl) of Some env \<Rightarrow> Split env (CHR '' '') @ args | None \<Rightarrow> args);
          args = (if rf_sshOptions fl \<noteq> '''' then Split (rf_sshOptions fl) (CHR '' '') @ args else args)
      in call (external w (run_local w cmd args)) (\<lambda>(output, err).
           if err \<noteq> None then ret (output, Some (PlainError ''command [%s %s] failed with error: %v''))
           else ret (output, None)) r)"

definition SSH :: "lab \<Rightarrow> runner_flags \<Rightarrow> string \<Rightarrow> string list \<Rightarrow> (runner, string \<times> error option) go" where
  "SSH w fl host cmd r = runSSHCommand w fl ''ssh'' ([GetHostnameOrIP fl r host, ''--'', ''sudo''] @ cmd) r"

definition SSHNoSudo :: "lab \<Rightarrow> runner_flags \<Rightarrow> string \<Rightarrow> string list \<Rightarrow> (runner, string \<times> error option) go" where
  "SSHNoSudo w fl host cmd r = runSSHCommand w fl ''ssh'' ([GetHostnameOrIP fl r host, ''--''] @ cmd) r"

text \<open>A copy between the local machine and a host: the arguments name the host.\<close>

definition scp :: "lab \<Rightarrow> runner_flags \<Rightarrow> string \<Rightarrow> (string \<Rightarrow> string list) \<Rightarrow> (runner, string \<times> error option) go" where
  "scp w fl host args r = runSSHCommand w fl ''scp'' (args (GetHostnameOrIP fl r host)) r"

section \<open>remote.go\<close>

definition workspaceDirPrefix :: string where "workspaceDirPrefix = ''gce-pd-e2e-''"

definition getTimestamp :: "lab \<Rightarrow> (runner, string) go" where
  "getTimestamp w = external w (perform (lab_timestamp w) (\<lambda>_. A_now))"

definition newWorkspaceDir :: "lab \<Rightarrow> (runner, string) go" where
  "newWorkspaceDir w = call (getTimestamp w) (\<lambda>t. ret (path_Join [''/tmp'', workspaceDirPrefix @ t]))"

text \<open>filepath.Base, and the pattern of a timestamp: eight digits, T, six digits.\<close>

definition filepath_Base :: "string \<Rightarrow> string" where
  "filepath_Base p =
     (if p = '''' then ''.''
      else let q = rev (dropWhile (\<lambda>c. c = CHR ''/'') (rev p)) in
           if q = '''' then ''/'' else last (Split q (CHR ''/'')))"

definition TrimPrefix :: "string \<Rightarrow> string \<Rightarrow> string" where
  "TrimPrefix s x = (if HasPrefix s x then drop (length x) s else s)"

definition is_timestamp :: "string \<Rightarrow> bool" where
  "is_timestamp s \<longleftrightarrow> length s = 15 \<and> s ! 8 = CHR ''T'' \<and>
     list_all (\<lambda>c. c \<in> set ''0123456789'') (take 8 s @ drop 9 s)"

definition GetTimestampFromWorkspaceDir :: "lab \<Rightarrow> string \<Rightarrow> (runner, string) go" where
  "GetTimestampFromWorkspaceDir w dir =
     (let dirTimestamp = TrimPrefix (filepath_Base dir) workspaceDirPrefix in
      if is_timestamp dirTimestamp then ret dirTimestamp else getTimestamp w)"

text \<open>RunTest of e2e.go: its arguments for the test, and the timeout, are not used.\<close>

definition RunTest :: "lab \<Rightarrow> runner_flags \<Rightarrow> string \<Rightarrow> string \<Rightarrow> string \<Rightarrow> string \<Rightarrow> string \<Rightarrow> nat \<Rightarrow>
    (runner, string \<times> error option) go" where
  "RunTest w fl host workspace results testArgs ginkgoArgs timeout =
     (let cmd = getSSHCommand '' && '' [Sprintf ''cd %s'' [workspace], ''./gce-csi-driver-test'']
      in SSH w fl host [''sh'', ''-c'', cmd])"

text \<open>The copy of the files that match a pattern, if there are any.\<close>

definition copy_if_any :: "lab \<Rightarrow> runner_flags \<Rightarrow> string \<Rightarrow> string list \<Rightarrow> string \<Rightarrow> (runner, error option) go" where
  "copy_if_any w fl host opts files =
     call (SSH w fl host [''ls'', files]) (\<lambda>(_, err).
       if err = None then
         call (scp w fl host (\<lambda>name. opts @ [Sprintf ''%s:%s'' [name, files], rf_resultsDir fl])) (\<lambda>(_, err).
         ret err)
       else ret None)"

definition getTestArtifacts :: "lab \<Rightarrow> runner_flags \<Rightarrow> string \<Rightarrow> string \<Rightarrow> (runner, error option) go" where
  "getTestArtifacts w fl host testDir =
     (let logPath = path_Join [rf_resultsDir fl, host] in
      call (external w (perform (\<lambda>h. lab_MkdirAll w h logPath) (\<lambda>_. A_mkdirall logPath))) (\<lambda>err.
      if err \<noteq> None then ret (Some (PlainError ''failed to create log directory %q: %v''))
      else
        call (scp w fl host (\<lambda>name. [''-r'', Sprintf ''%s:%s/results/*.log'' [name, testDir], logPath])) (\<lambda>(_, err).
        if err \<noteq> None then ret err
        else
          call (copy_if_any w fl host [''-r''] (Sprintf ''%s/results/*.json'' [testDir])) (\<lambda>err.
          if err \<noteq> None then ret err
          else
            call (copy_if_any w fl host [] (Sprintf ''%s/results/junit*'' [testDir])) (\<lambda>err.
            if err \<noteq> None then ret err
            else ret None)))))"

text \<open>NewAggregate of the vendored package errors: nil for an empty list.\<close>

definition NewAggregate :: "error list \<Rightarrow> error option" where
  "NewAggregate errs = (if errs = [] then None else Some (PlainError ''aggregate''))"

definition run_staged :: "lab \<Rightarrow> runner_flags \<Rightarrow> string \<Rightarrow> string \<Rightarrow> string \<Rightarrow> string \<Rightarrow> string \<Rightarrow>
    (runner, string \<times> bool \<times> error option) go" where
  "run_staged w fl archive_path host workspace testArgs ginkgoArgs =
     call (scp w fl host (\<lambda>name. [archive_path, Sprintf ''%s:%s/'' [name, workspace]])) (\<lambda>(_, err).
     if err \<noteq> None then ret ('''', False, Some (PlainError ''failed to copy test archive: %v, output: %q''))
     else
       let cmd = getSSHCommand '' && '' [Sprintf ''cd %s'' [workspace], Sprintf ''tar -xzvf ./%s'' [archiveName]] in
       call (SSHNoSudo w fl host [''sh'', ''-c'', cmd]) (\<lambda>(_, err).
       if err \<noteq> None then ret ('''', False, Some (PlainError ''failed to extract test archive: %v, output: %q''))
       else
         let resultDir = path_Join [workspace, ''results''] in
         call (SSHNoSudo w fl host [''mkdir'', resultDir]) (\<lambda>(_, err).
         if err \<noteq> None then
           ret ('''', False, Some (PlainError ''failed to create test result directory %q on host %q: %v output: %q''))
         else
           call (RunTest w fl host workspace resultDir testArgs ginkgoArgs (rf_testTimeout fl)) (\<lambda>(output, err).
           let aggErrs = (case err of Some e \<Rightarrow> [e] | None \<Rightarrow> []) in
           call (getTestArtifacts w fl host workspace) (\<lambda>scpErr.
           let aggErrs = (case scpErr of Some e \<Rightarrow> aggErrs @ [e] | None \<Rightarrow> aggErrs) in
           ret (output, aggErrs = [], NewAggregate aggErrs))))))"

definition RunRemote :: "lab \<Rightarrow> runner_flags \<Rightarrow> string \<Rightarrow> string \<Rightarrow> bool \<Rightarrow> string \<Rightarrow> string \<Rightarrow>
    (runner, string \<times> bool \<times> error option) go" where
  "RunRemote w fl archive_path host cleanup testArgs ginkgoArgs =
     call (newWorkspaceDir w) (\<lambda>workspace.
     call (SSHNoSudo w fl host [''mkdir'', workspace]) (\<lambda>(_, err).
     if err \<noteq> None then
       ret ('''', False, Some (PlainError ''failed to create workspace directory %q on host %q: %v output: %q''))
     else
       let body = run_staged w fl archive_path host workspace testArgs ginkgoArgs in
       if cleanup then
         deferring (\<lambda>_. False) (call (SSH w fl host [''rm'', ''-rf'', workspace]) (\<lambda>_. ret ())) body
       else body))"

definition WriteLog :: "lab \<Rightarrow> runner_flags \<Rightarrow> string \<Rightarrow> string \<Rightarrow> string \<Rightarrow> (runner, error option) go" where
  "WriteLog w fl host filename content =
     (let logPath = path_Join [rf_resultsDir fl, host]; name = path_Join [logPath, filename] in
      call (external w (perform (\<lambda>h. lab_MkdirAll w h logPath) (\<lambda>_. A_mkdirall logPath))) (\<lambda>err.
      if err \<noteq> None then ret (Some (PlainError ''failed to create log directory %q: %v''))
      else
        call (external w (perform (\<lambda>h. lab_Create w h name) (\<lambda>_. A_create name))) (\<lambda>err.
        if err \<noteq> None then ret err
        else external w (perform (\<lambda>h. lab_WriteString w h content) (\<lambda>_. A_write name)))))"

section \<open>What a run does\<close>

text \<open>What reaches beyond the machine: commands on hosts and requests to the API.\<close>

fun outward :: "action \<Rightarrow> bool" where
  "outward (A_exec cmd _ _) \<longleftrightarrow> cmd = ''ssh'' \<or> cmd = ''scp''"
| "outward (A_get _ _) \<longleftrightarrow> True"
| "outward (A_insert _ _) \<longleftrightarrow> True"
| "outward (A_delete _) \<longleftrightarrow> True"
| "outward (A_serial _) \<longleftrightarrow> True"
| "outward _ \<longleftrightarrow> False"

fun removal :: "action \<Rightarrow> bool" where
  "removal (A_remove _) \<longleftrightarrow> True"
| "removal _ \<longleftrightarrow> False"

abbreviation "seen r \<equiv> filter outward (history r)"
abbreviation "removed r \<equiv> filter removal (history r)"
abbreviation "builds r \<equiv> filter (\<lambda>a. a = A_tempdir) (history r)"

text \<open>An archive has been built once if there is one, and not otherwise.\<close>

definition archive_ok :: "runner \<Rightarrow> bool" where
  "archive_ok r \<longleftrightarrow> builds r = (if archive r = None then [] else [A_tempdir])"

text \<open>Later states: keys stay, an archive stays, none is built twice and none removed. Calm ones: the
  addresses of hosts stay as well.\<close>

definition later :: "runner \<Rightarrow> runner \<Rightarrow> bool" where
  "later r r' \<longleftrightarrow> sshDefaultKeyMap r' = sshDefaultKeyMap r \<and> removed r' = removed r \<and>
     (archive r \<noteq> None \<longrightarrow> archive r' = archive r) \<and> (archive_ok r \<longrightarrow> archive_ok r')"

definition calm :: "runner \<Rightarrow> runner \<Rightarrow> bool" where
  "calm r r' \<longleftrightarrow> later r r' \<and> hostnameIpOverrides r' = hostnameIpOverrides r"

text \<open>A computation returns, in a related state; its result and the outward actions it adds satisfy
  \<open>Q\<close>.\<close>

definition sat :: "(runner \<Rightarrow> runner \<Rightarrow> bool) \<Rightarrow> (runner, 'a) go \<Rightarrow> runner \<Rightarrow> ('a \<Rightarrow> action list \<Rightarrow> bool) \<Rightarrow> bool" where
  "sat R m r Q \<longleftrightarrow> (\<exists>a t r'. m r = (Ret a, r') \<and> R r r' \<and> seen r' = seen r @ t \<and> Q a t)"

locale run_logic =
  fixes R :: "runner \<Rightarrow> runner \<Rightarrow> bool"
  assumes refl: "R r r" and trans: "R r r1 \<Longrightarrow> R r1 r2 \<Longrightarrow> R r r2"
begin

lemma sat_ret: "Q a [] \<Longrightarrow> sat R (ret a) r Q"
  by (auto simp: sat_def refl)

lemma sat_mono: "sat R m r P \<Longrightarrow> (\<And>a t. P a t \<Longrightarrow> Q a t) \<Longrightarrow> sat R m r Q"
  unfolding sat_def by blast

lemma sat_call:
  assumes m: "sat R m r P" and k: "\<And>a t r'. P a t \<Longrightarrow> R r r' \<Longrightarrow> sat R (k a) r' (\<lambda>b u. Q b (t @ u))"
  shows "sat R (call m k) r Q"
proof -
  from m obtain a t r1 where 1: "m r = (Ret a, r1)" "R r r1" "seen r1 = seen r @ t" "P a t" by (auto simp: sat_def)
  from k [OF 1(4,2)] obtain b u r2 where 2: "k a r1 = (Ret b, r2)" "R r1 r2" "seen r2 = seen r1 @ u" "Q b (t @ u)"
    by (auto simp: sat_def)
  with 1 trans [OF 1(2) 2(2)] show ?thesis by (auto simp: sat_def call_def)
qed

lemma sat_deferring:
  assumes m: "sat R m r P" and d: "\<And>a t r'. P a t \<Longrightarrow> R r r' \<Longrightarrow> sat R d r' (\<lambda>_ u. Q a (t @ u))"
  shows "sat R (deferring (\<lambda>_. False) d m) r Q"
proof -
  have "deferring (\<lambda>_. False) d m r = call m (\<lambda>a. call d (\<lambda>_. ret a)) r" if "m r = (Ret a, r1)" for a r1
    using that by (simp add: deferring_def call_def)
  moreover have "sat R (call m (\<lambda>a. call d (\<lambda>_. ret a))) r Q"
    by (rule sat_call [OF m]) (rule sat_call [OF d], auto intro: sat_ret)
  ultimately show ?thesis using m unfolding sat_def by fastforce
qed

lemma sat_If: "(b \<Longrightarrow> sat R m r Q) \<Longrightarrow> (\<not> b \<Longrightarrow> sat R m' r Q) \<Longrightarrow> sat R (if b then m else m') r Q"
  by simp

end

lemma later_refl: "later r r"
  by (simp add: later_def)

lemma later_trans: "later r r1 \<Longrightarrow> later r1 r2 \<Longrightarrow> later r r2"
  by (auto simp: later_def)

interpretation later: run_logic later
  by unfold_locales (rule later_refl, erule (1) later_trans)

interpretation calm: run_logic calm
  by unfold_locales (auto simp: calm_def later_refl elim: later_trans)

lemma sat_calm_later: "sat calm m r Q \<Longrightarrow> sat later m r Q"
  unfolding sat_def calm_def by blast

section \<open>The archive\<close>

text \<open>Building is local work.\<close>

definition local_work :: "action \<Rightarrow> bool" where
  "local_work a \<longleftrightarrow> \<not> outward a \<and> \<not> removal a \<and> a \<noteq> A_tempdir"

definition works :: "(runner, 'a) go \<Rightarrow> bool" where
  "works m \<longleftrightarrow> (\<forall>r. \<exists>a t. m r = (Ret a, r\<lparr>history := history r @ t\<rparr>) \<and> list_all local_work t)"

lemma works_ret: "works (ret a)"
  by (auto simp: works_def intro: exI [of _ "[]"])

lemma works_perform: "(\<And>a. local_work (ev a)) \<Longrightarrow> works (perform f ev)"
  by (auto simp: works_def perform_def Let_def)

lemma works_call:
  assumes "works m" and "\<And>a. works (k a)"
  shows "works (call m k)"
proof -
  have "\<exists>b t. call m k r = (Ret b, r\<lparr>history := history r @ t\<rparr>) \<and> list_all local_work t" for r
  proof -
    from assms(1) obtain a t where 1: "m r = (Ret a, r\<lparr>history := history r @ t\<rparr>)" "list_all local_work t"
      unfolding works_def by blast
    from assms(2) [of a] obtain b u where
      "k a (r\<lparr>history := history r @ t\<rparr>) = (Ret b, r\<lparr>history := history r @ t, history := (history r @ t) @ u\<rparr>)"
      "list_all local_work u" unfolding works_def by (metis runner.select_convs(1) runner.surjective runner.update_convs(1))
    with 1 show ?thesis by (intro exI [of _ b] exI [of _ "t @ u"]) (simp add: call_def)
  qed
  then show ?thesis by (simp add: works_def)
qed

lemma works_deferring:
  assumes "works m" and "works d"
  shows "works (deferring (\<lambda>_. False) d m)"
proof -
  have "deferring (\<lambda>_. False) d m r = call m (\<lambda>a. call d (\<lambda>_. ret a)) r" for r
  proof -
    from assms(1) obtain a r' where "m r = (Ret a, r')" unfolding works_def by blast
    then show ?thesis by (simp add: deferring_def call_def)
  qed
  then have "deferring (\<lambda>_. False) d m = call m (\<lambda>a. call d (\<lambda>_. ret a))" by (rule ext)
  with assms show ?thesis by (simp only: works_call works_ret)
qed

lemma works_command: "cmd \<noteq> ''ssh'' \<Longrightarrow> cmd \<noteq> ''scp'' \<Longrightarrow> works (run_local w cmd args)"
  unfolding run_local_def by (rule works_perform) (simp add: local_work_def split: prod.split)

lemmas works_intros = works_ret works_call works_deferring works_perform works_command

lemma copy_bins_works: "works (copy_bins w b d bins)"
proof (induction bins)
  case Nil
  show ?case unfolding copy_bins.simps by (rule works_ret)
next
  case (Cons bin bins)
  show ?case
    unfolding copy_bins.simps Let_def
    by (auto intro!: works_intros Cons simp: local_work_def simp del: ret_run)
qed

lemma SetupTestPackage_works: "works (SetupTestPackage w d)"
  unfolding SetupTestPackage_def
  by (auto intro!: works_intros copy_bins_works simp: local_work_def simp del: copy_bins.simps split: option.split)

lemma build_in_works: "works (build_in w d)"
  unfolding build_in_def
  by (auto intro!: works_intros SetupTestPackage_works simp: local_work_def split: sum.split)

lemma CreateTestArchive_builds:
  "\<exists>a t. CreateTestArchive w r = (Ret a, r\<lparr>history := history r @ A_tempdir # t\<rparr>) \<and> list_all local_work t"
proof -
  let ?d = "lab_TempDir w (history r)" and ?r = "r\<lparr>history := history r @ [A_tempdir]\<rparr>"
  have "works (case ?d of Inl _ \<Rightarrow> ret ('''', Some (PlainError ''failed to create temporary directory %v''))
      | Inr tardir \<Rightarrow> deferring (\<lambda>_. False) (perform (\<lambda>_. ()) (\<lambda>_. A_removeall tardir)) (build_in w tardir))"
    by (auto intro!: works_intros build_in_works simp: local_work_def split: sum.split)
  then show ?thesis
    unfolding works_def CreateTestArchive_def call_def perform_def Let_def
    by (elim allE [of _ ?r]) (auto simp: append_assoc)
qed

lemma local_work_unseen: "list_all local_work t \<Longrightarrow>
    filter outward t = [] \<and> filter removal t = [] \<and> filter (\<lambda>a. a = A_tempdir) t = []"
  by (induction t) (auto simp: local_work_def)

lemma getArchive_result:
  "\<exists>a r'. getArchive w r = (Ret a, r') \<and> calm r r' \<and> seen r' = seen r \<and> archive r' = Some a"
proof (cases "archive r")
  case None
  obtain a t where "CreateTestArchive w r = (Ret a, r\<lparr>history := history r @ A_tempdir # t\<rparr>)"
    and t: "list_all local_work t" using CreateTestArchive_builds by blast
  with None local_work_unseen [OF t] show ?thesis
    by (auto simp: getArchive_def call_def calm_def later_def archive_ok_def)
qed (auto simp: getArchive_def calm_def later_refl)

lemma getArchive_sat: "sat calm (getArchive w) r (\<lambda>a t. t = [])"
  using getArchive_result [of w r] by (auto simp: sat_def)

text \<open>An action of the main goroutine, whatever the other one did before it.\<close>

lemma perform_sat:
  assumes "\<And>a. \<not> removal (ev a)" "\<And>a. ev a \<noteq> A_tempdir"
    and "\<And>h. Q (f h) (filter outward [ev (f h)])"
  shows "sat calm (perform f ev) r Q"
  using assms unfolding sat_def perform_def Let_def
  by (auto simp: calm_def later_def archive_ok_def)

lemma external_sat:
  assumes "\<And>r. sat calm m r Q"
  shows "sat calm (external w m) r Q"
proof (cases "lab_background w (history r)")
  case True
  then have "external w m r = call (getArchive w) (\<lambda>_. m) r" by (simp add: external_def)
  moreover have "sat calm (call (getArchive w) (\<lambda>_. m)) r Q"
    by (rule calm.sat_call [OF getArchive_sat]) (simp add: assms)
  ultimately show ?thesis by (simp add: sat_def)
next
  case False
  then have "external w m r = m r" by (simp add: external_def)
  with assms [of r] show ?thesis by (simp add: sat_def)
qed

section \<open>Commands on hosts\<close>

text \<open>The options every command gets before its arguments: those of the command line first, then
  those of the environment, then the key.\<close>

definition ssh_args :: "runner_flags \<Rightarrow> runner \<Rightarrow> string list" where
  "ssh_args fl r =
     (if rf_sshOptions fl = '''' then [] else Split (rf_sshOptions fl) (CHR '' '')) @
     (case sshOptionsMap (rf_sshEnv fl) of None \<Rightarrow> [] | Some env \<Rightarrow> Split env (CHR '' '')) @
     (if rf_sshKey fl \<noteq> '''' then [''-i'', rf_sshKey fl]
      else case sshDefaultKeyMap r (rf_sshEnv fl) of None \<Rightarrow> [] | Some key \<Rightarrow> [''-i'', key])"

type_synonym command = "string \<times> string list"

definition ssh_command :: "runner_flags \<Rightarrow> runner \<Rightarrow> string \<Rightarrow> bool \<Rightarrow> string list \<Rightarrow> command" where
  "ssh_command fl r host sudo cmd =
     (''ssh'', ssh_args fl r @ GetHostnameOrIP fl r host # ''--'' # (if sudo then ''sudo'' # cmd else cmd))"

definition scp_command :: "runner_flags \<Rightarrow> runner \<Rightarrow> string \<Rightarrow> (string \<Rightarrow> string list) \<Rightarrow> command" where
  "scp_command fl r host args = (''scp'', ssh_args fl r @ args (GetHostnameOrIP fl r host))"

definition issued :: "command \<Rightarrow> bool \<Rightarrow> action" where
  "issued c ok = A_exec (fst c) (snd c) ok"

lemma calm_commands:
  "calm r r' \<Longrightarrow> ssh_command fl r' host sudo cmd = ssh_command fl r host sudo cmd"
  "calm r r' \<Longrightarrow> scp_command fl r' host args = scp_command fl r host args"
  by (simp_all add: calm_def later_def ssh_command_def scp_command_def ssh_args_def GetHostnameOrIP_def)

lemma run_local_sat:
  assumes "cmd = ''ssh'' \<or> cmd = ''scp''"
  shows "sat calm (run_local w cmd args) r (\<lambda>(out, err) t. t = [A_exec cmd args (err = None)])"
  unfolding run_local_def using assms
  by (intro perform_sat) (auto split: prod.splits)

lemma runSSHCommand_sat:
  assumes "cmd = ''ssh'' \<or> cmd = ''scp''"
  shows "sat calm (runSSHCommand w fl cmd args) r
    (\<lambda>(out, err) t. t = [A_exec cmd (ssh_args fl r @ args) (err = None)])"
proof -
  let ?go = "\<lambda>args. call (external w (run_local w cmd args)) (\<lambda>(output, err).
      if err \<noteq> None then ret (output, Some (PlainError ''command [%s %s] failed with error: %v''))
      else ret (output, None))"
  have "runSSHCommand w fl cmd args r = ?go (ssh_args fl r @ args) r"
    by (simp add: runSSHCommand_def ssh_args_def Let_def split: option.split)
  moreover have "sat calm (?go a) r (\<lambda>(out, err) t. t = [A_exec cmd a (err = None)])" for a
    by (rule calm.sat_call [OF external_sat [OF run_local_sat [OF assms]]]) (auto intro!: calm.sat_ret)
  ultimately show ?thesis by (simp add: sat_def)
qed

lemma SSH_sat: "sat calm (SSH w fl host cmd) r (\<lambda>(out, err) t. t = [issued (ssh_command fl r host True cmd) (err = None)])"
  using runSSHCommand_sat [of "''ssh''" w fl _ r]
  by (simp add: sat_def SSH_def ssh_command_def issued_def)

lemma SSHNoSudo_sat:
  "sat calm (SSHNoSudo w fl host cmd) r (\<lambda>(out, err) t. t = [issued (ssh_command fl r host False cmd) (err = None)])"
  using runSSHCommand_sat [of "''ssh''" w fl _ r]
  by (simp add: sat_def SSHNoSudo_def ssh_command_def issued_def)

lemma scp_sat: "sat calm (scp w fl host args) r (\<lambda>(out, err) t. t = [issued (scp_command fl r host args) (err = None)])"
  using runSSHCommand_sat [of "''scp''" w fl _ r]
  by (simp add: sat_def scp_def scp_command_def issued_def)

text \<open>In sequence, from a state whose hosts and keys are those of \<open>r0\<close>.\<close>

lemma call_command:
  assumes "calm r0 r" and "sat calm m r (\<lambda>(out, err) t. t = [issued c (err = None)])"
    and "\<And>out err r'. calm r0 r' \<Longrightarrow> sat calm (k (out, err)) r' (\<lambda>b u. Q b (issued c (err = None) # u))"
  shows "sat calm (call m k) r Q"
  by (rule calm.sat_call [OF assms(2)]) (clarsimp, rule assms(3), erule calm.trans [OF assms(1)])

lemma call_SSH:
  assumes "calm r0 r" and "\<And>out err r'. calm r0 r' \<Longrightarrow>
    sat calm (k (out, err)) r' (\<lambda>b u. Q b (issued (ssh_command fl r0 host True cmd) (err = None) # u))"
  shows "sat calm (call (SSH w fl host cmd) k) r Q"
  by (rule call_command [OF assms(1)])
    (use SSH_sat [of w fl host cmd r] calm_commands [OF assms(1)] assms(2) in simp_all)

lemma call_SSHNoSudo:
  assumes "calm r0 r" and "\<And>out err r'. calm r0 r' \<Longrightarrow>
    sat calm (k (out, err)) r' (\<lambda>b u. Q b (issued (ssh_command fl r0 host False cmd) (err = None) # u))"
  shows "sat calm (call (SSHNoSudo w fl host cmd) k) r Q"
  by (rule call_command [OF assms(1)])
    (use SSHNoSudo_sat [of w fl host cmd r] calm_commands [OF assms(1)] assms(2) in simp_all)

lemma call_scp:
  assumes "calm r0 r" and "\<And>out err r'. calm r0 r' \<Longrightarrow>
    sat calm (k (out, err)) r' (\<lambda>b u. Q b (issued (scp_command fl r0 host args) (err = None) # u))"
  shows "sat calm (call (scp w fl host args) k) r Q"
  by (rule call_command [OF assms(1)])
    (use scp_sat [of w fl host args r] calm_commands [OF assms(1)] assms(2) in simp_all)

section \<open>RunRemote\<close>

text \<open>A list of commands up to the first failure, and whether there was none.\<close>

fun until_failure :: "command list \<Rightarrow> action list \<Rightarrow> bool \<Rightarrow> bool" where
  "until_failure [] t ok \<longleftrightarrow> t = [] \<and> ok"
| "until_failure (c # cs) t ok \<longleftrightarrow>
     (t = [issued c False] \<and> \<not> ok \<or> (\<exists>u. t = issued c True # u \<and> until_failure cs u ok))"

text \<open>The commands for a workspace on a host.\<close>

definition mkdir_command :: "runner_flags \<Rightarrow> runner \<Rightarrow> string \<Rightarrow> string \<Rightarrow> command" where
  "mkdir_command fl r host ws = ssh_command fl r host False [''mkdir'', ws]"

definition staging_commands :: "runner_flags \<Rightarrow> runner \<Rightarrow> string \<Rightarrow> string \<Rightarrow> string \<Rightarrow> command list" where
  "staging_commands fl r path host ws =
     [scp_command fl r host (\<lambda>name. [path, name @ '':'' @ ws @ ''/'']),
      ssh_command fl r host False
        [''sh'', ''-c'', [CHR 0x27] @ ''cd '' @ ws @ '' && tar -xzvf ./e2e_gce_pd_test.tar.gz'' @ [CHR 0x27]],
      ssh_command fl r host False [''mkdir'', path_Join [ws, ''results'']]]"

definition test_command :: "runner_flags \<Rightarrow> runner \<Rightarrow> string \<Rightarrow> string \<Rightarrow> command" where
  "test_command fl r host ws =
     ssh_command fl r host True [''sh'', ''-c'', [CHR 0x27] @ ''cd '' @ ws @ '' && ./gce-csi-driver-test'' @ [CHR 0x27]]"

definition cleanup_command :: "runner_flags \<Rightarrow> runner \<Rightarrow> string \<Rightarrow> string \<Rightarrow> command" where
  "cleanup_command fl r host ws = ssh_command fl r host True [''rm'', ''-rf'', ws]"

text \<open>Files that are copied if there are any; all artifacts.\<close>

definition copied :: "runner_flags \<Rightarrow> runner \<Rightarrow> string \<Rightarrow> string list \<Rightarrow> string \<Rightarrow> action list \<Rightarrow> bool \<Rightarrow> bool" where
  "copied fl r host opts files t ok \<longleftrightarrow>
     (let ls = ssh_command fl r host True [''ls'', files];
          cp = scp_command fl r host (\<lambda>name. opts @ [name @ '':'' @ files, rf_resultsDir fl])
      in t = [issued ls False] \<and> ok \<or> t = [issued ls True, issued cp ok])"

definition artifacts :: "runner_flags \<Rightarrow> runner \<Rightarrow> string \<Rightarrow> string \<Rightarrow> action list \<Rightarrow> bool \<Rightarrow> bool" where
  "artifacts fl r host ws t ok \<longleftrightarrow>
     (let logs = scp_command fl r host (\<lambda>name. [''-r'', name @ '':'' @ ws @ ''/results/*.log'',
            path_Join [rf_resultsDir fl, host]])
      in t = [] \<and> \<not> ok \<or> t = [issued logs False] \<and> \<not> ok \<or>
         (\<exists>u. t = issued logs True # u \<and>
           (copied fl r host [''-r''] (ws @ ''/results/*.json'') u False \<and> \<not> ok \<or>
            (\<exists>u1 u2. u = u1 @ u2 \<and> copied fl r host [''-r''] (ws @ ''/results/*.json'') u1 True \<and>
               copied fl r host [] (ws @ ''/results/junit*'') u2 ok))))"

text \<open>After the workspace has been made.\<close>

definition staged_run :: "runner_flags \<Rightarrow> runner \<Rightarrow> string \<Rightarrow> string \<Rightarrow> string \<Rightarrow> action list \<Rightarrow> bool \<Rightarrow> bool" where
  "staged_run fl r path host ws t ok \<longleftrightarrow>
     until_failure (staging_commands fl r path host ws) t False \<and> \<not> ok \<or>
     (\<exists>u v tested got. until_failure (staging_commands fl r path host ws) u True \<and>
        t = u @ issued (test_command fl r host ws) tested # v \<and> artifacts fl r host ws v got \<and>
        (ok \<longleftrightarrow> tested \<and> got))"

definition remote_run :: "runner_flags \<Rightarrow> runner \<Rightarrow> string \<Rightarrow> string \<Rightarrow> bool \<Rightarrow> string \<Rightarrow> action list \<Rightarrow> bool \<Rightarrow> bool" where
  "remote_run fl r path host cleanup ws t ok \<longleftrightarrow>
     t = [issued (mkdir_command fl r host ws) False] \<and> \<not> ok \<or>
     (\<exists>u. t = issued (mkdir_command fl r host ws) True # u \<and>
        (if cleanup
         then \<exists>v b. u = v @ [issued (cleanup_command fl r host ws) b] \<and> staged_run fl r path host ws v ok
         else staged_run fl r path host ws u ok))"

lemma Sprintf_formats:
  "Sprintf ''%s:%s'' [a, b] = a @ '':'' @ b" "Sprintf ''%s:%s/'' [a, b] = a @ '':'' @ b @ ''/''"
  "Sprintf ''cd %s'' [a] = ''cd '' @ a" "Sprintf ''%s/results/*.json'' [a] = a @ ''/results/*.json''"
  "Sprintf ''%s/results/junit*'' [a] = a @ ''/results/junit*''"
  "Sprintf ''%s:%s/results/*.log'' [a, b] = a @ '':'' @ b @ ''/results/*.log''"
  "Sprintf ''tar -xzvf ./%s'' [archiveName] = ''tar -xzvf ./e2e_gce_pd_test.tar.gz''"
  by (simp_all add: archiveName_def)

lemma copy_if_any_sat:
  assumes "calm r0 r"
  shows "sat calm (copy_if_any w fl host opts files) r (\<lambda>err t. copied fl r0 host opts files t (err = None))"
  unfolding copy_if_any_def Sprintf_formats
  by (rule call_SSH [OF assms], simp only: prod.case, rule calm.sat_If, rule call_scp, assumption, simp only: prod.case)
    (rule calm.sat_ret, auto simp: copied_def Let_def)+

lemma call_kept:
  assumes "calm r0 r" and "sat calm m r P"
    and "\<And>a t r'. P a t \<Longrightarrow> calm r0 r' \<Longrightarrow> sat calm (k a) r' (\<lambda>b u. Q b (t @ u))"
  shows "sat calm (call m k) r Q"
  using assms(2) by (rule calm.sat_call) (erule assms(3), erule calm.trans [OF assms(1)])

lemma MkdirAll_sat: "sat calm (external w (perform (\<lambda>h. lab_MkdirAll w h p) (\<lambda>_. A_mkdirall p))) r (\<lambda>_ t. t = [])"
  by (intro external_sat perform_sat) simp_all

abbreviation "logs_command fl r host ws \<equiv> scp_command fl r host
  (\<lambda>name. [''-r'', name @ '':'' @ ws @ ''/results/*.log'', path_Join [rf_resultsDir fl, host]])"

lemma artifacts_runs:
  "artifacts fl r host ws [] False"
  "artifacts fl r host ws [issued (logs_command fl r host ws) False] False"
  "copied fl r host [''-r''] (ws @ ''/results/*.json'') u False \<Longrightarrow>
     artifacts fl r host ws (issued (logs_command fl r host ws) True # u) False"
  "copied fl r host [''-r''] (ws @ ''/results/*.json'') u True \<Longrightarrow> copied fl r host [] (ws @ ''/results/junit*'') v ok \<Longrightarrow>
     artifacts fl r host ws (issued (logs_command fl r host ws) True # u @ v) ok"
  unfolding artifacts_def Let_def by blast+

lemmas artifacts_here = artifacts_runs [simplified append_Cons append_Nil]

lemma getTestArtifacts_sat:
  assumes "calm r0 r"
  shows "sat calm (getTestArtifacts w fl host ws) r (\<lambda>err t. artifacts fl r0 host ws t (err = None))"
proof -
  have opt: "(if err \<noteq> None then ret err else ret None) = ret err" for err :: "error option"
    by simp
  show ?thesis
    unfolding getTestArtifacts_def Let_def Sprintf_formats opt
    by (rule call_kept [OF assms MkdirAll_sat], rule calm.sat_If, rule calm.sat_ret, clarsimp simp: artifacts_here,
        rule call_scp, assumption, simp only: prod.case, rule calm.sat_If, rule calm.sat_ret,
        clarsimp simp: artifacts_here,
        rule call_kept, assumption, rule copy_if_any_sat, assumption, rule calm.sat_If, rule calm.sat_ret,
        clarsimp simp: artifacts_here,
        rule call_kept, assumption, rule copy_if_any_sat, assumption, rule calm.sat_ret)
      (clarsimp simp: artifacts_here)
qed

lemma getSSHCommand_two: "getSSHCommand '' && '' [a, b] = [CHR 0x27] @ a @ '' && '' @ b @ [CHR 0x27]"
  by (simp add: getSSHCommand_def)

lemma staged_runs:
  assumes "staging_commands fl r path host ws = [a, b, c]"
  shows "staged_run fl r path host ws [issued a False] False"
    and "staged_run fl r path host ws [issued a True, issued b False] False"
    and "staged_run fl r path host ws [issued a True, issued b True, issued c False] False"
    and "artifacts fl r host ws v got \<Longrightarrow> staged_run fl r path host ws
      (issued a True # issued b True # issued c True # issued (test_command fl r host ws) tested # v) (tested \<and> got)"
  unfolding staged_run_def assms by (auto intro!: exI [of _ "[issued a True, issued b True, issued c True]"])

lemmas staged_here = staged_runs [OF staging_commands_def, unfolded test_command_def, simplified append_Cons append_Nil]

lemma no_errors: "(case scpErr of Some e \<Rightarrow> errs @ [e] | None \<Rightarrow> errs) = [] \<longleftrightarrow> errs = [] \<and> scpErr = None"
  "(case err of Some e \<Rightarrow> [e] | None \<Rightarrow> []) = [] \<longleftrightarrow> err = None"
  "NewAggregate errs = None \<longleftrightarrow> errs = []"
  by (auto simp: NewAggregate_def split: option.split)

lemma run_staged_sat:
  assumes "calm r0 r"
  shows "sat calm (run_staged w fl path host ws ta ga) r (\<lambda>(out, ok, err) t.
    staged_run fl r0 path host ws t ok \<and> (ok \<longleftrightarrow> err = None))"
  unfolding run_staged_def Let_def RunTest_def Sprintf_formats getSSHCommand_two
  by (rule call_scp [OF assms], simp only: prod.case, rule calm.sat_If, rule calm.sat_ret,
      clarsimp simp: staged_here,
      rule call_SSHNoSudo, assumption, simp only: prod.case, rule calm.sat_If, rule calm.sat_ret,
      clarsimp simp: staged_here,
      rule call_SSHNoSudo, assumption, simp only: prod.case, rule calm.sat_If, rule calm.sat_ret,
      clarsimp simp: staged_here,
      rule call_SSH, assumption, simp only: prod.case,
      rule call_kept, assumption, rule getTestArtifacts_sat, assumption, rule calm.sat_ret)
    (clarsimp simp: staged_here no_errors)

lemma newWorkspaceDir_sat:
  "sat calm (newWorkspaceDir w) r (\<lambda>ws t. t = [] \<and> (\<exists>stamp. ws = path_Join [''/tmp'', workspaceDirPrefix @ stamp]))"
proof -
  have "sat calm (getTimestamp w) r (\<lambda>_ t. t = [])" for r
    unfolding getTimestamp_def by (intro external_sat perform_sat) simp_all
  then show ?thesis
    unfolding newWorkspaceDir_def by (rule calm.sat_call) (auto intro: calm.sat_ret)
qed

definition workspace_of :: "string \<Rightarrow> string" where
  "workspace_of stamp = path_Join [''/tmp'', workspaceDirPrefix @ stamp]"

lemma cleanup_sat:
  assumes "calm r0 r"
  shows "sat calm (call (SSH w fl host cmd) (\<lambda>_. ret ())) r
    (\<lambda>_ t. \<exists>b. t = [issued (ssh_command fl r0 host True cmd) b])"
  by (rule call_SSH [OF assms]) (auto intro: calm.sat_ret)

lemma remote_runs:
  "remote_run fl r path host cleanup ws [issued (ssh_command fl r host False [''mkdir'', ws]) False] False"
  "staged_run fl r path host ws t ok \<Longrightarrow> \<not> cleanup \<Longrightarrow>
     remote_run fl r path host cleanup ws (issued (ssh_command fl r host False [''mkdir'', ws]) True # t) ok"
  "staged_run fl r path host ws t ok \<Longrightarrow> cleanup \<Longrightarrow>
     remote_run fl r path host cleanup ws (issued (ssh_command fl r host False [''mkdir'', ws]) True #
       t @ [issued (ssh_command fl r host True [''rm'', ''-rf'', ws]) b]) ok"
  unfolding remote_run_def mkdir_command_def cleanup_command_def by simp_all blast

lemma RunRemote_sat:
  assumes "calm r0 r"
  shows "sat calm (RunRemote w fl path host cleanup ta ga) r (\<lambda>(out, ok, err) t.
    (ok \<longleftrightarrow> err = None) \<and> (\<exists>stamp. remote_run fl r0 path host cleanup (workspace_of stamp) t ok))"
proof -
  let ?Q = "\<lambda>ws (out, ok, err) t. (ok \<longleftrightarrow> err = None) \<and> remote_run fl r0 path host cleanup ws t ok"
  let ?rest = "\<lambda>ws. call (SSHNoSudo w fl host [''mkdir'', ws]) (\<lambda>(_, err).
     if err \<noteq> None then
       ret ('''', False, Some (PlainError ''failed to create workspace directory %q on host %q: %v output: %q''))
     else
       let body = run_staged w fl path host ws ta ga in
       if cleanup then
         deferring (\<lambda>_. False) (call (SSH w fl host [''rm'', ''-rf'', ws]) (\<lambda>_. ret ())) body
       else body)"
  have rest: "sat calm (?rest ws) r1 (?Q ws)" if r1: "calm r0 r1" for ws r1
    unfolding Let_def
    by (rule call_SSHNoSudo [OF r1], simp only: prod.case, rule calm.sat_If, rule calm.sat_ret,
        clarsimp simp: remote_runs, rule calm.sat_If, rule calm.sat_deferring, rule run_staged_sat, assumption,
        rule calm.sat_mono, rule cleanup_sat, rule calm.trans, assumption, assumption, clarsimp simp: remote_runs,
        rule calm.sat_mono, rule run_staged_sat, assumption)
      (clarsimp simp: remote_runs)
  show ?thesis
    unfolding RunRemote_def
  proof (rule call_kept [OF assms newWorkspaceDir_sat], clarsimp simp only: append_Nil)
    fix r1 stamp
    assume "calm r0 r1"
    from rest [OF this, of "workspace_of stamp"]
    show "sat calm (?rest (path_Join [''/tmp'', workspaceDirPrefix @ stamp])) r1 (\<lambda>(out, ok, err) t.
        (ok \<longleftrightarrow> err = None) \<and> (\<exists>stamp. remote_run fl r0 path host cleanup (workspace_of stamp) t ok))"
      unfolding workspace_of_def by (rule calm.sat_mono) auto
  qed
qed


text \<open>The arguments for the tests and the flags of Ginkgo have no effect, nor has the timeout.\<close>

lemma RunTest_ignores_arguments:
  "RunTest w fl host ws results testArgs ginkgoArgs n = RunTest w fl host ws results testArgs' ginkgoArgs' n'"
  by (simp add: RunTest_def)

lemma RunRemote_ignores_arguments:
  "RunRemote w fl path host cleanup testArgs ginkgoArgs = RunRemote w fl path host cleanup testArgs' ginkgoArgs'"
proof -
  have "run_staged w fl path host ws testArgs ginkgoArgs = run_staged w fl path host ws testArgs' ginkgoArgs'" for ws
    unfolding run_staged_def RunTest_def ..
  then show ?thesis by (simp only: RunRemote_def)
qed

text \<open>The time can be read back from the name of a workspace.\<close>

lemma workspace_timestamp:
  assumes "is_timestamp s"
  shows "GetTimestampFromWorkspaceDir w (workspace_of s) = ret s"
proof -
  have digits: "c \<in> set ''T0123456789''" if "c \<in> set s" for c
  proof -
    have s: "s = take 8 s @ s ! 8 # drop (Suc 8) s"
      by (rule id_take_nth_drop) (use assms in \<open>simp add: is_timestamp_def\<close>)
    have "c \<in> set (take 8 s @ s ! 8 # drop (Suc 8) s)" using that s by simp
    then have "c \<in> set (take 8 s @ drop 9 s) \<or> c = s ! 8" by auto
    with assms have "c \<in> set ''0123456789'' \<or> c = CHR ''T''" unfolding is_timestamp_def list_all_iff by metis
    then show ?thesis by auto
  qed
  have no: "CHR ''/'' \<notin> set s" using digits [of "CHR ''/''"] by auto
  have parts: "Split (''/tmp/gce-pd-e2e-'' @ s) (CHR ''/'') = ['''', ''tmp'', ''gce-pd-e2e-'' @ s]"
    using no by (simp add: Split_no_sep)
  have ws: "workspace_of s = ''/tmp/gce-pd-e2e-'' @ s"
    using parts by (simp add: workspace_of_def path_Join_def path_Clean_def workspaceDirPrefix_def HasPrefix_def Let_def)
  have "hd (rev (''/tmp/gce-pd-e2e-'' @ s)) \<noteq> CHR ''/''"
    using no assms by (cases s rule: rev_cases) (auto simp: is_timestamp_def)
  then have "dropWhile (\<lambda>c. c = CHR ''/'') (rev (''/tmp/gce-pd-e2e-'' @ s)) = rev (''/tmp/gce-pd-e2e-'' @ s)"
    by (subst dropWhile_eq_self_iff) blast
  then have "filepath_Base (workspace_of s) = last (Split (''/tmp/gce-pd-e2e-'' @ s) (CHR ''/''))"
    unfolding ws filepath_Base_def Let_def by (simp del: Split.simps)
  with assms parts show ?thesis
    by (simp add: GetTimestampFromWorkspaceDir_def TrimPrefix_def workspaceDirPrefix_def HasPrefix_def Let_def)
qed
end
