(* ===== verification/TestRunner.thy ===== *)
theory TestRunner
  imports Remote
begin

text \<open>
  The runner of the remote tests, second part: run_remote.go, which makes an instance, runs the
  tests on it with the functions of Remote, and removes what it made. Also what the tests are
  (test/e2e/e2e.go). Its report on standard output is kept as the result of the tests, its log is
  dropped. The goroutine that builds the archive runs beside the main one: at any of the main
  goroutine's actions it may have run, as a whole.
\<close>

section \<open>Flags\<close>

text \<open>envs.Set, for the flag node-env.\<close>

definition envs_Set :: "(string \<Rightarrow> string option) \<Rightarrow> string \<Rightarrow> (string \<Rightarrow> string option) \<times> error option" where
  "envs_Set e value =
     (let kv = SplitN2 value ''='' in
      if length kv \<noteq> 2 then (e, Some (PlainError ''invalid env string''))
      else (e(kv ! 0 \<mapsto> kv ! 1), None))"

fun ginkgo_focus :: "bool \<Rightarrow> string list \<Rightarrow> string" where
  "ginkgo_focus first [] = ''''"
| "ginkgo_focus first (t # ts) = (if first then t else ''|'' @ t) @ ginkgo_focus False ts"

definition testsToGinkgoFocus :: "string list \<Rightarrow> string" where
  "testsToGinkgoFocus tests = ''--focus=\"'' @ ginkgo_focus True tests @ ''\"''"

section \<open>Instances\<close>

text \<open>strings.ToUpper. Two runes outside ASCII have an ASCII upper case: U+0131 (bytes C4 B1), which
  becomes I, and U+017F (bytes C5 BF), which becomes S. The others are left as they are, since the
  result is only compared with an ASCII constant.\<close>

definition ascii_upper :: "char \<Rightarrow> char" where
  "ascii_upper c = (let n = of_char c :: nat in if 97 \<le> n \<and> n \<le> 122 then char_of (n - 32) else c)"

fun ToUpper :: "string \<Rightarrow> string" where
  "ToUpper [] = []"
| "ToUpper (c # cs) =
     (if c = CHR 0xC4 \<and> take 1 cs = [CHR 0xB1] then CHR ''I'' # ToUpper (drop 1 cs)
      else if c = CHR 0xC5 \<and> take 1 cs = [CHR 0xBF] then CHR ''S'' # ToUpper (drop 1 cs)
      else ascii_upper c # ToUpper cs)"

text \<open>The first address that is not empty, over the interfaces and their configurations.\<close>

fun nat_ip :: "string list \<Rightarrow> string" where
  "nat_ip [] = ''''"
| "nat_ip (ip # ips) = (if ip \<noteq> '''' then ip else nat_ip ips)"

fun getexternalIP :: "string list list \<Rightarrow> string" where
  "getexternalIP [] = ''''"
| "getexternalIP (ni # nis) = (let ip = nat_ip ni in if ip \<noteq> '''' then ip else getexternalIP nis)"

definition machineType :: "runner_flags \<Rightarrow> string \<Rightarrow> string" where
  "machineType fl machine =
     (let machine = (if machine = '''' then ''n1-standard-1'' else machine)
      in Sprintf ''zones/%s/machineTypes/%s'' [rf_zone fl, machine])"

definition get_instance :: "lab \<Rightarrow> string \<Rightarrow> (runner, error + vm) go" where
  "get_instance w name = external w (perform (\<lambda>h. lab_Get w h name)
     (\<lambda>reply. A_get name (case reply of Inl _ \<Rightarrow> None | Inr i \<Rightarrow> Some (vm_Status i))))"

definition note_address :: "string \<Rightarrow> vm \<Rightarrow> (runner, unit) go" where
  "note_address host i =
     (let externalIP = getexternalIP (vm_NatIPs i)
      in if externalIP \<noteq> '''' then AddHostnameIP host externalIP else ret ())"

text \<open>The polled function. Its own error is always nil; the errors it stores in the variable of the
  enclosing function are overwritten by the result of the poll.\<close>

definition instance_up :: "lab \<Rightarrow> runner_flags \<Rightarrow> string \<Rightarrow> (runner, bool \<times> error option) go" where
  "instance_up w fl name =
     call (get_instance w name) (\<lambda>reply.
     case reply of
       Inl _ \<Rightarrow> ret (False, None)
     | Inr i \<Rightarrow>
         if ToUpper (vm_Status i) \<noteq> ''RUNNING'' then ret (False, None)
         else
           call (note_address name i) (\<lambda>_.
           call (SSHNoSudo w fl name [''echo'']) (\<lambda>(_, err).
           if err \<noteq> None then ret (False, None) else ret (True, None))))"

definition instance_name :: string where "instance_name = ''gce-pd-csi-e2e''"

definition image_url :: string where
  "image_url = ''https://www.googleapis.com/compute/v1/projects/eip-images/global/images/debian-9-drawfork-v20180423''"

definition wait_until_up :: "lab \<Rightarrow> runner_flags \<Rightarrow> (runner, string \<times> error option) go" where
  "wait_until_up w fl r =
     call (Poll (lab_ticks w (history r)) 15 600 (instance_up w fl instance_name)) (\<lambda>err.
     if err \<noteq> None then ret (instance_name, err) else ret (instance_name, None)) r"

definition createInstance :: "lab \<Rightarrow> runner_flags \<Rightarrow> (runner, string \<times> error option) go" where
  "createInstance w fl =
     call (external w (perform (lab_NewUUID w) (\<lambda>_. A_uuid))) (\<lambda>myuuid.
     let i = \<lparr>vr_Name = instance_name, vr_MachineType = machineType fl '''',
              vr_DiskName = ''my-root-pd-'' @ myuuid, vr_SourceImage = image_url\<rparr> in
     call (get_instance w instance_name) (\<lambda>reply.
     case reply of
       Inr _ \<Rightarrow> wait_until_up w fl
     | Inl _ \<Rightarrow>
         call (external w (perform (\<lambda>h. lab_Insert w h i)
             (\<lambda>op. A_insert instance_name (op = Inr None)))) (\<lambda>op.
         case op of
           Inl _ \<Rightarrow> ret ('''', Some (PlainError ''could not create instance %s: API error: %v''))
         | Inr (Some _) \<Rightarrow> ret ('''', Some (PlainError ''could not create instance %s: %+v''))
         | Inr None \<Rightarrow> wait_until_up w fl)))"

definition deleteInstance :: "lab \<Rightarrow> string \<Rightarrow> (runner, unit) go" where
  "deleteInstance w host =
     call (external w (perform (\<lambda>h. lab_Delete w h host) (\<lambda>_. A_delete host))) (\<lambda>_. ret ())"

section \<open>Running the tests\<close>

record TestResult =
  tr_output :: string
  tr_err :: "error option"
  tr_host :: string
  tr_exitOk :: bool

definition testHost :: "lab \<Rightarrow> runner_flags \<Rightarrow> string \<Rightarrow> bool \<Rightarrow> string \<Rightarrow> (runner, TestResult) go" where
  "testHost w fl host deleteFiles ginkgoFlagsStr =
     call (get_instance w host) (\<lambda>reply.
     case reply of
       Inl err \<Rightarrow> ret \<lparr>tr_output = '''', tr_err = Some err, tr_host = host, tr_exitOk = False\<rparr>
     | Inr i \<Rightarrow>
         if ToUpper (vm_Status i) \<noteq> ''RUNNING'' then
           ret \<lparr>tr_output = '''', tr_err = Some (PlainError ''instance %s not in state RUNNING, was %s''),
                tr_host = host, tr_exitOk = False\<rparr>
         else
           call (note_address host i) (\<lambda>_.
           call (getArchive w) (\<lambda>(path, err).
           if err \<noteq> None then
             ret \<lparr>tr_output = '''', tr_err = Some (PlainError ''unable to create test archive: %v''),
                  tr_host = '''', tr_exitOk = False\<rparr>
           else
             call (RunRemote w fl path host deleteFiles (rf_testArgs fl) ginkgoFlagsStr) (\<lambda>(output, exitOk, err).
             ret \<lparr>tr_output = output, tr_err = err, tr_host = host, tr_exitOk = exitOk\<rparr>))))"

definition collect_serial :: "lab \<Rightarrow> runner_flags \<Rightarrow> string \<Rightarrow> (runner, unit) go" where
  "collect_serial w fl host =
     call (external w (perform (\<lambda>h. lab_SerialPort w h host) (\<lambda>_. A_serial host))) (\<lambda>reply.
     case reply of
       Inl _ \<Rightarrow> ret ()
     | Inr contents \<Rightarrow> call (WriteLog w fl host ''serial-1.log'' contents) (\<lambda>_. ret ()))"

definition test_on_instance :: "lab \<Rightarrow> runner_flags \<Rightarrow> string list \<Rightarrow> (runner, TestResult) go" where
  "test_on_instance w fl tests =
     (let ginkgoFlagsStr = rf_ginkgoFlags fl @ (if tests \<noteq> [] then '' '' @ testsToGinkgoFocus tests else '''') in
      call (createInstance w fl) (\<lambda>(host, err).
      let body =
        (if err \<noteq> None then
           ret \<lparr>tr_output = '''',
                tr_err = Some (PlainError ''unable to create gce instance with running docker daemon for image.  %v''),
                tr_host = '''', tr_exitOk = False\<rparr>
         else
           let deleteFiles = (\<not> rf_deleteInstances fl \<and> rf_cleanup fl) in
           call (testHost w fl host deleteFiles ginkgoFlagsStr) (\<lambda>result.
           call (collect_serial w fl host) (\<lambda>_. ret result)))
      in if rf_deleteInstances fl then deferring (\<lambda>_. False) (deleteInstance w host) body else body))"

section \<open>main\<close>

text \<open>Up to ten attempts, six seconds apart; the error of the last one counts.\<close>

fun compute_client :: "lab \<Rightarrow> bool \<Rightarrow> nat \<Rightarrow> error option \<Rightarrow> (runner, error option) go" where
  "compute_client w first 0 err = ret err"
| "compute_client w first (Suc n) err =
     call (if first then ret () else perform (\<lambda>_. ()) (\<lambda>_. A_sleep)) (\<lambda>_.
     call (perform (lab_DefaultClient w) (\<lambda>_. A_credentials)) (\<lambda>err.
     if err \<noteq> None then compute_client w False n err
     else
       call (perform (lab_New w) (\<lambda>_. A_client)) (\<lambda>err.
       if err \<noteq> None then compute_client w False n err else ret None)))"

definition getComputeClient :: "lab \<Rightarrow> (runner, error option) go" where
  "getComputeClient w = compute_client w True 10 None"

definition deleteArchive :: "lab \<Rightarrow> (runner, unit) go" where
  "deleteArchive w =
     call (getArchive w) (\<lambda>(path, err).
     if err \<noteq> None then ret () else perform (\<lambda>_. ()) (\<lambda>_. A_remove path))"

text \<open>How the process ends: with a status, and the result it has reported if there is one, or with a
  fatal message.\<close>

datatype ended =
    Exited nat "TestResult option"
  | Fatal_log string

definition by_os_Exit :: "ended \<Rightarrow> bool" where
  "by_os_Exit e \<longleftrightarrow> (case e of Exited n _ \<Rightarrow> n \<noteq> 0 | Fatal_log _ \<Rightarrow> True)"

definition run_main :: "lab \<Rightarrow> runner_flags \<Rightarrow> (runner, ended) go" where
  "run_main w fl =
     (if rf_buildOnly fl then call (CreateTestArchive w) (\<lambda>_. ret (Exited 0 None))
      else
        call (getComputeClient w) (\<lambda>err.
        if err \<noteq> None then ret (Fatal_log ''Unable to create gcloud compute service using defaults.  Make sure you are authenticated. %v'')
        else
          call (perform (lab_stdout w) (\<lambda>_. A_stdout)) (\<lambda>stat. deref stat (\<lambda>_.
          deferring by_os_Exit (deleteArchive w)
            (call (test_on_instance w fl [''TODO tests'']) (\<lambda>results.
             if \<not> tr_exitOk results then call (deleteArchive w) (\<lambda>_. ret (Exited 1 (Some results)))
             else ret (Exited 0 (Some results))))))))"

text \<open>The process: the init of package remote, then main.\<close>

definition run_remote :: "lab \<Rightarrow> runner_flags \<Rightarrow> ended outcome \<times> action list" where
  "run_remote w fl =
     (case lab_user w of
        Inl _ \<Rightarrow> (Ret (Fatal_log ''user''), [])
      | Inr home \<Rightarrow> (case run_main w fl (ssh_init home) of (e, r) \<Rightarrow> (e, history r)))"

text \<open>The tests of test/e2e are still to be written; the program fails.\<close>

definition e2e_main :: "string \<times> nat" where
  "e2e_main = (''THESE ARE SOME TESTS THAT FAIL BECAUSE THEY HAVEN'' @ [CHR 0x27] @ ''T BEEN WRITTEN'' @ [CHR 0x0A], 1)"

section \<open>What the runner does\<close>

text \<open>Requests that change nothing, and commands on hosts.\<close>

fun asks :: "action \<Rightarrow> bool" where
  "asks (A_get _ _) \<longleftrightarrow> True"
| "asks (A_exec _ _ _) \<longleftrightarrow> True"
| "asks _ \<longleftrightarrow> False"

lemma issued_asks [simp]: "asks (issued c ok)"
  by (simp add: issued_def)

text \<open>One action, whatever the goroutine did before it.\<close>

lemma external_perform:
  assumes "\<And>a. \<not> removal (ev a)" and "\<And>a. ev a \<noteq> A_tempdir"
  shows "sat later (external w (perform f ev)) r (\<lambda>a t. t = filter outward [ev a])"
  by (intro sat_calm_later external_sat perform_sat assms refl)

lemma get_instance_sat:
  "sat later (get_instance w name) r
     (\<lambda>reply t. t = [A_get name (case reply of Inl _ \<Rightarrow> None | Inr i \<Rightarrow> Some (vm_Status i))])"
  unfolding get_instance_def by (rule later.sat_mono [OF external_perform]) simp_all

lemma note_address_sat: "sat later (note_address host i) r (\<lambda>_ t. t = [])"
  by (auto simp: note_address_def Let_def AddHostnameIP_def sat_def later_def archive_ok_def)

lemma instance_up_sat: "sat later (instance_up w fl name) r (\<lambda>_ t. list_all asks t)"
  unfolding instance_up_def
proof (rule later.sat_call [OF get_instance_sat], goal_cases)
  case (1 reply t r1)
  show ?case
  proof (cases reply)
    case (Inr i)
    have "sat later (call (note_address name i) (\<lambda>_. call (SSHNoSudo w fl name [''echo'']) (\<lambda>(_, err).
        if err \<noteq> None then ret (False, None) else ret (True, None)))) r1 (\<lambda>_ u. list_all asks (t @ u))"
      by (rule later.sat_call [OF note_address_sat], rule later.sat_call [OF sat_calm_later [OF SSHNoSudo_sat]])
        (use 1(1) in \<open>auto intro!: later.sat_ret\<close>)
    with Inr 1(1) show ?thesis by (auto intro: later.sat_ret)
  qed (use 1 in \<open>auto intro!: later.sat_ret\<close>)
qed

text \<open>A wait repeats the polled function.\<close>

lemma WaitFor_sat:
  assumes "\<And>r. sat later fn r (\<lambda>_ t. list_all asks t)"
  shows "sat later (WaitFor n fn) r (\<lambda>err t. list_all asks t)"
proof (induction n arbitrary: r)
  case 0
  show ?case
    unfolding WaitFor.simps
    by (rule later.sat_call [OF assms]) (auto intro!: later.sat_ret)
next
  case (Suc n)
  show ?case
    unfolding WaitFor.simps
    by (rule later.sat_call [OF assms]) (auto intro!: later.sat_ret intro: later.sat_mono [OF Suc])
qed

lemma wait_until_up_sat: "sat later (wait_until_up w fl) r (\<lambda>(host, err) t. list_all asks t \<and> host = instance_name)"
proof -
  let ?m = "call (Poll (lab_ticks w (history r)) 15 600 (instance_up w fl instance_name)) (\<lambda>err.
     if err \<noteq> None then ret (instance_name, err) else ret (instance_name, None))"
  have "sat later ?m r (\<lambda>(host, err) t. list_all asks t \<and> host = instance_name)"
    unfolding Poll_def
    by (rule later.sat_call [OF WaitFor_sat [OF instance_up_sat]]) (auto intro!: later.sat_ret)
  then show ?thesis by (simp add: sat_def wait_until_up_def)
qed

text \<open>The ways to an instance: one that is there, a refused insert, or a new one.\<close>

definition instance_made :: "string \<Rightarrow> action list \<Rightarrow> bool" where
  "instance_made host t \<longleftrightarrow>
     (\<exists>status u. t = A_get instance_name (Some status) # u \<and> list_all asks u \<and> host = instance_name) \<or>
     (t = [A_get instance_name None, A_insert instance_name False] \<and> host = '''') \<or>
     (\<exists>u. t = A_get instance_name None # A_insert instance_name True # u \<and> list_all asks u \<and> host = instance_name)"

lemma createInstance_sat: "sat later (createInstance w fl) r (\<lambda>(host, err) t. instance_made host t)"
  unfolding createInstance_def Let_def
proof (rule later.sat_call [OF external_perform], simp_all, goal_cases)
  case (1 myuuid r1)
  let ?i = "\<lparr>vr_Name = instance_name, vr_MachineType = machineType fl '''',
    vr_DiskName = ''my-root-pd-'' @ myuuid, vr_SourceImage = image_url\<rparr>"
  show ?case
  proof (rule later.sat_call [OF get_instance_sat], goal_cases)
    case (1 reply t r2)
    show ?case
    proof (cases reply)
      case (Inr i)
      with 1 show ?thesis
        by (auto simp: instance_made_def intro!: later.sat_mono [OF wait_until_up_sat])
    next
      case (Inl e)
      show ?thesis
        unfolding Inl sum.case
        by (rule later.sat_call [OF external_perform], simp_all split: sum.split option.split)
          (use 1(1) Inl in \<open>auto simp: instance_made_def intro!: later.sat_ret later.sat_mono [OF wait_until_up_sat]\<close>)
    qed
  qed
qed

text \<open>An instance that was running, and tests that succeeded in a workspace on a host.\<close>

definition tests_passed :: "string \<Rightarrow> action list \<Rightarrow> bool" where
  "tests_passed host t \<longleftrightarrow>
     (\<exists>status. A_get host (Some status) \<in> set t \<and> ToUpper status = ''RUNNING'') \<and>
     (\<exists>opts stamp. A_exec ''ssh'' (opts @ [''--'', ''sudo'', ''sh'', ''-c'',
        [CHR 0x27] @ ''cd '' @ workspace_of stamp @ '' && ./gce-csi-driver-test'' @ [CHR 0x27]]) True \<in> set t)"

lemma until_failure_asks: "until_failure cs t ok \<Longrightarrow> list_all asks t"
  by (induction cs t ok rule: until_failure.induct) auto

lemma artifacts_asks: "artifacts fl r host ws t ok \<Longrightarrow> list_all asks t"
  by (auto simp: artifacts_def copied_def Let_def)

lemma staged_run_asks: "staged_run fl r path host ws t ok \<Longrightarrow> list_all asks t"
  by (auto simp: staged_run_def intro: until_failure_asks artifacts_asks)

lemma remote_run_asks: "remote_run fl r path host cleanup ws t ok \<Longrightarrow> list_all asks t"
  by (auto simp: remote_run_def dest!: staged_run_asks split: if_splits)

lemma remote_run_tested:
  assumes "remote_run fl r path host cleanup ws t True"
  shows "issued (test_command fl r host ws) True \<in> set t"
  using assms by (auto simp: remote_run_def staged_run_def split: if_splits)

lemma testHost_sat:
  "sat later (testHost w fl host deleteFiles ginkgo) r
     (\<lambda>result t. list_all asks t \<and> (tr_exitOk result \<longrightarrow> tests_passed host t))"
  unfolding testHost_def
proof (rule later.sat_call [OF get_instance_sat], goal_cases)
  case (1 reply t r1)
  show ?case
  proof (cases "\<exists>i. reply = Inr i \<and> ToUpper (vm_Status i) = ''RUNNING''")
    case True
    then obtain i where i: "reply = Inr i" "ToUpper (vm_Status i) = ''RUNNING''" by blast
    have t: "t = [A_get host (Some (vm_Status i))]" using 1(1) i by simp
    have run: "sat later (call (RunRemote w fl path host deleteFiles (rf_testArgs fl) ginkgo) (\<lambda>(output, exitOk, err).
        ret \<lparr>tr_output = output, tr_err = err, tr_host = host, tr_exitOk = exitOk\<rparr>)) r2
        (\<lambda>result u. list_all asks u \<and> (tr_exitOk result \<longrightarrow> tests_passed host (t @ u)))" for path r2
    proof (rule later.sat_call [OF sat_calm_later [OF RunRemote_sat [OF calm.refl]]], goal_cases)
      case (1 a u r3)
      obtain out ok err where a: "a = (out, ok, err)" by (cases a)
      with 1 obtain stamp where run: "remote_run fl r2 path host deleteFiles (workspace_of stamp) u ok" by auto
      have "tests_passed host (t @ u)" if ok
      proof -
        have "issued (test_command fl r2 host (workspace_of stamp)) True \<in> set u"
          using remote_run_tested run that by simp
        then have "A_exec ''ssh'' ((ssh_args fl r2 @ [GetHostnameOrIP fl r2 host]) @ [''--'', ''sudo'', ''sh'', ''-c'',
            [CHR 0x27] @ ''cd '' @ workspace_of stamp @ '' && ./gce-csi-driver-test'' @ [CHR 0x27]]) True \<in> set (t @ u)"
          by (simp add: issued_def test_command_def ssh_command_def)
        then have "\<exists>opts stamp. A_exec ''ssh'' (opts @ [''--'', ''sudo'', ''sh'', ''-c'',
            [CHR 0x27] @ ''cd '' @ workspace_of stamp @ '' && ./gce-csi-driver-test'' @ [CHR 0x27]]) True \<in> set (t @ u)"
          by blast
        moreover have "\<exists>status. A_get host (Some status) \<in> set (t @ u) \<and> ToUpper status = ''RUNNING''"
          using t i by auto
        ultimately show ?thesis unfolding tests_passed_def by (rule conjI [rotated])
      qed
      with a remote_run_asks [OF run] show ?case by (auto intro!: later.sat_ret)
    qed
    show ?thesis
      unfolding i sum.case
      by (rule later.sat_If, use i in simp, rule later.sat_call [OF note_address_sat],
          rule later.sat_call [OF sat_calm_later [OF getArchive_sat]])
        (use t run in \<open>auto intro!: later.sat_ret\<close>)
  next
    case False
    with 1(1) show ?thesis by (cases reply) (auto intro!: later.sat_ret)
  qed
qed

lemma external_quiet:
  assumes "\<And>a. \<not> outward (ev a)" and "\<And>a. \<not> removal (ev a)" and "\<And>a. ev a \<noteq> A_tempdir"
  shows "sat later (external w (perform f ev)) r (\<lambda>_ t. t = [])"
  by (rule later.sat_mono [OF external_perform]) (simp_all add: assms)

lemma collect_serial_sat: "sat later (collect_serial w fl host) r (\<lambda>_ t. t = [A_serial host])"
proof -
  have log: "sat later (WriteLog w fl host f c) r (\<lambda>_ t. t = [])" for f c r
    unfolding WriteLog_def Let_def
    by (auto intro!: later.sat_call [OF external_quiet] external_quiet later.sat_ret)
  show ?thesis
    unfolding collect_serial_def
    by (rule later.sat_call [OF external_perform])
      (auto intro!: later.sat_ret later.sat_call [OF log] split: sum.split)
qed

text \<open>From an instance to its removal.\<close>

definition test_run :: "runner_flags \<Rightarrow> bool \<Rightarrow> action list \<Rightarrow> bool" where
  "test_run fl ok t \<longleftrightarrow>
     (\<exists>host t1 t2. t = t1 @ t2 @ (if rf_deleteInstances fl then [A_delete host] else []) \<and>
        instance_made host t1 \<and> list_all (\<lambda>a. asks a \<or> a = A_serial host) t2 \<and>
        (ok \<longrightarrow> tests_passed host t2))"

lemma deleteInstance_sat: "sat later (deleteInstance w host) r (\<lambda>_ t. t = [A_delete host])"
  unfolding deleteInstance_def
  by (rule later.sat_call [OF external_perform]) (auto intro!: later.sat_ret)

lemma asks_or: "list_all asks t \<Longrightarrow> list_all (\<lambda>a. asks a \<or> P a) t"
  by (auto simp: list_all_iff)

lemma tests_passed_append: "tests_passed host t \<Longrightarrow> tests_passed host (t @ u)"
  unfolding tests_passed_def set_append by blast

lemma test_on_instance_sat:
  "sat later (test_on_instance w fl tests) r (\<lambda>result t. test_run fl (tr_exitOk result) t)"
  unfolding test_on_instance_def Let_def
proof (rule later.sat_call [OF createInstance_sat], goal_cases)
  case (1 a t r1)
  obtain host err where a: "a = (host, err)" by (cases a)
  with 1 have made: "instance_made host t" by simp
  let ?ok = "\<lambda>result u. list_all (\<lambda>a. asks a \<or> a = A_serial host) u \<and> (tr_exitOk result \<longrightarrow> tests_passed host u)"
  let ?body = "if err \<noteq> None then
       ret \<lparr>tr_output = '''',
            tr_err = Some (PlainError ''unable to create gce instance with running docker daemon for image.  %v''),
            tr_host = '''', tr_exitOk = False\<rparr>
     else
       call (testHost w fl host (\<not> rf_deleteInstances fl \<and> rf_cleanup fl)
         (rf_ginkgoFlags fl @ (if tests \<noteq> [] then '' '' @ testsToGinkgoFocus tests else ''''))) (\<lambda>result.
       call (collect_serial w fl host) (\<lambda>_. ret result))"
  have body: "sat later ?body r1 ?ok"
    by (rule later.sat_If, rule later.sat_ret, simp, rule later.sat_call [OF testHost_sat],
        rule later.sat_call [OF collect_serial_sat], rule later.sat_ret)
      (auto intro: asks_or tests_passed_append)
  have "sat later (if rf_deleteInstances fl then deferring (\<lambda>_. False) (deleteInstance w host) ?body else ?body) r1
      (\<lambda>result u. test_run fl (tr_exitOk result) (t @ u))"
  proof (rule later.sat_If)
    assume del: "rf_deleteInstances fl"
    show "sat later (deferring (\<lambda>_. False) (deleteInstance w host) ?body) r1
        (\<lambda>result u. test_run fl (tr_exitOk result) (t @ u))"
      by (rule later.sat_deferring [OF body], rule later.sat_mono [OF deleteInstance_sat])
        (use made del in \<open>auto simp: test_run_def\<close>)
  next
    assume "\<not> rf_deleteInstances fl"
    with made show "sat later ?body r1 (\<lambda>result u. test_run fl (tr_exitOk result) (t @ u))"
      by (intro later.sat_mono [OF body]) (auto simp: test_run_def)
  qed
  with a show ?case by simp
qed

lemma compute_client_sat: "sat later (compute_client w first n err) r (\<lambda>_ t. t = [])"
proof -
  have quiet: "sat later (perform f ev) r (\<lambda>_ t. t = [])"
    if "\<And>a. \<not> outward (ev a)" "\<And>a. \<not> removal (ev a)" "\<And>a. ev a \<noteq> A_tempdir"
    for f :: "action list \<Rightarrow> 'a" and ev r
    by (rule sat_calm_later, rule perform_sat) (simp_all add: that)
  show ?thesis
  proof (induction n arbitrary: first err r)
    case 0
    show ?case unfolding compute_client.simps by (rule later.sat_ret) simp
  next
    case (Suc n)
    show ?case
      unfolding compute_client.simps
      by (rule later.sat_call [where P = "\<lambda>_ t. t = []"])
        (auto intro!: later.sat_ret quiet later.sat_call [OF quiet] Suc)
  qed
qed

lemma compute_client_keeps: "compute_client w first n err r = (Ret a, r') \<Longrightarrow> archive r' = archive r"
proof (induction n arbitrary: first err r)
  case (Suc n)
  then show ?case
    by (auto simp: call_Ret_iff perform_def Let_def split: if_splits dest!: Suc.IH)
qed simp

text \<open>What is removed in the end is what was built.\<close>

definition tidy :: "runner \<Rightarrow> bool" where
  "tidy r \<longleftrightarrow> builds r = [A_tempdir] \<and>
     (\<exists>path err. archive r = Some (path, err) \<and> removed r = (if err = None then [A_remove path] else []))"

lemma deleteArchive_tidy:
  assumes "archive_ok r" and "removed r = []"
  shows "\<exists>r'. deleteArchive w r = (Ret (), r') \<and> seen r' = seen r \<and> tidy r'"
proof -
  from getArchive_result [of w r] obtain path err r1 where
    get: "getArchive w r = (Ret (path, err), r1)" "calm r r1" "seen r1 = seen r" "archive r1 = Some (path, err)"
    by auto
  with assms have "archive_ok r1" "removed r1 = []" by (auto simp: calm_def later_def)
  with get show ?thesis
    by (auto simp: deleteArchive_def call_def perform_def Let_def tidy_def archive_ok_def)
qed

lemma ssh_init_ok: "archive_ok (ssh_init home)" "removed (ssh_init home) = []" "seen (ssh_init home) = []"
  by (simp_all add: ssh_init_def archive_ok_def)

lemma run_main_end:
  assumes t: "test_on_instance w fl [''TODO tests''] r = (Ret results, r1)"
    and d: "deleteArchive w r1 = (Ret (), r2)"
  shows "deferring by_os_Exit (deleteArchive w)
      (call (test_on_instance w fl [''TODO tests'']) (\<lambda>results.
       if \<not> tr_exitOk results then call (deleteArchive w) (\<lambda>_. ret (Exited 1 (Some results)))
       else ret (Exited 0 (Some results)))) r = (Ret (Exited (if tr_exitOk results then 0 else 1) (Some results)), r2)"
  using assms by (simp add: deferring_def call_def by_os_Exit_def)


text \<open>A machine on which everything succeeds.\<close>

definition good_lab :: lab where
  "good_lab = \<lparr>
     lab_exec = (\<lambda>_ cmd _. (cmd, None)), lab_TempDir = (\<lambda>_. Inr ''/tmp/a''), lab_Getwd = (\<lambda>_. Inr ''/src''),
     lab_LookupEnv = (\<lambda>_ _. Some ''/go''), lab_Stat = (\<lambda>_ _. None), lab_MkdirAll = (\<lambda>_ _. None),
     lab_Create = (\<lambda>_ _. None), lab_WriteString = (\<lambda>_ _. None), lab_timestamp = (\<lambda>_. ''20180501T120000''),
     lab_NewUUID = (\<lambda>_. ''1''), lab_stdout = (\<lambda>_. Some False), lab_user = Inr ''/root'',
     lab_DefaultClient = (\<lambda>_. None), lab_New = (\<lambda>_. None),
     lab_Get = (\<lambda>h _. if A_insert instance_name True \<in> set h
       then Inr \<lparr>vm_Status = ''Running'', vm_NatIPs = [[''''], [''10.0.0.1'']]\<rparr> else Inl (PlainError ''notFound'')),
     lab_Insert = (\<lambda>_ _. Inr None), lab_Delete = (\<lambda>_ _. None), lab_SerialPort = (\<lambda>_ _. Inr ''log''),
     lab_ticks = (\<lambda>_. 3), lab_background = (\<lambda>h. length h = 4)\<rparr>"

definition good_flags :: runner_flags where
  "good_flags = \<lparr>rf_testArgs = '''', rf_zone = ''us-a'', rf_project = ''p'', rf_cleanup = True,
     rf_deleteInstances = True, rf_buildOnly = False, rf_ginkgoFlags = '''', rf_testTimeout = 45,
     rf_resultsDir = ''/tmp/'', rf_sshOptions = '''', rf_sshEnv = ''gce'', rf_sshKey = '''', rf_sshUser = ''me''\<rparr>"

lemma good_run: "fst (run_main good_lab good_flags (ssh_init ''/root'')) =
    Ret (Exited 0 (Some \<lparr>tr_output = ''ssh'', tr_err = None, tr_host = instance_name, tr_exitOk = True\<rparr>))"
  by code_simp

lemma good_last: "last (seen (snd (run_main good_lab good_flags (ssh_init ''/root'')))) = A_delete instance_name"
  by code_simp


text \<open>With build-only the result of the build is dropped: the process ends with status 0, also when there
  is no archive.\<close>

lemma build_only_ignores_errors:
  assumes "rf_buildOnly fl"
  shows "\<exists>r'. run_main w fl r = (Ret (Exited 0 None), r')"
  using CreateTestArchive_builds [of w r] assms by (auto simp: run_main_def call_def)

text \<open>An instance that was there before is deleted all the same.\<close>

lemma found_instance_deleted:
  "\<exists>t r. run_main (good_lab\<lparr>lab_Get := \<lambda>_ _. Inr \<lparr>vm_Status = ''RUNNING'', vm_NatIPs = []\<rparr>\<rparr>) good_flags
       (ssh_init ''/root'') = (t, r) \<and>
     list_all (\<lambda>a. a \<noteq> A_insert instance_name True) (seen r) \<and> last (seen r) = A_delete instance_name"
proof -
  let ?run = "run_main (good_lab\<lparr>lab_Get := \<lambda>_ _. Inr \<lparr>vm_Status = ''RUNNING'', vm_NatIPs = []\<rparr>\<rparr>) good_flags
    (ssh_init ''/root'')"
  have "list_all (\<lambda>a. a \<noteq> A_insert instance_name True) (seen (snd ?run)) \<and>
      last (seen (snd ?run)) = A_delete instance_name" by code_simp
  then show ?thesis by (metis prod.collapse)
qed

end
