(* ===== verification/NodeOverlap.thy ===== *)
theory NodeOverlap
  imports NodeProps
begin

text \<open>
  Node calls that overlap in time. The node service takes no lock, and gRPC serves each request in
  its own goroutine, so a second call for the same path may run between a call's check that nothing
  is mounted there and its mount.
\<close>

section \<open>A call that is overtaken\<close>

text \<open>Another computation runs right after each check of a mount point.\<close>

definition overtaken :: "('s, unit) go \<Rightarrow> 's Mounter \<Rightarrow> 's Mounter" where
  "overtaken other m = m\<lparr>IsLikelyNotMountPoint :=
     \<lambda>p. call (IsLikelyNotMountPoint m p) (\<lambda>r. call other (\<lambda>_. ret r))\<rparr>"

lemma overtaken_simps [simp]:
  "DoMount (overtaken other m) = DoMount m" "FormatAndMount (overtaken other m) = FormatAndMount m"
  "GetDiskByIdPaths (overtaken other m) = GetDiskByIdPaths m" "VerifyDevicePath (overtaken other m) = VerifyDevicePath m"
  "MkdirAll (overtaken other m) = MkdirAll m"
  "IsLikelyNotMountPoint (overtaken other m) p = call (IsLikelyNotMountPoint m p) (\<lambda>r. call other (\<lambda>_. ret r))"
  by (simp_all add: overtaken_def)

text \<open>The same request twice: the second call runs as a whole.\<close>

definition served_beside :: "'s Mounter \<Rightarrow> node_rpc \<Rightarrow> ('s, unit) go" where
  "served_beside m r = call (serve_node m r) (\<lambda>_. ret ())"

lemma call_overtaken_check:
  assumes doc: "documented_machine False os view plain kit root" and good: "machine_good w" and p: "plain p"
    and other: "given_paths plain r" "node_spec kit r w = (c, w1)"
    and new: "\<And>e. m_dirs w p = None \<Longrightarrow> IsNotExist (Some e) \<Longrightarrow> triple (at_machine view w1) (k (True, Some e)) Q"
    and old: "m_dirs w p \<noteq> None \<Longrightarrow> triple (at_machine view w1) (k (\<not> mounted_on w p, None)) Q"
  shows "triple (at_machine view w)
    (call (GCE_IsLikelyNotMountPoint os p) (\<lambda>x. call (served_beside (GCEMounter os) r) (\<lambda>_. k x))) Q"
proof -
  have beside: "triple (at_machine view w) (serve_node (GCEMounter os) r) (\<lambda>_. at_machine view w1)"
    using node_exact [OF doc _ other(1)] good other(2) by (intro tripleI) (metis fst_conv snd_conv)
  have go: "triple (at_machine view w) (call (served_beside (GCEMounter os) r) (\<lambda>_. k x)) Q"
    if "triple (at_machine view w1) (k x) Q" for x
    unfolding served_beside_def call_assoc call_ret by (rule triple_call [OF beside that])
  show ?thesis
    by (rule call_not_mount_point_machine [OF doc p]) (auto intro: go new old)
qed

section \<open>Both mounts are made\<close>

lemma mount_result_again:
  assumes "mount_result kit src tgt fs opts w = Some w1"
  shows "\<exists>x ys. m_mounts w1 tgt = x # ys \<and> m_dirs w1 tgt \<noteq> None \<and>
    mount_result kit src tgt fs opts w1 = Some (push_mount tgt x w1)"
  using assms by (auto simp: mount_result_def shown_def split: if_splits option.splits)

lemma mount_volume_again:
  assumes "mount_volume kit n p fs opts w = (OK, w1)"
  shows "\<exists>x ys. m_mounts w1 p = x # ys \<and> m_dirs w1 p \<noteq> None \<and> mount_volume kit n p fs opts w1 = (OK, push_mount p x w1)"
proof -
  from assms obtain w0 where "mount_result kit (google_link n) p fs opts w0 = Some w1"
    by (auto simp: mount_volume_def split: option.splits if_splits)
  from mount_result_again [OF this] show ?thesis by (auto simp: mount_volume_def)
qed

lemma make_dir_there: "m_dirs w p \<noteq> None \<Longrightarrow> make_dir p w = w"
  by (auto simp: make_dir_def)

text \<open>A volume mounted twice.\<close>

definition doubled :: "string \<Rightarrow> machine \<Rightarrow> machine \<Rightarrow> bool" where
  "doubled p w1 w2 \<longleftrightarrow> (\<exists>x ys. m_mounts w1 p = x # ys \<and> w2 = push_mount p x w1)"

lemma overtaken_stage:
  assumes doc: "documented_machine False os view plain kit root" and good: "machine_good w"
    and given: "given_paths plain (Stage req)" and alone: "node_spec kit (Stage req) w = (OK, w1)"
  shows "triple (at_machine view w)
    (serve_node (overtaken (served_beside (GCEMounter os) (Stage req)) (GCEMounter os)) (Stage req))
    (\<lambda>c s. c = OK \<and> doubled (ns_StagingTargetPath req) w1 (view s))"
proof -
  let ?p = "ns_StagingTargetPath req"
  from stage_OK [OF alone] obtain z n where vol: "SplitZoneNameId (ns_VolumeId req) = (z, n, None)"
    and free: "\<not> mounted_on w ?p" and named: "(ns_VolumeId req = '''') = False" "(?p = '''') = False"
    and dir: "m_dirs w1 ?p \<noteq> None" and disk1: "m_disks w1 n \<noteq> None"
    by auto
  from stage_OK [OF alone] obtain cap where cap: "ns_VolumeCapability req = Some cap" by auto
  have p: "plain ?p" using given named by (simp add: given_paths_def)
  have good1: "machine_inv w1" using node_spec_good [OF good, of kit "Stage req"] alone by (simp add: machine_good_def)
  from alone vol free named cap obtain fs opts where params: "stage_params cap = Some (fs, opts)"
    and mount: "mount_volume kit n ?p fs (seen_options (opts @ [''defaults''])) (make_dir ?p w) = (OK, w1)"
    and disk: "m_disks w n \<noteq> None"
    by (auto simp: Let_def split: if_splits option.splits)
  have fs: "fs \<noteq> ''''" using params by (auto simp: stage_params_def split: option.splits if_splits)
  from mount_volume_again [OF mount] obtain x ys where again:
    "m_mounts w1 ?p = x # ys" "mount_volume kit n ?p fs (seen_options (opts @ [''defaults''])) w1 = (OK, push_mount ?p x w1)"
    by blast
  obtain f where f: "m_disks w1 n = Some f" using disk1 by blast
  have staged: "triple (at_machine view w1)
      (call (stage_mount (overtaken o' (GCEMounter os)) (google_link n) ?p cap) (\<lambda>r. ret (grpc_code r)))
      (\<lambda>c s. c = OK \<and> doubled ?p w1 (view s))" for o'
    unfolding stage_mount_eq params option.case prod.case call_assoc overtaken_simps GCEMounter_simps
    by (rule call_FormatAndMount_machine [OF doc p fs f good1])
       (use again in \<open>auto simp: doubled_def triple_def\<close>)
  have links: "GCE_GetDiskByIdPaths n '''' = [google_link n, scsi_link n]"
    using GetDiskByIdPaths_of_volume [OF vol] by (simp add: google_link_def scsi_link_def)
  show ?thesis
    unfolding serve_node.simps NodeStageVolume_def Let_def named if_False cap option.case vol prod.case
      overtaken_simps GCEMounter_simps links call_assoc
    by (rule call_verify_machine [OF doc])
       (use dir in \<open>auto simp: disk free google_link_not_Nil call_assoc make_dir_there simp del: ret_run node_spec.simps
          intro!: call_overtaken_check [OF doc good p given alone] call_mkdir_machine [OF doc p] staged\<close>)
qed

lemma overtaken_publish:
  assumes doc: "documented_machine False os view plain kit root" and good: "machine_good w"
    and given: "given_paths plain (Node_publish req)" and alone: "node_spec kit (Node_publish req) w = (OK, w1)"
  shows "triple (at_machine view w)
    (serve_node (overtaken (served_beside (GCEMounter os) (Node_publish req)) (GCEMounter os)) (Node_publish req))
    (\<lambda>c s. c = OK \<and> doubled (np_TargetPath req) w1 (view s))"
proof -
  let ?t = "np_TargetPath req" and ?p = "np_StagingTargetPath req"
  let ?mount = "mount_result kit ?p ?t ''ext4'' (bind_options (np_Readonly req))"
  note ok = publish_OK [OF alone]
  from ok(4-7) have named: "(np_VolumeId req = '''') = False" "(?p = '''') = False" "(?t = '''') = False"
    "(np_VolumeCapability req = None) = False" by simp_all
  have p: "plain ?t" "plain ?p" using given named by (simp_all add: given_paths_def)
  from alone have "?mount (make_dir ?t w) = Some w1"
    by (auto simp: Let_def split: if_splits option.splits)
  from mount_result_again [OF this] obtain x ys where again:
    "m_mounts w1 ?t = x # ys" "?mount w1 = Some (push_mount ?t x w1)" by blast
  have bound: "triple (at_machine view w1)
      (call (GCE_DoMount os ?p ?t ''ext4'' (bind_options (np_Readonly req)))
        (\<lambda>err. call (if err \<noteq> None then publish_cleanup o' ?t else ret (Some NodePublishVolumeResponse, None))
          (\<lambda>r. ret (grpc_code r))))
      (\<lambda>c s. c = OK \<and> doubled ?t w1 (view s))" for o'
    by (rule call_mount_machine [OF doc p(1) disjI1 [OF p(2)]])
       (use again in \<open>auto simp: doubled_def triple_def\<close>)
  show ?thesis
    unfolding serve_node.simps NodePublishVolume_def Let_def overtaken_simps GCEMounter_simps options_bind_if
      named if_False call_assoc call_ret
    by (rule call_overtaken_check [OF doc good p(1) given alone])
       (use ok(2,3) in \<open>auto simp: call_assoc make_dir_there simp del: not_None_eq ret_run node_spec.simps
          intro!: call_mkdir_machine [OF doc p(1)] bound\<close>)
qed

section \<open>What is left\<close>

fun mount_path :: "node_rpc \<Rightarrow> string" where
  "mount_path (Stage req) = ns_StagingTargetPath req"
| "mount_path (Node_publish req) = np_TargetPath req"
| "mount_path (Unstage req) = nus_StagingTargetPath req"
| "mount_path (Node_unpublish req) = nu_TargetPath req"

fun undoes :: "node_rpc \<Rightarrow> node_rpc \<Rightarrow> bool" where
  "undoes (Unstage u) (Stage req) \<longleftrightarrow> nus_VolumeId u = ns_VolumeId req \<and> nus_StagingTargetPath u = ns_StagingTargetPath req"
| "undoes (Node_unpublish u) (Node_publish req) \<longleftrightarrow> nu_VolumeId u = np_VolumeId req \<and> nu_TargetPath u = np_TargetPath req"
| "undoes _ _ \<longleftrightarrow> False"



end
