(* ===== verification/Spec2Isabelle.thy ===== *)
theory Spec2Isabelle
  imports GceProps GceShared Interference Wait Delivery Tests TestRunner NodeOverlap
begin

text \<open>
  A verification of the GCE persistent disk CSI driver (compute-persistent-disk-csi-driver).

  \<^bold>\<open>The program.\<close> One process (src/cmd/main.go) creates a cloud provider
  (src/pkg/gce-cloud-provider), a mounter (src/pkg/mount-manager) and the driver
  (src/pkg/gce-csi-driver), and serves three gRPC services of the Container Storage Interface:
  identity, controller (create, delete, publish and unpublish volumes through the provider's
  interface GCECompute) and node (stage, unstage, publish and unpublish through the interface
  Mounter). A volume is named by an identifier zone/name (src/pkg/utils).

  \<^bold>\<open>Conventions.\<close> A Go call is a function from a state to an outcome (\<open>Ret\<close> or \<open>Panic\<close>) and the
  state after it; \<open>call\<close> sequences them. The pair (T, error) is a pair with an option; a
  pointer that may be nil is an option and its dereference is \<open>deref\<close>. int64 is a 64-bit word
  with signed comparison. Strings are lists of bytes. Map iteration is the list of the entries
  in the order visited, which Go leaves open. Error values keep the format string, not the
  formatted arguments; log output is dropped. The handlers never store the values they
  are passed, so sharing of slices plays no role.

  \<^bold>\<open>What is a parameter.\<close> Code that is not in the repository appears as an argument: the Compute
  API (\<open>ComputeService\<close>), the Google libraries and the metadata server (\<open>Google\<close>), the
  operating system (\<open>OS\<close>: commands, stat, glob, symbolic links), the network (\<open>Net\<close>), the flags
  other packages declare (\<open>flag_table\<close>). Each is a record of state-passing calls that may answer
  anything; no theorem assumes more about them than it names. (For the test runner it is the record
  \<open>lab\<close>, whose answers are functions of all actions so far.) The documented behaviour of the
  Compute API is the named hypothesis \<open>documented\<close> (GceApi), with or without faults of its own;
  that of the tools of a node is \<open>documented_machine\<close> (Machine), that of udev alone \<open>links_of\<close>
  (Journey). All are met by the sample services of the witnesses.

  \<^bold>\<open>Theories.\<close>
  \<^item> Prelude: outcomes, computations, total-correctness triples and their rules, int64.
  \<^item> GoStrings: Split, Join, SplitN, ToLower, path.Clean, path.Join. Errors: error values,
    IsGCEError of gce.go, the code gRPC sends.
  \<^item> Utils: src/pkg/utils/utils.go; identifiers and sizes are round trips.
  \<^item> Compute: the interface GCECompute (gce-compute.go), its contract as the locales
    \<open>gce_requests\<close> and \<open>gce_compute\<close> (which adds detaching, whose law needs the lookups right
    before it), and a provider that records the calls made on it.
  \<^item> CloudProvider: gce-compute.go and the wait loop of the vendored package wait. A wait polls
    at most 101 times (300 seconds in steps of 3, and once at the end); how many ticks of the
    timer arrive is a parameter (\<open>svc_ticks\<close>), so no fuel is needed. Wait: the two goroutines
    of that loop as a step relation (ticker, timer, unbuffered channel, closing). Its runs have
    exactly the outcomes of the function for some number of ticks, which is why \<open>svc_ticks\<close> is
    exact, and they end after at most 4 (timeout div interval) + 5 steps, provided that the
    poller is not kept from running for a whole interval (prompt runs).
  \<^item> FakeCloud: fake-gce.go, the in-memory provider of the sanity tests. Both providers
    interpret \<open>gce_compute\<close>.
  \<^item> Csi: the messages of the CSI specification that the handlers use. Driver:
    gce-driver.go, identity.go, and the constructors of utils.go.
  \<^item> Controller, ControllerProps: controller.go. Inside \<open>gce_compute\<close>: no handler panics and
    which codes it returns, for any provider. Over a recording provider: which calls each
    handler makes, in which order, and on what grounds. Sizes, parameters, existing disks,
    identifiers that do not parse, validation of capabilities.
  \<^item> Lifecycle: the controller over the in-memory provider refines an abstract specification
    (volumes with sizes, attachments with modes): the same runs, invariants of the
    reachable states, retries.
  \<^item> Interference: calls that overlap in time. A provider with an environment that changes its
    state before each request still keeps \<open>gce_requests\<close>, so create, delete and publish stay
    safe; two publishes or two unpublishes of one volume collide.
  \<^item> GceApi, GceRefine, GceProps: the controller over the real provider and an API that behaves
    as documented. GceApi has the abstract view (volumes by zone and name, devices of instances,
    accepted operations that have not finished), the laws of each request, and a service that
    meets them; GceRefine the specification of the calls, the refinement with and without
    faults, runs, and what stays true of volumes and attachments; GceProps retries, round trips
    of calls, and the protection of published volumes. An operation that is polled finishes
    within the polls of a wait when there are no faults (\<open>done_in\<close>), which is why the calls
    return their final answer.
  \<^item> GceShared: the same API with other clients, who change volumes and attachments between any
    two requests of a call, and with faults: an answer OK is still true. The states carry the
    list of what the others do and the names of the operations that are ours.
  \<^item> Mounter, MounterProps: mounter.go, mount-utils.go, fake-mounter.go, the contract of a
    mounter as the locale \<open>mounter\<close>, interpreted by both mounters; when a disk may be
    formatted, the arguments of mount, device paths.
  \<^item> Node: node.go; no handler panics over any mounter; what each handler does; the commands
    a stage runs on the machine, end to end.
  \<^item> Machine, NodeRefine, NodeProps: the node service on a machine whose tools (mount, umount, fsck,
    lsblk, mkfs, the system calls, the device links) behave as documented, with or without
    faults. Machine has the view (formats of disks, directories, mounts), the laws, and a machine
    that meets them; NodeRefine the specification of the four calls and the refinement, through
    the commands the mount manager runs; NodeProps sequences of calls: formats are never lost,
    unpublishing and unstaging undo publishing and staging, repeats, publishing without staging.
    NodeOverlap: a stage or publish sent twice, the second running after the first one's check of
    the mount point: the path is mounted twice and undone once.
  \<^item> Journey: from CreateVolume over ControllerPublishVolume to NodeStageVolume: the device
    that is formatted and mounted is the one the controller attached. Delivery: the same on a
    documented machine and to the end, a target path that shows the created volume.
  \<^item> Server, Startup: server.go, utils.go, Run, the creation of the provider in gce.go, and
    handle of main.go. Flags: the rest of main.go, with Go's package flag. Service: every
    request of the three services, its handler, and what goes back on the wire, in the locale
    \<open>csi_service\<close> (a provider and a mounter that keep their contracts), interpreted by the two
    driver configurations, real and fake. The theorem below speaks of the process as a whole.
  \<^item> Tests: the tables of utils_test.go and controller_test.go run on the model, and the driver
    of sanity_test.go, which serves every sequence of requests as the specification of
    Lifecycle says.
  \<^item> Remote, TestRunner: the runner of the remote tests under src/test/remote (ssh.go, e2e.go,
    remote.go; run_remote.go), as actions on a machine, its hosts and the API, with the goroutine
    that builds the archive: which commands a run makes, and that the workspace, the instance and
    the archive are removed. The relations \<open>calm\<close> and \<open>later\<close> between the states of a run interpret
    the locale \<open>run_logic\<close>, which has the rules for sequences and deferred calls.

  \<^bold>\<open>What is not modelled.\<close> The vendored packages beyond what is named above, and the transport of
  the gRPC library. Overlap within a request: where calls overlap (Interference, GceShared) each
  request to the provider's backend is atomic, although the maps of the in-memory provider are
  not safe for concurrent use. Other users of a node are covered where the machine is arbitrary
  (its answers may change between any two commands); on a documented machine the node calls are
  alone and come one after the other (but for the one overlap of NodeOverlap), and paths that lie
  below each other or below a mount are not considered. Also left out are the user
  agent, the fields of messages no handler reads, and deployment files. In the runner of the
  remote tests the archive is built in one step between two actions of the main goroutine.

  \<^bold>\<open>What the development shows about the code.\<close> Most properties say that the code does what it
  means to. Some state a behaviour that is a defect: the type comparison of existing disks
  is inverted (\<open>CreateVolume_existing_cloud\<close>), so that a create can never be retried over the
  real provider (\<open>gce_retry\<close>), the error of an operation is ignored
  (\<open>WaitForOp_ignores_operation_error\<close>), disks are created smaller than requested
  (\<open>created_disk_size\<close>, \<open>create_retry\<close>), parameters may depend on the iteration order
  (\<open>apply_parameters_order\<close>), a capability without an access mode panics and ends the process
  (\<open>ValidateVolumeCapabilities_spec\<close>, \<open>validation_ends_process\<close>), a repeated node call fails
  (\<open>node_repeats_refused\<close>), a volume that is not staged is published as an empty folder of the
  node (\<open>unstaged_publish\<close>), calls for one volume that overlap collide
  (\<open>overlapping_calls_collide\<close>), node calls for one path that overlap mount twice
  (\<open>overlapping_node_calls\<close>), identifiers that do not parse are deleted successfully
  (\<open>malformed_volume_id\<close>), a scheme UNIX is accepted and mishandled (\<open>serve_spec\<close>), and Wait never
  returns (\<open>Wait_never_returns\<close>).
\<close>

section \<open>The process as a whole\<close>


text \<open>A Google library and a network for the witness: everything succeeds.\<close>

definition sample_google :: "unit Google" where
  "sample_google =
     \<lparr> default_token_source = (\<lambda>s. (None, s)), fetch_token = (\<lambda>s. (None, s)), token_ticks = (\<lambda>_. 0),
       new_service = (\<lambda>s. (Inr sample_service, s)),
       metadata_Get = (\<lambda>path s. (Inr ''projects/1/zones/us-a'', s)),
       metadata_ProjectID = (\<lambda>s. (Inr ''p'', s)) \<rparr>"

definition sample_net :: "unit Net" where
  "sample_net = \<lparr> net_Remove = (\<lambda>p s. (None, s)), net_Listen = (\<lambda>n a s. (None, s)) \<rparr>"


end
